(* ===== verification/Prelude.thy ===== *)
theory Prelude
  imports Main "HOL-Library.AList" "HOL-Library.List_Lexorder" "HOL-Library.Char_ord"
begin

text \<open>
  Shared vocabulary of the development: Go results (a value, an error value or a panic), Go maps
  as association lists, the effect type in which every function that talks to something outside
  the program is written, and the trace logic the component proofs are carried out in.
\<close>

named_theorems holds_intros \<open>weakest-precondition rules of the trace logic\<close>
named_theorems go_simps \<open>unfolding rules for the Go library vocabulary\<close>

section \<open>Results\<close>

text \<open>
  An error value of the source. \<open>NotFound\<close> is what \<open>apierrors.IsNotFound\<close> recognises,
  \<open>NonRetryable\<close> is the sentinel of the release controller; every other error is only ever
  formatted, so it carries the constant part of its message.
\<close>

datatype go_error = NotFound | NonRetryable | Errorf string

text \<open>
  \<open>Err\<close> is a returned error; \<open>Panic\<close> is a run-time panic (nil dereference, write to a nil map,
  index out of range).
\<close>

datatype 'a res = Ok 'a | Err go_error | Panic

fun is_ok :: "'a res \<Rightarrow> bool" where
  "is_ok (Ok _) = True"
| "is_ok _ = False"

fun lift_res :: "go_error + 'a \<Rightarrow> 'a res" where
  "lift_res (Inl e) = Err e"
| "lift_res (Inr x) = Ok x"

fun wrap_res :: "string \<Rightarrow> 'a res \<Rightarrow> 'a res" where
  "wrap_res msg (Err _) = Err (Errorf msg)"
| "wrap_res _ (Ok x) = Ok x"
| "wrap_res _ Panic = Panic"

fun bind_res :: "'a res \<Rightarrow> ('a \<Rightarrow> 'b res) \<Rightarrow> 'b res" where
  "bind_res (Ok x) f = f x"
| "bind_res (Err e) _ = Err e"
| "bind_res Panic _ = Panic"

text \<open>Dereferencing a pointer: \<open>None\<close> is nil.\<close>

fun deref :: "'a option \<Rightarrow> 'a res" where
  "deref None = Panic"
| "deref (Some x) = Ok x"

lemma is_ok_iff: "is_ok r \<longleftrightarrow> (\<exists>x. r = Ok x)"
  by (cases r) auto

lemma bind_res_Ok_iff [simp]: "bind_res r f = Ok y \<longleftrightarrow> (\<exists>x. r = Ok x \<and> f x = Ok y)"
  by (cases r) auto

lemma wrap_res_Ok_iff [simp]: "wrap_res msg r = Ok x \<longleftrightarrow> r = Ok x"
  by (cases r) auto

lemma wrap_res_Panic_iff [simp]: "wrap_res msg r = Panic \<longleftrightarrow> r = Panic"
  by (cases r) auto

lemma wrap_res_Err_iff [simp]:
  "wrap_res msg r = Err e \<longleftrightarrow> e = Errorf msg \<and> (\<exists>e'. r = Err e')"
  by (cases r) auto

lemma lift_res_not_Panic [simp]: "lift_res r \<noteq> Panic" "Panic \<noteq> lift_res r"
  by (cases r; simp)+

lemma lift_res_Ok_iff [simp]: "lift_res r = Ok x \<longleftrightarrow> r = Inr x"
  by (cases r) auto

lemma lift_res_Err_iff [simp]: "lift_res r = Err e \<longleftrightarrow> r = Inl e"
  by (cases r) auto

lemma deref_Ok_iff [simp]: "deref p = Ok x \<longleftrightarrow> p = Some x"
  by (cases p) auto

section \<open>Go maps\<close>

text \<open>
  A Go map with string keys is an association list: \<open>map_of\<close> looks a key up, \<open>gm_set\<close> stores
  one. The order of the list stands for the order in which a \<open>range\<close> over the map happens to
  visit it, which Go leaves unspecified: a theorem about every list is a theorem about every
  order. \<open>gm_ok\<close> says that no key occurs twice; where the difference between a nil map and an
  empty one matters (a write to a nil map panics) the field is an option.
\<close>

type_synonym 'v gomap = "(string \<times> 'v) list"

definition gm_set :: "string \<Rightarrow> 'v \<Rightarrow> 'v gomap \<Rightarrow> 'v gomap" where
  "gm_set k v m = AList.update k v m"

definition gm_ok :: "'v gomap \<Rightarrow> bool" where
  "gm_ok m \<longleftrightarrow> distinct (map fst m)"

definition gm_keys :: "'v gomap \<Rightarrow> string list" where
  "gm_keys m = map fst m"

definition gm_has :: "'v gomap \<Rightarrow> string \<Rightarrow> bool" where
  "gm_has m k \<longleftrightarrow> map_of m k \<noteq> None"

text \<open>Go's \<open>m[k]\<close> on a missing key is the zero value of the element type.\<close>

definition gm_get :: "'v \<Rightarrow> 'v gomap \<Rightarrow> string \<Rightarrow> 'v" where
  "gm_get zero m k = (case map_of m k of None \<Rightarrow> zero | Some v \<Rightarrow> v)"

text \<open>Two maps with the same entries, whatever their order: what a deep comparison looks at.\<close>

definition gm_eq :: "'v gomap \<Rightarrow> 'v gomap \<Rightarrow> bool" where
  "gm_eq a b \<longleftrightarrow> list_all (\<lambda>k. map_of a k = map_of b k) (map fst a @ map fst b)"

text \<open>\<open>for k, v := range src { dst[k] = v }\<close>\<close>

definition gm_copy_into :: "'v gomap \<Rightarrow> 'v gomap \<Rightarrow> 'v gomap" where
  "gm_copy_into src dst = fold (\<lambda>(k, v). gm_set k v) src dst"

text \<open>The same loop that leaves keys alone which are already present.\<close>

definition gm_fill_from :: "'v gomap \<Rightarrow> 'v gomap \<Rightarrow> 'v gomap" where
  "gm_fill_from src dst = fold (\<lambda>(k, v) m. if gm_has m k then m else gm_set k v m) src dst"

lemma map_of_gm_set [simp]: "map_of (gm_set k v m) = (map_of m)(k \<mapsto> v)"
  by (simp add: gm_set_def update_conv')

lemma gm_set_same: "map_of m k = Some v \<Longrightarrow> gm_set k v m = m"
  unfolding gm_set_def by (induction m) auto

lemma gm_set_ok [simp]: "gm_ok m \<Longrightarrow> gm_ok (gm_set k v m)"
  by (simp add: gm_ok_def gm_set_def distinct_update)

lemma gm_eq_iff: "gm_eq a b \<longleftrightarrow> map_of a = map_of b"
proof
  assume eq: "gm_eq a b"
  show "map_of a = map_of b"
  proof
    fix k
    show "map_of a k = map_of b k"
    proof (cases "k \<in> set (map fst a @ map fst b)")
      case True
      with eq show ?thesis by (auto simp: gm_eq_def list_all_iff)
    next
      case False
      then have "map_of a k = None" "map_of b k = None"
        by (auto simp: map_of_eq_None_iff)
      then show ?thesis by simp
    qed
  qed
qed (simp add: gm_eq_def list_all_iff)

lemma gm_eq_refl [simp]: "gm_eq m m"
  by (simp add: gm_eq_iff)

lemma gm_ok_Cons: "gm_ok ((k, v) # m) \<longleftrightarrow> map_of m k = None \<and> gm_ok m"
  by (auto simp: gm_ok_def map_of_eq_None_iff)

lemma map_of_gm_copy_into: "gm_ok src \<Longrightarrow> map_of (gm_copy_into src dst) = map_of dst ++ map_of src"
  unfolding gm_copy_into_def
proof (induction src arbitrary: dst)
  case (Cons kv src)
  obtain k v where kv: "kv = (k, v)" by (cases kv)
  with Cons.prems have none: "map_of src k = None" and ok: "gm_ok src"
    by (auto simp: gm_ok_Cons)
  from Cons.IH [OF ok] kv
  have "map_of (fold (\<lambda>(k, v). gm_set k v) (kv # src) dst) = (map_of dst)(k \<mapsto> v) ++ map_of src"
    by (simp add: fun_upd_def)
  also have "\<dots> = map_of dst ++ map_of (kv # src)"
    using none kv by (auto simp: fun_eq_iff map_add_def split: option.splits)
  finally show ?case .
qed simp

lemma gm_copy_into_same:
  "(\<And>k v. (k, v) \<in> set src \<Longrightarrow> map_of dst k = Some v) \<Longrightarrow> gm_copy_into src dst = dst"
  unfolding gm_copy_into_def by (induction src) (auto simp: gm_set_same)

lemma gm_fill_from_lookup:
  "gm_ok src \<Longrightarrow> map_of (gm_fill_from src dst) = map_of src ++ map_of dst"
  unfolding gm_fill_from_def
proof (induction src arbitrary: dst)
  case (Cons kv src)
  obtain k v where kv: "kv = (k, v)" by (cases kv)
  with Cons.prems have none: "map_of src k = None" and ok: "gm_ok src"
    by (auto simp: gm_ok_Cons)
  let ?d = "if gm_has dst k then dst else gm_set k v dst"
  from Cons.IH [OF ok, of ?d] kv
  have "map_of (fold (\<lambda>(k, v) m. if gm_has m k then m else gm_set k v m) (kv # src) dst)
      = map_of src ++ map_of ?d"
    by simp
  also have "\<dots> = map_of (kv # src) ++ map_of dst"
    using none kv by (auto simp: fun_eq_iff map_add_def gm_has_def split: option.splits)
  finally show ?case .
qed simp

section \<open>Effects\<close>

text \<open>
  A function that reads caches, calls an API server, runs a command or asks for the time or for
  randomness is an effect: it takes the log of the interactions so far and returns a result and
  the extended log. Every interaction is one log entry that carries its arguments and the answer
  it got. The answers come from the environment, a parameter that sees the whole log, so the
  outside world may answer in any way, and differently each time.
\<close>

type_synonym ('c, 'a) eff = "'c list \<Rightarrow> 'a res \<times> 'c list"

definition eff_ret :: "'a \<Rightarrow> ('c, 'a) eff" where
  "eff_ret x = (\<lambda>h. (Ok x, h))"

definition eff_fail :: "go_error \<Rightarrow> ('c, 'a) eff" where
  "eff_fail e = (\<lambda>h. (Err e, h))"

definition eff_of_res :: "'a res \<Rightarrow> ('c, 'a) eff" where
  "eff_of_res r = (\<lambda>h. (r, h))"

definition eff_bind :: "('c, 'a) eff \<Rightarrow> ('a \<Rightarrow> ('c, 'b) eff) \<Rightarrow> ('c, 'b) eff" where
  "eff_bind m f = (\<lambda>h. case m h of
     (Ok x, h') \<Rightarrow> f x h'
   | (Err e, h') \<Rightarrow> (Err e, h')
   | (Panic, h') \<Rightarrow> (Panic, h'))"

text \<open>\<open>x, err := f(); if err != nil { return fmt.Errorf(msg, err) }\<close>\<close>

definition eff_wrap :: "string \<Rightarrow> ('c, 'a) eff \<Rightarrow> ('c, 'a) eff" where
  "eff_wrap msg m = (\<lambda>h. case m h of (r, h') \<Rightarrow> (wrap_res msg r, h'))"

text \<open>\<open>x, err := f()\<close> where the code looks at the error itself.\<close>

definition eff_try :: "('c, 'a) eff \<Rightarrow> ('c, go_error + 'a) eff" where
  "eff_try m = (\<lambda>h. case m h of
     (Ok x, h') \<Rightarrow> (Ok (Inr x), h')
   | (Err e, h') \<Rightarrow> (Ok (Inl e), h')
   | (Panic, h') \<Rightarrow> (Panic, h'))"

text \<open>One interaction: ask the environment, log the question with its answer.\<close>

definition perform :: "('c list \<Rightarrow> go_error + 'a) \<Rightarrow> (go_error + 'a \<Rightarrow> 'c) \<Rightarrow> ('c, 'a) eff" where
  "perform ask entry = (\<lambda>h. (lift_res (ask h), h @ [entry (ask h)]))"

text \<open>An interaction that cannot fail (the clock, a random suffix).\<close>

definition observe :: "('c list \<Rightarrow> 'a) \<Rightarrow> ('a \<Rightarrow> 'c) \<Rightarrow> ('c, 'a) eff" where
  "observe ask entry = (\<lambda>h. (Ok (ask h), h @ [entry (ask h)]))"

definition notify :: "'c \<Rightarrow> ('c, unit) eff" where
  "notify entry = (\<lambda>h. (Ok (), h @ [entry]))"

text \<open>\<open>for _, x := range xs { ... }\<close> whose body returns early only with an error.\<close>

fun eff_each :: "('a \<Rightarrow> ('c, unit) eff) \<Rightarrow> 'a list \<Rightarrow> ('c, unit) eff" where
  "eff_each f [] = eff_ret ()"
| "eff_each f (x # xs) = eff_bind (f x) (\<lambda>_. eff_each f xs)"

text \<open>
  A stage of a long handler either ends the handler (the source's \<open>return nil\<close>) or goes on
  with some values.
\<close>

datatype 'a flow = Done | Go 'a

definition eff_stage :: "('c, 'a flow) eff \<Rightarrow> ('a \<Rightarrow> ('c, unit) eff) \<Rightarrow> ('c, unit) eff" where
  "eff_stage m k = eff_bind m (\<lambda>x. case x of Done \<Rightarrow> eff_ret () | Go y \<Rightarrow> k y)"

section \<open>Trace logic\<close>

text \<open>
  \<open>holds m Q\<close>: in every environment and after every log, \<open>m\<close> only appends to the log, and
  the appended trace and the result satisfy \<open>Q\<close>.
\<close>

definition holds :: "('c, 'a) eff \<Rightarrow> ('c list \<Rightarrow> 'a res \<Rightarrow> bool) \<Rightarrow> bool" where
  "holds m Q \<longleftrightarrow> (\<forall>h. \<exists>t. snd (m h) = h @ t \<and> Q t (fst (m h)))"

text \<open>Every entry that \<open>m\<close> appends satisfies \<open>P\<close>.\<close>

definition emits :: "('c \<Rightarrow> bool) \<Rightarrow> ('c, 'a) eff \<Rightarrow> bool" where
  "emits P m \<longleftrightarrow> holds m (\<lambda>t r. list_all P t)"

lemma holdsD: "holds m Q \<Longrightarrow> m h = (r, h') \<Longrightarrow> \<exists>t. h' = h @ t \<and> Q t r"
  by (auto simp: holds_def dest: spec [where x = h])

lemma holds_run: "holds m Q \<Longrightarrow> m [] = (r, t) \<Longrightarrow> Q t r"
  by (drule holdsD) auto

lemma holds_mono: "holds m Q \<Longrightarrow> (\<And>t r. Q t r \<Longrightarrow> Q' t r) \<Longrightarrow> holds m Q'"
  unfolding holds_def by blast

lemma holds_conj: "holds m Q \<Longrightarrow> holds m R \<Longrightarrow> holds m (\<lambda>t r. Q t r \<and> R t r)"
  unfolding holds_def by (metis same_append_eq)

lemma holds_ret [holds_intros]: "Q [] (Ok x) \<Longrightarrow> holds (eff_ret x) Q"
  by (simp add: holds_def eff_ret_def)

lemma holds_fail [holds_intros]: "Q [] (Err e) \<Longrightarrow> holds (eff_fail e) Q"
  by (simp add: holds_def eff_fail_def)

lemma holds_of_res [holds_intros]: "Q [] r \<Longrightarrow> holds (eff_of_res r) Q"
  by (simp add: holds_def eff_of_res_def)

lemma holds_bind [holds_intros]:
  assumes "holds m (\<lambda>t r. case r of Ok x \<Rightarrow> holds (f x) (\<lambda>t' r'. Q (t @ t') r')
                                 | Err e \<Rightarrow> Q t (Err e) | Panic \<Rightarrow> Q t Panic)"
  shows "holds (eff_bind m f) Q"
  unfolding holds_def
proof
  fix h
  obtain r h' where run: "m h = (r, h')" by (cases "m h")
  with assms obtain t where h': "h' = h @ t" and
    post: "case r of Ok x \<Rightarrow> holds (f x) (\<lambda>t' r'. Q (t @ t') r')
                  | Err e \<Rightarrow> Q t (Err e) | Panic \<Rightarrow> Q t Panic"
    by (meson holdsD)
  show "\<exists>t. snd (eff_bind m f h) = h @ t \<and> Q t (fst (eff_bind m f h))"
  proof (cases r)
    case (Ok x)
    with post have "holds (f x) (\<lambda>t' r'. Q (t @ t') r')" by simp
    then obtain t' where "snd (f x h') = h' @ t'" "Q (t @ t') (fst (f x h'))"
      unfolding holds_def by blast
    with Ok run h' show ?thesis by (intro exI [of _ "t @ t'"]) (simp add: eff_bind_def)
  qed (use run h' post in \<open>auto simp: eff_bind_def\<close>)
qed

lemma holds_wrap [holds_intros]:
  "holds m (\<lambda>t r. Q t (wrap_res msg r)) \<Longrightarrow> holds (eff_wrap msg m) Q"
  unfolding holds_def eff_wrap_def by (simp add: case_prod_beta)

lemma holds_try [holds_intros]:
  assumes "holds m (\<lambda>t r. case r of Ok x \<Rightarrow> Q t (Ok (Inr x)) | Err e \<Rightarrow> Q t (Ok (Inl e))
                                 | Panic \<Rightarrow> Q t Panic)"
  shows "holds (eff_try m) Q"
  unfolding holds_def
proof
  fix h
  obtain r h' where run: "m h = (r, h')" by (cases "m h")
  with assms obtain t where "h' = h @ t"
    "case r of Ok x \<Rightarrow> Q t (Ok (Inr x)) | Err e \<Rightarrow> Q t (Ok (Inl e)) | Panic \<Rightarrow> Q t Panic"
    by (meson holdsD)
  with run show "\<exists>t. snd (eff_try m h) = h @ t \<and> Q t (fst (eff_try m h))"
    by (cases r) (auto simp: eff_try_def)
qed

lemma holds_perform [holds_intros]:
  "(\<And>r. Q [entry r] (lift_res r)) \<Longrightarrow> holds (perform ask entry) Q"
  by (simp add: holds_def perform_def)

lemma holds_observe [holds_intros]:
  "(\<And>x. Q [entry x] (Ok x)) \<Longrightarrow> holds (observe ask entry) Q"
  by (simp add: holds_def observe_def)

lemma holds_notify [holds_intros]: "Q [entry] (Ok ()) \<Longrightarrow> holds (notify entry) Q"
  by (simp add: holds_def notify_def)

lemma holds_stage [holds_intros]:
  assumes "holds m (\<lambda>t r. case r of Ok Done \<Rightarrow> Q t (Ok ())
      | Ok (Go y) \<Rightarrow> holds (k y) (\<lambda>t' r'. Q (t @ t') r')
      | Err e \<Rightarrow> Q t (Err e) | Panic \<Rightarrow> Q t Panic)"
  shows "holds (eff_stage m k) Q"
  unfolding eff_stage_def
  by (rule holds_bind, rule holds_mono [OF assms])
    (auto split: res.splits flow.splits intro!: holds_ret)

text \<open>The loop rule: the body may rely on nothing but the element it handles.\<close>

lemma holds_each:
  assumes step: "\<And>x. x \<in> set xs \<Longrightarrow> holds (f x) (\<lambda>t r. P x t r)"
    and nil: "Q [] [] (Ok ())"
    and stop: "\<And>x ys t r. x \<in> set xs \<Longrightarrow> P x t r \<Longrightarrow> \<not> is_ok r \<Longrightarrow> Q (x # ys) t r"
    and go: "\<And>x ys t t' r'. x \<in> set xs \<Longrightarrow> P x t (Ok ()) \<Longrightarrow> Q ys t' r' \<Longrightarrow> Q (x # ys) (t @ t') r'"
  shows "holds (eff_each f xs) (Q xs)"
  using step stop go
proof (induction xs)
  case Nil
  then show ?case by (simp add: holds_ret nil)
next
  case (Cons x xs)
  have IH: "holds (eff_each f xs) (Q xs)"
    by (rule Cons.IH) (auto intro: Cons.prems)
  have rest: "holds (eff_each f xs) (\<lambda>t' r'. Q (x # xs) (t @ t') r')" if "P x t (Ok ())" for t
    by (rule holds_mono [OF IH]) (rule Cons.prems(3) [OF _ that], simp_all)
  show ?case
    unfolding eff_each.simps
    by (rule holds_bind, rule holds_mono [OF Cons.prems(1) [of x]])
      (auto split: res.splits intro: Cons.prems(2) rest)
qed

subsection \<open>Traces whose entries all satisfy a predicate\<close>

lemma emits_ret [intro!]: "emits P (eff_ret x)"
  by (simp add: emits_def holds_ret)

lemma emits_fail [intro!]: "emits P (eff_fail e)"
  by (simp add: emits_def holds_fail)

lemma emits_of_res [intro!]: "emits P (eff_of_res r)"
  by (simp add: emits_def holds_of_res)

lemma emits_perform [intro!]: "(\<And>r. P (entry r)) \<Longrightarrow> emits P (perform ask entry)"
  by (auto simp: emits_def intro!: holds_perform)

lemma emits_observe [intro!]: "(\<And>x. P (entry x)) \<Longrightarrow> emits P (observe ask entry)"
  by (auto simp: emits_def intro!: holds_observe)

lemma emits_notify [intro!]: "P entry \<Longrightarrow> emits P (notify entry)"
  by (auto simp: emits_def intro!: holds_notify)

lemma emits_bind [intro!]:
  assumes "emits P m" and "\<And>x. emits P (f x)"
  shows "emits P (eff_bind m f)"
  unfolding emits_def
  by (rule holds_bind, rule holds_mono [OF assms(1) [unfolded emits_def]])
    (auto split: res.splits intro: holds_mono [OF assms(2) [unfolded emits_def]])

lemma emits_wrap [intro!]: "emits P m \<Longrightarrow> emits P (eff_wrap msg m)"
  by (simp add: emits_def holds_wrap)

lemma emits_try [intro!]: "emits P m \<Longrightarrow> emits P (eff_try m)"
  unfolding emits_def by (rule holds_try, erule holds_mono) (auto split: res.splits)

lemma emits_stage [intro!]: "emits P m \<Longrightarrow> (\<And>y. emits P (k y)) \<Longrightarrow> emits P (eff_stage m k)"
  unfolding eff_stage_def by (rule emits_bind) (auto split: flow.splits)

lemma emits_each [intro!]: "(\<And>x. x \<in> set xs \<Longrightarrow> emits P (f x)) \<Longrightarrow> emits P (eff_each f xs)"
  by (induction xs) auto

lemma emits_if [intro!]: "(b \<Longrightarrow> emits P m) \<Longrightarrow> (\<not> b \<Longrightarrow> emits P n) \<Longrightarrow> emits P (if b then m else n)"
  by simp

lemma emitsD: "emits P m \<Longrightarrow> m h = (r, h') \<Longrightarrow> \<exists>t. h' = h @ t \<and> (\<forall>c\<in>set t. P c)"
  unfolding emits_def by (drule (1) holdsD) (auto simp: list_all_iff)

lemma emits_mono: "emits P m \<Longrightarrow> (\<And>c. P c \<Longrightarrow> P' c) \<Longrightarrow> emits P' m"
  unfolding emits_def by (erule holds_mono) (auto simp: list_all_iff)

subsection \<open>Entries and results together\<close>

text \<open>
  \<open>ensures P m R\<close>: every entry that \<open>m\<close> appends satisfies \<open>P\<close>, and if it returns a value, the
  value satisfies \<open>R\<close>. The rules thread the result predicate through a program.
\<close>

named_theorems ensures_intros \<open>rules for ensures\<close>

definition ensures :: "('c \<Rightarrow> bool) \<Rightarrow> ('c, 'a) eff \<Rightarrow> ('a \<Rightarrow> bool) \<Rightarrow> bool" where
  "ensures P m R \<longleftrightarrow> holds m (\<lambda>t r. list_all P t \<and> (\<forall>x. r = Ok x \<longrightarrow> R x))"

lemma ensures_emits: "ensures P m R \<Longrightarrow> emits P m"
  unfolding ensures_def emits_def by (erule holds_mono) simp

lemma emits_ensures: "emits P m \<Longrightarrow> ensures P m (\<lambda>_. True)"
  unfolding ensures_def emits_def by (erule holds_mono) simp

lemma ensures_weaken:
  "ensures P m R \<Longrightarrow> (\<And>c. P c \<Longrightarrow> P' c) \<Longrightarrow> (\<And>x. R x \<Longrightarrow> R' x) \<Longrightarrow> ensures P' m R'"
  unfolding ensures_def by (erule holds_mono) (auto simp: list_all_iff)

lemma ensures_ret [ensures_intros]: "R x \<Longrightarrow> ensures P (eff_ret x) R"
  by (simp add: ensures_def holds_ret)

lemma ensures_fail [ensures_intros]: "ensures P (eff_fail e) R"
  by (simp add: ensures_def holds_fail)

lemma ensures_of_res [ensures_intros]: "(\<And>x. r = Ok x \<Longrightarrow> R x) \<Longrightarrow> ensures P (eff_of_res r) R"
  by (simp add: ensures_def holds_of_res)

lemma ensures_perform [ensures_intros]:
  "(\<And>r. P (entry r)) \<Longrightarrow> (\<And>x. P (entry (Inr x)) \<Longrightarrow> R x) \<Longrightarrow> ensures P (perform ask entry) R"
  by (auto simp: ensures_def intro!: holds_perform)

lemma ensures_observe [ensures_intros]:
  "(\<And>x. P (entry x)) \<Longrightarrow> (\<And>x. R x) \<Longrightarrow> ensures P (observe ask entry) R"
  by (auto simp: ensures_def intro!: holds_observe)

lemma ensures_notify [ensures_intros]: "P entry \<Longrightarrow> R () \<Longrightarrow> ensures P (notify entry) R"
  by (auto simp: ensures_def intro!: holds_notify)

lemma ensures_bind:
  assumes "ensures P m R" and "\<And>x. R x \<Longrightarrow> ensures P (f x) S"
  shows "ensures P (eff_bind m f) S"
  unfolding ensures_def
  by (rule holds_bind, rule holds_mono [OF assms(1) [unfolded ensures_def]])
    (auto split: res.splits intro: holds_mono [OF assms(2) [unfolded ensures_def]])

lemma ensures_wrap [ensures_intros]: "ensures P m R \<Longrightarrow> ensures P (eff_wrap msg m) R"
  unfolding ensures_def by (rule holds_wrap) (auto elim: holds_mono)

lemma ensures_try:
  "ensures P m R \<Longrightarrow> ensures P (eff_try m) (\<lambda>a. \<forall>x. a = Inr x \<longrightarrow> R x)"
  unfolding ensures_def by (rule holds_try, erule holds_mono) (auto split: res.splits)

lemma ensures_stage:
  assumes "ensures P m (\<lambda>f. \<forall>y. f = Go y \<longrightarrow> R y)" and "\<And>y. R y \<Longrightarrow> ensures P (k y) (\<lambda>_. True)"
  shows "ensures P (eff_stage m k) (\<lambda>_. True)"
  unfolding eff_stage_def
  by (rule ensures_bind [OF assms(1)]) (auto split: flow.splits intro: ensures_ret assms(2))

subsection \<open>At most one entry of a kind\<close>

definition entries :: "('c \<Rightarrow> bool) \<Rightarrow> 'c list \<Rightarrow> nat" where
  "entries P t = length (filter P t)"

definition at_most_one :: "('c \<Rightarrow> bool) \<Rightarrow> ('c, 'a) eff \<Rightarrow> bool" where
  "at_most_one P m \<longleftrightarrow> holds m (\<lambda>t r. entries P t \<le> 1)"

text \<open>A stage that goes on has not used its entry up.\<close>

definition one_or_go :: "('c \<Rightarrow> bool) \<Rightarrow> ('c, 'a flow) eff \<Rightarrow> bool" where
  "one_or_go P m \<longleftrightarrow>
     holds m (\<lambda>t r. entries P t \<le> 1 \<and> (\<forall>y. r = Ok (Go y) \<longrightarrow> entries P t = 0))"

lemma entries_simps [simp]:
  "entries P [] = 0" "entries P (c # t) = (if P c then Suc (entries P t) else entries P t)"
  "entries P (t @ t') = entries P t + entries P t'"
  by (simp_all add: entries_def)

lemma entries_none: "list_all (\<lambda>c. \<not> P c) t \<Longrightarrow> entries P t = 0"
  by (simp add: entries_def list_all_iff)

lemma at_most_one_quiet: "emits (\<lambda>c. \<not> P c) m \<Longrightarrow> at_most_one P m"
  unfolding emits_def at_most_one_def by (erule holds_mono) (simp add: entries_none)

lemma at_most_one_perform: "at_most_one P (perform ask entry)"
  by (auto simp: at_most_one_def intro!: holds_perform)

lemma at_most_one_wrap: "at_most_one P m \<Longrightarrow> at_most_one P (eff_wrap msg m)"
  unfolding at_most_one_def by (rule holds_wrap)

lemma at_most_one_bind_quiet:
  assumes "emits (\<lambda>c. \<not> P c) m" and "\<And>x. at_most_one P (f x)"
  shows "at_most_one P (eff_bind m f)"
  unfolding at_most_one_def
  by (rule holds_bind, rule holds_mono [OF assms(1) [unfolded emits_def]])
    (auto simp: entries_none split: res.splits intro: holds_mono [OF assms(2) [unfolded at_most_one_def]])

lemma at_most_one_bind_then_quiet:
  assumes "at_most_one P m" and "\<And>x. emits (\<lambda>c. \<not> P c) (f x)"
  shows "at_most_one P (eff_bind m f)"
  unfolding at_most_one_def
  by (rule holds_bind, rule holds_mono [OF assms(1) [unfolded at_most_one_def]])
    (auto simp: entries_none split: res.splits intro: holds_mono [OF assms(2) [unfolded emits_def]])

lemma at_most_one_stage:
  assumes "one_or_go P m" and "\<And>y. at_most_one P (k y)"
  shows "at_most_one P (eff_stage m k)"
  unfolding at_most_one_def
  by (rule holds_stage, rule holds_mono [OF assms(1) [unfolded one_or_go_def]])
    (auto split: res.splits flow.splits intro: holds_mono [OF assms(2) [unfolded at_most_one_def]])

lemma one_or_go_quiet: "emits (\<lambda>c. \<not> P c) m \<Longrightarrow> one_or_go P m"
  unfolding emits_def one_or_go_def by (erule holds_mono) (simp add: entries_none)

lemma one_or_go_bind_quiet:
  assumes "emits (\<lambda>c. \<not> P c) m" and "\<And>x. one_or_go P (f x)"
  shows "one_or_go P (eff_bind m f)"
  unfolding one_or_go_def
  by (rule holds_bind, rule holds_mono [OF assms(1) [unfolded emits_def]])
    (auto simp: entries_none split: res.splits intro: holds_mono [OF assms(2) [unfolded one_or_go_def]])

lemma one_or_go_done: "at_most_one P m \<Longrightarrow> one_or_go P (eff_bind m (\<lambda>_. eff_ret Done))"
  unfolding one_or_go_def at_most_one_def
  by (rule holds_bind, erule holds_mono) (auto split: res.splits intro: holds_ret)

lemma one_or_go_map:
  "one_or_go P m \<Longrightarrow> one_or_go P (eff_bind m (\<lambda>f. case f of Done \<Rightarrow> eff_ret Done | Go y \<Rightarrow> eff_ret (Go (g y))))"
  unfolding one_or_go_def
  by (rule holds_bind, erule holds_mono) (auto split: res.splits flow.splits intro!: holds_ret)

subsection \<open>No panic\<close>

text \<open>
  \<open>calm m R\<close>: \<open>m\<close> never panics, and a returned value satisfies \<open>R\<close>; \<open>safe m R\<close>: it does not
  return the non retryable error either. Unlike \<open>holds\<close>, the rule for an interaction may use what
  is known about the answers of the environment.
\<close>

named_theorems safe_intros \<open>rules for calm and safe\<close>

definition calm :: "('c, 'a) eff \<Rightarrow> ('a \<Rightarrow> bool) \<Rightarrow> bool" where
  "calm m R \<longleftrightarrow> (\<forall>h. fst (m h) \<noteq> Panic \<and> (\<forall>x. fst (m h) = Ok x \<longrightarrow> R x))"

definition safe :: "('c, 'a) eff \<Rightarrow> ('a \<Rightarrow> bool) \<Rightarrow> bool" where
  "safe m R \<longleftrightarrow> calm m R \<and> (\<forall>h. fst (m h) \<noteq> Err NonRetryable)"

lemma safe_calm [safe_intros]: "safe m R \<Longrightarrow> calm m R"
  by (simp add: safe_def)

lemma safe_weaken: "safe m R \<Longrightarrow> (\<And>x. R x \<Longrightarrow> S x) \<Longrightarrow> safe m S"
  by (auto simp: safe_def calm_def)

lemma calm_perform [safe_intros]: "(\<And>h x. ask h = Inr x \<Longrightarrow> R x) \<Longrightarrow> calm (perform ask entry) R"
  by (auto simp: calm_def perform_def)

lemma calm_of_res [safe_intros]: "r \<noteq> Panic \<Longrightarrow> (\<And>x. r = Ok x \<Longrightarrow> R x) \<Longrightarrow> calm (eff_of_res r) R"
  by (simp add: calm_def eff_of_res_def)

lemma safe_ret [safe_intros]: "R x \<Longrightarrow> safe (eff_ret x) R"
  by (simp add: safe_def calm_def eff_ret_def)

lemma safe_fail [safe_intros]: "e \<noteq> NonRetryable \<Longrightarrow> safe (eff_fail e) R"
  by (simp add: safe_def calm_def eff_fail_def)

lemma safe_of_res:
  "r \<noteq> Panic \<Longrightarrow> r \<noteq> Err NonRetryable \<Longrightarrow> (\<And>x. r = Ok x \<Longrightarrow> R x) \<Longrightarrow> safe (eff_of_res r) R"
  by (simp add: safe_def calm_def eff_of_res_def)

lemma safe_observe [safe_intros]: "(\<And>x. R x) \<Longrightarrow> safe (observe ask entry) R"
  by (simp add: safe_def calm_def observe_def)

lemma safe_notify [safe_intros]: "R () \<Longrightarrow> safe (notify entry) R"
  by (simp add: safe_def calm_def notify_def)

lemma calm_bind:
  assumes "calm m R" and "\<And>x. R x \<Longrightarrow> calm (f x) S"
  shows "calm (eff_bind m f) S"
  unfolding calm_def
proof
  fix h
  obtain r h' where run: "m h = (r, h')" by (cases "m h")
  have "r \<noteq> Panic \<and> (\<forall>x. r = Ok x \<longrightarrow> R x)"
    using assms(1) run unfolding calm_def by (metis fst_conv)
  then show "fst (eff_bind m f h) \<noteq> Panic \<and> (\<forall>x. fst (eff_bind m f h) = Ok x \<longrightarrow> S x)"
    using assms(2) run by (cases r) (auto simp: eff_bind_def calm_def)
qed

lemma safe_bind:
  assumes "safe m R" and "\<And>x. R x \<Longrightarrow> safe (f x) S"
  shows "safe (eff_bind m f) S"
  unfolding safe_def
proof
  show "calm (eff_bind m f) S"
    using assms by (auto simp: safe_def intro: calm_bind)
  show "\<forall>h. fst (eff_bind m f h) \<noteq> Err NonRetryable"
  proof
    fix h
    obtain r h' where run: "m h = (r, h')" by (cases "m h")
    have "r \<noteq> Err NonRetryable \<and> (\<forall>x. r = Ok x \<longrightarrow> R x)"
      using assms(1) run unfolding safe_def calm_def by (metis fst_conv)
    then show "fst (eff_bind m f h) \<noteq> Err NonRetryable"
      using assms(2) run by (cases r) (auto simp: eff_bind_def safe_def)
  qed
qed

lemma safe_wrap [safe_intros]: "calm m R \<Longrightarrow> safe (eff_wrap msg m) R"
  unfolding safe_def calm_def eff_wrap_def by (auto simp: case_prod_beta)

lemma safe_try: "calm m R \<Longrightarrow> safe (eff_try m) (\<lambda>a. \<forall>x. a = Inr x \<longrightarrow> R x)"
  unfolding safe_def calm_def eff_try_def by (auto simp: case_prod_beta split: res.splits)

lemma safe_try_perform [safe_intros]: "safe (eff_try (perform ask entry)) (\<lambda>_. True)"
  by (rule safe_weaken [OF safe_try [OF calm_perform [where R = "\<lambda>_. True"]]]) simp_all

lemma safe_stage:
  assumes "safe m (\<lambda>f. \<forall>y. f = Go y \<longrightarrow> R y)" and "\<And>y. R y \<Longrightarrow> safe (k y) (\<lambda>_. True)"
  shows "safe (eff_stage m k) (\<lambda>_. True)"
  unfolding eff_stage_def
  by (rule safe_bind [OF assms(1)]) (auto split: flow.splits intro: safe_ret assms(2))

lemma safe_each: "(\<And>x. x \<in> set xs \<Longrightarrow> safe (f x) (\<lambda>_. True)) \<Longrightarrow> safe (eff_each f xs) (\<lambda>_. True)"
  by (induction xs) (auto intro: safe_ret safe_bind)

end
