(* ===== verification/KubeMeta.thy ===== *)
theory KubeMeta
  imports GoStrings
begin

text \<open>
  Object metadata as the Kubernetes API machinery defines it, owner references, work queue keys
  and generated names: what both controllers share. Instants are integers (nanoseconds since the
  Unix epoch).
\<close>

type_synonym instant = int

record owner_ref =
  or_api_version :: string
  or_kind :: string
  or_name :: string
  or_uid :: string
  or_controller :: "bool option"

record object_meta =
  om_name :: string
  om_generate_name :: string
  om_namespace :: string
  om_uid :: string
  om_resource_version :: string
  om_generation :: int
  om_creation :: instant
  om_deletion :: "instant option"
  om_labels :: "string gomap"
  om_annotations :: "string gomap"
  om_finalizers :: "string list"
  om_owner_refs :: "owner_ref list"

definition empty_meta :: object_meta where
  "empty_meta =
     \<lparr>om_name = [], om_generate_name = [], om_namespace = [], om_uid = [], om_resource_version = [],
      om_generation = 0, om_creation = 0, om_deletion = None, om_labels = [], om_annotations = [],
      om_finalizers = [], om_owner_refs = []\<rparr>"

text \<open>The first reference with a controller flag that is set.\<close>

definition get_controller_of :: "object_meta \<Rightarrow> owner_ref option" where
  "get_controller_of m = find (\<lambda>r. or_controller r = Some True) (om_owner_refs m)"

definition is_controlled_by :: "object_meta \<Rightarrow> object_meta \<Rightarrow> bool" where
  "is_controlled_by obj owner =
     (case get_controller_of obj of None \<Rightarrow> False | Some r \<Rightarrow> or_uid r = om_uid owner)"

definition new_controller_ref :: "object_meta \<Rightarrow> string \<Rightarrow> string \<Rightarrow> owner_ref" where
  "new_controller_ref owner api_version kind =
     \<lparr>or_api_version = api_version, or_kind = kind, or_name = om_name owner, or_uid = om_uid owner,
      or_controller = Some True\<rparr>"

section \<open>Work queue keys\<close>

definition split_meta_namespace_key :: "string \<Rightarrow> (string \<times> string) option" where
  "split_meta_namespace_key key =
     (case split_on (CHR ''/'') key of
        [n] \<Rightarrow> Some ([], n)
      | [ns, n] \<Rightarrow> Some (ns, n)
      | _ \<Rightarrow> None)"

definition meta_namespace_key :: "object_meta \<Rightarrow> string" where
  "meta_namespace_key m =
     (if om_namespace m \<noteq> [] then om_namespace m @ ''/'' @ om_name m else om_name m)"

section \<open>Generated names\<close>

definition max_name_length :: nat where "max_name_length = 63"
definition random_length :: nat where "random_length = 5"
definition max_generated_name_length :: nat where
  "max_generated_name_length = max_name_length - random_length"

text \<open>
  \<open>GenerateName\<close>: the suffix is what \<open>utilrand.String(randomLength)\<close> returned.
\<close>

definition generate_name :: "string \<Rightarrow> string \<Rightarrow> string" where
  "generate_name base suffix =
     (let base = (if max_generated_name_length < length base
                  then take max_generated_name_length base else base)
      in base @ suffix)"

section \<open>Lemmas\<close>

lemma split_meta_namespace_key_inv:
  assumes "CHR ''/'' \<notin> set (om_namespace m)" and "CHR ''/'' \<notin> set (om_name m)"
  shows "split_meta_namespace_key (meta_namespace_key m) = Some (om_namespace m, om_name m)"
  using assms
  by (simp add: split_meta_namespace_key_def meta_namespace_key_def split_on_append split_on_no_sep)

lemma split_meta_namespace_key_None:
  "split_meta_namespace_key key = None \<longleftrightarrow> 2 \<le> count_list key (CHR ''/'')"
proof -
  have len: "length (split_on (CHR ''/'') key) = Suc (count_list key (CHR ''/''))"
    by (rule length_split_on)
  show ?thesis
    using len by (auto simp: split_meta_namespace_key_def split: list.splits)
qed

lemma generate_name_length:
  "length suffix = random_length \<Longrightarrow> length (generate_name base suffix) \<le> max_name_length"
  by (simp add: generate_name_def Let_def max_generated_name_length_def max_name_length_def
      random_length_def)

lemma is_controlled_by_new [simp]:
  "is_controlled_by (m\<lparr>om_owner_refs := [new_controller_ref owner v k]\<rparr>) owner"
  by (simp add: is_controlled_by_def get_controller_of_def new_controller_ref_def)

end
