(* ===== verification/ReleaseApi.thy ===== *)
theory ReleaseApi
  imports KubeMeta
begin

text \<open>
  The Release resource of the API group fleet v1alpha1 (pkg/apis/fleet/v1alpha1/types.go).
  The string enumerations become datatypes whose last constructor holds every string that is not
  one of the constants, the empty string included.
\<close>

datatype release_phase =
    ReleasePending | ReleaseSpawning | ReleaseRunning | ReleaseSucceeded | ReleaseFailed
  | ReleaseDisabled | ReleasePhaseOther string

datatype condition_type =
    DeployerReady | ReleaseDeployed | ReleaseChecked | ReleaseInit | ReleaseDiff | ReleaseRun
  | ReleaseTest | ConditionTypeOther string

datatype condition_status =
    ConditionTrue | ConditionFalse | ConditionUnknown | ConditionStatusOther string

datatype deployer_phase =
    DeployerPhasePending | DeployerPhaseCreating | DeployerPhaseProgressing | DeployerPhaseRunning
  | DeployerPhaseOther string

fun deployer_phase_string :: "deployer_phase \<Rightarrow> string" where
  "deployer_phase_string DeployerPhasePending = ''Pending''"
| "deployer_phase_string DeployerPhaseCreating = ''Creating''"
| "deployer_phase_string DeployerPhaseProgressing = ''Progressing''"
| "deployer_phase_string DeployerPhaseRunning = ''Running''"
| "deployer_phase_string (DeployerPhaseOther s) = s"

record release_condition =
  rc_type :: condition_type
  rc_status :: condition_status
  rc_last_transition :: instant
  rc_reason :: string
  rc_message :: string

record deployer_status =
  ds_cluster :: string
  ds_namespace :: string
  ds_deployment_name :: string
  ds_secret_name :: string
  ds_phase :: deployer_phase

record release_deployer =
  rd_dry_run :: bool
  rd_reconcile :: bool
  rd_name :: string
  rd_configuration :: string
  rd_parameters :: "string gomap"
  rd_timeout :: "int option"

record release_spec =
  rs_repository :: string
  rs_branch :: string
  rs_revision :: string
  rs_includes :: "string list"
  rs_excludes :: "string list"
  rs_secret_ref :: "string option"
  rs_service_account_name :: string
  rs_deployer :: release_deployer
  rs_disabled :: bool
  rs_revision_history_limit :: "int option"

record release_status =
  rst_observed_generation :: int
  rst_phase :: release_phase
  rst_commit :: string
  rst_parameters_hash :: string
  rst_version :: string
  rst_deployer_status :: "deployer_status option"
  rst_conditions :: "release_condition list"

record release =
  rl_meta :: object_meta
  rl_spec :: release_spec
  rl_status :: release_status

abbreviation rl_name :: "release \<Rightarrow> string" where
  "rl_name r \<equiv> om_name (rl_meta r)"

abbreviation rl_namespace :: "release \<Rightarrow> string" where
  "rl_namespace r \<equiv> om_namespace (rl_meta r)"

abbreviation rl_generation :: "release \<Rightarrow> int" where
  "rl_generation r \<equiv> om_generation (rl_meta r)"

abbreviation rl_conditions :: "release \<Rightarrow> release_condition list" where
  "rl_conditions r \<equiv> rst_conditions (rl_status r)"

text \<open>An otherwise empty release, the base of the concrete examples.\<close>

definition empty_deployer :: release_deployer where
  "empty_deployer =
     \<lparr>rd_dry_run = False, rd_reconcile = False, rd_name = [], rd_configuration = [],
      rd_parameters = [], rd_timeout = None\<rparr>"

definition empty_spec :: release_spec where
  "empty_spec =
     \<lparr>rs_repository = [], rs_branch = [], rs_revision = [], rs_includes = [], rs_excludes = [],
      rs_secret_ref = None, rs_service_account_name = [], rs_deployer = empty_deployer,
      rs_disabled = False, rs_revision_history_limit = None\<rparr>"

definition empty_status :: release_status where
  "empty_status =
     \<lparr>rst_observed_generation = 0, rst_phase = ReleasePhaseOther [], rst_commit = [],
      rst_parameters_hash = [], rst_version = [], rst_deployer_status = None, rst_conditions = []\<rparr>"

definition empty_release :: release where
  "empty_release = \<lparr>rl_meta = empty_meta, rl_spec = empty_spec, rl_status = empty_status\<rparr>"

definition empty_deployer_status :: deployer_status where
  "empty_deployer_status =
     \<lparr>ds_cluster = [], ds_namespace = [], ds_deployment_name = [], ds_secret_name = [],
      ds_phase = DeployerPhaseOther []\<rparr>"

definition annotation :: "release \<Rightarrow> string \<Rightarrow> string" where
  "annotation r k = gm_get [] (om_annotations (rl_meta r)) k"

end
