(* ===== verification/KubeObjects.thy ===== *)
theory KubeObjects
  imports KubeMeta
begin

text \<open>
  The Kubernetes objects the release controller creates and compares: secrets, deployments and
  controller revisions, with the fields the code reads or writes. Each \<open>rest\<close> field stands for
  everything else in the object, which the code copies but never names. A deep comparison
  (\<open>apiequality.Semantic.DeepEqual\<close>) compares maps by their entries and does not tell a nil map
  from an empty one.
\<close>

record secret =
  sc_meta :: object_meta
  sc_type :: string
  sc_data :: "string gomap option"

record controller_revision =
  cr_meta :: object_meta
  cr_data :: string
  cr_revision :: int

record env_var =
  ev_name :: string
  ev_value :: string
  ev_value_from :: "string option"

record volume_mount =
  vm_mount_path :: string
  vm_name :: string

record container_port =
  cp_container_port :: int
  cp_protocol :: string

record resources =
  rr_limits :: "int gomap"
  rr_requests :: "int gomap"

record container =
  ct_name :: string
  ct_image :: string
  ct_command :: "string list"
  ct_args :: "string list"
  ct_image_pull_policy :: string
  ct_volume_mounts :: "volume_mount list"
  ct_ports :: "container_port list"
  ct_resources :: resources
  ct_env :: "env_var list"
  ct_rest :: string

record secret_source =
  ss_secret_name :: string
  ss_default_mode :: "int option"

record volume =
  vol_name :: string
  vol_empty_dir :: "string option"
  vol_secret :: "secret_source option"

record pod_template =
  pt_labels :: "string gomap"
  pt_annotations :: "string gomap"
  pt_volumes :: "volume list"
  pt_containers :: "container list"
  pt_dns_policy :: string
  pt_service_account_name :: string
  pt_automount :: "bool option"
  pt_rest :: string

record deployment_spec =
  dsp_replicas :: "int option"
  dsp_strategy_type :: string
  dsp_rolling_update :: "string option"
  dsp_match_labels :: "string gomap"
  dsp_template :: pod_template
  dsp_rest :: string

record deployment_status =
  dst_observed_generation :: int
  dst_replicas :: int
  dst_updated_replicas :: int
  dst_available_replicas :: int

record deployment =
  dp_meta :: object_meta
  dp_spec :: deployment_spec
  dp_status :: deployment_status

text \<open>The zero values of the composite literals \<open>corev1.Container{}\<close>, \<open>corev1.Volume{}\<close>, ...\<close>

definition empty_resources :: resources where
  "empty_resources = \<lparr>rr_limits = [], rr_requests = []\<rparr>"

definition empty_container :: container where
  "empty_container =
     \<lparr>ct_name = [], ct_image = [], ct_command = [], ct_args = [], ct_image_pull_policy = [],
      ct_volume_mounts = [], ct_ports = [], ct_resources = empty_resources, ct_env = [],
      ct_rest = []\<rparr>"

definition empty_volume :: volume where
  "empty_volume = \<lparr>vol_name = [], vol_empty_dir = None, vol_secret = None\<rparr>"

definition empty_template :: pod_template where
  "empty_template =
     \<lparr>pt_labels = [], pt_annotations = [], pt_volumes = [], pt_containers = [], pt_dns_policy = [],
      pt_service_account_name = [], pt_automount = None, pt_rest = []\<rparr>"

definition empty_deployment_spec :: deployment_spec where
  "empty_deployment_spec =
     \<lparr>dsp_replicas = None, dsp_strategy_type = [], dsp_rolling_update = None, dsp_match_labels = [],
      dsp_template = empty_template, dsp_rest = []\<rparr>"

definition empty_deployment_status :: deployment_status where
  "empty_deployment_status =
     \<lparr>dst_observed_generation = 0, dst_replicas = 0, dst_updated_replicas = 0,
      dst_available_replicas = 0\<rparr>"

definition empty_deployment :: deployment where
  "empty_deployment =
     \<lparr>dp_meta = empty_meta, dp_spec = empty_deployment_spec, dp_status = empty_deployment_status\<rparr>"

definition empty_secret :: secret where
  "empty_secret = \<lparr>sc_meta = empty_meta, sc_type = [], sc_data = None\<rparr>"

abbreviation sc_name :: "secret \<Rightarrow> string" where
  "sc_name s \<equiv> om_name (sc_meta s)"

abbreviation dp_name :: "deployment \<Rightarrow> string" where
  "dp_name d \<equiv> om_name (dp_meta d)"

abbreviation cr_name :: "controller_revision \<Rightarrow> string" where
  "cr_name c \<equiv> om_name (cr_meta c)"

section \<open>Deep comparison\<close>

definition deep_eq_meta :: "object_meta \<Rightarrow> object_meta \<Rightarrow> bool" where
  "deep_eq_meta a b \<longleftrightarrow>
     gm_eq (om_labels a) (om_labels b) \<and> gm_eq (om_annotations a) (om_annotations b) \<and>
     a\<lparr>om_labels := [], om_annotations := []\<rparr> = b\<lparr>om_labels := [], om_annotations := []\<rparr>"

definition data_of :: "'v gomap option \<Rightarrow> 'v gomap" where
  "data_of m = (case m of None \<Rightarrow> [] | Some d \<Rightarrow> d)"

definition deep_eq_secret :: "secret \<Rightarrow> secret \<Rightarrow> bool" where
  "deep_eq_secret a b \<longleftrightarrow>
     deep_eq_meta (sc_meta a) (sc_meta b) \<and> sc_type a = sc_type b \<and>
     gm_eq (data_of (sc_data a)) (data_of (sc_data b))"

definition deep_eq_resources :: "resources \<Rightarrow> resources \<Rightarrow> bool" where
  "deep_eq_resources a b \<longleftrightarrow>
     gm_eq (rr_limits a) (rr_limits b) \<and> gm_eq (rr_requests a) (rr_requests b)"

definition deep_eq_container :: "container \<Rightarrow> container \<Rightarrow> bool" where
  "deep_eq_container a b \<longleftrightarrow>
     deep_eq_resources (ct_resources a) (ct_resources b) \<and>
     a\<lparr>ct_resources := empty_resources\<rparr> = b\<lparr>ct_resources := empty_resources\<rparr>"

definition deep_eq_template :: "pod_template \<Rightarrow> pod_template \<Rightarrow> bool" where
  "deep_eq_template a b \<longleftrightarrow>
     gm_eq (pt_labels a) (pt_labels b) \<and> gm_eq (pt_annotations a) (pt_annotations b) \<and>
     list_all2 deep_eq_container (pt_containers a) (pt_containers b) \<and>
     a\<lparr>pt_labels := [], pt_annotations := [], pt_containers := []\<rparr> =
     b\<lparr>pt_labels := [], pt_annotations := [], pt_containers := []\<rparr>"

definition deep_eq_deployment_spec :: "deployment_spec \<Rightarrow> deployment_spec \<Rightarrow> bool" where
  "deep_eq_deployment_spec a b \<longleftrightarrow>
     gm_eq (dsp_match_labels a) (dsp_match_labels b) \<and>
     deep_eq_template (dsp_template a) (dsp_template b) \<and>
     a\<lparr>dsp_match_labels := [], dsp_template := empty_template\<rparr> =
     b\<lparr>dsp_match_labels := [], dsp_template := empty_template\<rparr>"

lemma deep_eq_meta_refl [simp]: "deep_eq_meta m m"
  by (simp add: deep_eq_meta_def)

lemma deep_eq_secret_refl [simp]: "deep_eq_secret s s"
  by (simp add: deep_eq_secret_def)

lemma deep_eq_container_refl [simp]: "deep_eq_container c c"
  by (simp add: deep_eq_container_def deep_eq_resources_def)

lemma deep_eq_template_refl [simp]: "deep_eq_template t t"
  by (simp add: deep_eq_template_def list_all2_refl)

lemma deep_eq_deployment_spec_refl [simp]: "deep_eq_deployment_spec s s"
  by (simp add: deep_eq_deployment_spec_def)

lemma deep_eq_meta_fields:
  "deep_eq_meta a b \<Longrightarrow> om_name a = om_name b \<and> om_creation a = om_creation b"
  unfolding deep_eq_meta_def by (cases a; cases b) simp

lemma data_of_simps [simp]: "data_of None = []" "data_of (Some d) = d"
  by (simp_all add: data_of_def)

end
