(* ===== verification/ReleasePhase.thy ===== *)
theory ReleasePhase
  imports ReleaseApi KubeObjects
begin

text \<open>
  The status machine of the release controller (pkg/controller/release/controller.go):
  \<open>deployerPhase\<close>, \<open>releasePhase\<close>, the Running marker condition, the pruning of conditions, the
  decision to scale the worker down, and \<open>HashStringMap\<close> (pkg/util/hash/hash.go), on which that
  decision rests.
\<close>

section \<open>Definitions\<close>

definition deployer_phase_of :: "deployment \<Rightarrow> deployer_phase res" where
  "deployer_phase_of d =
     (if dst_observed_generation (dp_status d) < om_generation (dp_meta d) then Ok DeployerPhasePending
      else bind_res (deref (dsp_replicas (dp_spec d))) (\<lambda>replicas.
        if replicas = 0 then Ok DeployerPhasePending
        else if dst_updated_replicas (dp_status d) = replicas \<and> dst_replicas (dp_status d) = replicas \<and>
                dst_available_replicas (dp_status d) = replicas then Ok DeployerPhaseRunning
        else if om_generation (dp_meta d) = 1 then Ok DeployerPhaseCreating
        else Ok DeployerPhaseProgressing))"

text \<open>The last condition says that the release is realised, or that a stage of it failed.\<close>

definition condition_succeeded :: "release_condition \<Rightarrow> bool" where
  "condition_succeeded c \<longleftrightarrow>
     (rc_type c = ReleaseChecked \<or> rc_type c = ReleaseTest) \<and> rc_status c = ConditionTrue"

definition condition_failed :: "release_condition \<Rightarrow> bool" where
  "condition_failed c \<longleftrightarrow>
     rc_status c = ConditionFalse \<and>
     (rc_type c = ReleaseInit \<or> rc_type c = ReleaseDiff \<or> rc_type c = ReleaseRun \<or>
      rc_type c = ReleaseTest \<or> rc_type c = ReleaseChecked)"

definition release_phase_of :: "release \<Rightarrow> release_phase" where
  "release_phase_of r =
     (let st = rl_status r; cs = rst_conditions st in
      if rst_observed_generation st < rl_generation r then ReleasePending
      else if rs_disabled (rl_spec r) then ReleaseDisabled
      else if rst_phase st = ReleaseSucceeded \<and> cs \<noteq> [] \<and> condition_succeeded (last cs)
        then ReleaseSucceeded
      else if rst_phase st = ReleaseFailed \<and> cs \<noteq> [] \<and> condition_failed (last cs)
        then ReleaseFailed
      else (case rst_deployer_status st of
        None \<Rightarrow> ReleasePending
      | Some ds \<Rightarrow>
          if ds_phase ds = DeployerPhaseOther [] \<or> ds_phase ds = DeployerPhasePending
            then ReleasePending
          else if ds_phase ds = DeployerPhaseCreating \<or> ds_phase ds = DeployerPhaseProgressing
            then ReleaseSpawning
          else if rst_phase st = ReleaseSpawning \<or> cs = [] then ReleaseRunning
          else if condition_succeeded (last cs) then ReleaseSucceeded
          else if condition_failed (last cs) then ReleaseFailed
          else ReleaseRunning))"

text \<open>The condition that marks the moment the worker deployment came up.\<close>

definition ready_message :: "string \<Rightarrow> string \<Rightarrow> string" where
  "ready_message deployment_name ns =
     ''deployment '' @ deployment_name @ '' is ready in namespace '' @ ns"

definition running_marker :: "deployer_status \<Rightarrow> instant \<Rightarrow> release_condition" where
  "running_marker ds now =
     \<lparr>rc_type = DeployerReady, rc_status = ConditionTrue, rc_last_transition = now,
      rc_reason = ''Ready'', rc_message = ready_message (ds_deployment_name ds) (ds_namespace ds)\<rparr>"

text \<open>
  The phase stage of \<open>syncHandler\<close>: the phase is computed from the release, the marker is
  appended to the copy when the phase becomes Running, then the phase is stored in the copy.
\<close>

definition set_phase :: "release \<Rightarrow> release \<Rightarrow> instant \<Rightarrow> release" where
  "set_phase r copy now =
     (let phase = release_phase_of r; st = rl_status copy;
          cs = (if phase = ReleaseRunning \<and> rst_phase st \<noteq> phase
                then rst_conditions st @
                     [running_marker (case rst_deployer_status st of Some ds \<Rightarrow> ds
                                      | None \<Rightarrow> empty_deployer_status) now]
                else rst_conditions st)
      in copy\<lparr>rl_status := st\<lparr>rst_conditions := cs, rst_phase := phase\<rparr>\<rparr>)"

text \<open>
  Only the last condition of each type is kept: the source remembers the last index of each
  type, then keeps the elements that sit at their type's index.
\<close>

definition last_index_of_type :: "release_condition list \<Rightarrow> condition_type \<Rightarrow> nat" where
  "last_index_of_type cs t =
     fold (\<lambda>(i, c) acc. if rc_type c = t then i else acc) (enumerate 0 cs) 0"

definition prune_conditions :: "release_condition list \<Rightarrow> release_condition list" where
  "prune_conditions cs =
     map snd (filter (\<lambda>(i, c). last_index_of_type cs (rc_type c) = i) (enumerate 0 cs))"

text \<open>The DeployerReady condition follows the deployer phase.\<close>

definition update_ready :: "deployer_phase \<Rightarrow> deployment \<Rightarrow> instant \<Rightarrow> release_condition \<Rightarrow> release_condition"
where
  "update_ready phase d now c =
     (if rc_type c \<noteq> DeployerReady then c
      else if phase = DeployerPhaseRunning \<and> rc_status c = ConditionFalse then
        c\<lparr>rc_status := ConditionTrue, rc_last_transition := now,
          rc_message := ready_message (dp_name d) (om_namespace (dp_meta d))\<rparr>
      else if phase \<noteq> DeployerPhaseRunning \<and> rc_status c = ConditionTrue then
        c\<lparr>rc_status := ConditionFalse, rc_last_transition := now,
          rc_message := ''deployment '' @ dp_name d @ '' is '' @ to_lower (deployer_phase_string phase) @
            '' in namespace '' @ om_namespace (dp_meta d)\<rparr>
      else c)"

definition new_conditions ::
  "deployer_phase \<Rightarrow> deployment \<Rightarrow> instant \<Rightarrow> release_condition list \<Rightarrow> release_condition list" where
  "new_conditions phase d now cs = map (update_ready phase d now) (prune_conditions cs)"

text \<open>
  \<open>HashStringMap\<close>: the lines key=value in the order of the sorted keys, hashed. The hash
  function (SHA-256, printed in hexadecimal) is a parameter.
\<close>

definition hash_line :: "string gomap \<Rightarrow> string \<Rightarrow> string" where
  "hash_line params k = k @ ''='' @ gm_get [] params k @ [CHR 0x0A]"

definition hash_input :: "string gomap \<Rightarrow> string" where
  "hash_input params = concat (map (hash_line params) (sort (gm_keys params)))"

definition hash_string_map :: "(string \<Rightarrow> string) \<Rightarrow> string gomap \<Rightarrow> string" where
  "hash_string_map sha256_hex params = sha256_hex (hash_input params)"

definition should_scale_zero :: "(string \<Rightarrow> string) \<Rightarrow> release \<Rightarrow> bool" where
  "should_scale_zero sha256_hex r =
     (let st = rl_status r; dep = rs_deployer (rl_spec r);
          parameters_applied =
            (if rst_parameters_hash st = [] then True
             else rst_parameters_hash st = hash_string_map sha256_hex (rd_parameters dep))
      in (rst_phase st = ReleaseSucceeded \<or> rst_phase st = ReleaseFailed) \<and>
         rl_generation r = rst_observed_generation st \<and>
         \<not> rd_reconcile dep \<and>
         rs_revision (rl_spec r) = rst_commit st \<and>
         parameters_applied)"

section \<open>Pruning of conditions\<close>

text \<open>The reference: keep a condition unless a later one has the same type.\<close>

fun keep_last_of_type :: "release_condition list \<Rightarrow> release_condition list" where
  "keep_last_of_type [] = []"
| "keep_last_of_type (c # cs) =
     (if rc_type c \<in> rc_type ` set cs then keep_last_of_type cs else c # keep_last_of_type cs)"

lemma last_index_of_type_snoc:
  "last_index_of_type (cs @ [c]) t = (if rc_type c = t then length cs else last_index_of_type cs t)"
  by (simp add: last_index_of_type_def enumerate_append_eq)

lemma prune_conditions_Nil [simp]: "prune_conditions [] = []"
  by (simp add: prune_conditions_def)

lemma prune_conditions_snoc:
  "prune_conditions (cs @ [c]) = filter (\<lambda>d. rc_type d \<noteq> rc_type c) (prune_conditions cs) @ [c]"
proof -
  have old: "filter (\<lambda>(i, d). last_index_of_type (cs @ [c]) (rc_type d) = i) (enumerate 0 cs) =
      filter (\<lambda>(i, d). rc_type d \<noteq> rc_type c \<and> last_index_of_type cs (rc_type d) = i) (enumerate 0 cs)"
  proof (rule filter_cong [OF refl])
    fix p assume "p \<in> set (enumerate 0 cs)"
    then have "fst p < length cs"
      unfolding in_set_enumerate_eq by simp
    then show "(case p of (i, d) \<Rightarrow> last_index_of_type (cs @ [c]) (rc_type d) = i) =
        (case p of (i, d) \<Rightarrow> rc_type d \<noteq> rc_type c \<and> last_index_of_type cs (rc_type d) = i)"
      by (cases p) (auto simp: last_index_of_type_snoc)
  qed
  have split: "map snd (filter (\<lambda>(i, d). rc_type d \<noteq> rc_type c \<and> P i d) es) =
      filter (\<lambda>d. rc_type d \<noteq> rc_type c) (map snd (filter (\<lambda>(i, d). P i d) es))"
    for P :: "nat \<Rightarrow> release_condition \<Rightarrow> bool" and es
    by (induction es) auto
  show ?thesis
    unfolding prune_conditions_def enumerate_append_eq filter_append map_append old split
    by (simp add: last_index_of_type_snoc)
qed

lemma keep_last_of_type_snoc:
  "keep_last_of_type (cs @ [c]) = filter (\<lambda>d. rc_type d \<noteq> rc_type c) (keep_last_of_type cs) @ [c]"
  by (induction cs) auto

lemma set_prune_conditions: "set (prune_conditions cs) \<subseteq> set cs"
  by (induction cs rule: rev_induct) (auto simp: prune_conditions_snoc)

lemma last_prune_conditions: "cs \<noteq> [] \<Longrightarrow> prune_conditions cs \<noteq> [] \<and> last (prune_conditions cs) = last cs"
  by (induction cs rule: rev_induct) (auto simp: prune_conditions_snoc)

text \<open>
  C25. Pruning is the reference function: of several conditions of one type exactly the last one
  survives, in the old order.
\<close>

theorem prune_conditions_reference: "prune_conditions cs = keep_last_of_type cs"
  by (induction cs rule: rev_induct) (simp_all add: prune_conditions_snoc keep_last_of_type_snoc)

lemma distinct_prune_conditions: "distinct (map rc_type (prune_conditions cs))"
  by (induction cs rule: rev_induct) (auto simp: prune_conditions_snoc distinct_map inj_on_def)

lemma prune_conditions_types: "rc_type ` set (prune_conditions cs) = rc_type ` set cs"
proof (induction cs rule: rev_induct)
  case (snoc c cs)
  have image: "rc_type ` {d \<in> set xs. rc_type d \<noteq> rc_type c} = rc_type ` set xs - {rc_type c}" for xs
    by auto
  show ?case by (simp add: prune_conditions_snoc image snoc.IH)
qed simp

lemma prune_conditions_distinct_id:
  "distinct (map rc_type cs) \<Longrightarrow> prune_conditions cs = cs"
proof (induction cs rule: rev_induct)
  case (snoc c cs)
  have "rc_type c \<notin> rc_type ` set cs"
    using snoc.prems by simp
  then have "rc_type d \<noteq> rc_type c" if "d \<in> set cs" for d
    using that by (metis imageI)
  then have "filter (\<lambda>d. rc_type d \<noteq> rc_type c) cs = cs"
    by (simp add: filter_id_conv)
  with snoc show ?case by (simp add: prune_conditions_snoc)
qed simp

lemma update_ready_type [simp]: "rc_type (update_ready ph d now c) = rc_type c"
  by (simp add: update_ready_def)

lemma update_ready_outcome [simp]:
  "condition_succeeded (update_ready ph d now c) = condition_succeeded c"
  "condition_failed (update_ready ph d now c) = condition_failed c"
  by (auto simp: update_ready_def condition_succeeded_def condition_failed_def)

lemma update_ready_idem:
  "update_ready ph d now' (update_ready ph d now c) = update_ready ph d now c"
  by (auto simp: update_ready_def)

lemma new_conditions_outcome:
  assumes "cs \<noteq> []"
  shows "condition_succeeded (last (new_conditions ph d now cs)) = condition_succeeded (last cs)"
    and "condition_failed (last (new_conditions ph d now cs)) = condition_failed (last cs)"
  using last_prune_conditions [OF assms] by (simp_all add: new_conditions_def last_map)

lemma new_conditions_Nil_iff [simp]: "new_conditions ph d now cs = [] \<longleftrightarrow> cs = []"
  using last_prune_conditions [of cs] by (cases "cs = []") (auto simp: new_conditions_def)

lemma distinct_new_conditions: "distinct (map rc_type (new_conditions ph d now cs))"
  using distinct_prune_conditions [of cs] by (simp add: new_conditions_def comp_def)

section \<open>The phase machine\<close>

lemma running_marker_outcome [simp]:
  "condition_succeeded (running_marker ds now) = False"
  "condition_failed (running_marker ds now) = False"
  by (simp_all add: running_marker_def condition_succeeded_def condition_failed_def)

lemma release_phase_of_store:
  assumes "release_phase_of r \<noteq> ReleaseRunning"
  shows "release_phase_of (r\<lparr>rl_status := (rl_status r)\<lparr>rst_phase := release_phase_of r\<rparr>\<rparr>) =
         release_phase_of r"
proof (cases "rst_deployer_status (rl_status r)")
  case None
  then show ?thesis by (auto simp: release_phase_of_def Let_def)
next
  case (Some ds)
  with assms show ?thesis
    by (simp add: release_phase_of_def Let_def split: if_split_asm)
qed

lemma release_phase_of_Running:
  "release_phase_of r = ReleaseRunning \<longleftrightarrow>
     \<not> rst_observed_generation (rl_status r) < rl_generation r \<and> \<not> rs_disabled (rl_spec r) \<and>
     (\<exists>ds. rst_deployer_status (rl_status r) = Some ds \<and>
       ds_phase ds \<noteq> DeployerPhaseOther [] \<and> ds_phase ds \<noteq> DeployerPhasePending \<and>
       ds_phase ds \<noteq> DeployerPhaseCreating \<and> ds_phase ds \<noteq> DeployerPhaseProgressing) \<and>
     (rst_phase (rl_status r) = ReleaseSpawning \<or> rl_conditions r = [] \<or>
      \<not> condition_succeeded (last (rl_conditions r)) \<and> \<not> condition_failed (last (rl_conditions r)))"
  by (cases "rst_deployer_status (rl_status r)") (auto simp: release_phase_of_def Let_def)

lemma release_phase_of_set_phase:
  "release_phase_of (set_phase r r now) = release_phase_of r"
proof (cases "release_phase_of r = ReleaseRunning")
  case False
  then have "set_phase r r now = r\<lparr>rl_status := (rl_status r)\<lparr>rst_phase := release_phase_of r\<rparr>\<rparr>"
    by (simp add: set_phase_def Let_def)
  with release_phase_of_store [OF False] show ?thesis by simp
next
  case True
  then have "release_phase_of (set_phase r r now) = ReleaseRunning"
    unfolding release_phase_of_Running by (auto simp: set_phase_def Let_def True)
  with True show ?thesis by simp
qed

text \<open>
  C12. The stored phase is a fixed point of the phase computation: after the phase stage has
  stored the phase (and, on the way to Running, appended its marker condition), computing the
  phase of the stored release gives the stored phase again, so the stage does not update the
  release a second time.
\<close>

theorem set_phase_stable:
  "release_phase_of (set_phase r r now) = rst_phase (rl_status (set_phase r r now)) \<and>
   set_phase (set_phase r r now) (set_phase r r now) later = set_phase r r now"
proof -
  have stable: "release_phase_of (set_phase r r now) = release_phase_of r"
    by (rule release_phase_of_set_phase)
  have stored: "rst_phase (rl_status (set_phase r r now)) = release_phase_of r"
    by (simp add: set_phase_def Let_def)
  have "set_phase (set_phase r r now) (set_phase r r now) later = set_phase r r now"
    using stable stored by (subst set_phase_def) (simp add: Let_def)
  with stable stored show ?thesis by simp
qed

text \<open>
  A phase other than Pending is only ever reported for the generation that the controller has
  observed, and Succeeded or Failed only when the last condition proves it.
\<close>

theorem release_phase_sound:
  "(rst_observed_generation (rl_status r) < rl_generation r \<longrightarrow> release_phase_of r = ReleasePending) \<and>
   (release_phase_of r = ReleaseSucceeded \<longrightarrow>
      \<not> rs_disabled (rl_spec r) \<and> rl_conditions r \<noteq> [] \<and> condition_succeeded (last (rl_conditions r))) \<and>
   (release_phase_of r = ReleaseFailed \<longrightarrow>
      \<not> rs_disabled (rl_spec r) \<and> rl_conditions r \<noteq> [] \<and> condition_failed (last (rl_conditions r))) \<and>
   (release_phase_of r = ReleaseRunning \<longrightarrow>
      (\<exists>ds. rst_deployer_status (rl_status r) = Some ds \<and>
        ds_phase ds \<noteq> DeployerPhasePending \<and> ds_phase ds \<noteq> DeployerPhaseCreating \<and>
        ds_phase ds \<noteq> DeployerPhaseProgressing))"
  by (simp add: release_phase_of_def Let_def split: option.splits)

theorem release_phase_sound_witness:
  "release_phase_of (empty_release\<lparr>rl_meta := empty_meta\<lparr>om_generation := 2\<rparr>\<rparr>) = ReleasePending"
  using release_phase_sound [of "empty_release\<lparr>rl_meta := empty_meta\<lparr>om_generation := 2\<rparr>\<rparr>"]
  by (simp add: empty_release_def empty_status_def empty_meta_def)

text \<open>
  Sticky outcomes: once a release is Succeeded (Failed) with a last condition that proves it,
  no change of the worker deployment, and no spec change that keeps the generation observed,
  takes the phase away; only a new last condition, a new generation or disabling does.
\<close>

theorem release_phase_sticky:
  assumes "\<not> rst_observed_generation (rl_status r) < rl_generation r"
    and "\<not> rs_disabled (rl_spec r)" and "rl_conditions r \<noteq> []"
    and "rst_phase (rl_status r) = ReleaseSucceeded \<and> condition_succeeded (last (rl_conditions r)) \<or>
         rst_phase (rl_status r) = ReleaseFailed \<and> condition_failed (last (rl_conditions r))"
  shows "release_phase_of (r\<lparr>rl_status := (rl_status r)\<lparr>rst_deployer_status := ds\<rparr>\<rparr>) =
         rst_phase (rl_status r)"
  using assms by (auto simp: release_phase_of_def Let_def)

definition sticky_example :: release where
  "sticky_example = empty_release\<lparr>rl_status := empty_status\<lparr>rst_phase := ReleaseSucceeded,
     rst_conditions := [\<lparr>rc_type = ReleaseChecked, rc_status = ConditionTrue, rc_last_transition = 0,
       rc_reason = [], rc_message = []\<rparr>]\<rparr>\<rparr>"

theorem release_phase_sticky_witness:
  "release_phase_of (sticky_example\<lparr>rl_status := (rl_status sticky_example)\<lparr>rst_deployer_status := None\<rparr>\<rparr>) =
   ReleaseSucceeded"
  using release_phase_sticky [of sticky_example None]
  by (simp add: sticky_example_def empty_release_def empty_status_def empty_meta_def empty_spec_def
      condition_succeeded_def)

text \<open>
  Cleaning the conditions (pruning plus the update of DeployerReady) never changes the phase,
  and afterwards every condition type occurs at most once.
\<close>

theorem new_conditions_keep_phase:
  "release_phase_of (r\<lparr>rl_status := (rl_status r)\<lparr>rst_conditions := new_conditions ph d now (rl_conditions r)\<rparr>\<rparr>) =
   release_phase_of r \<and>
   distinct (map rc_type (new_conditions ph d now (rl_conditions r)))"
proof (cases "rl_conditions r = []")
  case True
  then show ?thesis
    by (auto simp: release_phase_of_def Let_def new_conditions_def split: option.splits)
next
  case False
  then show ?thesis
    by (simp add: release_phase_of_def Let_def new_conditions_outcome distinct_new_conditions)
qed

section \<open>The deployer phase\<close>

text \<open>
  The status of an observed deployment with replicas is Running exactly when the updated, the
  total and the available replicas all match the wanted number. A deployment without
  spec.replicas is only looked at once its status is current.
\<close>

lemma deployer_phase_of_Running_iff:
  "deployer_phase_of d = Ok DeployerPhaseRunning \<longleftrightarrow>
     (\<exists>n. \<not> dst_observed_generation (dp_status d) < om_generation (dp_meta d) \<and>
      dsp_replicas (dp_spec d) = Some n \<and> n \<noteq> 0 \<and>
      dst_updated_replicas (dp_status d) = n \<and> dst_replicas (dp_status d) = n \<and>
      dst_available_replicas (dp_status d) = n)"
  by (cases "dsp_replicas (dp_spec d)") (auto simp: deployer_phase_of_def)

lemma deployer_phase_of_total:
  "dsp_replicas (dp_spec d) = Some n \<Longrightarrow> \<exists>p. deployer_phase_of d = Ok p"
  by (auto simp: deployer_phase_of_def)

section \<open>The parameters hash\<close>

lemma map_of_perm_get: "gm_eq a b \<Longrightarrow> gm_get z a = gm_get z b"
  by (auto simp: gm_get_def gm_eq_iff fun_eq_iff)

lemma set_gm_keys: "set (gm_keys m) = dom (map_of m)"
  by (simp add: gm_keys_def dom_map_of_conv_image_fst)

lemma gm_ok_eq_keys:
  assumes "gm_ok a" "gm_ok b" "gm_eq a b"
  shows "sort (gm_keys a) = sort (gm_keys b)"
proof -
  have "set (gm_keys a) = set (gm_keys b)"
    using assms(3) by (simp add: gm_eq_iff set_gm_keys)
  then show ?thesis
    using assms(1,2) by (simp add: gm_ok_def gm_keys_def sorted_distinct_set_unique)
qed

lemma hash_input_eq:
  "gm_ok a \<Longrightarrow> gm_ok b \<Longrightarrow> gm_eq a b \<Longrightarrow> hash_input a = hash_input b"
  unfolding hash_input_def hash_line_def [abs_def]
  by (simp only: gm_ok_eq_keys map_of_perm_get [where z = "[]"])

end
