(* ===== verification/ReleaseWorker.thy ===== *)
theory ReleaseWorker
  imports ReleasePhase
begin

text \<open>
  The worker objects the release controller wants to see (pkg/controller/release/controller.go):
  the secret (\<open>newSecret\<close>) and the deployment (\<open>newDeployment\<close> with \<open>configVolumes\<close>,
  \<open>configGitSyncContainer\<close>, \<open>configDeployerContainer\<close>), built from scratch or on top of the object
  that is there already.
\<close>

section \<open>Configuration and names\<close>

text \<open>The fields of the \<open>Controller\<close> struct that are values, not clients; quantities are integers.\<close>

record rel_config =
  cf_cluster :: string
  cf_namespace :: string
  cf_application_instance :: string
  cf_server_address :: string
  cf_remote :: bool
  cf_gpg_key :: string
  cf_tokens :: "string gomap"
  cf_env_map :: "string gomap"
  cf_git_sync_image :: string
  cf_image_map :: "string gomap"
  cf_image_pull_policy :: string
  cf_worker_cpu :: int
  cf_worker_memory :: int
  cf_log_namespace :: string
  cf_metrics_namespace :: string

definition label_release_namespace :: string where
  "label_release_namespace = ''release.fleet.tess.io/namespace''"
definition label_release_name :: string where
  "label_release_name = ''release.fleet.tess.io/name''"
definition label_application_instance :: string where
  "label_application_instance = ''applicationinstance.tess.io/name''"
definition annotation_user_namespace :: string where
  "annotation_user_namespace = ''release.fleet.tess.io/userns''"
definition annotation_managed_secret :: string where
  "annotation_managed_secret = ''application.tess.io/managed-secrets''"
definition annotation_dns_policy :: string where
  "annotation_dns_policy = ''release.fleet.tess.io/dns-policy''"
definition annotation_qos :: string where
  "annotation_qos = ''release.fleet.tess.io/qos''"
definition qos_best_effort :: string where "qos_best_effort = ''besteffort''"
definition qos_high :: string where "qos_high = ''high''"
definition key_token :: string where "key_token = ''token''"
definition key_gpg_key :: string where "key_gpg_key = ''gpg.key''"
definition key_kubeconfig :: string where "key_kubeconfig = ''kubeconfig''"
definition finalizer_released :: string where
  "finalizer_released = ''fleet.crd.tess.io/released''"

section \<open>The secret\<close>

text \<open>
  \<open>suffix\<close> is the random suffix of the generated name: the source generates a name on every call,
  also when the result is a copy of \<open>base\<close>. Writing to a nil data map panics.
\<close>

definition release_labels :: "release \<Rightarrow> string gomap" where
  "release_labels r = [(label_release_namespace, rl_namespace r), (label_release_name, rl_name r)]"

definition fresh_secret :: "release \<Rightarrow> string \<Rightarrow> string \<Rightarrow> secret" where
  "fresh_secret r podns suffix =
     empty_secret\<lparr>sc_meta := empty_meta\<lparr>om_namespace := podns,
         om_name := generate_name (rl_name r @ ''-'') suffix, om_labels := release_labels r\<rparr>,
       sc_data := Some []\<rparr>"

definition copy_secret_data :: "string gomap \<Rightarrow> string gomap option \<Rightarrow> string gomap option res" where
  "copy_secret_data ref_data data =
     (if ref_data = [] then Ok data
      else (case data of None \<Rightarrow> Panic | Some d \<Rightarrow> Ok (Some (gm_copy_into ref_data d))))"

definition is_managed :: "secret \<Rightarrow> bool" where
  "is_managed s \<longleftrightarrow> map_of (om_annotations (sc_meta s)) annotation_managed_secret = Some ''true''"

definition new_secret :: "release \<Rightarrow> secret option \<Rightarrow> secret \<Rightarrow> string \<Rightarrow> string \<Rightarrow> secret res" where
  "new_secret r base ref_secret podns suffix =
     (let secret = (case base of None \<Rightarrow> fresh_secret r podns suffix | Some b \<Rightarrow> b)
      in bind_res (copy_secret_data (data_of (sc_data ref_secret)) (sc_data secret)) (\<lambda>data.
           let secret = secret\<lparr>sc_data := data\<rparr>
           in Ok (if is_managed ref_secret
                  then secret\<lparr>sc_meta := (sc_meta secret)
                         \<lparr>om_annotations := [(annotation_managed_secret, ''true'')]\<rparr>\<rparr>
                  else secret)))"

section \<open>Go durations in flags\<close>

definition pad_digits :: "nat \<Rightarrow> nat \<Rightarrow> string" where
  "pad_digits n v = replicate (n - length (nat_digits v)) (CHR ''0'') @ nat_digits v"

definition frac_digits :: "nat \<Rightarrow> nat \<Rightarrow> string" where
  "frac_digits prec v =
     (let ds = rev (dropWhile (\<lambda>c. c = CHR ''0'') (rev (pad_digits prec v)))
      in if v = 0 then [] else CHR ''.'' # ds)"

text \<open>\<open>time.Duration.String()\<close> of a duration in nanoseconds.\<close>

definition duration_string :: "int \<Rightarrow> string" where
  "duration_string d =
     (let u = nat \<bar>d\<bar>; sign = (if d < 0 then ''-'' else []);
          scaled = (\<lambda>prec unit. sign @ nat_digits (u div 10 ^ prec) @
                      frac_digits prec (u mod 10 ^ prec) @ unit);
          secs = u div 10 ^ 9; mins = secs div 60; hours = mins div 60
      in if u = 0 then ''0s''
         else if u < 10 ^ 3 then scaled 0 ''ns''
         else if u < 10 ^ 6 then scaled 3 [CHR 0xC2, CHR 0xB5, CHR ''s'']
         else if u < 10 ^ 9 then scaled 6 ''ms''
         else sign @
           (if hours > 0 then nat_digits hours @ ''h'' else []) @
           (if mins > 0 then nat_digits (mins mod 60) @ ''m'' else []) @
           nat_digits (secs mod 60) @ frac_digits 9 (u mod 10 ^ 9) @ ''s'')"

section \<open>The deployment\<close>

definition get_application_instance :: "rel_config \<Rightarrow> release \<Rightarrow> bool \<Rightarrow> string" where
  "get_application_instance cf r userns =
     (if userns then gm_get [] (om_labels (rl_meta r)) label_application_instance
      else cf_application_instance cf)"

definition fresh_deployment :: "release \<Rightarrow> string \<Rightarrow> string \<Rightarrow> deployment" where
  "fresh_deployment r podns suffix =
     empty_deployment\<lparr>dp_meta := empty_meta\<lparr>om_namespace := podns,
       om_name := generate_name (rl_name r @ ''-'') suffix, om_labels := release_labels r\<rparr>\<rparr>"

abbreviation map_template :: "(pod_template \<Rightarrow> pod_template) \<Rightarrow> deployment \<Rightarrow> deployment" where
  "map_template f d \<equiv> d\<lparr>dp_spec := (dp_spec d)\<lparr>dsp_template := f (dsp_template (dp_spec d))\<rparr>\<rparr>"

definition with_application_instance :: "string \<Rightarrow> deployment \<Rightarrow> deployment" where
  "with_application_instance ai d =
     (if ai = [] then d
      else map_template (\<lambda>t. t\<lparr>pt_labels := gm_set label_application_instance ai (pt_labels t)\<rparr>)
             (d\<lparr>dp_meta := (dp_meta d)
                \<lparr>om_labels := gm_set label_application_instance ai (om_labels (dp_meta d))\<rparr>\<rparr>))"

definition with_managed_annotation :: "bool \<Rightarrow> deployment \<Rightarrow> deployment" where
  "with_managed_annotation managed d =
     (if managed
      then map_template (\<lambda>t. t\<lparr>pt_annotations :=
             gm_set annotation_managed_secret ''true'' (pt_annotations t)\<rparr>) d
      else d)"

definition worker_replicas :: "(string \<Rightarrow> string) \<Rightarrow> release \<Rightarrow> int" where
  "worker_replicas sha r = (if rs_disabled (rl_spec r) \<or> should_scale_zero sha r then 0 else 1)"

definition with_scale_and_strategy :: "(string \<Rightarrow> string) \<Rightarrow> release \<Rightarrow> deployment \<Rightarrow> deployment" where
  "with_scale_and_strategy sha r d =
     d\<lparr>dp_spec := (dp_spec d)\<lparr>dsp_replicas := Some (worker_replicas sha r),
        dsp_strategy_type := ''Recreate'', dsp_rolling_update := None\<rparr>\<rparr>"

definition set_release_labels :: "release \<Rightarrow> string gomap \<Rightarrow> string gomap" where
  "set_release_labels r m =
     gm_set label_release_name (rl_name r) (gm_set label_release_namespace (rl_namespace r) m)"

definition with_selector :: "release \<Rightarrow> deployment \<Rightarrow> deployment" where
  "with_selector r d =
     map_template (\<lambda>t. t\<lparr>pt_labels := set_release_labels r (pt_labels t)\<rparr>)
       (d\<lparr>dp_spec := (dp_spec d)
          \<lparr>dsp_match_labels := set_release_labels r (dsp_match_labels (dp_spec d))\<rparr>\<rparr>)"

definition set_all :: "(string \<times> 'v) list \<Rightarrow> 'v gomap \<Rightarrow> 'v gomap" where
  "set_all kvs m = fold (\<lambda>(k, v). gm_set k v) kvs m"

definition scrape_annotations :: "(string \<times> string) list" where
  "scrape_annotations =
     [(''io.sherlock.metrics/module'', ''prometheus''), (''prometheus.io/path'', ''/metrics''),
      (''prometheus.io/port'', ''9090''), (''prometheus.io/scrape'', ''true'')]"

definition with_scrape_annotations :: "deployment \<Rightarrow> deployment" where
  "with_scrape_annotations d =
     map_template (\<lambda>t. t\<lparr>pt_annotations := set_all scrape_annotations (pt_annotations t)\<rparr>) d"

text \<open>\<open>if len(xs) > i { xs[i] = x } else { xs = append(xs, x) }\<close>, and the read before it.\<close>

definition put_at :: "nat \<Rightarrow> 'a \<Rightarrow> 'a list \<Rightarrow> 'a list" where
  "put_at i x xs = (if i < length xs then xs[i := x] else xs @ [x])"

definition peek_at :: "nat \<Rightarrow> 'a \<Rightarrow> 'a list \<Rightarrow> 'a" where
  "peek_at i zero xs = (if i < length xs then xs ! i else zero)"

definition workspace_volume :: "volume \<Rightarrow> volume" where
  "workspace_volume v = v\<lparr>vol_name := ''workspace'',
     vol_empty_dir := (case vol_empty_dir v of None \<Rightarrow> Some [] | Some e \<Rightarrow> Some e)\<rparr>"

definition secrets_volume :: "string \<Rightarrow> volume \<Rightarrow> volume" where
  "secrets_volume secret_name v = v\<lparr>vol_name := ''secrets'',
     vol_secret := Some ((case vol_secret v of
         None \<Rightarrow> \<lparr>ss_secret_name = [], ss_default_mode = None\<rparr> | Some s \<Rightarrow> s)
       \<lparr>ss_secret_name := secret_name\<rparr>)\<rparr>"

definition config_volumes :: "string \<Rightarrow> volume list \<Rightarrow> volume list" where
  "config_volumes secret_name vs =
     (let vs = put_at 0 (workspace_volume (peek_at 0 empty_volume vs)) vs
      in put_at 1 (secrets_volume secret_name (peek_at 1 empty_volume vs)) vs)"

definition worker_mounts :: "volume_mount list" where
  "worker_mounts =
     [\<lparr>vm_mount_path = ''/workspace'', vm_name = ''workspace''\<rparr>,
      \<lparr>vm_mount_path = ''/secrets'', vm_name = ''secrets''\<rparr>]"

definition worker_quantities :: "rel_config \<Rightarrow> int gomap" where
  "worker_quantities cf = [(''cpu'', cf_worker_cpu cf), (''memory'', cf_worker_memory cf)]"

definition git_sync_resources :: "rel_config \<Rightarrow> string \<Rightarrow> resources" where
  "git_sync_resources cf qos =
     (if qos = qos_best_effort then empty_resources
      else \<lparr>rr_limits = worker_quantities cf, rr_requests = worker_quantities cf\<rparr>)"

definition git_sync_args :: "secret \<Rightarrow> release \<Rightarrow> string list" where
  "git_sync_args s r =
     (let sp = rl_spec r in
      [''--root=/workspace'', ''--password-file=/secrets/token'',
       ''--webhook-url=http://127.0.0.1:8080'', ''--webhook-timeout=4m'', ''--wait=300'',
       ''--username=oauth2''] @
      (if rs_revision sp \<noteq> [] then [''--rev='' @ rs_revision sp] else []) @
      (if has_prefix (rs_repository sp) ''https://'' then [''--repo='' @ rs_repository sp]
       else [''--repo=https://github.com/'' @ rs_repository sp]) @
      (if gm_has (data_of (sc_data s)) key_gpg_key then [''--gpg-key=/secrets/'' @ key_gpg_key]
       else []) @
      map (\<lambda>i. ''--includes='' @ i) (rs_includes sp) @
      map (\<lambda>e. ''--excludes='' @ e) (rs_excludes sp) @
      (if rs_branch sp \<noteq> [] then [''--branch='' @ rs_branch sp] else []))"

definition git_sync_container :: "rel_config \<Rightarrow> secret \<Rightarrow> release \<Rightarrow> string \<Rightarrow> container \<Rightarrow> container" where
  "git_sync_container cf s r qos c =
     c\<lparr>ct_command := [''git-sync''], ct_args := git_sync_args s r, ct_image := cf_git_sync_image cf,
       ct_image_pull_policy := cf_image_pull_policy cf, ct_name := ''git-sync'',
       ct_volume_mounts := worker_mounts,
       ct_ports := [\<lparr>cp_container_port = 9092, cp_protocol = ''TCP''\<rparr>],
       ct_resources := git_sync_resources cf qos\<rparr>"

definition deployer_args :: "secret \<Rightarrow> release_deployer \<Rightarrow> string \<Rightarrow> string \<Rightarrow> string \<Rightarrow> bool \<Rightarrow> string list"
where
  "deployer_args s dep repo_root ns name has_approver =
     [''--v=2'', ''--logtostderr'', ''--config='' @ rd_configuration dep,
      ''--workspace='' @ repo_root, ''--namespace='' @ ns, ''--name='' @ name] @
     (if gm_has (data_of (sc_data s)) key_kubeconfig
      then [''--kubeconfig=/secrets/'' @ key_kubeconfig] else []) @
     map (\<lambda>k. ''--parameters='' @ k @ ''='' @ gm_get [] (rd_parameters dep) k)
       (sort (gm_keys (rd_parameters dep))) @
     (if rd_reconcile dep then [''--reconcile''] else []) @
     (if rd_dry_run dep then [''--dry-run''] else []) @
     (case rd_timeout dep of None \<Rightarrow> [] | Some t \<Rightarrow> [''--timeout='' @ duration_string t]) @
     (if has_approver then [''--webhook-url=http://127.0.0.1:8081''] else [])"

definition deployer_image :: "rel_config \<Rightarrow> string \<Rightarrow> string" where
  "deployer_image cf name =
     (let image = gm_get [] (cf_image_map cf) name in if image \<noteq> [] then image else name)"

definition deployer_resources :: "rel_config \<Rightarrow> string \<Rightarrow> resources" where
  "deployer_resources cf qos =
     (let rr = git_sync_resources cf qos in
      if qos = qos_high
      then rr\<lparr>rr_limits := [(''cpu'', cf_worker_cpu cf + cf_worker_cpu cf),
                         (''memory'', cf_worker_memory cf + cf_worker_memory cf)]\<rparr>
      else rr)"

definition deployer_container ::
  "rel_config \<Rightarrow> secret \<Rightarrow> string \<Rightarrow> release_deployer \<Rightarrow> string \<Rightarrow> string \<Rightarrow> string \<Rightarrow> bool \<Rightarrow> string \<Rightarrow>
   container \<Rightarrow> container" where
  "deployer_container cf s name dep repo_root ns rname has_approver qos c =
     c\<lparr>ct_command := [], ct_args := deployer_args s dep repo_root ns rname has_approver,
       ct_image := deployer_image cf name, ct_image_pull_policy := cf_image_pull_policy cf,
       ct_name := ''deployer'', ct_volume_mounts := worker_mounts,
       ct_resources := deployer_resources cf qos,
       ct_ports := [\<lparr>cp_container_port = 9090, cp_protocol = ''TCP''\<rparr>]\<rparr>"

definition config_containers :: "rel_config \<Rightarrow> secret \<Rightarrow> release \<Rightarrow> container list \<Rightarrow> container list" where
  "config_containers cf s r cs =
     (let qos = annotation r annotation_qos;
          repo_root = ''/workspace/'' @ after_last (CHR ''/'') (rs_repository (rl_spec r));
          dep = rs_deployer (rl_spec r);
          cs = put_at 0 (git_sync_container cf s r qos (peek_at 0 empty_container cs)) cs
      in put_at 1 (deployer_container cf s (rd_name dep) dep repo_root (rl_namespace r) (rl_name r)
           False qos (peek_at 1 empty_container cs)) cs)"

text \<open>
  The environment of every container becomes the configured variables followed by what the old
  one had beyond their number. All containers start from the same slice \<open>envVars\<close>; as long as its
  backing array has room (\<open>spare\<close> slots, which depends on how \<open>append\<close> grew it), appending writes
  into the shared array, so a later container overwrites what an earlier one put there. A container
  that needs more than the spare slots gets an array of its own.
\<close>

definition env_vars :: "string gomap \<Rightarrow> env_var list" where
  "env_vars m = map (\<lambda>k. \<lparr>ev_name = k, ev_value = gm_get [] m k, ev_value_from = None\<rparr>) (sort (gm_keys m))"

definition spill :: "nat \<Rightarrow> 'a list \<Rightarrow> 'a list \<Rightarrow> 'a list" where
  "spill spare xs slots = take spare xs @ drop (length (take spare xs)) slots"

definition settle :: "nat \<Rightarrow> 'a list \<Rightarrow> 'a list \<Rightarrow> 'a list" where
  "settle spare slots xs = (if length xs \<le> spare then take (length xs) slots else xs)"

definition merge_env :: "nat \<Rightarrow> env_var list \<Rightarrow> container list \<Rightarrow> container list" where
  "merge_env spare env cs =
     (let extras = map (\<lambda>c. drop (length env) (ct_env c)) cs;
          slots = fold (spill spare) extras []
      in map (\<lambda>(c, x). c\<lparr>ct_env := env @ settle spare slots x\<rparr>) (zip cs extras))"

definition with_dns_policy :: "release \<Rightarrow> deployment \<Rightarrow> deployment" where
  "with_dns_policy r d =
     (case map_of (om_annotations (rl_meta r)) annotation_dns_policy of
        None \<Rightarrow> d
      | Some p \<Rightarrow> map_template (\<lambda>t. t\<lparr>pt_dns_policy := p\<rparr>) d)"

definition mode_annotations :: "rel_config \<Rightarrow> release \<Rightarrow> bool \<Rightarrow> (string \<times> string) list" where
  "mode_annotations cf r userns =
     (if userns
      then (case map_of (om_annotations (rl_meta r)) ''io.sherlock.logs/namespace'' of
              None \<Rightarrow> [] | Some v \<Rightarrow> [(''io.sherlock.logs/namespace'', v)]) @
           (case map_of (om_annotations (rl_meta r)) ''io.sherlock.metrics/namespace'' of
              None \<Rightarrow> [] | Some v \<Rightarrow> [(''io.sherlock.metrics/namespace'', v)])
      else [(''io.sherlock.logs/namespace'', cf_log_namespace cf),
            (''io.sherlock.metrics/namespace'', cf_metrics_namespace cf)])"

definition with_namespace_mode ::
  "rel_config \<Rightarrow> release \<Rightarrow> bool \<Rightarrow> string \<Rightarrow> deployment \<Rightarrow> deployment" where
  "with_namespace_mode cf r userns sa d =
     map_template (\<lambda>t. (if userns then t\<lparr>pt_service_account_name := sa, pt_automount := Some True\<rparr>
                        else t\<lparr>pt_automount := Some False\<rparr>)
         \<lparr>pt_annotations := set_all (mode_annotations cf r userns) (pt_annotations t)\<rparr>) d"

definition metrics_hosts :: string where
  "metrics_hosts = ''${data.host}:9092/metrics,${data.host}:9090/metrics''"

definition with_pod :: "rel_config \<Rightarrow> nat \<Rightarrow> release \<Rightarrow> secret \<Rightarrow> deployment \<Rightarrow> deployment" where
  "with_pod cf spare r s d =
     map_template (\<lambda>t. t\<lparr>pt_volumes := config_volumes (sc_name s) (pt_volumes t),
        pt_containers := merge_env spare (env_vars (cf_env_map cf))
                           (config_containers cf s r (pt_containers t)),
        pt_annotations := gm_set ''io.sherlock.metrics/hosts'' metrics_hosts (pt_annotations t)\<rparr>) d"

definition new_deployment ::
  "(string \<Rightarrow> string) \<Rightarrow> rel_config \<Rightarrow> nat \<Rightarrow> release \<Rightarrow> secret \<Rightarrow> deployment option \<Rightarrow> bool \<Rightarrow> bool \<Rightarrow>
   string \<Rightarrow> string \<Rightarrow> string \<Rightarrow> deployment" where
  "new_deployment sha cf spare r s base managed userns sa podns suffix =
     with_namespace_mode cf r userns sa
      (with_dns_policy r
       (with_pod cf spare r s
        (with_scrape_annotations
         (with_selector r
          (with_scale_and_strategy sha r
           (with_managed_annotation managed
            (with_application_instance (get_application_instance cf r userns)
              (case base of None \<Rightarrow> fresh_deployment r podns suffix | Some b \<Rightarrow> b))))))))"

section \<open>Generic lemmas\<close>

lemma map_of_set_all_notin: "k \<notin> fst ` set kvs \<Longrightarrow> map_of (set_all kvs m) k = map_of m k"
  unfolding set_all_def by (induction kvs arbitrary: m) auto

lemma map_of_set_all: "distinct (map fst kvs) \<Longrightarrow> (k, v) \<in> set kvs \<Longrightarrow> map_of (set_all kvs m) k = Some v"
proof (induction kvs arbitrary: m)
  case (Cons p kvs)
  show ?case
  proof (cases "p = (k, v)")
    case True
    then have "map_of (set_all kvs (gm_set k v m)) k = Some v"
      using Cons.prems(1) by (subst map_of_set_all_notin) auto
    with True show ?thesis by (simp add: set_all_def)
  next
    case False
    with Cons show ?thesis by (cases p) (auto simp: set_all_def)
  qed
qed simp

lemma set_all_same:
  "(\<And>k v. (k, v) \<in> set kvs \<Longrightarrow> map_of m k = Some v) \<Longrightarrow> set_all kvs m = m"
  unfolding set_all_def by (induction kvs) (auto simp: gm_set_same)

lemma set_all_Nil [simp]: "set_all [] m = m"
  by (simp add: set_all_def)

lemma set_all_append: "set_all (xs @ ys) m = set_all ys (set_all xs m)"
  by (simp add: set_all_def)

lemma length_put_at [simp]: "length (put_at i x xs) = (if i < length xs then length xs else Suc (length xs))"
  by (simp add: put_at_def)

lemma peek_put_at [simp]: "i \<le> length xs \<Longrightarrow> peek_at i z (put_at i x xs) = x"
  by (auto simp: put_at_def peek_at_def nth_append)

lemma peek_put_at_other [simp]: "i < length xs \<Longrightarrow> i \<noteq> j \<Longrightarrow> peek_at i z (put_at j x xs) = peek_at i z xs"
  by (auto simp: put_at_def peek_at_def nth_append)

lemma put_at_same: "i < length xs \<Longrightarrow> put_at i (peek_at i z xs) xs = xs"
  by (simp add: put_at_def peek_at_def)

subsection \<open>The shared environment array\<close>

lemma length_spill: "length (spill s x a) = max (min s (length x)) (length a)"
  by (auto simp: spill_def)

lemma length_fold_spill:
  "x \<in> set xs \<Longrightarrow> min s (length x) \<le> length (fold (spill s) xs a)"
proof (induction xs arbitrary: a rule: rev_induct)
  case (snoc y xs)
  show ?case
  proof (cases "x = y")
    case False
    with snoc.prems have "min s (length x) \<le> length (fold (spill s) xs a)"
      by (intro snoc.IH) simp
    then show ?thesis by (simp add: length_spill)
  qed (simp add: length_spill)
qed simp

lemma nth_spill:
  "p < length (spill s x a) \<Longrightarrow> p < s \<Longrightarrow> spill s x a ! p = (if p < length x then x ! p else a ! p)"
  by (auto simp: spill_def nth_append min_def)

lemma length_fold_spill_settle:
  assumes "\<And>x. x \<in> set xs \<Longrightarrow> min s (length x) \<le> length b"
  shows "length (fold (spill s) (map (settle s b) xs) a) = length (fold (spill s) xs a)"
  using assms
proof (induction xs arbitrary: a rule: rev_induct)
  case (snoc y xs)
  have "min s (length (settle s b y)) = min s (length y)"
    using snoc.prems [of y] by (auto simp: settle_def)
  with snoc show ?case by (simp add: length_spill)
qed simp

lemma length_fold_spill_le: "length (fold (spill s) xs []) \<le> s"
  by (induction xs rule: rev_induct) (auto simp: length_spill)

text \<open>
  Writing the settled extras again gives the same array: at each slot the last writer wins, and
  what a writer puts there is either the settled value or, for the last writer, its own.
\<close>

lemma nth_fold_spill_settle:
  assumes "p < length (fold (spill s) xs [])" and "fold (spill s) xs [] ! p = b ! p"
    and "p < s" and "\<And>x. x \<in> set xs \<Longrightarrow> min s (length x) \<le> length b"
  shows "fold (spill s) (map (settle s b) xs) [] ! p = b ! p"
  using assms
proof (induction xs rule: rev_induct)
  case (snoc y xs)
  have len: "length (fold (spill s) (map (settle s b) zs) []) = length (fold (spill s) zs [])"
    if "set zs \<subseteq> set (xs @ [y])" for zs
    using snoc.prems(4) that by (intro length_fold_spill_settle) auto
  have settle_len: "length (settle s b y) = length y"
    using snoc.prems(4) [of y] by (auto simp: settle_def)
  have "p < length (fold (spill s) (map (settle s b) (xs @ [y])) [])"
    using len [of "xs @ [y]"] snoc.prems(1) by simp
  then have step: "fold (spill s) (map (settle s b) (xs @ [y])) [] ! p =
      (if p < length y then settle s b y ! p else fold (spill s) (map (settle s b) xs) [] ! p)"
    using snoc.prems(3) by (simp add: nth_spill settle_len)
  have own: "fold (spill s) (xs @ [y]) [] ! p = (if p < length y then y ! p else fold (spill s) xs [] ! p)"
    using snoc.prems(1,3) by (simp add: nth_spill)
  show ?case
  proof (cases "p < length y")
    case True
    with own snoc.prems(2) have "y ! p = b ! p" by simp
    then have "settle s b y ! p = b ! p"
      using True by (simp add: settle_def)
    with True step show ?thesis by simp
  next
    case False
    with snoc.prems(1,3) have "p < length (fold (spill s) xs [])"
      by (auto simp: length_spill)
    with False own step snoc.IH snoc.prems show ?thesis by simp
  qed
qed simp

lemma fold_spill_settle:
  "fold (spill s) (map (settle s (fold (spill s) xs [])) xs) [] = fold (spill s) xs []"
    (is "?again = ?slots")
proof (rule nth_equalityI)
  have room: "min s (length x) \<le> length ?slots" if "x \<in> set xs" for x
    using that by (rule length_fold_spill)
  then show len: "length ?again = length ?slots"
    by (rule length_fold_spill_settle)
  show "?again ! p = ?slots ! p" if "p < length ?again" for p
    using that len room length_fold_spill_le [of s xs] by (intro nth_fold_spill_settle) auto
qed

lemma settle_settle: "settle s b (settle s b x) = settle s b x"
  by (auto simp: settle_def min_def)

lemma length_merge_env [simp]: "length (merge_env s env cs) = length cs"
  by (simp add: merge_env_def Let_def)

lemma nth_merge_env:
  "i < length cs \<Longrightarrow> merge_env s env cs ! i = (cs ! i)\<lparr>ct_env := env @ settle s
     (fold (spill s) (map (\<lambda>c. drop (length env) (ct_env c)) cs) []) (drop (length env) (ct_env (cs ! i)))\<rparr>"
  by (simp add: merge_env_def Let_def)

lemma ct_env_merge_env:
  "i < length cs \<Longrightarrow> drop (length env) (ct_env (merge_env s env cs ! i)) =
     settle s (fold (spill s) (map (\<lambda>c. drop (length env) (ct_env c)) cs) [])
       (drop (length env) (ct_env (cs ! i)))"
  by (simp add: nth_merge_env)

lemma merge_env_idem: "merge_env s env (merge_env s env cs) = merge_env s env cs"
proof (rule nth_equalityI)
  let ?x = "map (\<lambda>c. drop (length env) (ct_env c))"
  have "?x (merge_env s env cs) = map (settle s (fold (spill s) (?x cs) [])) (?x cs)"
    by (rule nth_equalityI) (simp_all add: nth_merge_env)
  then have slots: "fold (spill s) (?x (merge_env s env cs)) [] = fold (spill s) (?x cs) []"
    by (simp only: fold_spill_settle)
  show "merge_env s env (merge_env s env cs) ! i = merge_env s env cs ! i"
    if "i < length (merge_env s env (merge_env s env cs))" for i
    using that by (simp add: nth_merge_env slots settle_settle)
qed simp

section \<open>The deployment as one update\<close>

lemma worker_keys_distinct [simp]:
  "label_application_instance \<noteq> label_release_namespace"
  "label_release_namespace \<noteq> label_application_instance"
  "label_application_instance \<noteq> label_release_name"
  "label_release_name \<noteq> label_application_instance"
  "label_release_namespace \<noteq> label_release_name"
  "label_release_name \<noteq> label_release_namespace"
  by (simp_all add: label_application_instance_def label_release_namespace_def label_release_name_def)

definition instance_labels :: "string \<Rightarrow> (string \<times> string) list" where
  "instance_labels ai = (if ai = [] then [] else [(label_application_instance, ai)])"

definition pod_annotations :: "rel_config \<Rightarrow> release \<Rightarrow> bool \<Rightarrow> bool \<Rightarrow> (string \<times> string) list" where
  "pod_annotations cf r managed userns =
     (if managed then [(annotation_managed_secret, ''true'')] else []) @ scrape_annotations @
     [(''io.sherlock.metrics/hosts'', metrics_hosts)] @ mode_annotations cf r userns"

lemma distinct_instance_labels:
  "distinct (map fst (instance_labels ai @ release_labels r))"
  "distinct (map fst (instance_labels ai))" "distinct (map fst (release_labels r))"
  by (simp_all add: instance_labels_def release_labels_def)

lemma distinct_pod_annotations: "distinct (map fst (pod_annotations cf r managed userns))"
  by (cases managed; cases userns)
    (simp_all add: pod_annotations_def scrape_annotations_def mode_annotations_def
      annotation_managed_secret_def split: option.splits)

lemma set_all_idem: "distinct (map fst kvs) \<Longrightarrow> set_all kvs (set_all kvs m) = set_all kvs m"
  by (rule set_all_same) (rule map_of_set_all)

definition new_template ::
  "rel_config \<Rightarrow> nat \<Rightarrow> release \<Rightarrow> secret \<Rightarrow> bool \<Rightarrow> bool \<Rightarrow> string \<Rightarrow> pod_template \<Rightarrow> pod_template" where
  "new_template cf spare r s managed userns sa t = t
     \<lparr>pt_labels := set_all (instance_labels (get_application_instance cf r userns) @ release_labels r) (pt_labels t),
      pt_annotations := set_all (pod_annotations cf r managed userns) (pt_annotations t),
      pt_volumes := config_volumes (sc_name s) (pt_volumes t),
      pt_containers := merge_env spare (env_vars (cf_env_map cf)) (config_containers cf s r (pt_containers t)),
      pt_dns_policy := (case map_of (om_annotations (rl_meta r)) annotation_dns_policy of
          None \<Rightarrow> pt_dns_policy t | Some p \<Rightarrow> p),
      pt_service_account_name := (if userns then sa else pt_service_account_name t),
      pt_automount := Some userns\<rparr>"

lemma set_release_labels_eq: "set_release_labels r m = set_all (release_labels r) m"
  by (simp add: set_release_labels_def release_labels_def set_all_def)

lemma new_deployment_eq:
  "new_deployment sha cf spare r s base managed userns sa podns suffix =
     (let d = (case base of None \<Rightarrow> fresh_deployment r podns suffix | Some b \<Rightarrow> b)
      in d\<lparr>dp_meta := (dp_meta d)\<lparr>om_labels :=
             set_all (instance_labels (get_application_instance cf r userns)) (om_labels (dp_meta d))\<rparr>,
           dp_spec := (dp_spec d)\<lparr>dsp_replicas := Some (worker_replicas sha r),
             dsp_strategy_type := ''Recreate'', dsp_rolling_update := None,
             dsp_match_labels := set_all (release_labels r) (dsp_match_labels (dp_spec d)),
             dsp_template := new_template cf spare r s managed userns sa (dsp_template (dp_spec d))\<rparr>\<rparr>)"
proof -
  note defs = new_deployment_def with_namespace_mode_def with_dns_policy_def with_pod_def
    with_scrape_annotations_def with_selector_def with_scale_and_strategy_def
    with_managed_annotation_def with_application_instance_def new_template_def
    instance_labels_def pod_annotations_def set_release_labels_eq set_all_append
  have cons: "set_all ((k, v) # kvs) m = set_all kvs (gm_set k v m)" for k v kvs and m :: "string gomap"
    by (simp add: set_all_def)
  define d where "d = (case base of None \<Rightarrow> fresh_deployment r podns suffix | Some b \<Rightarrow> b)"
  show ?thesis
    unfolding d_def [symmetric]
    by (cases d; cases "dp_meta d"; cases managed; cases userns; cases "get_application_instance cf r userns = []";
        cases "map_of (om_annotations (rl_meta r)) annotation_dns_policy")
      (simp_all add: defs cons Let_def d_def [symmetric])
qed

subsection \<open>Running it again changes nothing\<close>

lemma git_sync_container_idem:
  "git_sync_container cf s r q (git_sync_container cf s r q c) = git_sync_container cf s r q c"
  by (simp add: git_sync_container_def)

lemma git_sync_container_env:
  "git_sync_container cf s r q (c\<lparr>ct_env := e\<rparr>) = (git_sync_container cf s r q c)\<lparr>ct_env := e\<rparr>"
  by (simp add: git_sync_container_def)

lemma deployer_container_idem:
  "deployer_container cf s n d w ns rn a q (deployer_container cf s n d w ns rn a q c) =
   deployer_container cf s n d w ns rn a q c"
  by (simp add: deployer_container_def)

lemma deployer_container_env:
  "deployer_container cf s n d w ns rn a q (c\<lparr>ct_env := e\<rparr>) =
   (deployer_container cf s n d w ns rn a q c)\<lparr>ct_env := e\<rparr>"
  by (simp add: deployer_container_def)

lemma put_two_fixed:
  assumes "Suc 0 < length xs" and "f (xs ! 0) = xs ! 0" and "g (xs ! 1) = xs ! 1"
  shows "(let ys = put_at 0 (f (peek_at 0 z xs)) xs in put_at 1 (g (peek_at 1 z ys)) ys) = xs"
  using assms by (auto simp: Let_def put_at_def peek_at_def)

lemma put_two_shape:
  fixes xs g z a
  defines "ys \<equiv> put_at 0 a xs"
  shows "Suc 0 < length (put_at 1 (g (peek_at 1 z ys)) ys)"
    and "put_at 1 (g (peek_at 1 z ys)) ys ! 0 = a"
    and "\<exists>y. put_at 1 (g (peek_at 1 z ys)) ys ! 1 = g y"
proof -
  consider "xs = []" | x where "xs = [x]" | x y zs where "xs = x # y # zs"
    by (cases xs; cases "tl xs") auto
  then show "Suc 0 < length (put_at 1 (g (peek_at 1 z ys)) ys)"
    "put_at 1 (g (peek_at 1 z ys)) ys ! 0 = a"
    "\<exists>y. put_at 1 (g (peek_at 1 z ys)) ys ! 1 = g y"
    unfolding ys_def by (cases; auto simp: put_at_def)+
qed

lemma config_volumes_idem: "config_volumes n (config_volumes n vs) = config_volumes n vs"
  (is "_ = ?ws")
proof -
  have ws: "Suc 0 < length ?ws"
    "?ws ! 0 = workspace_volume (peek_at 0 empty_volume vs)"
    "\<exists>v. ?ws ! 1 = secrets_volume n v"
    unfolding config_volumes_def Let_def by (rule put_two_shape)+
  show ?thesis
    unfolding config_volumes_def [of n ?ws]
    by (rule put_two_fixed)
      (use ws in \<open>auto simp: workspace_volume_def secrets_volume_def split: option.splits\<close>)
qed

lemma config_containers_shape:
  fixes cf s r cs
  defines "xs \<equiv> config_containers cf s r cs"
  shows "Suc 0 < length xs"
    and "\<exists>c. xs ! 0 = git_sync_container cf s r (annotation r annotation_qos) c"
    and "\<exists>c. xs ! 1 = deployer_container cf s (rd_name (rs_deployer (rl_spec r)))
           (rs_deployer (rl_spec r)) (''/workspace/'' @ after_last (CHR ''/'') (rs_repository (rl_spec r)))
           (rl_namespace r) (rl_name r) False (annotation r annotation_qos) c"
  unfolding xs_def config_containers_def Let_def
  by (rule put_two_shape(1), rule exI, rule put_two_shape(2), rule put_two_shape(3))

lemma config_merge_containers:
  "config_containers cf s r (merge_env n env (config_containers cf s r cs)) =
   merge_env n env (config_containers cf s r cs)" (is "config_containers cf s r ?xs = ?xs")
proof -
  obtain c d where "config_containers cf s r cs ! 0 = git_sync_container cf s r (annotation r annotation_qos) c"
    "config_containers cf s r cs ! 1 = deployer_container cf s (rd_name (rs_deployer (rl_spec r)))
       (rs_deployer (rl_spec r)) (''/workspace/'' @ after_last (CHR ''/'') (rs_repository (rl_spec r)))
       (rl_namespace r) (rl_name r) False (annotation r annotation_qos) d"
    using config_containers_shape [of cf s r cs] by blast
  moreover have "Suc 0 < length (config_containers cf s r cs)"
    by (rule config_containers_shape)
  moreover from this have "0 < length (config_containers cf s r cs)" "1 < length (config_containers cf s r cs)"
    by linarith+
  ultimately show ?thesis
    unfolding config_containers_def [of cf s r ?xs] Let_def
    by (intro put_two_fixed [unfolded Let_def])
      (simp_all only: nth_merge_env length_merge_env git_sync_container_env git_sync_container_idem
        deployer_container_env deployer_container_idem)
qed

lemma new_template_idem:
  "new_template cf spare r s m u sa (new_template cf spare r s m u sa t) = new_template cf spare r s m u sa t"
  by (simp add: new_template_def set_all_idem [OF distinct_instance_labels(1)]
      set_all_idem [OF distinct_pod_annotations] config_volumes_idem config_merge_containers
      merge_env_idem split: option.splits)

text \<open>
  C2. No update loop: building the deployment on top of the deployment that was built gives the
  same deployment, whatever the original was, so once the controller has stored it the comparison
  of the specs finds no difference and the deployment is not updated again.
\<close>

theorem new_deployment_idempotent:
  "new_deployment sha cf spare r s (Some (new_deployment sha cf spare r s base managed userns sa podns suffix))
     managed userns sa podns suffix' =
   new_deployment sha cf spare r s base managed userns sa podns suffix"
  by (simp add: new_deployment_eq Let_def new_template_idem set_all_idem [OF distinct_instance_labels(2)]
      set_all_idem [OF distinct_instance_labels(3)])

section \<open>What the worker objects promise\<close>

text \<open>
  C26. The order in which Go happens to visit the maps has no influence on the worker: with the same
  environment variables, images and deployer parameters in any order the container arguments, the
  image and the environment are the same, so the iteration order cannot trigger an update.
\<close>

theorem worker_order_independent:
  assumes "gm_ok env" "gm_ok env'" "gm_eq env env'"
    and "gm_ok (rd_parameters dep)" "gm_ok ps" "gm_eq (rd_parameters dep) ps"
    and "gm_eq images (cf_image_map cf)"
  shows "env_vars env = env_vars env' \<and>
         deployer_args s dep w ns n a = deployer_args s (dep\<lparr>rd_parameters := ps\<rparr>) w ns n a \<and>
         deployer_image cf name = deployer_image (cf\<lparr>cf_image_map := images\<rparr>) name"
  using assms gm_ok_eq_keys [OF assms(1-3)] gm_ok_eq_keys [OF assms(4-6)]
    map_of_perm_get [OF assms(3)] map_of_perm_get [OF assms(6)] map_of_perm_get [OF assms(7)]
  by (simp add: env_vars_def deployer_args_def deployer_image_def)

text \<open>A configuration for the examples.\<close>

definition example_config :: rel_config where
  "example_config =
     \<lparr>cf_cluster = ''c1'', cf_namespace = ''sys'', cf_application_instance = [],
      cf_server_address = ''https://api'', cf_remote = False, cf_gpg_key = [], cf_tokens = [],
      cf_env_map = [], cf_git_sync_image = ''git-sync:1'', cf_image_map = [],
      cf_image_pull_policy = ''Always'', cf_worker_cpu = 1, cf_worker_memory = 2,
      cf_log_namespace = ''logs'', cf_metrics_namespace = ''metrics''\<rparr>"

definition two_params :: "string gomap" where
  "two_params = [(''a'', ''1''), (''b'', ''2'')]"

theorem worker_order_independent_witness:
  "env_vars two_params = env_vars (rev two_params) \<and>
   deployer_args empty_secret (empty_deployer\<lparr>rd_parameters := two_params\<rparr>) [] [] [] False =
   deployer_args empty_secret (empty_deployer\<lparr>rd_parameters := two_params\<rparr>\<lparr>rd_parameters := rev two_params\<rparr>)
     [] [] [] False"
proof -
  have "gm_ok two_params" "gm_ok (rev two_params)" "gm_eq two_params (rev two_params)"
    by (simp_all add: two_params_def gm_ok_def gm_eq_def)
  then show ?thesis
    using worker_order_independent [of two_params "rev two_params"
        "empty_deployer\<lparr>rd_parameters := two_params\<rparr>" "rev two_params" "cf_image_map example_config"
        example_config empty_secret "[]" "[]" "[]" False "[]"]
    by simp
qed

text \<open>
  The pod template carries every label the selector of the deployment asks for, the condition
  without which the API server rejects the deployment, provided the deployment that was there had
  this property and its selector does not name the application instance label.
\<close>

theorem new_deployment_selector_matches:
  assumes "\<And>b. base = Some b \<Longrightarrow>
      map_of (dsp_match_labels (dp_spec b)) \<subseteq>\<^sub>m map_of (pt_labels (dsp_template (dp_spec b))) \<and>
      map_of (dsp_match_labels (dp_spec b)) label_application_instance = None"
  shows "map_of (dsp_match_labels (dp_spec (new_deployment sha cf spare r s base managed userns sa podns suffix)))
      \<subseteq>\<^sub>m map_of (pt_labels (dsp_template (dp_spec
            (new_deployment sha cf spare r s base managed userns sa podns suffix))))"
proof -
  define b where "b = (case base of None \<Rightarrow> fresh_deployment r podns suffix | Some b \<Rightarrow> b)"
  have b: "map_of (dsp_match_labels (dp_spec b)) \<subseteq>\<^sub>m map_of (pt_labels (dsp_template (dp_spec b)))"
    "map_of (dsp_match_labels (dp_spec b)) label_application_instance = None"
    using assms(1) by (auto simp: b_def fresh_deployment_def empty_deployment_def
        empty_deployment_spec_def split: option.splits)
  show ?thesis
    using b unfolding new_deployment_eq b_def [symmetric] Let_def
    by (auto simp: new_template_def set_all_append release_labels_def set_all_def instance_labels_def
        map_le_def)
qed

theorem new_deployment_selector_matches_witness:
  "map_of (dsp_match_labels (dp_spec (new_deployment id example_config 0 empty_release empty_secret None False False [] [] [])))
     \<subseteq>\<^sub>m map_of (pt_labels (dsp_template (dp_spec
           (new_deployment id example_config 0 empty_release empty_secret None False False [] [] []))))"
  by (rule new_deployment_selector_matches) simp

lemma fold_spill_single:
  assumes "\<And>j. j < length xs \<Longrightarrow> j \<noteq> i \<Longrightarrow> xs ! j = []" and "i < length xs" and "length (xs ! i) \<le> s"
  shows "take (length (xs ! i)) (fold (spill s) xs []) = xs ! i"
proof -
  have nils: "fold (spill s) ys a = a" if "\<And>y. y \<in> set ys \<Longrightarrow> y = []" for ys and a :: "'a list"
    using that
  proof (induction ys arbitrary: a)
    case (Cons y ys)
    then have "y = []" by simp
    with Cons show ?case by (simp add: spill_def)
  qed simp
  have split: "xs = take i xs @ xs ! i # drop (Suc i) xs"
    using assms(2) by (simp add: id_take_nth_drop)
  have before: "fold (spill s) (take i xs) a = a" for a
    using assms(1,2) by (intro nils) (auto simp: in_set_conv_nth)
  have after: "fold (spill s) (drop (Suc i) xs) a = a" for a
    using assms(1) by (intro nils) (auto simp: in_set_conv_nth)
  have "fold (spill s) xs [] = spill s (xs ! i) []"
    by (subst split) (simp add: before after)
  with assms(3) show ?thesis by (simp add: spill_def)
qed

text \<open>
  The environment of the worker containers: every container starts with the configured
  variables; when the slice has no spare capacity, or when only one container has variables beyond
  the configured ones, every container keeps its own extra variables after them.
\<close>

theorem merge_env_keeps_extras:
  assumes "i < length cs"
    and "spare = 0 \<or> (\<forall>j<length cs. j \<noteq> i \<longrightarrow> length (ct_env (cs ! j)) \<le> length env)"
  shows "ct_env (merge_env spare env cs ! i) = env @ drop (length env) (ct_env (cs ! i))"
  using assms(2)
proof
  assume "spare = 0"
  then show ?thesis using assms(1) by (simp add: nth_merge_env settle_def)
next
  assume short: "\<forall>j<length cs. j \<noteq> i \<longrightarrow> length (ct_env (cs ! j)) \<le> length env"
  let ?xs = "map (\<lambda>c. drop (length env) (ct_env c)) cs"
  have "settle spare (fold (spill spare) ?xs []) (?xs ! i) = ?xs ! i"
    using fold_spill_single [of ?xs i spare] short assms(1) by (auto simp: settle_def)
  with assms(1) show ?thesis by (simp add: nth_merge_env)
qed

definition named_env :: "string \<Rightarrow> env_var" where
  "named_env n = \<lparr>ev_name = n, ev_value = [], ev_value_from = None\<rparr>"

theorem merge_env_keeps_extras_witness:
  "ct_env (merge_env 1 [named_env ''A''] [empty_container\<lparr>ct_env := [named_env ''A'', named_env ''B'']\<rparr>] ! 0) =
   [named_env ''A'', named_env ''B'']"
  using merge_env_keeps_extras [of 0 "[empty_container\<lparr>ct_env := [named_env ''A'', named_env ''B'']\<rparr>]" 1
      "[named_env ''A'']"]
  by simp

text \<open>
  With spare capacity (three configured variables, for which \<open>append\<close> has allocated four) and
  an extra variable in two containers, the extra variable of the first container is replaced by
  the one of the second: the slices share their backing array.
\<close>

theorem merge_env_shares_array:
  "map ct_env (merge_env 1 (map named_env [''A'', ''B'', ''C''])
     [empty_container\<lparr>ct_env := map named_env [''A'', ''B'', ''C'', ''X'']\<rparr>,
      empty_container\<lparr>ct_env := map named_env [''A'', ''B'', ''C'', ''Y'']\<rparr>]) =
   [map named_env [''A'', ''B'', ''C'', ''Y''], map named_env [''A'', ''B'', ''C'', ''Y'']]"
  by (simp add: merge_env_def Let_def spill_def settle_def)

section \<open>What the secret promises\<close>

lemma new_secret_Ok:
  "new_secret r base ref podns suffix = Ok s \<longleftrightarrow>
     (\<exists>data. copy_secret_data (data_of (sc_data ref))
        (sc_data (case base of None \<Rightarrow> fresh_secret r podns suffix | Some b \<Rightarrow> b)) = Ok data \<and>
      s = (let b = (case base of None \<Rightarrow> fresh_secret r podns suffix | Some b \<Rightarrow> b)\<lparr>sc_data := data\<rparr> in
           if is_managed ref then b\<lparr>sc_meta := (sc_meta b)
             \<lparr>om_annotations := [(annotation_managed_secret, ''true'')]\<rparr>\<rparr> else b))"
  by (auto simp: new_secret_def Let_def split: option.splits)

lemma copy_secret_data_Ok:
  assumes "copy_secret_data ref data = Ok data'" and "gm_ok ref" and "map_of ref k = Some v"
  shows "map_of (data_of data') k = Some v"
proof -
  from assms obtain d where "data = Some d" "data' = Some (gm_copy_into ref d)"
    by (cases data) (auto simp: copy_secret_data_def split: if_splits)
  with assms(2,3) show ?thesis by (simp add: map_of_gm_copy_into)
qed

lemma copy_secret_data_again:
  assumes "copy_secret_data ref data = Ok data'" and "gm_ok ref"
  shows "copy_secret_data ref data' = Ok data'"
proof (cases data)
  case (Some d)
  have "gm_copy_into ref (gm_copy_into ref d) = gm_copy_into ref d"
  proof (rule gm_copy_into_same)
    fix k v assume "(k, v) \<in> set ref"
    then have "map_of ref k = Some v"
      using assms(2) by (simp add: gm_ok_def)
    then show "map_of (gm_copy_into ref d) k = Some v"
      using assms(2) by (simp add: map_of_gm_copy_into)
  qed
  with Some assms(1) show ?thesis by (auto simp: copy_secret_data_def)
qed (use assms(1) in \<open>auto simp: copy_secret_data_def split: if_splits\<close>)

text \<open>
  The worker secret follows the referenced one: when \<open>newSecret\<close> returns, every key of the
  referenced secret is there with the referenced value and building it again on top of the result
  changes nothing (so a stored secret is not replaced over and over); it panics exactly when there
  is something to copy into a base secret that has no data map at all.
\<close>

theorem new_secret_spec:
  assumes "gm_ok (data_of (sc_data ref))"
  shows "(new_secret r base ref podns suffix = Panic \<longleftrightarrow>
            data_of (sc_data ref) \<noteq> [] \<and> (\<exists>b. base = Some b \<and> sc_data b = None)) \<and>
         (\<forall>s. new_secret r base ref podns suffix = Ok s \<longrightarrow>
            (\<forall>k v. map_of (data_of (sc_data ref)) k = Some v \<longrightarrow> map_of (data_of (sc_data s)) k = Some v) \<and>
            new_secret r (Some s) ref podns suffix' = Ok s)"
proof (intro conjI allI impI)
  show "new_secret r base ref podns suffix = Panic \<longleftrightarrow>
      data_of (sc_data ref) \<noteq> [] \<and> (\<exists>b. base = Some b \<and> sc_data b = None)"
    by (auto simp: new_secret_def copy_secret_data_def fresh_secret_def Let_def split: option.splits)
next
  fix s k v
  assume "new_secret r base ref podns suffix = Ok s" and "map_of (data_of (sc_data ref)) k = Some v"
  then show "map_of (data_of (sc_data s)) k = Some v"
    using copy_secret_data_Ok [OF _ assms] by (auto simp: new_secret_Ok Let_def)
next
  fix s
  assume "new_secret r base ref podns suffix = Ok s"
  then show "new_secret r (Some s) ref podns suffix' = Ok s"
    using copy_secret_data_again [OF _ assms] by (auto simp: new_secret_Ok Let_def)
qed

theorem new_secret_spec_witness:
  "new_secret empty_release (Some empty_secret) (empty_secret\<lparr>sc_data := Some [(''k'', ''v'')]\<rparr>) [] [] = Panic"
  using new_secret_spec [of "empty_secret\<lparr>sc_data := Some [(''k'', ''v'')]\<rparr>" empty_release "Some empty_secret"]
  by (simp add: gm_ok_def empty_secret_def)

end
