(* ===== verification/ReleaseCalls.thy ===== *)
theory ReleaseCalls
  imports ReleaseWorker
begin

text \<open>
  What the release controller says to the outside world: its informer caches (listers), the two
  API servers it talks to (the one with the releases and the local one with the workers), the
  event recorder, the clock and the random name suffix. An entry of the log carries the arguments
  of the call and the answer; an environment supplies the answers.
\<close>

datatype rel_call =
    GetRelease string string "go_error + release"
  | ListRevisions string "go_error + controller_revision list"
  | DeleteRevision string string "go_error + unit"
  | CreateRevision string controller_revision "go_error + unit"
  | UpdateRelease string release "go_error + unit"
  | UpdateReleaseStatus string release "go_error + unit"
  | GetSecret string string "go_error + secret"
  | GetServiceAccount string string "go_error + string list"
  | CachedSecrets string string string "go_error + secret list"
  | CachedDeployments string string string "go_error + deployment list"
  | ListSecrets string string string "go_error + secret list"
  | ListDeployments string string string "go_error + deployment list"
  | CreateSecret string secret "go_error + secret"
  | DeleteSecret string string "go_error + unit"
  | CreateDeployment string deployment "go_error + deployment"
  | UpdateDeployment string deployment "go_error + unit"
  | DeleteDeployment string string "go_error + unit"
  | RecordEvent string string
  | ReadClock instant
  | RandomSuffix string

text \<open>
  The answers, as functions of the log so far and the arguments. The last four are third-party or
  library functions without state: the JSON encoding of a release, the YAML encoding of a
  kubeconfig, \<open>sort.Sort\<close> on \<open>historiesByRevision\<close> (any order of equal revisions) and SHA-256.
\<close>

record kubeconfig =
  kc_server :: string
  kc_insecure_skip_tls :: bool
  kc_token :: string
  kc_namespace :: string

record rel_env =
  re_get_release :: "rel_call list \<Rightarrow> string \<Rightarrow> string \<Rightarrow> go_error + release"
  re_list_revisions :: "rel_call list \<Rightarrow> string \<Rightarrow> go_error + controller_revision list"
  re_delete_revision :: "rel_call list \<Rightarrow> string \<Rightarrow> string \<Rightarrow> go_error + unit"
  re_create_revision :: "rel_call list \<Rightarrow> string \<Rightarrow> controller_revision \<Rightarrow> go_error + unit"
  re_update_release :: "rel_call list \<Rightarrow> string \<Rightarrow> release \<Rightarrow> go_error + unit"
  re_update_status :: "rel_call list \<Rightarrow> string \<Rightarrow> release \<Rightarrow> go_error + unit"
  re_get_secret :: "rel_call list \<Rightarrow> string \<Rightarrow> string \<Rightarrow> go_error + secret"
  re_get_service_account :: "rel_call list \<Rightarrow> string \<Rightarrow> string \<Rightarrow> go_error + string list"
  re_cached_secrets :: "rel_call list \<Rightarrow> string \<Rightarrow> go_error + secret list"
  re_cached_deployments :: "rel_call list \<Rightarrow> string \<Rightarrow> go_error + deployment list"
  re_list_secrets :: "rel_call list \<Rightarrow> string \<Rightarrow> go_error + secret list"
  re_list_deployments :: "rel_call list \<Rightarrow> string \<Rightarrow> go_error + deployment list"
  re_create_secret :: "rel_call list \<Rightarrow> string \<Rightarrow> secret \<Rightarrow> go_error + secret"
  re_delete_secret :: "rel_call list \<Rightarrow> string \<Rightarrow> string \<Rightarrow> go_error + unit"
  re_create_deployment :: "rel_call list \<Rightarrow> string \<Rightarrow> deployment \<Rightarrow> go_error + deployment"
  re_update_deployment :: "rel_call list \<Rightarrow> string \<Rightarrow> deployment \<Rightarrow> go_error + unit"
  re_delete_deployment :: "rel_call list \<Rightarrow> string \<Rightarrow> string \<Rightarrow> go_error + unit"
  re_clock :: "rel_call list \<Rightarrow> instant"
  re_suffix :: "rel_call list \<Rightarrow> string"
  re_marshal :: "release \<Rightarrow> go_error + string"
  re_write_kubeconfig :: "kubeconfig \<Rightarrow> go_error + string"
  re_sort_revisions :: "controller_revision list \<Rightarrow> controller_revision list"
  re_sha256 :: "string \<Rightarrow> string"
  re_env_spare :: nat

type_synonym 'a rel_eff = "(rel_call, 'a) eff"

definition get_release :: "rel_env \<Rightarrow> string \<Rightarrow> string \<Rightarrow> release rel_eff" where
  "get_release E ns n = perform (\<lambda>h. re_get_release E h ns n) (GetRelease ns n)"

definition list_revisions :: "rel_env \<Rightarrow> string \<Rightarrow> controller_revision list rel_eff" where
  "list_revisions E ns = perform (\<lambda>h. re_list_revisions E h ns) (ListRevisions ns)"

definition delete_revision :: "rel_env \<Rightarrow> string \<Rightarrow> string \<Rightarrow> unit rel_eff" where
  "delete_revision E ns n = perform (\<lambda>h. re_delete_revision E h ns n) (DeleteRevision ns n)"

definition create_revision :: "rel_env \<Rightarrow> string \<Rightarrow> controller_revision \<Rightarrow> unit rel_eff" where
  "create_revision E ns c = perform (\<lambda>h. re_create_revision E h ns c) (CreateRevision ns c)"

definition update_release :: "rel_env \<Rightarrow> string \<Rightarrow> release \<Rightarrow> unit rel_eff" where
  "update_release E ns r = perform (\<lambda>h. re_update_release E h ns r) (UpdateRelease ns r)"

definition update_release_status :: "rel_env \<Rightarrow> string \<Rightarrow> release \<Rightarrow> unit rel_eff" where
  "update_release_status E ns r = perform (\<lambda>h. re_update_status E h ns r) (UpdateReleaseStatus ns r)"

definition get_secret :: "rel_env \<Rightarrow> string \<Rightarrow> string \<Rightarrow> secret rel_eff" where
  "get_secret E ns n = perform (\<lambda>h. re_get_secret E h ns n) (GetSecret ns n)"

definition get_service_account :: "rel_env \<Rightarrow> string \<Rightarrow> string \<Rightarrow> string list rel_eff" where
  "get_service_account E ns n = perform (\<lambda>h. re_get_service_account E h ns n) (GetServiceAccount ns n)"

definition cached_secrets :: "rel_env \<Rightarrow> string \<Rightarrow> string \<Rightarrow> string \<Rightarrow> secret list rel_eff" where
  "cached_secrets E podns ns n = perform (\<lambda>h. re_cached_secrets E h podns) (CachedSecrets podns ns n)"

definition cached_deployments :: "rel_env \<Rightarrow> string \<Rightarrow> string \<Rightarrow> string \<Rightarrow> deployment list rel_eff" where
  "cached_deployments E podns ns n =
     perform (\<lambda>h. re_cached_deployments E h podns) (CachedDeployments podns ns n)"

definition list_secrets :: "rel_env \<Rightarrow> string \<Rightarrow> string \<Rightarrow> string \<Rightarrow> secret list rel_eff" where
  "list_secrets E podns ns n = perform (\<lambda>h. re_list_secrets E h podns) (ListSecrets podns ns n)"

definition list_deployments :: "rel_env \<Rightarrow> string \<Rightarrow> string \<Rightarrow> string \<Rightarrow> deployment list rel_eff" where
  "list_deployments E podns ns n =
     perform (\<lambda>h. re_list_deployments E h podns) (ListDeployments podns ns n)"

definition create_secret :: "rel_env \<Rightarrow> string \<Rightarrow> secret \<Rightarrow> secret rel_eff" where
  "create_secret E ns s = perform (\<lambda>h. re_create_secret E h ns s) (CreateSecret ns s)"

definition delete_secret :: "rel_env \<Rightarrow> string \<Rightarrow> string \<Rightarrow> unit rel_eff" where
  "delete_secret E ns n = perform (\<lambda>h. re_delete_secret E h ns n) (DeleteSecret ns n)"

definition create_deployment :: "rel_env \<Rightarrow> string \<Rightarrow> deployment \<Rightarrow> deployment rel_eff" where
  "create_deployment E ns d = perform (\<lambda>h. re_create_deployment E h ns d) (CreateDeployment ns d)"

definition update_deployment :: "rel_env \<Rightarrow> string \<Rightarrow> deployment \<Rightarrow> unit rel_eff" where
  "update_deployment E ns d = perform (\<lambda>h. re_update_deployment E h ns d) (UpdateDeployment ns d)"

definition delete_deployment :: "rel_env \<Rightarrow> string \<Rightarrow> string \<Rightarrow> unit rel_eff" where
  "delete_deployment E ns n = perform (\<lambda>h. re_delete_deployment E h ns n) (DeleteDeployment ns n)"

definition record_event :: "string \<Rightarrow> string \<Rightarrow> unit rel_eff" where
  "record_event severity reason = notify (RecordEvent severity reason)"

definition read_clock :: "rel_env \<Rightarrow> instant rel_eff" where
  "read_clock E = observe (re_clock E) ReadClock"

definition random_suffix :: "rel_env \<Rightarrow> string rel_eff" where
  "random_suffix E = observe (re_suffix E) RandomSuffix"

lemmas rel_call_defs = get_release_def list_revisions_def delete_revision_def create_revision_def
  update_release_def update_release_status_def get_secret_def get_service_account_def
  cached_secrets_def cached_deployments_def list_secrets_def list_deployments_def
  create_secret_def delete_secret_def create_deployment_def update_deployment_def
  delete_deployment_def record_event_def read_clock_def random_suffix_def

text \<open>The writes to the release object itself, and all writes.\<close>

fun is_release_write :: "rel_call \<Rightarrow> bool" where
  "is_release_write (UpdateRelease _ _ _) = True"
| "is_release_write (UpdateReleaseStatus _ _ _) = True"
| "is_release_write _ = False"

fun is_creation :: "rel_call \<Rightarrow> bool" where
  "is_creation (CreateRevision _ _ _) = True"
| "is_creation (CreateSecret _ _ _) = True"
| "is_creation (CreateDeployment _ _ _) = True"
| "is_creation (UpdateDeployment _ _ _) = True"
| "is_creation _ = False"

fun is_deletion :: "rel_call \<Rightarrow> bool" where
  "is_deletion (DeleteRevision _ _ _) = True"
| "is_deletion (DeleteSecret _ _ _) = True"
| "is_deletion (DeleteDeployment _ _ _) = True"
| "is_deletion _ = False"

section \<open>Comparison of releases\<close>

definition deep_eq_deployer :: "release_deployer \<Rightarrow> release_deployer \<Rightarrow> bool" where
  "deep_eq_deployer a b \<longleftrightarrow>
     gm_eq (rd_parameters a) (rd_parameters b) \<and> a\<lparr>rd_parameters := []\<rparr> = b\<lparr>rd_parameters := []\<rparr>"

definition deep_eq_release :: "release \<Rightarrow> release \<Rightarrow> bool" where
  "deep_eq_release a b \<longleftrightarrow>
     deep_eq_meta (rl_meta a) (rl_meta b) \<and>
     deep_eq_deployer (rs_deployer (rl_spec a)) (rs_deployer (rl_spec b)) \<and>
     (rl_spec a)\<lparr>rs_deployer := empty_deployer\<rparr> = (rl_spec b)\<lparr>rs_deployer := empty_deployer\<rparr> \<and>
     rl_status a = rl_status b"

lemma deep_eq_release_refl [simp]: "deep_eq_release r r"
  by (simp add: deep_eq_release_def deep_eq_deployer_def)

lemma deep_eq_release_status [simp]:
  "deep_eq_release r (r\<lparr>rl_status := st\<rparr>) \<longleftrightarrow> rl_status r = st"
  by (auto simp: deep_eq_release_def deep_eq_deployer_def)

text \<open>
  \<open>if !DeepEqual(release, copy) { UpdateStatus(copy); return }\<close>, the way every stage of the
  handler stores what it has changed: a successful write ends the handler, which is triggered
  again by its own update.
\<close>

definition store_status :: "rel_env \<Rightarrow> string \<Rightarrow> string \<Rightarrow> release \<Rightarrow> release \<Rightarrow> release flow rel_eff"
where
  "store_status E ns msg r copy =
     (if deep_eq_release r copy then eff_ret (Go copy)
      else eff_bind (eff_wrap msg (update_release_status E ns copy)) (\<lambda>_. eff_ret Done))"

section \<open>Releases and their objects\<close>

text \<open>
  The second look at the labels, which every loop over listed objects takes, and the choice of
  the object with the latest creation time (of several equally old ones the first).
\<close>

definition owned_by :: "string \<Rightarrow> string \<Rightarrow> object_meta \<Rightarrow> bool" where
  "owned_by ns n m \<longleftrightarrow>
     map_of (om_labels m) label_release_namespace = Some ns \<and>
     map_of (om_labels m) label_release_name = Some n"

fun latest_owned :: "('o \<Rightarrow> object_meta) \<Rightarrow> string \<Rightarrow> string \<Rightarrow> 'o option \<Rightarrow> 'o list \<Rightarrow> 'o option" where
  "latest_owned meta ns n best [] = best"
| "latest_owned meta ns n best (x # xs) =
     (if owned_by ns n (meta x)
      then (case best of
              None \<Rightarrow> latest_owned meta ns n (Some x) xs
            | Some b \<Rightarrow> if om_creation (meta b) < om_creation (meta x)
                        then latest_owned meta ns n (Some x) xs
                        else latest_owned meta ns n best xs)
      else latest_owned meta ns n best xs)"

lemma latest_owned_in:
  "latest_owned meta ns n best xs = Some y \<Longrightarrow> best = Some y \<or> y \<in> set xs \<and> owned_by ns n (meta y)"
  by (induction meta ns n best xs rule: latest_owned.induct) (auto split: if_splits option.splits)

lemma latest_owned_None:
  "latest_owned meta ns n best xs = None \<longleftrightarrow>
     best = None \<and> (\<forall>x\<in>set xs. \<not> owned_by ns n (meta x))"
  by (induction meta ns n best xs rule: latest_owned.induct) (auto split: option.splits)

lemma latest_owned_best:
  "latest_owned meta ns n best xs = Some y \<Longrightarrow>
     (\<forall>b. best = Some b \<longrightarrow> om_creation (meta b) \<le> om_creation (meta y)) \<and>
     (\<forall>x\<in>set xs. owned_by ns n (meta x) \<longrightarrow> om_creation (meta x) \<le> om_creation (meta y))"
proof (induction meta ns n best xs rule: latest_owned.induct)
  case (2 meta ns n best x xs)
  show ?case
  proof (cases "owned_by ns n (meta x)")
    case True
    show ?thesis
    proof (cases best)
      case None
      with 2 True show ?thesis by auto
    next
      case (Some b)
      with 2 True show ?thesis
        by (cases "om_creation (meta b) < om_creation (meta x)") force+
    qed
  qed (use 2 in auto)
qed simp

end
