(* ===== verification/ReleaseCleanup.thy ===== *)
theory ReleaseCleanup
  imports ReleaseCalls
begin

text \<open>
  Deleting what belongs to a release (pkg/controller/release/controller.go): \<open>cleanupNamespace\<close>,
  \<open>deleteResourcesFor\<close>, which takes the finalizer away, and the two helpers \<open>buildKubeConfig\<close> and
  \<open>snapshot\<close>. The locale \<open>resource_cleanup\<close> is the contract of one kind of resource; it is
  interpreted for deployments and for secrets.
\<close>

section \<open>Definitions\<close>

definition delete_owned ::
  "('o \<Rightarrow> object_meta) \<Rightarrow> string \<Rightarrow> string \<Rightarrow> (string \<Rightarrow> unit rel_eff) \<Rightarrow> 'o list \<Rightarrow> unit rel_eff" where
  "delete_owned meta ns n del xs =
     eff_each (\<lambda>x. if owned_by ns n (meta x) then del (om_name (meta x)) else eff_ret ()) xs"

definition cleanup_deployments :: "rel_env \<Rightarrow> string \<Rightarrow> string \<Rightarrow> string \<Rightarrow> unit rel_eff" where
  "cleanup_deployments E podns ns n =
     eff_bind (eff_wrap ''failed to list deployments'' (list_deployments E podns ns n))
       (delete_owned dp_meta ns n
         (\<lambda>d. eff_wrap ''failed to delete deployment'' (delete_deployment E podns d)))"

definition cleanup_secrets :: "rel_env \<Rightarrow> string \<Rightarrow> string \<Rightarrow> string \<Rightarrow> unit rel_eff" where
  "cleanup_secrets E podns ns n =
     eff_bind (eff_wrap ''failed to list secrets'' (list_secrets E podns ns n))
       (delete_owned sc_meta ns n
         (\<lambda>s. eff_wrap ''failed to delete secret'' (delete_secret E podns s)))"

definition cleanup_namespace :: "rel_env \<Rightarrow> string \<Rightarrow> release \<Rightarrow> unit rel_eff" where
  "cleanup_namespace E podns r =
     eff_bind (cleanup_deployments E podns (rl_namespace r) (rl_name r))
       (\<lambda>_. cleanup_secrets E podns (rl_namespace r) (rl_name r))"

definition without_finalizer :: "release \<Rightarrow> release" where
  "without_finalizer r =
     r\<lparr>rl_meta := (rl_meta r)
       \<lparr>om_finalizers := filter (\<lambda>f. f \<noteq> finalizer_released) (om_finalizers (rl_meta r))\<rparr>\<rparr>"

definition delete_resources_for :: "rel_env \<Rightarrow> release \<Rightarrow> unit rel_eff" where
  "delete_resources_for E r =
     eff_bind
       (case rst_deployer_status (rl_status r) of
          None \<Rightarrow> eff_ret ()
        | Some ds \<Rightarrow> if ds_namespace ds \<noteq> []
                    then eff_wrap ''failed to cleanup namespace'' (cleanup_namespace E (ds_namespace ds) r)
                    else eff_ret ())
       (\<lambda>_. if deep_eq_release r (without_finalizer r) then eff_ret ()
            else eff_wrap ''failed to remove released finalizer''
                   (update_release E (rl_namespace r) (without_finalizer r)))"

text \<open>
  \<open>buildKubeConfig\<close> takes the first secret of the service account that is a token secret; secrets
  that are gone or of another type are skipped.
\<close>

definition service_account_token :: string where
  "service_account_token = ''kubernetes.io/service-account-token''"

definition token_kubeconfig :: "rel_config \<Rightarrow> string \<Rightarrow> string \<Rightarrow> kubeconfig" where
  "token_kubeconfig cf ns token =
     \<lparr>kc_server = cf_server_address cf, kc_insecure_skip_tls = True, kc_token = token, kc_namespace = ns\<rparr>"

fun kubeconfig_from :: "rel_env \<Rightarrow> rel_config \<Rightarrow> string \<Rightarrow> string list \<Rightarrow> string rel_eff" where
  "kubeconfig_from E cf ns [] = eff_fail (Errorf ''no service account token found'')"
| "kubeconfig_from E cf ns (n # names) =
     eff_bind (eff_try (get_secret E ns n)) (\<lambda>answer. case answer of
         Inl e \<Rightarrow> if e = NotFound then kubeconfig_from E cf ns names
                  else eff_fail (Errorf ''failed to get secret'')
       | Inr s \<Rightarrow>
           if sc_type s \<noteq> service_account_token then kubeconfig_from E cf ns names
           else (case map_of (data_of (sc_data s)) ''token'' of
                   None \<Rightarrow> eff_fail (Errorf ''token not populated in secret'')
                 | Some token \<Rightarrow>
                     eff_wrap ''failed to write kubeconfig from secret''
                       (eff_of_res (lift_res (re_write_kubeconfig E (token_kubeconfig cf ns token))))))"

definition build_kube_config :: "rel_env \<Rightarrow> rel_config \<Rightarrow> string \<Rightarrow> string \<Rightarrow> string rel_eff" where
  "build_kube_config E cf ns sa =
     eff_bind (eff_wrap ''failed to retrieve serviceaccount'' (get_service_account E ns sa))
       (kubeconfig_from E cf ns)"

definition snapshot :: "rel_env \<Rightarrow> release \<Rightarrow> string res" where
  "snapshot E r =
     wrap_res ''failed to marshal'' (lift_res (re_marshal E (r\<lparr>rl_meta := empty_meta, rl_status := empty_status\<rparr>)))"

section \<open>One kind of resource\<close>

locale resource_cleanup =
  fixes meta :: "'o \<Rightarrow> object_meta"
    and list_call :: "'o list rel_eff"
    and delete_call :: "string \<Rightarrow> unit rel_eff"
    and listing :: "go_error + 'o list \<Rightarrow> rel_call"
    and deletion :: "string \<Rightarrow> go_error + unit \<Rightarrow> rel_call"
  assumes list_call: "holds list_call (\<lambda>t r. \<exists>a. t = [listing a] \<and> (\<forall>xs. r = Ok xs \<longrightarrow> a = Inr xs) \<and>
      (\<forall>xs. a = Inr xs \<longrightarrow> r = Ok xs) \<and> r \<noteq> Panic)"
    and delete_call: "holds (delete_call n) (\<lambda>t r. \<exists>a. t = [deletion n a] \<and> (is_ok r \<longleftrightarrow> a = Inr ()) \<and> r \<noteq> Panic)"
begin

text \<open>The deletions of the owned objects among \<open>xs\<close>, all of them successful.\<close>

definition deleted_all :: "string \<Rightarrow> string \<Rightarrow> 'o list \<Rightarrow> rel_call list" where
  "deleted_all ns n xs = map (\<lambda>x. deletion (om_name (meta x)) (Inr ())) (filter (\<lambda>x. owned_by ns n (meta x)) xs)"

lemma holds_delete_owned:
  "holds (delete_owned meta ns n delete_call xs) (\<lambda>t r.
     (is_ok r \<longrightarrow> t = deleted_all ns n xs) \<and> r \<noteq> Panic \<and>
     (\<forall>c\<in>set t. \<exists>x\<in>set xs. owned_by ns n (meta x) \<and> (\<exists>a. c = deletion (om_name (meta x)) a)))"
proof -
  let ?P = "\<lambda>x t r. if owned_by ns n (meta x)
     then \<exists>a. t = [deletion (om_name (meta x)) a] \<and> (is_ok r \<longleftrightarrow> a = Inr ()) \<and> r \<noteq> Panic
     else t = [] \<and> r = Ok ()"
  have step: "holds (if owned_by ns n (meta x) then delete_call (om_name (meta x)) else eff_ret ()) (?P x)" for x
    using delete_call [of "om_name (meta x)"] by (auto intro: holds_ret)
  show ?thesis
    unfolding delete_owned_def
    by (rule holds_each [where P = ?P, OF step])
      (auto simp: deleted_all_def is_ok_iff split: if_splits)
qed

lemma holds_cleanup:
  "holds (eff_bind (eff_wrap m1 list_call) (delete_owned meta ns n (\<lambda>d. eff_wrap m2 (delete_call d))))
     (\<lambda>t r. r \<noteq> Panic \<and> (\<exists>a t'. t = listing a # t' \<and>
        (is_ok r \<longrightarrow> (\<exists>xs. a = Inr xs \<and> t' = deleted_all ns n xs)) \<and>
        (\<forall>c\<in>set t'. \<exists>xs x b. a = Inr xs \<and> x \<in> set xs \<and> owned_by ns n (meta x) \<and>
            c = deletion (om_name (meta x)) b)))"
proof -
  have wrapped: "resource_cleanup list_call (\<lambda>d. eff_wrap m2 (delete_call d)) listing deletion"
  proof
    show "holds list_call (\<lambda>t r. \<exists>a. t = [listing a] \<and> (\<forall>xs. r = Ok xs \<longrightarrow> a = Inr xs) \<and>
      (\<forall>xs. a = Inr xs \<longrightarrow> r = Ok xs) \<and> r \<noteq> Panic)" by (rule list_call)
    show "holds (eff_wrap m2 (delete_call n)) (\<lambda>t r. \<exists>a. t = [deletion n a] \<and> (is_ok r \<longleftrightarrow> a = Inr ()) \<and> r \<noteq> Panic)" for n
      by (rule holds_wrap, rule holds_mono [OF delete_call [of n]]) (auto simp: is_ok_iff)
  qed
  let ?Q = "\<lambda>t r. r \<noteq> Panic \<and> (\<exists>a t'. t = listing a # t' \<and>
        (is_ok r \<longrightarrow> (\<exists>xs. a = Inr xs \<and> t' = deleted_all ns n xs)) \<and>
        (\<forall>c\<in>set t'. \<exists>xs x b. a = Inr xs \<and> x \<in> set xs \<and> owned_by ns n (meta x) \<and>
            c = deletion (om_name (meta x)) b))"
  have go: "holds (delete_owned meta ns n (\<lambda>d. eff_wrap m2 (delete_call d)) xs) (\<lambda>t' r'. ?Q ([listing (Inr xs)] @ t') r')"
    for xs
    by (rule holds_mono [OF resource_cleanup.holds_delete_owned [OF wrapped, of _ ns n xs]],
        rule conjI, blast, rule exI [where x = "Inr xs"], rule exI)
      (force simp: is_ok_iff)
  show ?thesis
  proof (rule holds_bind, rule holds_wrap, rule holds_mono [OF list_call])
    fix t and r :: "'o list res"
    assume "\<exists>a. t = [listing a] \<and> (\<forall>xs. r = Ok xs \<longrightarrow> a = Inr xs) \<and> (\<forall>xs. a = Inr xs \<longrightarrow> r = Ok xs) \<and> r \<noteq> Panic"
    then obtain a where a: "t = [listing a]" "\<forall>xs. r = Ok xs \<longrightarrow> a = Inr xs" "r \<noteq> Panic" by blast
    show "case wrap_res m1 r of
        Ok xs \<Rightarrow> holds (delete_owned meta ns n (\<lambda>d. eff_wrap m2 (delete_call d)) xs) (\<lambda>t' r'. ?Q (t @ t') r')
      | Err e \<Rightarrow> ?Q t (Err e) | Panic \<Rightarrow> ?Q t Panic"
      using a go by (cases r) (simp_all, blast)
  qed
qed

end

interpretation deployments: resource_cleanup dp_meta "list_deployments E podns ns n" "delete_deployment E podns"
  "ListDeployments podns ns n" "DeleteDeployment podns" for E podns ns n
  by unfold_locales (auto simp: rel_call_defs is_ok_iff split: sum.splits intro!: holds_perform)

interpretation secrets: resource_cleanup sc_meta "list_secrets E podns ns n" "delete_secret E podns"
  "ListSecrets podns ns n" "DeleteSecret podns" for E podns ns n
  by unfold_locales (auto simp: rel_call_defs is_ok_iff split: sum.splits intro!: holds_perform)

section \<open>The finalizer\<close>

text \<open>What a successful cleanup of a namespace has done.\<close>

definition cleaned_up :: "string \<Rightarrow> release \<Rightarrow> rel_call list \<Rightarrow> bool" where
  "cleaned_up podns r t \<longleftrightarrow>
     (\<exists>ds ss. ListDeployments podns (rl_namespace r) (rl_name r) (Inr ds) \<in> set t \<and>
        (\<forall>d\<in>set ds. owned_by (rl_namespace r) (rl_name r) (dp_meta d) \<longrightarrow>
           DeleteDeployment podns (dp_name d) (Inr ()) \<in> set t) \<and>
        ListSecrets podns (rl_namespace r) (rl_name r) (Inr ss) \<in> set t \<and>
        (\<forall>s\<in>set ss. owned_by (rl_namespace r) (rl_name r) (sc_meta s) \<longrightarrow>
           DeleteSecret podns (sc_name s) (Inr ()) \<in> set t))"

fun listed_owned :: "string \<Rightarrow> release \<Rightarrow> rel_call list \<Rightarrow> rel_call \<Rightarrow> bool" where
  "listed_owned podns r t (DeleteDeployment ns n _) \<longleftrightarrow> ns = podns \<and>
     (\<exists>ds d. ListDeployments podns (rl_namespace r) (rl_name r) (Inr ds) \<in> set t \<and> d \<in> set ds \<and>
        owned_by (rl_namespace r) (rl_name r) (dp_meta d) \<and> dp_name d = n)"
| "listed_owned podns r t (DeleteSecret ns n _) \<longleftrightarrow> ns = podns \<and>
     (\<exists>ss s. ListSecrets podns (rl_namespace r) (rl_name r) (Inr ss) \<in> set t \<and> s \<in> set ss \<and>
        owned_by (rl_namespace r) (rl_name r) (sc_meta s) \<and> sc_name s = n)"
| "listed_owned podns r t (ListDeployments _ _ _ _) = True"
| "listed_owned podns r t (ListSecrets _ _ _ _) = True"
| "listed_owned podns r t _ = False"

lemma listed_owned_mono:
  "listed_owned podns r t c \<Longrightarrow> set t \<subseteq> set t' \<Longrightarrow> listed_owned podns r t' c"
  by (cases c) auto

lemma holds_cleanup_deployments:
  "holds (cleanup_deployments E podns (rl_namespace r) (rl_name r)) (\<lambda>t res. res \<noteq> Panic \<and>
     (is_ok res \<longrightarrow> (\<exists>ds. ListDeployments podns (rl_namespace r) (rl_name r) (Inr ds) \<in> set t \<and>
        (\<forall>d\<in>set ds. owned_by (rl_namespace r) (rl_name r) (dp_meta d) \<longrightarrow>
           DeleteDeployment podns (dp_name d) (Inr ()) \<in> set t))) \<and>
     (\<forall>c\<in>set t. listed_owned podns r t c))"
  unfolding cleanup_deployments_def
  by (rule holds_mono [OF deployments.holds_cleanup]) (fastforce simp: deployments.deleted_all_def)

lemma holds_cleanup_secrets:
  "holds (cleanup_secrets E podns (rl_namespace r) (rl_name r)) (\<lambda>t res. res \<noteq> Panic \<and>
     (is_ok res \<longrightarrow> (\<exists>ss. ListSecrets podns (rl_namespace r) (rl_name r) (Inr ss) \<in> set t \<and>
        (\<forall>s\<in>set ss. owned_by (rl_namespace r) (rl_name r) (sc_meta s) \<longrightarrow>
           DeleteSecret podns (sc_name s) (Inr ()) \<in> set t))) \<and>
     (\<forall>c\<in>set t. listed_owned podns r t c))"
  unfolding cleanup_secrets_def
  by (rule holds_mono [OF secrets.holds_cleanup]) (fastforce simp: secrets.deleted_all_def)

lemma holds_cleanup_namespace:
  "holds (cleanup_namespace E podns r) (\<lambda>t res. res \<noteq> Panic \<and> (is_ok res \<longrightarrow> cleaned_up podns r t) \<and>
     (\<forall>c\<in>set t. listed_owned podns r t c))"
  unfolding cleanup_namespace_def
proof (rule holds_bind, rule holds_mono [OF holds_cleanup_deployments], goal_cases)
  case (1 t res)
  show ?case
  proof (cases res)
    case (Ok u)
    with 1 obtain ds where ds: "ListDeployments podns (rl_namespace r) (rl_name r) (Inr ds) \<in> set t"
      "\<forall>d\<in>set ds. owned_by (rl_namespace r) (rl_name r) (dp_meta d) \<longrightarrow>
           DeleteDeployment podns (dp_name d) (Inr ()) \<in> set t" by auto
    have "holds (cleanup_secrets E podns (rl_namespace r) (rl_name r))
        (\<lambda>t' res'. res' \<noteq> Panic \<and> (is_ok res' \<longrightarrow> cleaned_up podns r (t @ t')) \<and>
           (\<forall>c\<in>set (t @ t'). listed_owned podns r (t @ t') c))"
    proof (rule holds_mono [OF holds_cleanup_secrets], intro conjI impI ballI, goal_cases)
      case (2 t' res')
      then show ?case using ds unfolding cleaned_up_def by (intro exI [of _ ds]) fastforce
    next
      case (3 t' res' c)
      then show ?case using 1 by (auto intro: listed_owned_mono)
    qed simp
    with Ok show ?thesis by simp
  qed (use 1 in auto)
qed

text \<open>
  C6. The finalizer is taken off a release only after its worker namespace has been cleaned: both
  listings succeeded and every listed deployment and secret that carries both labels of the release
  has been deleted successfully; nothing else about the release is changed by that update.
\<close>

theorem finalizer_removed_after_cleanup:
  assumes "delete_resources_for E r [] = (res, t)" and "UpdateRelease ns c answer \<in> set t"
    and "rst_deployer_status (rl_status r) = Some ds" and "ds_namespace ds \<noteq> []"
  shows "ns = rl_namespace r \<and> c = without_finalizer r \<and> cleaned_up (ds_namespace ds) r t"
proof -
  have "holds (delete_resources_for E r) (\<lambda>t res. \<forall>ns c a. UpdateRelease ns c a \<in> set t \<longrightarrow>
      ns = rl_namespace r \<and> c = without_finalizer r \<and> cleaned_up (ds_namespace ds) r t)"
    unfolding delete_resources_for_def assms(3) option.case if_P [OF assms(4)]
  proof (rule holds_bind, rule holds_wrap, rule holds_mono [OF holds_cleanup_namespace], goal_cases)
    case (1 t res)
    then have no: "UpdateRelease ns c a \<notin> set t" for ns c a
      by (auto dest: bspec [where x = "UpdateRelease ns c a"])
    show ?case
    proof (cases "wrap_res ''failed to cleanup namespace'' res")
      case (Ok u)
      with 1 have "cleaned_up (ds_namespace ds) r t" by (auto simp: is_ok_iff)
      then have "cleaned_up (ds_namespace ds) r (t @ t')" for t'
        unfolding cleaned_up_def by fastforce
      with Ok no show ?thesis
        by (auto simp: rel_call_defs intro!: holds_ret holds_wrap holds_perform)
    qed (use no in auto)
  qed
  from holds_run [OF this assms(1)] assms(2) show ?thesis by blast
qed

text \<open>
  C14. Cleaning up for a release touches nothing else: every object that is deleted on the way was
  listed in the namespace of the worker and carries both labels of the release, whatever the API
  server answers to the listing (an over-long label value makes its selector match everything).
\<close>

theorem cleanup_deletes_only_owned:
  assumes "cleanup_namespace E podns r [] = (res, t)" and "c \<in> set t"
  shows "listed_owned podns r t c"
  using holds_run [OF holds_cleanup_namespace assms(1)] assms(2) by blast

text \<open>An environment whose every call succeeds with an empty answer, for the examples.\<close>

definition quiet_env :: rel_env where
  "quiet_env =
     \<lparr>re_get_release = (\<lambda>h ns n. Inr empty_release), re_list_revisions = (\<lambda>h ns. Inr []),
      re_delete_revision = (\<lambda>h ns n. Inr ()), re_create_revision = (\<lambda>h ns c. Inr ()),
      re_update_release = (\<lambda>h ns r. Inr ()), re_update_status = (\<lambda>h ns r. Inr ()),
      re_get_secret = (\<lambda>h ns n. Inl NotFound), re_get_service_account = (\<lambda>h ns n. Inr []),
      re_cached_secrets = (\<lambda>h ns. Inr []), re_cached_deployments = (\<lambda>h ns. Inr []),
      re_list_secrets = (\<lambda>h ns. Inr []), re_list_deployments = (\<lambda>h ns. Inr []),
      re_create_secret = (\<lambda>h ns s. Inr s), re_delete_secret = (\<lambda>h ns n. Inr ()),
      re_create_deployment = (\<lambda>h ns d. Inr d), re_update_deployment = (\<lambda>h ns d. Inr ()),
      re_delete_deployment = (\<lambda>h ns n. Inr ()), re_clock = (\<lambda>h. 0), re_suffix = (\<lambda>h. ''abcde''),
      re_marshal = (\<lambda>r. Inr []), re_write_kubeconfig = (\<lambda>k. Inr (kc_token k)),
      re_sort_revisions = sort_key (\<lambda>c. - cr_revision c), re_sha256 = id, re_env_spare = 0\<rparr>"

definition owned_deployment :: "string \<Rightarrow> deployment" where
  "owned_deployment n = empty_deployment\<lparr>dp_meta := empty_meta\<lparr>om_name := n,
     om_labels := [(label_release_namespace, ''ns''), (label_release_name, ''rel'')]\<rparr>\<rparr>"

definition owned_env :: rel_env where
  "owned_env = quiet_env\<lparr>re_list_deployments := (\<lambda>h ns. Inr [owned_deployment ''d'', empty_deployment])\<rparr>"

definition doomed_release :: release where
  "doomed_release = empty_release
     \<lparr>rl_meta := empty_meta\<lparr>om_namespace := ''ns'', om_name := ''rel'', om_finalizers := [finalizer_released]\<rparr>,
      rl_status := empty_status\<lparr>rst_deployer_status := Some (empty_deployer_status\<lparr>ds_namespace := ''sys''\<rparr>)\<rparr>\<rparr>"

lemmas effect_defs = eff_bind_def eff_wrap_def eff_ret_def eff_fail_def eff_try_def eff_of_res_def
  eff_stage_def perform_def observe_def notify_def

lemma doomed_run:
  "cleanup_namespace owned_env ''sys'' doomed_release [] =
     (Ok (), [ListDeployments ''sys'' ''ns'' ''rel'' (Inr [owned_deployment ''d'', empty_deployment]),
              DeleteDeployment ''sys'' ''d'' (Inr ()), ListSecrets ''sys'' ''ns'' ''rel'' (Inr [])])"
  by (simp add: cleanup_namespace_def cleanup_deployments_def cleanup_secrets_def delete_owned_def
      effect_defs rel_call_defs owned_env_def quiet_env_def owned_by_def owned_deployment_def
      doomed_release_def empty_release_def empty_meta_def empty_deployment_def)

lemma doomed_release_run:
  "delete_resources_for owned_env doomed_release [] =
     (Ok (), [ListDeployments ''sys'' ''ns'' ''rel'' (Inr [owned_deployment ''d'', empty_deployment]),
              DeleteDeployment ''sys'' ''d'' (Inr ()), ListSecrets ''sys'' ''ns'' ''rel'' (Inr []),
              UpdateRelease ''ns'' (without_finalizer doomed_release) (Inr ())])"
proof -
  have "\<not> deep_eq_release doomed_release (without_finalizer doomed_release)"
    by (simp add: deep_eq_release_def deep_eq_meta_def without_finalizer_def doomed_release_def
        empty_release_def empty_meta_def)
  moreover have "rst_deployer_status (rl_status doomed_release) = Some (empty_deployer_status\<lparr>ds_namespace := ''sys''\<rparr>)"
    "rl_namespace doomed_release = ''ns''" "re_update_release owned_env = (\<lambda>h ns r. Inr ())"
    by (simp_all add: doomed_release_def empty_release_def empty_meta_def owned_env_def quiet_env_def)
  ultimately show ?thesis
    by (simp add: delete_resources_for_def doomed_run effect_defs update_release_def)
qed

theorem finalizer_removed_after_cleanup_witness:
  "cleaned_up ''sys'' doomed_release (snd (delete_resources_for owned_env doomed_release []))"
  using finalizer_removed_after_cleanup [of owned_env doomed_release, OF doomed_release_run, of "''ns''"
      "without_finalizer doomed_release" "Inr ()" "empty_deployer_status\<lparr>ds_namespace := ''sys''\<rparr>"]
  by (simp add: doomed_release_run) (simp add: doomed_release_def empty_release_def)

theorem cleanup_deletes_only_owned_witness:
  "listed_owned ''sys'' doomed_release (snd (cleanup_namespace owned_env ''sys'' doomed_release []))
     (DeleteDeployment ''sys'' ''d'' (Inr ()))"
  using cleanup_deletes_only_owned [OF doomed_run, of "DeleteDeployment ''sys'' ''d'' (Inr ())"]
  by (simp add: doomed_run del: listed_owned.simps)

section \<open>The kubeconfig\<close>

text \<open>
  The kubeconfig of a worker is made from the token of a secret of type service account token,
  which one of the secrets of the service account holds, and points at the configured server and
  the namespace of the release; building one writes nothing.
\<close>

theorem build_kube_config_sound:
  assumes "build_kube_config E cf ns sa [] = (Ok config, t)"
  shows "\<exists>names n s token. GetServiceAccount ns sa (Inr names) \<in> set t \<and> n \<in> set names \<and>
      GetSecret ns n (Inr s) \<in> set t \<and> sc_type s = service_account_token \<and>
      map_of (data_of (sc_data s)) ''token'' = Some token \<and>
      re_write_kubeconfig E (token_kubeconfig cf ns token) = Inr config"
proof -
  have from_names: "holds (kubeconfig_from E cf ns names) (\<lambda>t r. \<forall>config. r = Ok config \<longrightarrow>
      (\<exists>n s token. n \<in> set names \<and> GetSecret ns n (Inr s) \<in> set t \<and> sc_type s = service_account_token \<and>
        map_of (data_of (sc_data s)) ''token'' = Some token \<and>
        re_write_kubeconfig E (token_kubeconfig cf ns token) = Inr config))" (is "holds _ (?Q names)") for names
  proof (induction names)
    case (Cons n names)
    have later: "holds (kubeconfig_from E cf ns names) (\<lambda>t' r'. ?Q (n # names) (c # t') r')" for c
      by (rule holds_mono [OF Cons.IH]) fastforce
    show ?case
      unfolding kubeconfig_from.simps get_secret_def
    proof (rule holds_bind, rule holds_try, rule holds_perform, goal_cases)
      case (1 r)
      show ?case
      proof (cases r)
        case (Inl e)
        with later [of "GetSecret ns n (Inl e)"] show ?thesis by (auto intro!: holds_fail)
      next
        case (Inr s)
        have "holds (eff_wrap m (eff_of_res (lift_res (re_write_kubeconfig E (token_kubeconfig cf ns token)))))
            (\<lambda>t' r'. ?Q (n # names) (GetSecret ns n (Inr s) # t') r')"
          if "sc_type s = service_account_token" "map_of (data_of (sc_data s)) ''token'' = Some token" for token m
          using that by (intro holds_wrap holds_of_res) auto
        with Inr later [of "GetSecret ns n (Inr s)"] show ?thesis
          by (auto simp del: wrap_res.simps split: option.splits intro!: holds_fail)
      qed
    qed
  qed (auto intro: holds_fail)
  have "holds (build_kube_config E cf ns sa) (\<lambda>t r. \<forall>config. r = Ok config \<longrightarrow>
      (\<exists>names n s token. GetServiceAccount ns sa (Inr names) \<in> set t \<and> n \<in> set names \<and>
      GetSecret ns n (Inr s) \<in> set t \<and> sc_type s = service_account_token \<and>
      map_of (data_of (sc_data s)) ''token'' = Some token \<and>
      re_write_kubeconfig E (token_kubeconfig cf ns token) = Inr config))"
    unfolding build_kube_config_def get_service_account_def
    by (rule holds_bind, rule holds_wrap, rule holds_perform)
      (auto split: res.splits intro!: holds_mono [OF from_names])
  from holds_run [OF this assms] show ?thesis by blast
qed

definition token_secret :: secret where
  "token_secret = empty_secret\<lparr>sc_type := service_account_token, sc_data := Some [(''token'', ''t0'')]\<rparr>"

definition token_env :: rel_env where
  "token_env = quiet_env\<lparr>re_get_service_account := (\<lambda>h ns n. Inr [''gone'', ''tok'']),
     re_get_secret := (\<lambda>h ns n. if n = ''tok'' then Inr token_secret else Inl NotFound)\<rparr>"

lemma token_env_run:
  "build_kube_config token_env example_config ''ns'' ''default'' [] =
     (Ok ''t0'', [GetServiceAccount ''ns'' ''default'' (Inr [''gone'', ''tok'']),
                GetSecret ''ns'' ''gone'' (Inl NotFound), GetSecret ''ns'' ''tok'' (Inr token_secret)])"
  by (simp add: build_kube_config_def effect_defs rel_call_defs token_env_def quiet_env_def
      token_secret_def token_kubeconfig_def)

theorem build_kube_config_sound_witness:
  "\<exists>names n s token. GetServiceAccount ''ns'' ''default'' (Inr names) \<in>
        set (snd (build_kube_config token_env example_config ''ns'' ''default'' [])) \<and> n \<in> set names \<and>
      GetSecret ''ns'' n (Inr s) \<in> set (snd (build_kube_config token_env example_config ''ns'' ''default'' [])) \<and>
      sc_type s = service_account_token \<and> map_of (data_of (sc_data s)) ''token'' = Some token \<and>
      re_write_kubeconfig token_env (token_kubeconfig example_config ''ns'' token) = Inr ''t0''"
  using build_kube_config_sound [OF token_env_run] unfolding token_env_run snd_conv .

end
