(* ===== verification/ReleaseSync.thy ===== *)
theory ReleaseSync
  imports ReleaseCleanup
begin

text \<open>
  The release controller's \<open>syncHandler\<close> (pkg/controller/release/controller.go), stage by stage in
  the order of the source, and the event handlers and the work queue around it. Every stage that
  changes something stores it and ends the handler.
\<close>

section \<open>Stages\<close>

text \<open>Where the worker runs: in the system namespace, or in the namespace of the user.\<close>

definition user_namespace_mode :: "rel_config \<Rightarrow> release \<Rightarrow> (string \<times> bool) rel_eff" where
  "user_namespace_mode cf r =
     (case map_of (om_annotations (rl_meta r)) annotation_user_namespace of
        None \<Rightarrow> eff_ret (cf_namespace cf, False)
      | Some v \<Rightarrow>
          if v \<noteq> ''false''
          then if cf_remote cf
               then eff_bind (record_event ''Warning'' ''InvalidRelease'') (\<lambda>_. eff_fail NonRetryable)
               else eff_ret (rl_namespace r, True)
          else eff_ret (cf_namespace cf, False))"

definition check_deployer :: "release \<Rightarrow> unit rel_eff" where
  "check_deployer r =
     (let deployers = (if rd_name (rs_deployer (rl_spec r)) \<noteq> [] then 1 else (0::nat)) in
      if deployers = 0
      then eff_bind (record_event ''Warning'' ''DeployerInvalid'')
             (\<lambda>_. eff_fail (Errorf ''no deployer is specified''))
      else if deployers \<noteq> 1
      then eff_bind (record_event ''Warning'' ''DeployerInvalid'')
             (\<lambda>_. eff_fail (Errorf ''more than one deployer are specified''))
      else eff_ret ())"

definition ensure_finalizer :: "rel_env \<Rightarrow> string \<Rightarrow> release \<Rightarrow> release flow rel_eff" where
  "ensure_finalizer E ns r =
     (if finalizer_released \<notin> set (om_finalizers (rl_meta r))
      then eff_bind (eff_wrap ''failed to add released finalizer''
             (update_release E ns (r\<lparr>rl_meta := (rl_meta r)
                \<lparr>om_finalizers := om_finalizers (rl_meta r) @ [finalizer_released]\<rparr>\<rparr>)))
             (\<lambda>_. eff_ret Done)
      else eff_ret (Go r))"

text \<open>
  The controller revisions: the loop keeps the older ones, keeps one of the current generation
  whose data is the snapshot, and deletes every other controlled one.
\<close>

fun review_revisions ::
  "rel_env \<Rightarrow> string \<Rightarrow> release \<Rightarrow> string \<Rightarrow> controller_revision list \<Rightarrow> bool \<Rightarrow> controller_revision list \<Rightarrow>
   (bool \<times> controller_revision list) rel_eff" where
  "review_revisions E ns r snap [] found kept = eff_ret (found, kept)"
| "review_revisions E ns r snap (c # cs) found kept =
     (if \<not> is_controlled_by (cr_meta c) (rl_meta r) then review_revisions E ns r snap cs found kept
      else if cr_revision c > rl_generation r
      then eff_bind (eff_wrap ''failed to delete invalid controllerrevision'' (delete_revision E ns (cr_name c)))
             (\<lambda>_. review_revisions E ns r snap cs found kept)
      else if cr_revision c < rl_generation r then review_revisions E ns r snap cs found (kept @ [c])
      else if snap = cr_data c \<and> \<not> found then review_revisions E ns r snap cs True (kept @ [c])
      else eff_bind (eff_wrap ''failed to delete outdated controllerrevision'' (delete_revision E ns (cr_name c)))
             (\<lambda>_. review_revisions E ns r snap cs found kept))"

definition new_revision :: "string \<Rightarrow> string \<Rightarrow> release \<Rightarrow> string \<Rightarrow> string \<Rightarrow> controller_revision" where
  "new_revision ns name r snap suffix =
     \<lparr>cr_meta = empty_meta\<lparr>om_name := generate_name (name @ ''-'') suffix, om_namespace := ns,
        om_owner_refs := [new_controller_ref (rl_meta r) ''fleet.crd.tess.io/v1alpha1'' ''Release'']\<rparr>,
      cr_data = snap, cr_revision = rl_generation r\<rparr>"

definition ensure_revision ::
  "rel_env \<Rightarrow> string \<Rightarrow> string \<Rightarrow> release \<Rightarrow> controller_revision list flow rel_eff" where
  "ensure_revision E ns name r =
     eff_bind (eff_wrap ''failed to make snapshot'' (eff_of_res (snapshot E r))) (\<lambda>snap.
     eff_bind (eff_wrap ''failed to list controllerrevisions'' (list_revisions E ns)) (\<lambda>revs.
     eff_bind (review_revisions E ns r snap revs False []) (\<lambda>(found, kept).
       if found then eff_ret (Go kept)
       else eff_bind (random_suffix E) (\<lambda>suffix.
            eff_bind (eff_wrap ''failed to create controllerrevision''
                       (create_revision E ns (new_revision ns name r snap suffix)))
              (\<lambda>_. eff_ret Done)))))"

definition leave_old_namespace :: "rel_env \<Rightarrow> string \<Rightarrow> release \<Rightarrow> unit rel_eff" where
  "leave_old_namespace E podns r =
     (case rst_deployer_status (rl_status r) of
        None \<Rightarrow> eff_ret ()
      | Some ds \<Rightarrow> if ds_namespace ds \<noteq> podns
                  then eff_wrap ''failed to cleanup release'' (cleanup_namespace E (ds_namespace ds) r)
                  else eff_ret ())"

abbreviation map_deployer_status :: "(deployer_status \<Rightarrow> deployer_status) \<Rightarrow> release \<Rightarrow> release" where
  "map_deployer_status f r \<equiv>
     r\<lparr>rl_status := (rl_status r)\<lparr>rst_deployer_status := map_option f (rst_deployer_status (rl_status r))\<rparr>\<rparr>"

definition with_deployer_status :: "rel_config \<Rightarrow> string \<Rightarrow> release \<Rightarrow> release" where
  "with_deployer_status cf podns r =
     (let ds = (case rst_deployer_status (rl_status r) of
            None \<Rightarrow> empty_deployer_status\<lparr>ds_phase := DeployerPhasePending\<rparr> | Some ds \<Rightarrow> ds)
      in r\<lparr>rl_status := (rl_status r)\<lparr>rst_deployer_status :=
             Some (ds\<lparr>ds_cluster := cf_cluster cf, ds_namespace := podns\<rparr>)\<rparr>\<rparr>)"

text \<open>The phase; the clock is read only for the marker condition.\<close>

definition sync_phase :: "rel_env \<Rightarrow> string \<Rightarrow> release \<Rightarrow> release \<Rightarrow> release flow rel_eff" where
  "sync_phase E ns r copy =
     eff_bind (if release_phase_of r = ReleaseRunning \<and> rst_phase (rl_status copy) \<noteq> ReleaseRunning
               then read_clock E else eff_ret 0) (\<lambda>now.
       store_status E ns ''failed to update phase'' r (set_phase r copy now))"

text \<open>The referenced secret, and whether it is a managed one.\<close>

definition reference_secret :: "rel_env \<Rightarrow> string \<Rightarrow> release \<Rightarrow> bool \<Rightarrow> (secret \<times> bool) rel_eff" where
  "reference_secret E ns r userns =
     (case rs_secret_ref (rl_spec r) of
        None \<Rightarrow> eff_ret (empty_secret\<lparr>sc_data := Some []\<rparr>, False)
      | Some n \<Rightarrow>
          eff_bind (eff_try (get_secret E ns n)) (\<lambda>answer. case answer of
              Inl _ \<Rightarrow> eff_bind (record_event ''Warning'' ''FailedSecretRef'')
                         (\<lambda>_. eff_fail (Errorf ''failed to retrieve secret ref''))
            | Inr s \<Rightarrow>
                if is_managed s \<and> \<not> userns
                then eff_bind (record_event ''Warning'' ''FailedSecretRef'')
                       (\<lambda>_. eff_fail (Errorf ''managed secret can only be used in user namespace mode''))
                else eff_ret (s, is_managed s)))"

text \<open>Writing to the data map of a secret, which panics when the map is nil.\<close>

definition put_data :: "string \<Rightarrow> string \<Rightarrow> secret \<Rightarrow> secret res" where
  "put_data k v s = (case sc_data s of None \<Rightarrow> Panic | Some d \<Rightarrow> Ok (s\<lparr>sc_data := Some (gm_set k v d)\<rparr>))"

fun inject_tokens :: "string \<Rightarrow> string gomap \<Rightarrow> secret \<Rightarrow> secret res" where
  "inject_tokens repo [] s = Ok s"
| "inject_tokens repo ((host, token) # ts) s =
     (if has_prefix repo (''https://'' @ host) \<and> token \<noteq> []
      then bind_res (put_data key_token token s) (inject_tokens repo ts)
      else inject_tokens repo ts s)"

definition inject_credentials :: "rel_config \<Rightarrow> release \<Rightarrow> bool \<Rightarrow> secret \<Rightarrow> secret res" where
  "inject_credentials cf r userns s =
     (if userns then Ok s
      else bind_res
        (if gm_has (data_of (sc_data s)) key_token then Ok s
         else inject_tokens (rs_repository (rl_spec r)) (cf_tokens cf) s)
        (\<lambda>s. if \<not> gm_has (data_of (sc_data s)) key_gpg_key \<and> cf_gpg_key cf \<noteq> []
             then put_data key_gpg_key (cf_gpg_key cf) s else Ok s))"

definition service_account_of :: "release \<Rightarrow> string" where
  "service_account_of r =
     (if rs_service_account_name (rl_spec r) = [] then ''default'' else rs_service_account_name (rl_spec r))"

definition inject_kubeconfig ::
  "rel_env \<Rightarrow> rel_config \<Rightarrow> string \<Rightarrow> release \<Rightarrow> bool \<Rightarrow> secret \<Rightarrow> secret rel_eff" where
  "inject_kubeconfig E cf ns r managed s =
     (if managed then eff_ret s
      else eff_bind (eff_try (build_kube_config E cf ns (service_account_of r))) (\<lambda>answer. case answer of
          Inl _ \<Rightarrow> eff_bind (record_event ''Warning'' ''FailedKubeconfig'')
                     (\<lambda>_. eff_fail (Errorf ''failed to build kubeconfig''))
        | Inr config \<Rightarrow> eff_of_res (put_data key_kubeconfig config s)))"

text \<open>The worker secret: the latest one in the cache, or a new one when it is missing or outdated.\<close>

definition make_secret :: "rel_env \<Rightarrow> release \<Rightarrow> secret option \<Rightarrow> secret \<Rightarrow> string \<Rightarrow> secret rel_eff" where
  "make_secret E r base ref_secret podns =
     eff_bind (random_suffix E) (\<lambda>suffix. eff_of_res (new_secret r base ref_secret podns suffix))"

definition replace_secret :: "rel_env \<Rightarrow> release \<Rightarrow> secret \<Rightarrow> string \<Rightarrow> unit rel_eff" where
  "replace_secret E r ref_secret podns =
     eff_bind (make_secret E r None ref_secret podns) (\<lambda>s.
     eff_bind (eff_try (create_secret E podns s)) (\<lambda>answer. case answer of
         Inl _ \<Rightarrow> eff_bind (record_event ''Warning'' ''CreateFailed'')
                    (\<lambda>_. eff_fail (Errorf ''failed to create secret''))
       | Inr _ \<Rightarrow> record_event ''Normal'' ''Created''))"

definition ensure_secret ::
  "rel_env \<Rightarrow> string \<Rightarrow> string \<Rightarrow> string \<Rightarrow> release \<Rightarrow> release \<Rightarrow> secret \<Rightarrow>
   (release \<times> secret \<times> secret list) flow rel_eff" where
  "ensure_secret E ns name podns r copy ref_secret =
     eff_bind (eff_wrap ''failed to list secrets'' (cached_secrets E podns ns name)) (\<lambda>secrets.
     let current = latest_owned sc_meta ns name None secrets in
     eff_bind (make_secret E r current ref_secret podns) (\<lambda>wanted.
       case current of
         None \<Rightarrow> eff_bind (replace_secret E r ref_secret podns) (\<lambda>_. eff_ret Done)
       | Some s \<Rightarrow>
           if \<not> deep_eq_secret wanted s
           then eff_bind (replace_secret E r ref_secret podns) (\<lambda>_. eff_ret Done)
           else eff_bind
             (store_status E ns ''failed to update secret info'' r
                (map_deployer_status (\<lambda>ds. ds\<lparr>ds_secret_name := sc_name s\<rparr>) copy))
             (\<lambda>f. case f of Done \<Rightarrow> eff_ret Done | Go copy' \<Rightarrow> eff_ret (Go (copy', s, secrets)))))"

definition make_deployment ::
  "rel_env \<Rightarrow> rel_config \<Rightarrow> release \<Rightarrow> secret \<Rightarrow> deployment option \<Rightarrow> bool \<Rightarrow> bool \<Rightarrow> string \<Rightarrow> deployment rel_eff"
where
  "make_deployment E cf r s base managed userns podns =
     eff_bind (random_suffix E) (\<lambda>suffix.
       eff_ret (new_deployment (re_sha256 E) cf (re_env_spare E) r s base managed userns
         (service_account_of r) podns suffix))"

definition ensure_deployment ::
  "rel_env \<Rightarrow> rel_config \<Rightarrow> string \<Rightarrow> string \<Rightarrow> string \<Rightarrow> release \<Rightarrow> secret \<Rightarrow> bool \<Rightarrow> bool \<Rightarrow>
   deployment flow rel_eff" where
  "ensure_deployment E cf ns name podns r s managed userns =
     eff_bind (eff_wrap ''failed to list deployments'' (cached_deployments E podns ns name)) (\<lambda>ds.
       case latest_owned dp_meta ns name None ds of
         None \<Rightarrow>
           eff_bind (make_deployment E cf r s None managed userns podns) (\<lambda>d.
           eff_bind (eff_try (create_deployment E podns d)) (\<lambda>answer. case answer of
               Inl _ \<Rightarrow> eff_bind (record_event ''Warning'' ''CreateFailed'')
                          (\<lambda>_. eff_fail (Errorf ''failed to create deployment''))
             | Inr _ \<Rightarrow> eff_bind (record_event ''Normal'' ''Created'') (\<lambda>_. eff_ret Done)))
       | Some d \<Rightarrow>
           eff_bind (make_deployment E cf r s (Some d) managed userns podns) (\<lambda>wanted.
             if \<not> deep_eq_deployment_spec (dp_spec wanted) (dp_spec d)
             then eff_bind (eff_try (update_deployment E podns wanted)) (\<lambda>answer. case answer of
                 Inl _ \<Rightarrow> eff_bind (record_event ''Warning'' ''UpdateFailed'')
                            (\<lambda>_. eff_fail (Errorf ''failed to update deployment''))
               | Inr _ \<Rightarrow> eff_bind (record_event ''Normal'' ''Updated'') (\<lambda>_. eff_ret Done))
             else eff_ret (Go d)))"

definition with_observed :: "release \<Rightarrow> deployment \<Rightarrow> deployer_phase \<Rightarrow> release \<Rightarrow> release" where
  "with_observed r d phase copy =
     (let c = map_deployer_status (\<lambda>ds. ds\<lparr>ds_deployment_name := dp_name d, ds_phase := phase\<rparr>) copy
      in c\<lparr>rl_status := (rl_status c)\<lparr>rst_observed_generation := rl_generation r\<rparr>\<rparr>)"

definition sync_observed ::
  "rel_env \<Rightarrow> string \<Rightarrow> release \<Rightarrow> deployment \<Rightarrow> release \<Rightarrow> (release \<times> deployer_phase) flow rel_eff" where
  "sync_observed E ns r d copy =
     eff_bind (eff_of_res (deployer_phase_of d)) (\<lambda>phase.
     eff_bind (store_status E ns ''failed to update deployer phase'' r (with_observed r d phase copy))
       (\<lambda>f. case f of Done \<Rightarrow> eff_ret Done | Go copy' \<Rightarrow> eff_ret (Go (copy', phase))))"

text \<open>The first listed secret that is not the current one is deleted.\<close>

definition drop_unused_secret :: "rel_env \<Rightarrow> string \<Rightarrow> secret \<Rightarrow> secret list \<Rightarrow> unit flow rel_eff" where
  "drop_unused_secret E podns current secrets =
     (case find (\<lambda>s. sc_name s \<noteq> sc_name current) secrets of
        None \<Rightarrow> eff_ret (Go ())
      | Some s \<Rightarrow> eff_bind (eff_wrap ''failed to delete unused secret'' (delete_secret E podns (sc_name s)))
                    (\<lambda>_. eff_ret Done))"

definition ready_changes :: "deployer_phase \<Rightarrow> release_condition \<Rightarrow> bool" where
  "ready_changes phase c \<longleftrightarrow> rc_type c = DeployerReady \<and>
     (phase = DeployerPhaseRunning \<and> rc_status c = ConditionFalse \<or>
      phase \<noteq> DeployerPhaseRunning \<and> rc_status c = ConditionTrue)"

definition sync_conditions ::
  "rel_env \<Rightarrow> string \<Rightarrow> release \<Rightarrow> deployment \<Rightarrow> deployer_phase \<Rightarrow> release \<Rightarrow> unit rel_eff" where
  "sync_conditions E ns r d phase copy =
     eff_bind (if list_ex (ready_changes phase) (prune_conditions (rl_conditions copy))
               then read_clock E else eff_ret 0) (\<lambda>now.
       let copy' = copy\<lparr>rl_status := (rl_status copy)
              \<lparr>rst_conditions := new_conditions phase d now (rl_conditions copy)\<rparr>\<rparr>
       in if deep_eq_release r copy' then eff_ret ()
          else eff_wrap ''failed to prune conditions'' (update_release_status E ns copy'))"

definition default_history_limit :: int where "default_history_limit = 10"

definition history_limit :: "release \<Rightarrow> int" where
  "history_limit r =
     (case rs_revision_history_limit (rl_spec r) of None \<Rightarrow> default_history_limit | Some l \<Rightarrow> l)"

definition prune_history :: "rel_env \<Rightarrow> string \<Rightarrow> release \<Rightarrow> controller_revision list \<Rightarrow> unit rel_eff" where
  "prune_history E ns r revs =
     (let limit = history_limit r in
      if int (length revs) \<le> limit then eff_ret ()
      else if limit < 0 then eff_of_res Panic
      else eff_each (\<lambda>c. eff_wrap ''failed to delete controllerrevision'' (delete_revision E ns (cr_name c)))
             (drop (nat limit) (re_sort_revisions E revs)))"

section \<open>The handler\<close>

definition sync_worker ::
  "rel_env \<Rightarrow> rel_config \<Rightarrow> string \<Rightarrow> string \<Rightarrow> string \<Rightarrow> bool \<Rightarrow> release \<Rightarrow> release \<Rightarrow>
   controller_revision list \<Rightarrow> unit rel_eff" where
  "sync_worker E cf ns name podns userns r copy revs =
     eff_bind (reference_secret E ns r userns) (\<lambda>(ref_secret, managed).
     eff_bind (eff_of_res (inject_credentials cf r userns ref_secret)) (\<lambda>ref_secret.
     eff_bind (inject_kubeconfig E cf ns r managed ref_secret) (\<lambda>ref_secret.
     eff_stage (ensure_secret E ns name podns r copy ref_secret) (\<lambda>(copy, s, secrets).
     eff_stage (ensure_deployment E cf ns name podns r s managed userns) (\<lambda>d.
     eff_stage (sync_observed E ns r d copy) (\<lambda>(copy, phase).
     eff_stage (drop_unused_secret E podns s secrets) (\<lambda>_.
     eff_bind (sync_conditions E ns r d phase copy) (\<lambda>_.
     prune_history E ns r revs))))))))"

definition sync_release :: "rel_env \<Rightarrow> rel_config \<Rightarrow> string \<Rightarrow> string \<Rightarrow> release \<Rightarrow> unit rel_eff" where
  "sync_release E cf ns name r =
     (if om_deletion (rl_meta r) \<noteq> None then delete_resources_for E r
      else eff_bind (user_namespace_mode cf r) (\<lambda>(podns, userns).
           eff_bind (check_deployer r) (\<lambda>_.
           eff_stage (ensure_finalizer E ns r) (\<lambda>copy.
           eff_stage (ensure_revision E ns name r) (\<lambda>revs.
           eff_bind (leave_old_namespace E podns r) (\<lambda>_.
           eff_stage (store_status E ns ''failed to update deployer status'' r
                       (with_deployer_status cf podns copy)) (\<lambda>copy.
           eff_stage (sync_phase E ns r copy) (\<lambda>copy.
           sync_worker E cf ns name podns userns r copy revs))))))))"

definition sync_handler :: "rel_env \<Rightarrow> rel_config \<Rightarrow> string \<Rightarrow> unit rel_eff" where
  "sync_handler E cf key =
     (case split_meta_namespace_key key of
        None \<Rightarrow> eff_ret ()
      | Some (ns, name) \<Rightarrow>
          eff_bind (eff_try (get_release E ns name)) (\<lambda>answer. case answer of
              Inl e \<Rightarrow> if e = NotFound then eff_ret () else eff_fail e
            | Inr r \<Rightarrow> sync_release E cf ns name r))"

section \<open>The work queue and the event handlers\<close>

datatype queue_op = Forget string | AddRateLimited string | FinishItem string

text \<open>
  \<open>processNextWorkItem\<close> on a key: what is done to the queue for each outcome of the handler. The
  item is finished by a deferred call, also when the handler panics.
\<close>

definition queue_ops :: "string \<Rightarrow> unit res \<Rightarrow> queue_op list" where
  "queue_ops key outcome =
     (case outcome of
        Ok _ \<Rightarrow> [Forget key]
      | Err e \<Rightarrow> if e \<noteq> NonRetryable then [AddRateLimited key] else [Forget key]
      | Panic \<Rightarrow> []) @ [FinishItem key]"

definition process_next_work_item ::
  "rel_env \<Rightarrow> rel_config \<Rightarrow> string \<Rightarrow> rel_call list \<Rightarrow> queue_op list \<times> rel_call list" where
  "process_next_work_item E cf key h =
     (case sync_handler E cf key h of (outcome, h') \<Rightarrow> (queue_ops key outcome, h'))"

text \<open>What an informer hands to a handler: an object, a tombstone, or something else.\<close>

datatype informer_object = LiveObject object_meta | Tombstone "object_meta option" | NotAnObject

fun object_of :: "informer_object \<Rightarrow> object_meta option" where
  "object_of (LiveObject m) = Some m"
| "object_of (Tombstone m) = m"
| "object_of NotAnObject = None"

text \<open>The updates that the informer callbacks let through.\<close>

definition update_is_news :: "object_meta \<Rightarrow> object_meta \<Rightarrow> bool" where
  "update_is_news old new \<longleftrightarrow> om_resource_version new \<noteq> om_resource_version old"

definition enqueue_release :: "release \<Rightarrow> string" where
  "enqueue_release r = meta_namespace_key (rl_meta r)"

text \<open>The key that \<open>handleDependant\<close> adds for a secret or deployment, if any.\<close>

definition dependant_key :: "rel_config \<Rightarrow> object_meta \<Rightarrow> string option" where
  "dependant_key cf m =
     (case map_of (om_labels m) label_release_namespace of
        None \<Rightarrow> None
      | Some ns \<Rightarrow>
          if cf_remote cf \<and> ns = cf_namespace cf then None
          else if \<not> cf_remote cf \<and> om_namespace m \<noteq> ns \<and> om_namespace m \<noteq> cf_namespace cf then None
          else (case map_of (om_labels m) label_release_name of
                  None \<Rightarrow> None
                | Some n \<Rightarrow> Some (ns @ ''/'' @ n)))"

definition handle_dependant :: "rel_config \<Rightarrow> informer_object \<Rightarrow> string option" where
  "handle_dependant cf obj = (case object_of obj of None \<Rightarrow> None | Some m \<Rightarrow> dependant_key cf m)"

definition handle_controller_revision :: "rel_env \<Rightarrow> informer_object \<Rightarrow> string option rel_eff" where
  "handle_controller_revision E obj =
     (case object_of obj of
        None \<Rightarrow> eff_ret None
      | Some m \<Rightarrow>
          (case get_controller_of m of
             None \<Rightarrow> eff_ret None
           | Some ref \<Rightarrow>
               if or_kind ref \<noteq> ''Release'' \<or> or_api_version ref \<noteq> ''fleet.crd.tess.io/v1alpha1''
               then eff_ret None
               else eff_bind (eff_try (get_release E (om_namespace m) (or_name ref))) (\<lambda>answer. case answer of
                   Inl _ \<Rightarrow> eff_ret None
                 | Inr r \<Rightarrow> eff_ret (Some (enqueue_release r)))))"

end
