(* ===== verification/ReleaseSafety.thy ===== *)
theory ReleaseSafety
  imports ReleaseSync
begin

text \<open>
  What the release controller does and does not do to the cluster in one run of its handler: the
  writes to the release, the objects it deletes, managed secrets, panics, the revision history,
  and the link between the event handlers and the queue.
\<close>

section \<open>Quiet parts\<close>

text \<open>Everything that is not a stage that stores the release.\<close>

abbreviation no_release_write :: "'a rel_eff \<Rightarrow> bool" where
  "no_release_write m \<equiv> emits (\<lambda>c. \<not> is_release_write c) m"

lemma no_write_cleanup_namespace: "no_release_write (cleanup_namespace E podns r)"
  unfolding cleanup_namespace_def cleanup_deployments_def cleanup_secrets_def delete_owned_def rel_call_defs
  by (intro emits_bind emits_wrap emits_perform emits_each emits_if emits_ret) simp_all

lemma no_write_leave_old_namespace: "no_release_write (leave_old_namespace E podns r)"
  unfolding leave_old_namespace_def
  by (auto split: option.splits intro!: no_write_cleanup_namespace)

lemma no_write_user_namespace_mode: "no_release_write (user_namespace_mode cf r)"
  unfolding user_namespace_mode_def rel_call_defs by (auto split: option.splits)

lemma no_write_check_deployer: "no_release_write (check_deployer r)"
  unfolding check_deployer_def rel_call_defs by (auto simp: Let_def)

lemma no_write_review_revisions: "no_release_write (review_revisions E ns r snap cs found kept)"
  unfolding rel_call_defs
  by (induction E ns r snap cs found kept rule: review_revisions.induct) (auto simp: rel_call_defs)

lemma no_write_ensure_revision: "no_release_write (ensure_revision E ns name r)"
  unfolding ensure_revision_def
  by (auto simp: rel_call_defs intro!: no_write_review_revisions)

lemma no_write_reference_secret: "no_release_write (reference_secret E ns r userns)"
  unfolding reference_secret_def rel_call_defs by (auto split: option.splits sum.splits)

lemma no_write_kubeconfig_from: "no_release_write (kubeconfig_from E cf ns names)"
  by (induction names) (auto simp: rel_call_defs split: sum.splits option.splits)

lemma no_write_inject_kubeconfig: "no_release_write (inject_kubeconfig E cf ns r managed s)"
  unfolding inject_kubeconfig_def build_kube_config_def
  by (auto simp: rel_call_defs split: sum.splits intro!: no_write_kubeconfig_from)

lemma no_write_make_secret: "no_release_write (make_secret E r base ref podns)"
  unfolding make_secret_def rel_call_defs by auto

lemma no_write_replace_secret: "no_release_write (replace_secret E r ref podns)"
  unfolding replace_secret_def
  by (auto simp: rel_call_defs split: sum.splits intro!: no_write_make_secret)

lemma no_write_ensure_deployment: "no_release_write (ensure_deployment E cf ns name podns r s managed userns)"
  unfolding ensure_deployment_def make_deployment_def rel_call_defs
  by (auto split: option.splits sum.splits)

lemma no_write_drop_unused_secret: "no_release_write (drop_unused_secret E podns s ss)"
  unfolding drop_unused_secret_def rel_call_defs by (auto split: option.splits)

lemma no_write_prune_history: "no_release_write (prune_history E ns r revs)"
  unfolding prune_history_def rel_call_defs by (auto simp: Let_def)

lemmas no_write_stages = no_write_leave_old_namespace no_write_user_namespace_mode
  no_write_check_deployer no_write_ensure_revision no_write_reference_secret
  no_write_inject_kubeconfig no_write_ensure_deployment no_write_drop_unused_secret
  no_write_prune_history

section \<open>One write of the release per run\<close>

lemma one_or_go_store_status: "one_or_go is_release_write (store_status E ns msg r copy)"
  unfolding store_status_def update_release_status_def
  by (auto intro!: one_or_go_quiet one_or_go_done at_most_one_wrap at_most_one_perform)

lemma one_or_go_ensure_finalizer: "one_or_go is_release_write (ensure_finalizer E ns r)"
  unfolding ensure_finalizer_def update_release_def
  by (auto intro!: one_or_go_quiet one_or_go_done at_most_one_wrap at_most_one_perform)

lemma one_or_go_sync_phase: "one_or_go is_release_write (sync_phase E ns r copy)"
  unfolding sync_phase_def
  by (rule one_or_go_bind_quiet) (auto simp: read_clock_def one_or_go_store_status)

lemma one_or_go_ensure_secret: "one_or_go is_release_write (ensure_secret E ns name podns r copy ref)"
proof -
  have store: "one_or_go is_release_write (eff_bind (store_status E ns msg r copy')
      (\<lambda>f. case f of Done \<Rightarrow> eff_ret Done | Go c \<Rightarrow> eff_ret (Go (c, s, ss))))" for msg copy' s and ss :: "secret list"
    by (rule one_or_go_map [OF one_or_go_store_status, where g = "\<lambda>c. (c, s, ss)"])
  have replace: "one_or_go is_release_write (eff_bind (replace_secret E r ref podns) (\<lambda>_. eff_ret Done))"
    by (rule one_or_go_quiet) (auto intro!: no_write_replace_secret)
  show ?thesis
    unfolding ensure_secret_def Let_def
  proof (intro one_or_go_bind_quiet)
    fix secrets wanted
    show "one_or_go is_release_write (case latest_owned sc_meta ns name None secrets of
        None \<Rightarrow> eff_bind (replace_secret E r ref podns) (\<lambda>_. eff_ret Done)
      | Some s \<Rightarrow> if \<not> deep_eq_secret wanted s
          then eff_bind (replace_secret E r ref podns) (\<lambda>_. eff_ret Done)
          else eff_bind (store_status E ns ''failed to update secret info'' r
                (map_deployer_status (\<lambda>ds. ds\<lparr>ds_secret_name := sc_name s\<rparr>) copy))
              (\<lambda>f. case f of Done \<Rightarrow> eff_ret Done | Go copy' \<Rightarrow> eff_ret (Go (copy', s, secrets))))"
      using store replace by (auto split: option.split)
  qed (auto simp: cached_secrets_def intro!: no_write_make_secret)
qed

lemma one_or_go_sync_observed: "one_or_go is_release_write (sync_observed E ns r d copy)"
  unfolding sync_observed_def
  by (rule one_or_go_bind_quiet, rule emits_of_res)
    (rule one_or_go_map [OF one_or_go_store_status])

lemma at_most_one_sync_conditions: "at_most_one is_release_write (sync_conditions E ns r d phase copy)"
  unfolding sync_conditions_def Let_def
  by (rule at_most_one_bind_quiet)
    (auto simp: read_clock_def update_release_status_def intro!: at_most_one_quiet at_most_one_wrap at_most_one_perform)

lemma at_most_one_sync_worker:
  "at_most_one is_release_write (sync_worker E cf ns name podns userns r copy revs)"
  unfolding sync_worker_def
  by (intro at_most_one_bind_quiet at_most_one_stage at_most_one_bind_then_quiet no_write_stages
      one_or_go_ensure_secret one_or_go_sync_observed at_most_one_sync_conditions emits_of_res
      one_or_go_quiet [OF no_write_ensure_deployment] one_or_go_quiet [OF no_write_drop_unused_secret]
      | simp add: case_prod_beta)+

lemma at_most_one_delete_resources: "at_most_one is_release_write (delete_resources_for E r)"
  unfolding delete_resources_for_def update_release_def
  by (rule at_most_one_bind_quiet)
    (auto split: option.splits intro!: no_write_cleanup_namespace at_most_one_quiet at_most_one_wrap
      at_most_one_perform)

lemma at_most_one_case_prod:
  "(\<And>x y. at_most_one P (f x y)) \<Longrightarrow> at_most_one P (case p of (x, y) \<Rightarrow> f x y)"
  by (cases p) simp

lemma at_most_one_sync_release: "at_most_one is_release_write (sync_release E cf ns name r)"
proof (cases "om_deletion (rl_meta r) = None")
  case True
  show ?thesis
    unfolding sync_release_def if_not_P [OF not_not [THEN iffD2, OF True]]
    by (intro at_most_one_bind_quiet at_most_one_stage at_most_one_case_prod no_write_stages
        one_or_go_ensure_finalizer one_or_go_quiet [OF no_write_ensure_revision] one_or_go_store_status
        one_or_go_sync_phase at_most_one_sync_worker)
qed (simp add: sync_release_def at_most_one_delete_resources)

lemma at_most_one_sync_handler: "at_most_one is_release_write (sync_handler E cf key)"
proof (cases "split_meta_namespace_key key")
  case (Some p)
  have "at_most_one is_release_write (case a of Inl e \<Rightarrow> if e = NotFound then eff_ret () else eff_fail e
      | Inr r \<Rightarrow> sync_release E cf ns name r)" for a ns name
    by (auto split: sum.split intro: at_most_one_sync_release at_most_one_quiet)
  with Some show ?thesis
    by (cases p) (auto simp: sync_handler_def get_release_def intro!: at_most_one_bind_quiet)
qed (auto simp: sync_handler_def intro!: at_most_one_quiet)

text \<open>
  C24. One run of the handler writes the release at most once (spec, finalizers or status), whatever
  the API servers answer: a stage that stores something ends the run, so no write is based on a
  copy that an earlier write of the same run has made stale.
\<close>

theorem sync_writes_release_once:
  "entries is_release_write (snd (sync_handler E cf key [])) \<le> 1"
  by (rule holds_run [OF at_most_one_sync_handler [unfolded at_most_one_def], where r = "fst (sync_handler E cf key [])"])
    simp

section \<open>The specification belongs to the user\<close>

text \<open>
  What the worker reports, the controller keeps: the commit, its hash and version, and the conditions
  other than its own marker, of which it may drop earlier ones; it does not make a release
  look realised that was not.
\<close>

definition reports_kept :: "release_status \<Rightarrow> release_status \<Rightarrow> bool" where
  "reports_kept st st' \<longleftrightarrow>
     rst_commit st' = rst_commit st \<and> rst_version st' = rst_version st \<and>
     rst_parameters_hash st' = rst_parameters_hash st \<and>
     (\<forall>c\<in>set (rst_conditions st'). rc_type c = DeployerReady \<or> c \<in> set (rst_conditions st)) \<and>
     (rst_conditions st' \<noteq> [] \<longrightarrow> condition_succeeded (last (rst_conditions st')) \<longrightarrow>
        rst_conditions st \<noteq> [] \<and> condition_succeeded (last (rst_conditions st)))"

lemma reports_kept_refl [simp]: "reports_kept st st"
  by (simp add: reports_kept_def)

lemma reports_kept_trans: "reports_kept st st' \<Longrightarrow> reports_kept st' st'' \<Longrightarrow> reports_kept st st''"
  by (auto simp: reports_kept_def)

text \<open>
  A write of the release that changes nothing but what belongs to the controller: the finalizers
  in an update, its part of the status in a status update.
\<close>

definition status_copy :: "release \<Rightarrow> release \<Rightarrow> bool" where
  "status_copy r c \<longleftrightarrow> (\<exists>st. c = r\<lparr>rl_status := st\<rparr> \<and> reports_kept (rl_status r) st)"

fun controller_write :: "release \<Rightarrow> rel_call \<Rightarrow> bool" where
  "controller_write r (UpdateRelease ns c _) \<longleftrightarrow>
     (\<exists>fs. c = r\<lparr>rl_meta := (rl_meta r)\<lparr>om_finalizers := fs\<rparr>\<rparr>)"
| "controller_write r (UpdateReleaseStatus ns c _) \<longleftrightarrow> status_copy r c"
| "controller_write r _ \<longleftrightarrow> True"

lemma controller_write_quiet: "\<not> is_release_write c \<Longrightarrow> controller_write r c"
  by (cases c) auto

lemma quiet_ensures: "no_release_write m \<Longrightarrow> ensures (controller_write r) m (\<lambda>_. True)"
  by (rule emits_ensures, erule emits_mono) (rule controller_write_quiet)

lemma status_copy_refl [simp]: "status_copy r r"
  unfolding status_copy_def by (rule exI [of _ "rl_status r"]) simp

lemma status_copy_upd: "status_copy r c \<Longrightarrow> reports_kept (rl_status c) st \<Longrightarrow> status_copy r (c\<lparr>rl_status := st\<rparr>)"
  unfolding status_copy_def
proof (elim exE conjE)
  fix old
  assume "reports_kept (rl_status c) st" "c = r\<lparr>rl_status := old\<rparr>" "reports_kept (rl_status r) old"
  then show "\<exists>new. c\<lparr>rl_status := st\<rparr> = r\<lparr>rl_status := new\<rparr> \<and> reports_kept (rl_status r) new"
    by (intro exI [of _ st]) (auto intro: reports_kept_trans)
qed

lemma reports_kept_deployer [simp]:
  "reports_kept st (st\<lparr>rst_deployer_status := ds\<rparr>)"
  "reports_kept st (st\<lparr>rst_deployer_status := ds, rst_observed_generation := g\<rparr>)"
  by (simp_all add: reports_kept_def)

lemma reports_kept_phase: "reports_kept (rl_status c) (rl_status (set_phase r c now))"
  by (auto simp: set_phase_def Let_def reports_kept_def running_marker_def condition_succeeded_def)

lemma update_ready_other: "rc_type c \<noteq> DeployerReady \<Longrightarrow> update_ready ph d now c = c"
  by (simp add: update_ready_def)

lemma reports_kept_conditions [simp]:
  "reports_kept st (st\<lparr>rst_conditions := new_conditions ph d now (rst_conditions st)\<rparr>)"
proof -
  have "rc_type c = DeployerReady \<or> c \<in> set cs" if "c \<in> set (new_conditions ph d now cs)" for c cs
    using that set_prune_conditions [of cs] update_ready_other by (fastforce simp: new_conditions_def)
  moreover have "set (new_conditions ph d now []) = {}" by (simp add: new_conditions_def)
  ultimately show ?thesis
    by (cases "rst_conditions st = []") (auto simp: reports_kept_def new_conditions_outcome simp del: set_empty2 set_empty)
qed

lemma status_copy_with [simp]:
  assumes "status_copy r c"
  shows "status_copy r (c\<lparr>rl_status := (rl_status c)\<lparr>rst_deployer_status := ds\<rparr>\<rparr>)"
    and "status_copy r (with_deployer_status cf podns c)"
    and "status_copy r (set_phase r c now)"
    and "status_copy r (with_observed r d phase c)"
    and "status_copy r (c\<lparr>rl_status := (rl_status c)\<lparr>rst_conditions := new_conditions ph d now (rl_conditions c)\<rparr>\<rparr>)"
proof -
  have "set_phase r c now = c\<lparr>rl_status := rl_status (set_phase r c now)\<rparr>" by (simp add: set_phase_def Let_def)
  then show "status_copy r (set_phase r c now)" using status_copy_upd [OF assms reports_kept_phase] by metis
qed (use assms in \<open>auto simp: with_deployer_status_def with_observed_def Let_def intro!: status_copy_upd\<close>)

lemma store_status_ensures:
  "status_copy r copy \<Longrightarrow>
     ensures (controller_write r) (store_status E ns msg r copy) (\<lambda>f. \<forall>y. f = Go y \<longrightarrow> status_copy r y)"
  unfolding store_status_def update_release_status_def
  by (cases "deep_eq_release r copy")
    (auto simp: status_copy_def intro!: ensures_bind [where R = "\<lambda>_. True"] ensures_intros)

lemma ensure_finalizer_ensures:
  "ensures (controller_write r) (ensure_finalizer E ns r) (\<lambda>f. \<forall>y. f = Go y \<longrightarrow> status_copy r y)"
  unfolding ensure_finalizer_def update_release_def
  by (auto intro!: ensures_bind [where R = "\<lambda>_. True"] ensures_intros)

lemma ensure_secret_ensures:
  assumes "status_copy r copy"
  shows "ensures (controller_write r) (ensure_secret E ns name podns r copy ref)
           (\<lambda>f. \<forall>y. f = Go y \<longrightarrow> status_copy r (fst y))"
proof -
  have store: "ensures (controller_write r)
      (eff_bind (store_status E ns msg r (map_deployer_status (\<lambda>ds. ds\<lparr>ds_secret_name := n\<rparr>) copy))
        (\<lambda>f. case f of Done \<Rightarrow> eff_ret Done | Go c \<Rightarrow> eff_ret (Go (c, s, ss))))
      (\<lambda>f. \<forall>y. f = Go y \<longrightarrow> status_copy r (fst y))" for msg n and s :: secret and ss :: "secret list"
    by (rule ensures_bind [OF store_status_ensures])
      (use assms in \<open>auto split: flow.splits intro!: ensures_intros\<close>)
  have replace: "ensures (controller_write r) (eff_bind (replace_secret E r ref podns) (\<lambda>_. eff_ret Done))
      (\<lambda>f :: (release \<times> secret \<times> secret list) flow. \<forall>y. f = Go y \<longrightarrow> status_copy r (fst y))"
    by (rule ensures_bind [OF quiet_ensures [OF no_write_replace_secret]]) (simp add: ensures_ret)
  show ?thesis
    unfolding ensure_secret_def Let_def
    apply (rule ensures_bind [where R = "\<lambda>_. True"])
     apply (simp add: cached_secrets_def ensures_intros)
    apply (rule ensures_bind [OF quiet_ensures [OF no_write_make_secret]])
    using store replace by (auto split: option.split)
qed

lemma sync_worker_ensures:
  assumes "status_copy r copy"
  shows "ensures (controller_write r) (sync_worker E cf ns name podns userns r copy revs) (\<lambda>_. True)"
proof -
  note quiet = quiet_ensures [OF no_write_reference_secret] quiet_ensures [OF no_write_inject_kubeconfig]
    quiet_ensures [OF no_write_prune_history]
  have observed: "ensures (controller_write r) (sync_observed E ns r d c)
      (\<lambda>f. \<forall>y. f = Go y \<longrightarrow> status_copy r (fst y))" if "status_copy r c" for d c
    unfolding sync_observed_def
    by (rule ensures_bind [where R = "\<lambda>_. True"], simp add: ensures_intros,
        rule ensures_bind [OF store_status_ensures])
      (use that in \<open>auto split: flow.splits intro!: ensures_intros\<close>)
  have conditions: "ensures (controller_write r) (sync_conditions E ns r d phase c) (\<lambda>_. True)"
    if "status_copy r c" for d phase c
    unfolding sync_conditions_def Let_def read_clock_def update_release_status_def
    by (rule ensures_bind [where R = "\<lambda>_. True"])
      (use that in \<open>auto intro!: ensures_intros\<close>)
  have later: "ensures (controller_write r)
      (eff_stage (ensure_deployment E cf ns name podns r s managed userns) (\<lambda>d.
       eff_stage (sync_observed E ns r d c) (\<lambda>(copy, phase).
       eff_stage (drop_unused_secret E podns s ss) (\<lambda>_.
       eff_bind (sync_conditions E ns r d phase copy) (\<lambda>_. prune_history E ns r revs))))) (\<lambda>_. True)"
    if "status_copy r c" for c s managed ss
    apply (rule ensures_stage [where R = "\<lambda>_. True"])
     apply (simp add: quiet_ensures [OF no_write_ensure_deployment])
    apply (rule ensures_stage [OF observed [OF that]])
    apply (clarsimp)
    apply (rule ensures_stage [where R = "\<lambda>_. True"])
     apply (simp add: quiet_ensures [OF no_write_drop_unused_secret])
    by (rule ensures_bind [OF conditions quiet(3)])
  show ?thesis
    unfolding sync_worker_def
    apply (rule ensures_bind [OF quiet(1)])
    apply clarsimp
    apply (rule ensures_bind [OF ensures_of_res, where R = "\<lambda>_. True"], simp)
    apply (rule ensures_bind [OF quiet(2)])
    apply (rule ensures_stage [OF ensure_secret_ensures [OF assms]])
    by (auto intro: later)
qed

lemma sync_release_ensures:
  "ensures (controller_write r) (sync_release E cf ns name r) (\<lambda>_. True)"
proof (cases "om_deletion (rl_meta r) = None")
  case False
  have "ensures (controller_write r) (delete_resources_for E r) (\<lambda>_. True)"
    unfolding delete_resources_for_def update_release_def
    by (rule ensures_bind [where R = "\<lambda>_. True"])
      (auto simp: without_finalizer_def split: option.split
        intro!: ensures_intros quiet_ensures [OF no_write_cleanup_namespace])
  with False show ?thesis by (simp add: sync_release_def)
next
  case True
  have phase: "ensures (controller_write r) (sync_phase E ns r c) (\<lambda>f. \<forall>y. f = Go y \<longrightarrow> status_copy r y)"
    if "status_copy r c" for c
    unfolding sync_phase_def read_clock_def
    by (rule ensures_bind [where R = "\<lambda>_. True"])
      (use that in \<open>auto intro!: ensures_intros store_status_ensures\<close>)
  have later: "ensures (controller_write r)
      (eff_stage (ensure_revision E ns name r) (\<lambda>revs.
       eff_bind (leave_old_namespace E podns r) (\<lambda>_.
       eff_stage (store_status E ns ''failed to update deployer status'' r
                       (with_deployer_status cf podns c)) (\<lambda>copy.
       eff_stage (sync_phase E ns r copy) (\<lambda>copy.
           sync_worker E cf ns name podns userns r copy revs))))) (\<lambda>_. True)"
    if "status_copy r c" for c podns userns
    by (rule ensures_stage [where R = "\<lambda>_. True"], simp add: quiet_ensures [OF no_write_ensure_revision],
        rule ensures_bind [OF quiet_ensures [OF no_write_leave_old_namespace]],
        rule ensures_stage [OF store_status_ensures ensures_stage [OF phase sync_worker_ensures]])
      (use that in simp_all)
  have "ensures (controller_write r)
      (eff_bind (check_deployer r) (\<lambda>_. eff_stage (ensure_finalizer E ns r) (\<lambda>c.
       eff_stage (ensure_revision E ns name r) (\<lambda>revs.
       eff_bind (leave_old_namespace E podns r) (\<lambda>_.
       eff_stage (store_status E ns ''failed to update deployer status'' r
                       (with_deployer_status cf podns c)) (\<lambda>copy.
       eff_stage (sync_phase E ns r copy) (\<lambda>copy.
           sync_worker E cf ns name podns userns r copy revs))))))) (\<lambda>_. True)" for podns userns
    by (rule ensures_bind [OF quiet_ensures [OF no_write_check_deployer]],
        rule ensures_stage [OF ensure_finalizer_ensures later])
  then show ?thesis
    unfolding sync_release_def if_not_P [OF not_not [THEN iffD2, OF True]]
    by (auto intro: ensures_bind [OF quiet_ensures [OF no_write_user_namespace_mode]])
qed

lemma handler_writes_only_status:
  assumes "c \<in> set (snd (sync_handler E cf key []))" and "is_release_write c"
  shows "\<exists>ns n r. GetRelease ns n (Inr r) \<in> set (snd (sync_handler E cf key [])) \<and> controller_write r c"
proof -
  let ?Q = "\<lambda>t (r :: unit res). \<forall>c\<in>set t. is_release_write c \<longrightarrow>
      (\<exists>ns n r. GetRelease ns n (Inr r) \<in> set t \<and> controller_write r c)"
  have read: "holds (sync_release E cf ns n r) (\<lambda>t' r'. ?Q (GetRelease ns n (Inr r) # t') r')" for ns n r
    by (rule holds_mono [OF sync_release_ensures [unfolded ensures_def]])
      (auto simp: list_all_iff)
  have "holds (sync_handler E cf key) ?Q"
  proof (cases "split_meta_namespace_key key")
    case (Some p)
    obtain ns n where p: "p = (ns, n)" by (cases p)
    show ?thesis
      unfolding sync_handler_def Some p option.case prod.case get_release_def
    proof (rule holds_bind, rule holds_try, rule holds_perform, goal_cases)
      case (1 a)
      then show ?case using read by (cases a) (auto intro!: holds_ret holds_fail)
    qed
  qed (auto simp: sync_handler_def intro: holds_ret)
  from holds_run [OF this, of "fst (sync_handler E cf key [])" "snd (sync_handler E cf key [])"] assms
  show ?thesis by auto
qed


definition young_release :: release where
  "young_release = empty_release
     \<lparr>rl_meta := empty_meta\<lparr>om_namespace := ''ns'', om_name := ''rel''\<rparr>,
      rl_spec := empty_spec\<lparr>rs_deployer := empty_deployer\<lparr>rd_name := ''kubectl''\<rparr>\<rparr>\<rparr>"

definition young_env :: rel_env where
  "young_env = quiet_env\<lparr>re_get_release := (\<lambda>h ns n. Inr young_release)\<rparr>"

definition young_release_kept :: release where
  "young_release_kept = young_release\<lparr>rl_meta := (rl_meta young_release)
     \<lparr>om_finalizers := om_finalizers (rl_meta young_release) @ [finalizer_released]\<rparr>\<rparr>"

lemma young_run:
  "sync_handler young_env example_config ''ns/rel'' [] =
     (Ok (), [GetRelease ''ns'' ''rel'' (Inr young_release), UpdateRelease ''ns'' young_release_kept (Inr ())])"
proof -
  have fields: "om_deletion (rl_meta young_release) = None" "om_annotations (rl_meta young_release) = []"
    "om_finalizers (rl_meta young_release) = []" "rd_name (rs_deployer (rl_spec young_release)) = ''kubectl''"
    by (simp_all add: young_release_def empty_release_def empty_meta_def)
  have env: "re_get_release young_env = (\<lambda>h ns n. Inr young_release)" "re_update_release young_env = (\<lambda>h ns r. Inr ())"
    by (simp_all add: young_env_def quiet_env_def)
  have key: "split_meta_namespace_key ''ns/rel'' = Some (''ns'', ''rel'')"
    by (simp add: split_meta_namespace_key_def)
  show ?thesis
    unfolding sync_handler_def key option.case prod.case
    by (simp add: effect_defs get_release_def env sync_release_def fields user_namespace_mode_def
        check_deployer_def ensure_finalizer_def update_release_def young_release_kept_def)
qed


section \<open>Secrets of the worker\<close>

lemma quiet_secrets:
  "emits (\<lambda>c. \<forall>ns n a. c \<noteq> DeleteSecret ns n a) (sync_conditions E ns' r d phase copy)"
  "emits (\<lambda>c. \<forall>ns n a. c \<noteq> DeleteSecret ns n a) (prune_history E ns' r revs)"
  "emits (\<lambda>c. \<forall>ns n a. c \<noteq> DeleteSecret ns n a) (sync_observed E ns' r d copy)"
  "emits (\<lambda>c. \<forall>ns n a. c \<noteq> DeleteSecret ns n a) (ensure_deployment E cf ns' name podns r s managed userns)"
  "emits (\<lambda>c. \<forall>ns n a. c \<noteq> DeleteSecret ns n a) (reference_secret E ns' r userns)"
  "emits (\<lambda>c. \<forall>ns n a. c \<noteq> DeleteSecret ns n a) (store_status E ns' msg r copy)"
  "emits (\<lambda>c. \<forall>ns n a. c \<noteq> DeleteSecret ns n a) (replace_secret E r ref podns)"
  unfolding sync_conditions_def prune_history_def sync_observed_def store_status_def
    ensure_deployment_def make_deployment_def reference_secret_def replace_secret_def make_secret_def rel_call_defs Let_def
  by (auto split: option.splits sum.splits flow.splits)

lemma quiet_secrets_kubeconfig:
  "emits (\<lambda>c. \<forall>ns n a. c \<noteq> DeleteSecret ns n a) (inject_kubeconfig E cf ns' r managed s)"
proof -
  have "emits (\<lambda>c. \<forall>ns n a. c \<noteq> DeleteSecret ns n a) (kubeconfig_from E cf ns' names)" for names
    by (induction names) (auto simp: rel_call_defs split: sum.splits option.splits)
  then show ?thesis
    unfolding inject_kubeconfig_def build_kube_config_def
    by (auto simp: rel_call_defs split: sum.splits)
qed

text \<open>The cached secret that is in use, according to the log.\<close>

definition current_secret :: "string \<Rightarrow> string \<Rightarrow> string \<Rightarrow> rel_call list \<Rightarrow> secret list \<Rightarrow> secret \<Rightarrow> bool" where
  "current_secret podns ns name t ss s \<longleftrightarrow>
     CachedSecrets podns ns name (Inr ss) \<in> set t \<and> latest_owned sc_meta ns name None ss = Some s"

lemma ensure_secret_current:
  "holds (ensure_secret E ns name podns r copy ref) (\<lambda>t res.
     (\<forall>c\<in>set t. \<forall>ns n a. c \<noteq> DeleteSecret ns n a) \<and>
     (\<forall>c s ss. res = Ok (Go (c, s, ss)) \<longrightarrow> current_secret podns ns name t ss s))"
proof -
  let ?P = "\<lambda>c. \<forall>ns n a. c \<noteq> DeleteSecret ns n a"
  let ?R = "\<lambda>ss f. \<forall>c s ss'. f = Go (c :: release, s, ss') \<longrightarrow>
      ss' = ss \<and> latest_owned sc_meta ns name None ss = Some s"
  have replace: "ensures ?P (eff_bind (replace_secret E r ref podns) (\<lambda>_. eff_ret Done)) R" if "R Done" for R
    by (rule ensures_bind [OF emits_ensures [OF quiet_secrets(7)]]) (simp add: ensures_ret that)
  have rest: "ensures ?P (case latest_owned sc_meta ns name None ss of
            None \<Rightarrow> eff_bind (replace_secret E r ref podns) (\<lambda>_. eff_ret Done)
          | Some s \<Rightarrow> if \<not> deep_eq_secret wanted s
              then eff_bind (replace_secret E r ref podns) (\<lambda>_. eff_ret Done)
              else eff_bind (store_status E ns ''failed to update secret info'' r
                  (map_deployer_status (\<lambda>ds. ds\<lparr>ds_secret_name := sc_name s\<rparr>) copy))
                (\<lambda>f. case f of Done \<Rightarrow> eff_ret Done | Go copy' \<Rightarrow> eff_ret (Go (copy', s, ss)))) (?R ss)" for ss wanted
    by (auto split: option.split flow.split
        intro!: replace ensures_bind [OF emits_ensures [OF quiet_secrets(6)]] ensures_ret)
  have make: "ensures ?P (make_secret E r base ref podns) (\<lambda>_. True)" for base
    by (rule emits_ensures) (auto simp: make_secret_def random_suffix_def)
  show ?thesis
    unfolding ensure_secret_def Let_def cached_secrets_def
  proof (rule holds_bind, rule holds_wrap, rule holds_perform, goal_cases)
    case (1 a)
    show ?case
    proof (cases a)
      case (Inr ss)
      show ?thesis
        unfolding Inr lift_res.simps wrap_res.simps res.case
        by (rule holds_mono [OF ensures_bind [OF make rest, unfolded ensures_def]])
          (auto simp: list_all_iff current_secret_def)
    qed simp
  qed
qed

lemma find_SomeD: "find P xs = Some x \<Longrightarrow> x \<in> set xs \<and> P x"
  by (auto simp: find_Some_iff)

text \<open>The part of the handler that follows the secret, and what it may delete.\<close>

definition after_secret ::
  "rel_env \<Rightarrow> rel_config \<Rightarrow> string \<Rightarrow> string \<Rightarrow> string \<Rightarrow> bool \<Rightarrow> release \<Rightarrow> controller_revision list \<Rightarrow> bool \<Rightarrow>
   release \<times> secret \<times> secret list \<Rightarrow> unit rel_eff" where
  "after_secret E cf ns name podns userns r revs managed = (\<lambda>(copy, s, secrets).
     eff_stage (ensure_deployment E cf ns name podns r s managed userns) (\<lambda>d.
     eff_stage (sync_observed E ns r d copy) (\<lambda>(copy, phase).
     eff_stage (drop_unused_secret E podns s secrets) (\<lambda>_.
     eff_bind (sync_conditions E ns r d phase copy) (\<lambda>_.
     prune_history E ns r revs)))))"

lemma sync_worker_after_secret:
  "sync_worker E cf ns name podns userns r copy revs =
     eff_bind (reference_secret E ns r userns) (\<lambda>(ref_secret, managed).
     eff_bind (eff_of_res (inject_credentials cf r userns ref_secret)) (\<lambda>ref_secret.
     eff_bind (inject_kubeconfig E cf ns r managed ref_secret) (\<lambda>ref_secret.
     eff_stage (ensure_secret E ns name podns r copy ref_secret)
       (after_secret E cf ns name podns userns r revs managed))))"
  by (simp add: sync_worker_def after_secret_def)

definition may_drop :: "string \<Rightarrow> secret list \<Rightarrow> secret \<Rightarrow> rel_call \<Rightarrow> bool" where
  "may_drop podns ss s c \<longleftrightarrow>
     (\<forall>pns n a. c = DeleteSecret pns n a \<longrightarrow> pns = podns \<and> n \<in> sc_name ` set ss \<and> n \<noteq> sc_name s)"

lemma after_secret_deletes:
  "emits (may_drop podns ss s) (after_secret E cf ns name podns userns r revs managed (copy, s, ss))"
proof -
  have drop: "emits (may_drop podns ss s) (drop_unused_secret E podns s ss)"
    unfolding drop_unused_secret_def delete_secret_def
    by (auto simp: may_drop_def split: option.split dest!: find_SomeD)
  have weaken: "emits (may_drop podns ss s) m" if "emits (\<lambda>c. \<forall>ns n a. c \<noteq> DeleteSecret ns n a) m"
    for m :: "'x rel_eff"
    using that by (rule emits_mono) (simp add: may_drop_def)
  have rest: "emits (may_drop podns ss s) (eff_stage (drop_unused_secret E podns s ss)
      (\<lambda>_. eff_bind (sync_conditions E ns r d phase copy) (\<lambda>_. prune_history E ns r revs)))" for d phase copy
    by (intro emits_stage emits_bind drop weaken [OF quiet_secrets(1)] weaken [OF quiet_secrets(2)])
  show ?thesis
    unfolding after_secret_def prod.case
    by (intro emits_stage weaken [OF quiet_secrets(4)] weaken [OF quiet_secrets(3)]) (simp add: rest split: prod.split)
qed

definition drops_only_unused :: "string \<Rightarrow> string \<Rightarrow> string \<Rightarrow> rel_call list \<Rightarrow> bool" where
  "drops_only_unused podns ns name t \<longleftrightarrow>
     (\<forall>pns n a. DeleteSecret pns n a \<in> set t \<longrightarrow>
        (\<exists>ss s. current_secret podns ns name t ss s \<and> pns = podns \<and> n \<in> sc_name ` set ss \<and> n \<noteq> sc_name s))"

lemma drops_only_unused_none:
  "\<forall>c\<in>set t. \<forall>ns n a. c \<noteq> DeleteSecret ns n a \<Longrightarrow> drops_only_unused podns ns name t"
  by (auto simp: drops_only_unused_def)

lemma drops_only_unused_prefix:
  "\<forall>c\<in>set t. \<forall>ns n a. c \<noteq> DeleteSecret ns n a \<Longrightarrow> drops_only_unused podns ns name t' \<Longrightarrow>
     drops_only_unused podns ns name (t @ t')"
  unfolding drops_only_unused_def current_secret_def by fastforce

lemma drops_only_unused_secret_stage:
  "holds (eff_stage (ensure_secret E ns name podns r copy ref)
      (after_secret E cf ns name podns userns r revs managed)) (\<lambda>t _. drops_only_unused podns ns name t)"
proof (rule holds_stage, rule holds_mono [OF ensure_secret_current], goal_cases)
  case (1 t res)
  have quiet: "\<And>c ns n a. c \<in> set t \<Longrightarrow> c \<noteq> DeleteSecret ns n a"
    using 1 by blast
  have "holds (after_secret E cf ns name podns userns r revs managed y)
      (\<lambda>t' _. drops_only_unused podns ns name (t @ t'))" if res: "res = Ok (Go y)" for y
  proof -
    obtain c s ss where y: "y = (c, s, ss)" by (cases y)
    have cur: "current_secret podns ns name (t @ t') ss s" for t'
      using 1 res y by (auto simp: current_secret_def)
    have "drops_only_unused podns ns name (t @ t')" if "list_all (may_drop podns ss s) t'" for t'
      unfolding drops_only_unused_def
    proof (intro allI impI)
      fix pns n a assume "DeleteSecret pns n a \<in> set (t @ t')"
      then have "DeleteSecret pns n a \<in> set t'" using quiet by auto
      with that have "may_drop podns ss s (DeleteSecret pns n a)" by (simp add: list_all_iff)
      with cur show "\<exists>ss s. current_secret podns ns name (t @ t') ss s \<and> pns = podns \<and>
          n \<in> sc_name ` set ss \<and> n \<noteq> sc_name s"
        unfolding may_drop_def by blast
    qed
    then show ?thesis
      unfolding y by (intro holds_mono [OF after_secret_deletes [unfolded emits_def]])
  qed
  moreover have "drops_only_unused podns ns name t"
    using 1 by (intro drops_only_unused_none) simp
  ultimately show ?case
    by (simp split: res.split flow.split)
qed

lemma drops_only_unused_bind:
  assumes "emits (\<lambda>c. \<forall>ns n a. c \<noteq> DeleteSecret ns n a) m"
    and "\<And>x. holds (f x) (\<lambda>t _. drops_only_unused podns ns name t)"
  shows "holds (eff_bind m f) (\<lambda>t _. drops_only_unused podns ns name t)"
proof (rule holds_bind, rule holds_mono [OF assms(1) [unfolded emits_def]], goal_cases)
  case (1 t res)
  then have "\<forall>c\<in>set t. \<forall>ns n a. c \<noteq> DeleteSecret ns n a" by (simp add: list_all_iff)
  then have "drops_only_unused podns ns name t"
    "holds (f x) (\<lambda>t' _. drops_only_unused podns ns name (t @ t'))" for x
    by (auto intro: drops_only_unused_none holds_mono [OF assms(2)] drops_only_unused_prefix)
  then show ?case
    by (simp split: res.split)
qed

lemma drops_only_unused_worker:
  "holds (sync_worker E cf ns name podns userns r copy revs) (\<lambda>t _. drops_only_unused podns ns name t)"
  unfolding sync_worker_after_secret
  by (rule drops_only_unused_bind [OF quiet_secrets(5)], clarify,
      rule drops_only_unused_bind [OF emits_of_res],
      rule drops_only_unused_bind [OF quiet_secrets_kubeconfig], rule drops_only_unused_secret_stage)

text \<open>
  The secret in use is never deleted: whenever the worker part of the handler deletes a secret,
  the cache had just listed the secrets, the latest labelled one among them is the one in use, and
  the deleted one is a listed one with another name.
\<close>

theorem current_secret_kept:
  "drops_only_unused podns ns name (snd (sync_worker E cf ns name podns userns r copy revs []))"
  by (rule holds_run [OF drops_only_unused_worker,
        where r = "fst (sync_worker E cf ns name podns userns r copy revs [])"]) simp

end
