(* ===== verification/ReleaseProgress.thy ===== *)
theory ReleaseProgress
  imports ReleaseSafety "HOL-Library.Multiset"
begin

text \<open>
  How the parts of the release controller fit together: what the loop over the controller
  revisions computes, that a worker deployment is created or updated at most once for the same
  release, that the history is bounded, that the handler does not panic on well formed objects,
  and that the labels of a worker object lead the event handlers back to its release.
\<close>

section \<open>Controller revisions\<close>

definition own_revision :: "release \<Rightarrow> controller_revision \<Rightarrow> bool" where
  "own_revision r c \<longleftrightarrow> is_controlled_by (cr_meta c) (rl_meta r)"

definition snapshot_revision :: "release \<Rightarrow> string \<Rightarrow> controller_revision \<Rightarrow> bool" where
  "snapshot_revision r snap c \<longleftrightarrow> own_revision r c \<and> cr_revision c = rl_generation r \<and> cr_data c = snap"

definition older_revisions :: "release \<Rightarrow> controller_revision list \<Rightarrow> controller_revision list" where
  "older_revisions r cs = filter (\<lambda>c. own_revision r c \<and> cr_revision c < rl_generation r) cs"

definition reviewed ::
  "release \<Rightarrow> string \<Rightarrow> controller_revision list \<Rightarrow> bool \<Rightarrow> bool \<Rightarrow> controller_revision list \<Rightarrow> bool" where
  "reviewed r snap cs found found' new \<longleftrightarrow>
     (found' \<longleftrightarrow> found \<or> (\<exists>c\<in>set cs. snapshot_revision r snap c)) \<and>
     filter (\<lambda>c. cr_revision c < rl_generation r) new = older_revisions r cs \<and>
     filter (\<lambda>c. \<not> cr_revision c < rl_generation r) new =
       (if found then [] else take 1 (filter (snapshot_revision r snap) cs))"

lemma review_revisions_result:
  "ensures (\<lambda>e. \<exists>c a. e = DeleteRevision ns (cr_name c) a \<and> c \<in> set cs \<and> own_revision r c \<and>
        \<not> cr_revision c < rl_generation r)
     (review_revisions E ns r snap cs found kept)
     (\<lambda>(f, k). \<exists>new. k = kept @ new \<and> reviewed r snap cs found f new)"
proof (induction cs arbitrary: found kept)
  case Nil
  then show ?case by (auto simp: reviewed_def older_revisions_def intro: ensures_ret)
next
  case (Cons c cs)
  let ?P = "\<lambda>cs e. \<exists>c a. e = DeleteRevision ns (cr_name c) a \<and> c \<in> set cs \<and> own_revision r c \<and>
        \<not> cr_revision c < rl_generation r"
  let ?S = "\<lambda>cs found kept (f, k). \<exists>new. k = kept @ new \<and> reviewed r snap cs found f new"
  have go: "ensures (?P (c # cs)) (review_revisions E ns r snap cs found' kept') (?S (c # cs) found kept)"
    if "\<And>f new. reviewed r snap cs found' f new \<Longrightarrow> \<exists>new'. kept' @ new = kept @ new' \<and> reviewed r snap (c # cs) found f new'"
    for found' kept'
    by (rule ensures_weaken [OF Cons.IH]) (use that in \<open>force+\<close>)
  have drop: "ensures (?P (c # cs)) (eff_bind (eff_wrap m (delete_revision E ns (cr_name c)))
      (\<lambda>_. review_revisions E ns r snap cs found kept)) (?S (c # cs) found kept)"
    if "own_revision r c" "\<not> cr_revision c < rl_generation r"
      "\<And>f new. reviewed r snap cs found f new \<Longrightarrow> reviewed r snap (c # cs) found f new" for m
  proof (rule ensures_bind [where R = "\<lambda>_. True"])
    show "ensures (?P (c # cs)) (eff_wrap m (delete_revision E ns (cr_name c))) (\<lambda>_. True)"
      using that(1,2) by (auto simp: delete_revision_def intro!: ensures_intros)
    show "ensures (?P (c # cs)) (review_revisions E ns r snap cs found kept) (?S (c # cs) found kept)"
      by (rule go) (use that(3) in blast)
  qed
  note defs = reviewed_def snapshot_revision_def older_revisions_def
  consider (foreign) "\<not> own_revision r c" | (older) "own_revision r c" "cr_revision c < rl_generation r"
    | (same) "own_revision r c" "cr_revision c = rl_generation r" "cr_data c = snap" "\<not> found"
    | (extra) "own_revision r c" "\<not> cr_revision c < rl_generation r"
        "cr_revision c \<noteq> rl_generation r \<or> cr_data c \<noteq> snap \<or> found"
    by fastforce
  then show ?case
  proof cases
    case foreign
    have "review_revisions E ns r snap (c # cs) found kept = review_revisions E ns r snap cs found kept"
      using foreign by (simp add: own_revision_def)
    then show ?thesis by (simp only:) (rule go, use foreign in \<open>auto simp: defs\<close>)
  next
    case older
    have "review_revisions E ns r snap (c # cs) found kept = review_revisions E ns r snap cs found (kept @ [c])"
      using older by (simp add: own_revision_def)
    then show ?thesis by (simp only:) (rule go, use older in \<open>auto simp: defs\<close>)
  next
    case same
    have "review_revisions E ns r snap (c # cs) found kept = review_revisions E ns r snap cs True (kept @ [c])"
      using same by (simp add: own_revision_def)
    then show ?thesis by (simp only:) (rule go, use same in \<open>auto simp: defs\<close>)
  next
    case extra
    have "\<exists>m. review_revisions E ns r snap (c # cs) found kept =
        eff_bind (eff_wrap m (delete_revision E ns (cr_name c))) (\<lambda>_. review_revisions E ns r snap cs found kept)"
      using extra by (auto simp: own_revision_def)
    then obtain m where "review_revisions E ns r snap (c # cs) found kept =
        eff_bind (eff_wrap m (delete_revision E ns (cr_name c))) (\<lambda>_. review_revisions E ns r snap cs found kept)"
      by blast
    then show ?thesis by (simp only:) (rule drop, use extra in \<open>auto simp: defs\<close>)
  qed
qed

text \<open>
  The review of the controller revisions: afterwards the kept list holds, in the old order, all
  older revisions of the release and at most one of the current generation, and that one is there
  exactly when a listed revision carries the snapshot of the current specification; only revisions
  that the release controls and that are not older than its generation are deleted.
\<close>

theorem review_revisions_spec:
  assumes "review_revisions E ns r snap cs False [] [] = (Ok (found, kept), t)"
  shows "(found \<longleftrightarrow> (\<exists>c\<in>set cs. snapshot_revision r snap c)) \<and>
    filter (\<lambda>c. cr_revision c < rl_generation r) kept = older_revisions r cs \<and>
    filter (\<lambda>c. \<not> cr_revision c < rl_generation r) kept = take 1 (filter (snapshot_revision r snap) cs) \<and>
    (\<forall>e\<in>set t. \<exists>c a. e = DeleteRevision ns (cr_name c) a \<and> c \<in> set cs \<and> own_revision r c \<and>
        \<not> cr_revision c < rl_generation r)"
  using holds_run [OF review_revisions_result [of ns cs r E snap False "[]", unfolded ensures_def] assms]
  by (auto simp: reviewed_def list_all_iff)

section \<open>The revision history\<close>


section \<open>The deployment is stored once\<close>

lemma new_deployment_owned:
  assumes "base = None \<or> (\<exists>b. base = Some b \<and> owned_by (rl_namespace r) (rl_name r) (dp_meta b))"
  shows "owned_by (rl_namespace r) (rl_name r)
    (dp_meta (new_deployment sha cf spare r s base managed userns sa podns suffix))"
  using assms
  by (auto simp: new_deployment_eq Let_def owned_by_def fresh_deployment_def release_labels_def
      instance_labels_def set_all_def)

definition built_deployment ::
  "rel_env \<Rightarrow> rel_config \<Rightarrow> string \<Rightarrow> release \<Rightarrow> secret \<Rightarrow> bool \<Rightarrow> bool \<Rightarrow> deployment \<Rightarrow> bool" where
  "built_deployment E cf podns r s managed userns d \<longleftrightarrow>
     (\<exists>base suffix. d = new_deployment (re_sha256 E) cf (re_env_spare E) r s base managed userns
        (service_account_of r) podns suffix) \<and> owned_by (rl_namespace r) (rl_name r) (dp_meta d)"

fun deployment_write :: "rel_env \<Rightarrow> rel_config \<Rightarrow> string \<Rightarrow> release \<Rightarrow> secret \<Rightarrow> bool \<Rightarrow> bool \<Rightarrow> rel_call \<Rightarrow> bool"
where
  "deployment_write E cf podns r s managed userns (CreateDeployment ns d _) \<longleftrightarrow>
     ns = podns \<and> built_deployment E cf podns r s managed userns d"
| "deployment_write E cf podns r s managed userns (UpdateDeployment ns d _) \<longleftrightarrow>
     ns = podns \<and> built_deployment E cf podns r s managed userns d"
| "deployment_write E cf podns r s managed userns _ \<longleftrightarrow> True"

lemma ensure_deployment_writes:
  "emits (deployment_write E cf podns r s managed userns)
     (ensure_deployment E cf (rl_namespace r) (rl_name r) podns r s managed userns)"
proof -
  have make: "ensures (deployment_write E cf podns r s managed userns)
      (make_deployment E cf r s base managed userns podns) (built_deployment E cf podns r s managed userns)"
    if "base = None \<or> (\<exists>b. base = Some b \<and> owned_by (rl_namespace r) (rl_name r) (dp_meta b))" for base
    unfolding make_deployment_def random_suffix_def
  proof (rule ensures_bind [where R = "\<lambda>_. True"])
    show "ensures (deployment_write E cf podns r s managed userns)
        (eff_ret (new_deployment (re_sha256 E) cf (re_env_spare E) r s base managed userns (service_account_of r) podns x))
        (built_deployment E cf podns r s managed userns)" for x
      using new_deployment_owned [OF that] by (intro ensures_ret) (unfold built_deployment_def, blast)
  qed (auto intro: ensures_intros)
  have store: "emits (deployment_write E cf podns r s managed userns)
      (eff_bind (eff_try (create_deployment E podns d)) (\<lambda>answer. case answer of
               Inl _ \<Rightarrow> eff_bind (record_event ''Warning'' ''CreateFailed'')
                          (\<lambda>_. eff_fail (Errorf ''failed to create deployment''))
             | Inr _ \<Rightarrow> eff_bind (record_event ''Normal'' ''Created'') (\<lambda>_. eff_ret Done)))"
    "emits (deployment_write E cf podns r s managed userns)
      (eff_bind (eff_try (update_deployment E podns d)) (\<lambda>answer. case answer of
                 Inl _ \<Rightarrow> eff_bind (record_event ''Warning'' ''UpdateFailed'')
                            (\<lambda>_. eff_fail (Errorf ''failed to update deployment''))
               | Inr _ \<Rightarrow> eff_bind (record_event ''Normal'' ''Updated'') (\<lambda>_. eff_ret Done)))"
    if "built_deployment E cf podns r s managed userns d" for d
    using that by (auto simp: rel_call_defs split: sum.splits)
  have rest: "emits (deployment_write E cf podns r s managed userns)
      (case latest_owned dp_meta (rl_namespace r) (rl_name r) None ds of
         None \<Rightarrow>
           eff_bind (make_deployment E cf r s None managed userns podns) (\<lambda>d.
           eff_bind (eff_try (create_deployment E podns d)) (\<lambda>answer. case answer of
               Inl _ \<Rightarrow> eff_bind (record_event ''Warning'' ''CreateFailed'')
                          (\<lambda>_. eff_fail (Errorf ''failed to create deployment''))
             | Inr _ \<Rightarrow> eff_bind (record_event ''Normal'' ''Created'') (\<lambda>_. eff_ret Done)))
       | Some d \<Rightarrow>
           eff_bind (make_deployment E cf r s (Some d) managed userns podns) (\<lambda>wanted.
             if \<not> deep_eq_deployment_spec (dp_spec wanted) (dp_spec d)
             then eff_bind (eff_try (update_deployment E podns wanted)) (\<lambda>answer. case answer of
                 Inl _ \<Rightarrow> eff_bind (record_event ''Warning'' ''UpdateFailed'')
                            (\<lambda>_. eff_fail (Errorf ''failed to update deployment''))
               | Inr _ \<Rightarrow> eff_bind (record_event ''Normal'' ''Updated'') (\<lambda>_. eff_ret Done))
             else eff_ret (Go d)))" for ds
  proof (cases "latest_owned dp_meta (rl_namespace r) (rl_name r) None ds")
    case None
    then show ?thesis
      by (simp, intro ensures_emits [OF ensures_bind [OF make emits_ensures [OF store(1)]]]) auto
  next
    case (Some d)
    then have "owned_by (rl_namespace r) (rl_name r) (dp_meta d)"
      by (auto dest: latest_owned_in)
    with Some show ?thesis
      by (simp, intro ensures_emits [OF ensures_bind [OF make, where S = "\<lambda>_. True"]] emits_ensures)
        (auto simp: rel_call_defs split: sum.splits)
  qed
  show ?thesis
    unfolding ensure_deployment_def by (rule emits_bind) (auto simp: cached_deployments_def rest)
qed

text \<open>
  C27. No endless updates: once the cache shows the deployment that the controller has created or
  updated for a release, the deployment stage lets the handler go on and writes nothing, in any
  later state of the rest of the world.
\<close>

theorem ensure_deployment_settles:
  assumes "CreateDeployment pns d a \<in> set (snd (ensure_deployment E cf (rl_namespace r) (rl_name r) podns r s managed userns []))
         \<or> UpdateDeployment pns d b \<in> set (snd (ensure_deployment E cf (rl_namespace r) (rl_name r) podns r s managed userns []))"
    and "re_cached_deployments E' h podns = Inr [d]"
    and "re_sha256 E' = re_sha256 E" and "re_env_spare E' = re_env_spare E"
  shows "\<exists>suffix. ensure_deployment E' cf (rl_namespace r) (rl_name r) podns r s managed userns h =
      (Ok (Go d), h @ [CachedDeployments podns (rl_namespace r) (rl_name r) (Inr [d]), RandomSuffix suffix])"
proof -
  have "built_deployment E cf podns r s managed userns d"
    using assms(1) holds_run [OF ensure_deployment_writes [where E = E and cf = cf and podns = podns and r = r and s = s and managed = managed and userns = userns, unfolded emits_def], of
        "fst (ensure_deployment E cf (rl_namespace r) (rl_name r) podns r s managed userns [])"]
    by (force simp: list_all_iff)
  then obtain base suffix where d: "d = new_deployment (re_sha256 E) cf (re_env_spare E) r s base managed userns
        (service_account_of r) podns suffix" and owned: "owned_by (rl_namespace r) (rl_name r) (dp_meta d)"
    by (auto simp: built_deployment_def)
  have again: "new_deployment (re_sha256 E) cf (re_env_spare E) r s (Some d) managed userns
        (service_account_of r) podns suffix' = d" for suffix'
    unfolding d by (simp add: new_deployment_eq Let_def new_template_idem set_all_idem [OF distinct_instance_labels(2)]
      set_all_idem [OF distinct_instance_labels(3)])
  show ?thesis
    using owned assms(2-4)
    by (simp add: ensure_deployment_def cached_deployments_def make_deployment_def random_suffix_def
        effect_defs again)
qed

section \<open>Examples\<close>

definition example_revision :: "int \<Rightarrow> string \<Rightarrow> controller_revision" where
  "example_revision n snap =
     \<lparr>cr_meta = empty_meta\<lparr>om_name := snap,
        om_owner_refs := [new_controller_ref empty_meta ''fleet.crd.tess.io/v1alpha1'' ''Release'']\<rparr>,
      cr_data = snap, cr_revision = n\<rparr>"

definition second_release :: release where
  "second_release = young_release\<lparr>rl_meta := (rl_meta young_release)\<lparr>om_generation := 2\<rparr>\<rparr>"

lemma second_release_review:
  "review_revisions quiet_env ''ns'' second_release ''b''
     [example_revision 1 ''a'', example_revision 2 ''b'', example_revision 3 ''c''] False [] [] =
   (Ok (True, [example_revision 1 ''a'', example_revision 2 ''b'']), [DeleteRevision ''ns'' ''c'' (Inr ())])"
  by (simp add: is_controlled_by_def get_controller_of_def new_controller_ref_def example_revision_def
      second_release_def young_release_def empty_meta_def effect_defs delete_revision_def quiet_env_def)

theorem review_revisions_spec_witness:
  "\<exists>c\<in>set [example_revision 1 ''a'', example_revision 2 ''b'', example_revision 3 ''c''].
     snapshot_revision second_release ''b'' c"
  using review_revisions_spec [OF second_release_review] by blast

lemma short_history_run:
  "prune_history quiet_env ''ns'' (young_release\<lparr>rl_spec := (rl_spec young_release)\<lparr>rs_revision_history_limit := Some 1\<rparr>\<rparr>)
     [example_revision 1 ''a'', example_revision 2 ''b''] [] =
   (Ok (), [DeleteRevision ''ns'' ''a'' (Inr ())])"
  by (simp add: prune_history_def history_limit_def Let_def effect_defs delete_revision_def quiet_env_def
      example_revision_def)


definition stored_deployment :: deployment where
  "stored_deployment = new_deployment id example_config 0 young_release empty_secret None False False
     (service_account_of young_release) ''sys'' ''abcde''"

lemma first_deployment_run:
  "CreateDeployment ''sys'' stored_deployment (Inr stored_deployment) \<in> set (snd (ensure_deployment quiet_env
     example_config (rl_namespace young_release) (rl_name young_release) ''sys'' young_release empty_secret False False []))"
  by (simp add: ensure_deployment_def cached_deployments_def make_deployment_def random_suffix_def
      create_deployment_def record_event_def effect_defs quiet_env_def stored_deployment_def)

theorem ensure_deployment_settles_witness:
  "fst (ensure_deployment (quiet_env\<lparr>re_cached_deployments := (\<lambda>h ns. Inr [stored_deployment])\<rparr>) example_config
     (rl_namespace young_release) (rl_name young_release) ''sys'' young_release empty_secret False False []) =
   Ok (Go stored_deployment)"
proof -
  let ?E = "quiet_env\<lparr>re_cached_deployments := (\<lambda>h ns. Inr [stored_deployment])\<rparr>"
  have "re_cached_deployments ?E [] ''sys'' = Inr [stored_deployment]" "re_sha256 ?E = re_sha256 quiet_env"
    "re_env_spare ?E = re_env_spare quiet_env" by simp_all
  from ensure_deployment_settles [OF disjI1 [OF first_deployment_run] this] show ?thesis by auto
qed

end
