(* ===== verification/ReleaseOutcome.thy ===== *)
theory ReleaseOutcome
  imports ReleaseProgress
begin

text \<open>
  How a run of the release controller can end, and what the work queue makes of it: on well formed
  objects the handler does not panic, only a configuration that no retry can repair is not retried,
  and the labels of every worker object lead back to the key of its release. The last section shows
  what the two kinds of malformed objects do.
\<close>

section \<open>No panic on well formed objects\<close>

text \<open>
  What the theorem asks of the answers: secrets have a data map (an API server leaves the field out
  for a secret without data), and reading the cache of releases does not produce the controller's
  own sentinel error.
\<close>

definition well_formed_answers :: "rel_env \<Rightarrow> bool" where
  "well_formed_answers E \<longleftrightarrow>
     (\<forall>h ns n. re_get_release E h ns n \<noteq> Inl NonRetryable) \<and>
     (\<forall>h ns n r. re_get_release E h ns n = Inr r \<longrightarrow> 0 \<le> history_limit r) \<and>
     (\<forall>h ns n s. re_get_secret E h ns n = Inr s \<longrightarrow> sc_data s \<noteq> None) \<and>
     (\<forall>h ns ss. re_cached_secrets E h ns = Inr ss \<longrightarrow> (\<forall>s\<in>set ss. sc_data s \<noteq> None))"

lemma safe_store_status: "safe (store_status E ns msg r copy) (\<lambda>_. True)"
  unfolding store_status_def update_release_status_def
  by (auto intro!: safe_intros safe_bind [where R = "\<lambda>_. True"])

lemma safe_cleanup_namespace: "calm (cleanup_namespace E podns r) (\<lambda>_. True)"
  unfolding calm_def
proof
  fix h
  obtain res h' where run: "cleanup_namespace E podns r h = (res, h')"
    by (cases "cleanup_namespace E podns r h")
  then have "res \<noteq> Panic"
    using holdsD [OF holds_cleanup_namespace run] by blast
  with run show "fst (cleanup_namespace E podns r h) \<noteq> Panic \<and>
      (\<forall>x. fst (cleanup_namespace E podns r h) = Ok x \<longrightarrow> True)" by simp
qed

lemma safe_delete_resources_for: "safe (delete_resources_for E r) (\<lambda>_. True)"
  unfolding delete_resources_for_def update_release_def
  by (rule safe_bind [where R = "\<lambda>_. True"])
    (auto intro!: safe_intros safe_wrap [OF safe_cleanup_namespace] split: option.split)

lemma safe_ensure_finalizer: "safe (ensure_finalizer E ns r) (\<lambda>_. True)"
  unfolding ensure_finalizer_def update_release_def
  by (auto intro!: safe_intros safe_bind [where R = "\<lambda>_. True"])

lemma safe_check_deployer: "safe (check_deployer r) (\<lambda>_. True)"
  unfolding check_deployer_def record_event_def Let_def
  by (auto intro!: safe_intros safe_bind [where R = "\<lambda>_. True"])

lemma safe_review_revisions: "safe (review_revisions E ns r snap cs found kept) (\<lambda>_. True)"
  by (induction cs arbitrary: found kept)
    (auto simp: delete_revision_def intro!: safe_intros safe_bind [where R = "\<lambda>_. True"])

lemma calm_snapshot: "calm (eff_of_res (snapshot E r)) (\<lambda>_. True)"
  by (rule calm_of_res) (simp_all add: snapshot_def)

lemma safe_ensure_revision: "safe (ensure_revision E ns name r) (\<lambda>_. True)"
  unfolding ensure_revision_def list_revisions_def random_suffix_def create_revision_def
  by (rule safe_bind [OF safe_wrap [OF calm_snapshot]],
      rule safe_bind [where R = "\<lambda>_. True"], force intro!: safe_intros,
      rule safe_bind [OF safe_review_revisions])
    (auto intro!: safe_intros safe_bind [where R = "\<lambda>_. True"])

lemma safe_leave_old_namespace: "safe (leave_old_namespace E podns r) (\<lambda>_. True)"
  unfolding leave_old_namespace_def
  by (auto intro!: safe_intros safe_wrap [OF safe_cleanup_namespace] split: option.split)

lemma safe_sync_phase: "safe (sync_phase E ns r copy) (\<lambda>_. True)"
  unfolding sync_phase_def read_clock_def
  by (rule safe_bind [where R = "\<lambda>_. True"]) (auto intro!: safe_intros safe_store_status)

lemma safe_reference_secret:
  assumes "well_formed_answers E"
  shows "safe (reference_secret E ns r userns) (\<lambda>(s, _). sc_data s \<noteq> None)"
proof (cases "rs_secret_ref (rl_spec r)")
  case (Some n)
  have answer: "safe (eff_try (get_secret E ns n)) (\<lambda>a. \<forall>s. a = Inr s \<longrightarrow> sc_data s \<noteq> None)"
    unfolding get_secret_def
    by (rule safe_try, rule calm_perform) (use assms in \<open>auto simp: well_formed_answers_def\<close>)
  show ?thesis
    unfolding reference_secret_def Some option.case
    by (rule safe_bind [OF answer])
      (auto simp: record_event_def split: sum.split intro!: safe_intros safe_bind [where R = "\<lambda>_. True"])
qed (simp add: reference_secret_def safe_ret)

lemma put_data_Some: "sc_data s \<noteq> None \<Longrightarrow> \<exists>s'. put_data k v s = Ok s' \<and> sc_data s' \<noteq> None"
  by (auto simp: put_data_def)

lemma inject_tokens_Some:
  "sc_data s \<noteq> None \<Longrightarrow> \<exists>s'. inject_tokens repo ts s = Ok s' \<and> sc_data s' \<noteq> None"
proof (induction ts arbitrary: s)
  case (Cons t ts)
  then show ?case
    using put_data_Some [of s key_token "snd t"] by (cases t) fastforce
qed simp

lemma inject_credentials_Some:
  assumes "sc_data s \<noteq> None"
  shows "\<exists>s'. inject_credentials cf r userns s = Ok s' \<and> sc_data s' \<noteq> None"
proof -
  have "\<exists>s1. (if gm_has (data_of (sc_data s)) key_token then Ok s
      else inject_tokens (rs_repository (rl_spec r)) (cf_tokens cf) s) = Ok s1 \<and> sc_data s1 \<noteq> None"
    using assms inject_tokens_Some [OF assms, of "rs_repository (rl_spec r)" "cf_tokens cf"] by auto
  then obtain s1 where "(if gm_has (data_of (sc_data s)) key_token then Ok s
      else inject_tokens (rs_repository (rl_spec r)) (cf_tokens cf) s) = Ok s1" and "sc_data s1 \<noteq> None"
    by blast
  then show ?thesis
    using assms put_data_Some [of s1 key_gpg_key "cf_gpg_key cf"] by (simp add: inject_credentials_def)
qed

lemma calm_kubeconfig_from: "calm (kubeconfig_from E cf ns names) (\<lambda>_. True)"
proof -
  have "safe (kubeconfig_from E cf ns names) (\<lambda>_. True)"
  proof (induction names)
    case (Cons n names)
    have written: "safe (eff_wrap m (eff_of_res (lift_res (re_write_kubeconfig E k)))) (\<lambda>_. True)" for m k
      by (rule safe_wrap, rule calm_of_res) simp_all
    have answer: "safe (eff_try (get_secret E ns n)) (\<lambda>_. True)"
      unfolding get_secret_def by (rule safe_try_perform)
    show ?case
      unfolding kubeconfig_from.simps
      by (rule safe_bind [OF answer])
        (auto split: sum.split option.split intro!: safe_intros Cons.IH written)
  qed (simp add: safe_fail)
  then show ?thesis by (rule safe_calm)
qed

lemma safe_inject_kubeconfig:
  assumes "sc_data s \<noteq> None"
  shows "safe (inject_kubeconfig E cf ns r managed s) (\<lambda>s. sc_data s \<noteq> None)"
proof (cases managed)
  case False
  have build: "calm (build_kube_config E cf ns sa) (\<lambda>_. True)" for sa
    unfolding build_kube_config_def get_service_account_def
    by (rule calm_bind [where R = "\<lambda>_. True"]) (auto intro!: safe_intros calm_kubeconfig_from)
  have put: "safe (eff_of_res (put_data key_kubeconfig config s)) (\<lambda>s. sc_data s \<noteq> None)" for config
    using put_data_Some [OF assms, of key_kubeconfig config] by (auto intro!: safe_of_res)
  show ?thesis
    unfolding inject_kubeconfig_def if_not_P [OF False]
    by (rule safe_bind [OF safe_weaken [OF safe_try [OF build], where S = "\<lambda>_. True"]])
      (auto simp: record_event_def split: sum.split simp del: not_None_eq
        intro!: put safe_fail safe_bind [OF safe_notify])
qed (use assms in \<open>simp add: inject_kubeconfig_def safe_ret\<close>)

lemma safe_make_secret:
  assumes "\<forall>b. base = Some b \<longrightarrow> sc_data b \<noteq> None"
  shows "safe (make_secret E r base ref podns) (\<lambda>_. True)"
proof -
  have ok: "\<exists>s. new_secret r base ref podns suffix = Ok s" for suffix
    using assms by (auto simp: new_secret_def copy_secret_data_def fresh_secret_def Let_def split: option.split)
  show ?thesis
    unfolding make_secret_def random_suffix_def
    by (rule safe_bind [where R = "\<lambda>_. True"], simp add: safe_observe, rule safe_of_res)
      (use ok in \<open>metis res.distinct\<close>)+
qed

lemma safe_ensure_secret:
  assumes "well_formed_answers E"
  shows "safe (ensure_secret E ns name podns r copy ref) (\<lambda>_. True)"
proof -
  have replace: "safe (eff_bind (replace_secret E r ref podns) (\<lambda>_. eff_ret Done)) (\<lambda>_. True)"
    unfolding replace_secret_def create_secret_def record_event_def
    by (rule safe_bind [where R = "\<lambda>_. True"], rule safe_bind [OF safe_make_secret], simp,
        rule safe_bind [OF safe_try_perform])
      (auto split: sum.split intro!: safe_intros safe_bind [where R = "\<lambda>_. True"])
  have listed: "safe (eff_wrap m (cached_secrets E podns ns name)) (\<lambda>ss. \<forall>s\<in>set ss. sc_data s \<noteq> None)" for m
    unfolding cached_secrets_def
    by (rule safe_wrap, rule calm_perform) (use assms in \<open>auto simp: well_formed_answers_def\<close>)
  have base: "\<forall>b. latest_owned sc_meta ns name None ss = Some b \<longrightarrow> sc_data b \<noteq> None"
    if "\<forall>s\<in>set ss. sc_data s \<noteq> None" for ss
    using that latest_owned_in [of sc_meta ns name None ss] by auto
  show ?thesis
    unfolding ensure_secret_def Let_def
    by (rule safe_bind [OF listed], rule safe_bind [OF safe_make_secret], erule base)
      (auto split: option.split flow.split intro!: safe_intros replace safe_bind [OF safe_store_status])
qed

lemma deep_eq_deployment_spec_replicas:
  "deep_eq_deployment_spec a b \<Longrightarrow> dsp_replicas a = Some n \<Longrightarrow> dsp_replicas b = Some n"
  unfolding deep_eq_deployment_spec_def by (cases a; cases b) simp

lemma safe_ensure_deployment:
  "safe (ensure_deployment E cf ns name podns r s managed userns)
     (\<lambda>f. \<forall>d. f = Go d \<longrightarrow> dsp_replicas (dp_spec d) \<noteq> None)"
proof -
  have make: "safe (make_deployment E cf r s base managed userns podns)
      (\<lambda>d. dsp_replicas (dp_spec d) \<noteq> None)" for base
    unfolding make_deployment_def random_suffix_def
    by (rule safe_bind [where R = "\<lambda>_. True"])
      (auto simp: new_deployment_eq Let_def intro!: safe_intros)
  have answer: "safe (eff_try (create_deployment E podns d)) (\<lambda>_. True)"
    "safe (eff_try (update_deployment E podns d)) (\<lambda>_. True)" for d
    unfolding create_deployment_def update_deployment_def by (rule safe_try_perform)+
  have listed: "safe (eff_wrap m (cached_deployments E podns ns name)) (\<lambda>_. True)" for m
    unfolding cached_deployments_def by (intro safe_intros) simp
  show ?thesis
    unfolding ensure_deployment_def record_event_def
    apply (rule safe_bind [OF listed])
    subgoal for ds
      by (cases "latest_owned dp_meta ns name None ds")
        (auto simp: deep_eq_deployment_spec_replicas split: sum.split
          intro!: safe_bind [OF make] safe_bind [OF answer(1)] safe_bind [OF answer(2)]
            safe_intros safe_bind [where R = "\<lambda>_. True"])
    done
qed

lemma safe_sync_observed:
  "dsp_replicas (dp_spec d) \<noteq> None \<Longrightarrow> safe (sync_observed E ns r d copy) (\<lambda>_. True)"
  unfolding sync_observed_def
  by (rule safe_bind [where R = "\<lambda>_. True"], rule safe_of_res)
    (auto simp: deployer_phase_of_def Let_def split: flow.split if_split_asm
      intro!: safe_intros safe_bind [OF safe_store_status])

lemma safe_drop_unused_secret: "safe (drop_unused_secret E podns s ss) (\<lambda>_. True)"
  unfolding drop_unused_secret_def delete_secret_def
  by (auto split: option.split intro!: safe_intros safe_bind [where R = "\<lambda>_. True"])

lemma safe_sync_conditions: "safe (sync_conditions E ns r d phase copy) (\<lambda>_. True)"
  unfolding sync_conditions_def Let_def read_clock_def update_release_status_def
  by (rule safe_bind [where R = "\<lambda>_. True"]) (auto intro!: safe_intros)

lemma safe_prune_history: "0 \<le> history_limit r \<Longrightarrow> safe (prune_history E ns r revs) (\<lambda>_. True)"
  unfolding prune_history_def Let_def delete_revision_def
  by (auto intro!: safe_intros safe_each)

lemma safe_sync_worker:
  assumes "well_formed_answers E" and "0 \<le> history_limit r"
  shows "safe (sync_worker E cf ns name podns userns r copy revs) (\<lambda>_. True)"
proof -
  have later: "safe (after_secret E cf ns name podns userns r revs managed y) (\<lambda>_. True)" for managed y
  proof -
    have end_part: "safe (eff_stage (drop_unused_secret E podns s ss)
        (\<lambda>_. eff_bind (sync_conditions E ns r d phase c) (\<lambda>_. prune_history E ns r revs))) (\<lambda>_. True)" for s ss d phase c
      by (rule safe_stage [where R = "\<lambda>_. True"], simp add: safe_drop_unused_secret,
          rule safe_bind [OF safe_sync_conditions safe_prune_history [OF assms(2)]])
    show ?thesis
      unfolding after_secret_def
      by (cases y, simp, rule safe_stage [OF safe_ensure_deployment],
          rule safe_stage [where R = "\<lambda>_. True"], simp add: safe_sync_observed)
        (simp add: end_part split: prod.split)
  qed
  have secret: "safe (eff_stage (ensure_secret E ns name podns r copy ref)
      (after_secret E cf ns name podns userns r revs managed)) (\<lambda>_. True)" for ref managed
    by (rule safe_stage [where R = "\<lambda>_. True"]) (simp_all add: safe_ensure_secret [OF assms(1)] later)
  have credentials: "safe (eff_of_res (inject_credentials cf r userns s)) (\<lambda>s. sc_data s \<noteq> None)"
    if "sc_data s \<noteq> None" for s
    using inject_credentials_Some [OF that, of cf r userns] by (auto intro!: safe_of_res)
  show ?thesis
    unfolding sync_worker_after_secret
    by (rule safe_bind [OF safe_reference_secret [OF assms(1)]])
      (auto simp del: not_None_eq intro!: safe_bind [OF credentials] safe_bind [OF safe_inject_kubeconfig] secret)
qed

lemma safe_user_namespace_mode:
  "\<not> (cf_remote cf \<and> (\<exists>v. map_of (om_annotations (rl_meta r)) annotation_user_namespace = Some v \<and> v \<noteq> ''false'')) \<Longrightarrow>
     safe (user_namespace_mode cf r) (\<lambda>_. True)"
  unfolding user_namespace_mode_def by (auto split: option.split intro!: safe_intros)

lemma calm_user_namespace_mode: "calm (user_namespace_mode cf r) (\<lambda>_. True)"
  unfolding user_namespace_mode_def calm_def record_event_def effect_defs by (auto split: option.split)

lemma safe_sync_rest:
  assumes "well_formed_answers E" and "0 \<le> history_limit r"
  shows "safe (eff_bind (check_deployer r) (\<lambda>_.
           eff_stage (ensure_finalizer E ns r) (\<lambda>copy.
           eff_stage (ensure_revision E ns name r) (\<lambda>revs.
           eff_bind (leave_old_namespace E podns r) (\<lambda>_.
           eff_stage (store_status E ns m r (with_deployer_status cf podns copy)) (\<lambda>copy.
           eff_stage (sync_phase E ns r copy) (\<lambda>copy.
           sync_worker E cf ns name podns userns r copy revs))))))) (\<lambda>_. True)"
  by (rule safe_bind [OF safe_check_deployer],
      rule safe_stage [where R = "\<lambda>_. True"], simp add: safe_ensure_finalizer,
      rule safe_stage [where R = "\<lambda>_. True"], simp add: safe_ensure_revision,
      rule safe_bind [OF safe_leave_old_namespace],
      rule safe_stage [where R = "\<lambda>_. True"], simp add: safe_store_status,
      rule safe_stage [where R = "\<lambda>_. True"], simp add: safe_sync_phase,
      rule safe_sync_worker [OF assms])

definition beyond_retry :: "rel_config \<Rightarrow> release \<Rightarrow> bool" where
  "beyond_retry cf r \<longleftrightarrow> om_deletion (rl_meta r) = None \<and> cf_remote cf \<and>
     (\<exists>v. map_of (om_annotations (rl_meta r)) annotation_user_namespace = Some v \<and> v \<noteq> ''false'')"

lemma sync_release_outcome:
  assumes "well_formed_answers E" and "0 \<le> history_limit r"
  shows "calm (sync_release E cf ns name r) (\<lambda>_. True)"
    and "\<not> beyond_retry cf r \<Longrightarrow> safe (sync_release E cf ns name r) (\<lambda>_. True)"
proof -
  note rest = safe_sync_rest [OF assms, where ns = ns and name = name and cf = cf]
  show "calm (sync_release E cf ns name r) (\<lambda>_. True)"
  proof (cases "om_deletion (rl_meta r) = None")
    case True
    then show ?thesis
      unfolding sync_release_def
      by (auto intro!: calm_bind [OF calm_user_namespace_mode] safe_calm [OF rest])
  qed (simp add: sync_release_def safe_calm [OF safe_delete_resources_for])
  show "safe (sync_release E cf ns name r) (\<lambda>_. True)" if "\<not> beyond_retry cf r"
  proof (cases "om_deletion (rl_meta r) = None")
    case True
    with that have "safe (user_namespace_mode cf r) (\<lambda>_. True)"
      by (intro safe_user_namespace_mode) (simp add: beyond_retry_def)
    with True show ?thesis
      unfolding sync_release_def by (auto intro!: safe_bind rest)
  qed (simp add: sync_release_def safe_delete_resources_for)
qed



section \<open>From a worker object to its release\<close>

text \<open>
  The labels lead back: the event of a new worker secret or deployment enqueues a key that the
  handler splits into the namespace and the name of the release it belongs to, in local mode
  wherever the worker runs (system namespace or the namespace of the release), in remote mode unless
  the release lives in a namespace called like the local system namespace.
\<close>

theorem dependant_key_round_trip:
  assumes "CHR ''/'' \<notin> set (rl_namespace r)" and "CHR ''/'' \<notin> set (rl_name r)"
    and "podns = cf_namespace cf \<or> podns = rl_namespace r"
    and "cf_remote cf \<longrightarrow> rl_namespace r \<noteq> cf_namespace cf"
  shows "(\<exists>key. handle_dependant cf (LiveObject (sc_meta (fresh_secret r podns suffix))) = Some key \<and>
            split_meta_namespace_key key = Some (rl_namespace r, rl_name r)) \<and>
         (\<exists>key. handle_dependant cf (Tombstone (Some (dp_meta
              (new_deployment sha cf spare r s None managed userns sa podns suffix)))) = Some key \<and>
            split_meta_namespace_key key = Some (rl_namespace r, rl_name r))"
proof -
  have key: "split_meta_namespace_key (rl_namespace r @ ''/'' @ rl_name r) = Some (rl_namespace r, rl_name r)"
    using assms(1,2) by (simp add: split_meta_namespace_key_def split_on_append split_on_no_sep)
  have found: "dependant_key cf m = Some (rl_namespace r @ ''/'' @ rl_name r)"
    if "om_namespace m = podns" "map_of (om_labels m) label_release_namespace = Some (rl_namespace r)"
      "map_of (om_labels m) label_release_name = Some (rl_name r)" for m
    using that assms(3,4) by (auto simp: dependant_key_def)
  have "dependant_key cf (sc_meta (fresh_secret r podns suffix)) = Some (rl_namespace r @ ''/'' @ rl_name r)"
    by (rule found) (simp_all add: fresh_secret_def release_labels_def)
  moreover have "dependant_key cf (dp_meta (new_deployment sha cf spare r s None managed userns sa podns suffix)) =
      Some (rl_namespace r @ ''/'' @ rl_name r)"
    by (rule found) (simp_all add: new_deployment_eq Let_def fresh_deployment_def release_labels_def
        instance_labels_def set_all_def)
  ultimately show ?thesis using key by (simp add: handle_dependant_def)
qed

theorem dependant_key_round_trip_witness:
  "\<exists>key. handle_dependant example_config (LiveObject (sc_meta (fresh_secret young_release ''sys'' ''abcde''))) = Some key \<and>
     split_meta_namespace_key key = Some (''ns'', ''rel'')"
proof -
  have r: "rl_namespace young_release = ''ns''" "rl_name young_release = ''rel''"
    by (simp_all add: young_release_def)
  have "cf_namespace example_config = ''sys''" "\<not> cf_remote example_config"
    by (simp_all add: example_config_def)
  then show ?thesis
    using dependant_key_round_trip [of young_release "''sys''" example_config "''abcde''"] by (simp add: r)
qed

section \<open>Malformed objects\<close>

definition secret_ref_release :: release where
  "secret_ref_release = young_release\<lparr>rl_spec := (rl_spec young_release)\<lparr>rs_secret_ref := Some ''ref''\<rparr>\<rparr>"

definition empty_ref_env :: rel_env where
  "empty_ref_env = token_env\<lparr>re_get_secret :=
     (\<lambda>h ns n. if n = ''tok'' then Inr token_secret else if n = ''ref'' then Inr empty_secret else Inl NotFound)\<rparr>"

text \<open>
  A referenced secret without data crashes the worker part of the handler: the kubeconfig is
  written into its nil data map.
\<close>

theorem secret_ref_without_data_panics:
  "fst (sync_worker empty_ref_env example_config ''ns'' ''rel'' ''sys'' False secret_ref_release secret_ref_release [] []) = Panic"
proof -
  have r: "rs_secret_ref (rl_spec secret_ref_release) = Some ''ref''" "service_account_of secret_ref_release = ''default''"
    by (simp_all add: secret_ref_release_def young_release_def service_account_of_def empty_spec_def)
  have cf: "cf_tokens example_config = []" "cf_gpg_key example_config = []"
    by (simp_all add: example_config_def)
  have s: "sc_data empty_secret = None" "\<not> is_managed empty_secret"
    by (simp_all add: empty_secret_def is_managed_def empty_meta_def)
  have kube: "\<exists>t. build_kube_config empty_ref_env example_config ''ns'' ''default'' h = (Ok ''t0'', t)" for h
    by (simp add: build_kube_config_def effect_defs rel_call_defs empty_ref_env_def token_env_def quiet_env_def
        token_secret_def token_kubeconfig_def)
  have ref: "reference_secret empty_ref_env ''ns'' secret_ref_release False [] =
      (Ok (empty_secret, False), [GetSecret ''ns'' ''ref'' (Inr empty_secret)])"
    by (simp add: reference_secret_def r s effect_defs get_secret_def empty_ref_env_def token_env_def quiet_env_def)
  obtain t where "build_kube_config empty_ref_env example_config ''ns'' ''default''
      [GetSecret ''ns'' ''ref'' (Inr empty_secret)] = (Ok ''t0'', t)"
    using kube by blast
  then show ?thesis
    by (simp add: sync_worker_def eff_bind_def ref inject_credentials_def cf s inject_kubeconfig_def r
        eff_try_def eff_of_res_def put_data_def)
qed

text \<open>
  A negative history limit crashes the pruning of the history, whatever the revisions are: the
  slice expression of the source has a negative bound.
\<close>

theorem negative_history_limit_panics:
  "history_limit (young_release\<lparr>rl_spec := (rl_spec young_release)\<lparr>rs_revision_history_limit := Some (- 1)\<rparr>\<rparr>) < 0 \<and>
   fst (prune_history E ns (young_release\<lparr>rl_spec := (rl_spec young_release)
     \<lparr>rs_revision_history_limit := Some (- 1)\<rparr>\<rparr>) revs h) = Panic"
  by (simp add: prune_history_def history_limit_def Let_def eff_of_res_def)

end
