(* ===== verification/GoTime.thy ===== *)
theory GoTime
  imports KubeMeta
begin

text \<open>
  The part of Go's \<open>time\<close> package that the calendar controller uses. An instant is a number of
  nanoseconds since the Unix epoch, a location is the function that gives the offset from UTC in
  seconds at an instant, and the civil date is computed the way the package does it: whole cycles
  of 400, 100, 4 and 1 years, then a table of the days before each month.
\<close>

type_synonym location = "instant \<Rightarrow> int"

definition second :: int where "second = 10 ^ 9"
definition hour :: int where "hour = 3600 * second"
definition day :: int where "day = 24 * hour"

text \<open>\<open>time.FixedZone\<close>\<close>

definition fixed_zone :: "int \<Rightarrow> location" where
  "fixed_zone offset = (\<lambda>_. offset)"

text \<open>The wall clock in a location, as nanoseconds of a clock without zones.\<close>

definition wall :: "location \<Rightarrow> instant \<Rightarrow> int" where
  "wall loc t = t + loc t * second"

definition day_number :: "location \<Rightarrow> instant \<Rightarrow> int" where
  "day_number loc t = wall loc t div day"

text \<open>0 is Sunday; the epoch was a Thursday.\<close>

definition weekday :: "location \<Rightarrow> instant \<Rightarrow> int" where
  "weekday loc t = (day_number loc t + 4) mod 7"

definition hour_of :: "location \<Rightarrow> instant \<Rightarrow> int" where
  "hour_of loc t = (wall loc t mod day) div hour"

definition minute_of :: "location \<Rightarrow> instant \<Rightarrow> int" where
  "minute_of loc t = (wall loc t mod hour) div (60 * second)"

section \<open>Civil dates\<close>

definition is_leap :: "int \<Rightarrow> bool" where
  "is_leap y \<longleftrightarrow> y mod 4 = 0 \<and> (y mod 100 \<noteq> 0 \<or> y mod 400 = 0)"

text \<open>Days of the year 1 and later, day 0 is 1 January of the year 1.\<close>

definition epoch_days :: int where "epoch_days = 719162"

text \<open>\<open>time.Time{}\<close>: the first of January of the year 1.\<close>

definition zero_time :: instant where
  "zero_time = - (epoch_days * day)"

definition year_and_day :: "int \<Rightarrow> int \<times> int" where
  "year_and_day d =
     (let n400 = d div 146097; d = d mod 146097;
          n100 = min 3 (d div 36524); d = d - n100 * 36524;
          n4 = d div 1461; d = d mod 1461;
          n1 = min 3 (d div 365); d = d - n1 * 365
      in (400 * n400 + 100 * n100 + 4 * n4 + n1 + 1, d))"

definition days_before_year :: "int \<Rightarrow> int" where
  "days_before_year y =
     (let p = y - 1 in 365 * p + p div 4 - p div 100 + p div 400)"

definition days_before :: "int list" where
  "days_before = [0, 31, 59, 90, 120, 151, 181, 212, 243, 273, 304, 334, 365]"

definition month_and_day :: "bool \<Rightarrow> int \<Rightarrow> int \<times> int" where
  "month_and_day leap yday =
     (if leap \<and> yday = 59 then (2, 29)
      else let d = (if leap \<and> 59 < yday then yday - 1 else yday);
               m = d div 31;
               end_day = days_before ! nat (m + 1)
           in if end_day \<le> d then (m + 2, d - end_day + 1)
              else (m + 1, d - days_before ! nat m + 1))"

definition day_of_year :: "bool \<Rightarrow> int \<Rightarrow> int \<Rightarrow> int" where
  "day_of_year leap m d =
     days_before ! nat (m - 1) + (if leap \<and> 3 \<le> m then 1 else 0) + d - 1"

definition civil_of_days :: "int \<Rightarrow> int \<times> int \<times> int" where
  "civil_of_days n =
     (case year_and_day (n + epoch_days) of (y, yday) \<Rightarrow>
        case month_and_day (is_leap y) yday of (m, d) \<Rightarrow> (y, m, d))"

definition days_of_civil :: "int \<Rightarrow> int \<Rightarrow> int \<Rightarrow> int" where
  "days_of_civil y m d = days_before_year y + day_of_year (is_leap y) m d - epoch_days"

text \<open>\<open>fmt.Sprintf("%d-%02d-%02d", ...)\<close> of year, month and day.\<close>

definition date_string_of :: "int \<Rightarrow> string" where
  "date_string_of n =
     (case civil_of_days n of (y, m, d) \<Rightarrow> int_string y @ ''-'' @ pad2 (nat m) @ ''-'' @ pad2 (nat d))"

definition date_string :: "location \<Rightarrow> instant \<Rightarrow> string" where
  "date_string loc t = date_string_of (day_number loc t)"

text \<open>
  \<open>time.Date(y, m, d, h, min, 0, 0, loc)\<close> for the wall clock \<open>w\<close>: the offset is looked up twice,
  first at the wall clock taken as UTC, then at the result.
\<close>

definition instant_of_wall :: "location \<Rightarrow> int \<Rightarrow> instant" where
  "instant_of_wall loc w = w - loc (w - loc w * second) * second"

definition go_date :: "location \<Rightarrow> int \<Rightarrow> int \<Rightarrow> int \<Rightarrow> int \<Rightarrow> int \<Rightarrow> instant" where
  "go_date loc y m d h mi =
     instant_of_wall loc (days_of_civil y m d * day + h * hour + mi * 60 * second)"

text \<open>\<open>time.Parse("15:04", s)\<close>: one or two digits, a colon, two digits, nothing else.\<close>

definition digit_of :: "char \<Rightarrow> int option" where
  "digit_of c = (if 48 \<le> (of_char c :: nat) \<and> (of_char c :: nat) \<le> 57 then Some (int (of_char c) - 48) else None)"

definition two_digits :: "char \<Rightarrow> char \<Rightarrow> int option" where
  "two_digits a b = (case (digit_of a, digit_of b) of (Some x, Some y) \<Rightarrow> Some (10 * x + y) | _ \<Rightarrow> None)"

definition parse_hh_mm :: "string \<Rightarrow> (int \<times> int) option" where
  "parse_hh_mm s =
     (let (h, rest) = (case s of
           a # b # rest \<Rightarrow> (case two_digits a b of
               Some h \<Rightarrow> (Some h, rest)
             | None \<Rightarrow> (digit_of a, b # rest))
         | [a] \<Rightarrow> (digit_of a, [])
         | [] \<Rightarrow> (None, []))
      in case (h, rest) of
           (Some h, [c, x, y]) \<Rightarrow>
             (case two_digits x y of
                Some mi \<Rightarrow> if c = CHR '':'' \<and> h < 24 \<and> mi < 60 then Some (h, mi) else None
              | None \<Rightarrow> None)
         | _ \<Rightarrow> None)"

section \<open>Lemmas\<close>

lemma units_pos [simp]: "0 < second" "0 < hour" "0 < day"
  by (simp_all add: second_def hour_def day_def)

lemma capped_div:
  fixes x k c :: int
  assumes "0 < k" "0 \<le> c" "0 \<le> x" "x < 4 * k + c"
  defines "n \<equiv> min 3 (x div k)"
  shows "0 \<le> n" "n \<le> 3" "0 \<le> x - n * k" "x - n * k < k + c"
proof -
  have q: "k * (x div k) \<le> x" "x < k * (x div k) + k"
    using mult_div_mod_eq [of k x] pos_mod_bound [OF assms(1), of x] pos_mod_sign [OF assms(1), of x]
    by linarith+
  have "0 \<le> x div k" using assms(1,3) by (simp add: pos_imp_zdiv_nonneg_iff)
  then show "0 \<le> n" "n \<le> 3" by (simp_all add: n_def)
  have "0 \<le> x - n * k \<and> x - n * k < k + c"
  proof (cases "x div k \<le> 3")
    case True
    then have "n = x div k" by (simp add: n_def)
    with q assms(2) show ?thesis by (simp add: mult.commute)
  next
    case False
    then have n: "n = 3" by (simp add: n_def)
    have "k * 4 \<le> k * (x div k)" using False assms(1) by (intro mult_left_mono) auto
    with q(1) have "4 * k \<le> x" by linarith
    with n assms(1,4) show ?thesis by simp
  qed
  then show "0 \<le> x - n * k" "x - n * k < k + c" by simp_all
qed

text \<open>The cycles are recovered from the year, so the number of days is.\<close>

lemma year_and_day_split:
  obtains a b c e yday where "year_and_day d = (400 * a + 100 * b + 4 * c + e + 1, yday)"
    and "d = 146097 * a + 36524 * b + 1461 * c + 365 * e + yday"
    and "0 \<le> b" "b \<le> 3" "0 \<le> c" "c \<le> 24" "0 \<le> e" "e \<le> 3" "0 \<le> yday" "yday \<le> 365"
proof -
  define r1 where "r1 = d mod 146097"
  define b where "b = min 3 (r1 div 36524)"
  define r2 where "r2 = r1 - b * 36524"
  define c where "c = r2 div 1461"
  define r3 where "r3 = r2 mod 1461"
  define e where "e = min 3 (r3 div 365)"
  have r1: "0 \<le> r1" "r1 < 4 * 36524 + 1" by (simp_all add: r1_def)
  note b = capped_div [of 36524 1 r1, folded b_def r2_def, OF _ _ r1, simplified]
  have r3: "0 \<le> r3" "r3 < 4 * 365 + 1" by (simp_all add: r3_def)
  note e = capped_div [of 365 1 r3, folded e_def, OF _ _ r3, simplified]
  have c: "0 \<le> c" "c \<le> 24" using b by (auto simp: c_def)
  have d: "d = 146097 * (d div 146097) + r1" "r2 = 1461 * c + r3"
    by (simp_all add: r1_def c_def r3_def)
  have year: "year_and_day d = (400 * (d div 146097) + 100 * b + 4 * c + e + 1, r3 - e * 365)"
    by (simp add: year_and_day_def Let_def r1_def [symmetric] b_def [symmetric] r2_def [symmetric]
        c_def [symmetric] r3_def [symmetric] e_def [symmetric])
  have "d = 146097 * (d div 146097) + 36524 * b + 1461 * c + 365 * e + (r3 - e * 365)"
    using d by (simp add: r2_def)
  with year b c e show thesis
    by (intro that [of "d div 146097" b c e "r3 - e * 365"]) simp_all
qed

lemma year_and_day_bounds:
  "year_and_day d = (y, yday) \<Longrightarrow> 0 \<le> yday \<and> yday \<le> 365"
  by (rule year_and_day_split [of d]) simp

lemma days_before_year_split:
  assumes "0 \<le> b" "b \<le> 3" "0 \<le> c" "c \<le> 24" "0 \<le> e" "e \<le> (3::int)"
  shows "days_before_year (400 * a + 100 * b + 4 * c + e + 1) = 146097 * a + 36524 * b + 1461 * c + 365 * e"
proof -
  have "(400 * a + 100 * b + 4 * c + e) div 4 = 100 * a + 25 * b + c"
    "(400 * a + 100 * b + 4 * c + e) div 100 = 4 * a + b"
    "(400 * a + 100 * b + 4 * c + e) div 400 = a"
    using assms by (auto intro!: int_div_pos_eq [where r = e] int_div_pos_eq [where r = "4 * c + e"]
        int_div_pos_eq [where r = "100 * b + 4 * c + e"])
  then show ?thesis by (simp add: days_before_year_def Let_def)
qed

lemma days_before_year_and_day:
  "year_and_day d = (y, yday) \<Longrightarrow> days_before_year y + yday = d"
  by (rule year_and_day_split [of d]) (auto simp: days_before_year_split)

text \<open>The day of the year is recovered from month and day.\<close>

lemma day_of_year_month_and_day:
  assumes "month_and_day leap yday = (m, d)" and "0 \<le> yday" and "yday \<le> 365"
  shows "day_of_year leap m d = yday"
proof (cases "leap \<and> yday = 59")
  case True
  with assms(1) show ?thesis by (auto simp: month_and_day_def day_of_year_def days_before_def)
next
  case False
  define n where "n = (if leap \<and> 59 < yday then yday - 1 else yday)"
  define k where "k = n div 31"
  have n: "0 \<le> n" "leap \<Longrightarrow> n \<le> 364" using assms(2,3) False by (auto simp: n_def)
  have k: "0 \<le> k" "31 * k \<le> n" "n < 31 * k + 31" using n by (auto simp: k_def)
  have md: "(m, d) = (if days_before ! nat (k + 1) \<le> n then (k + 2, n - days_before ! nat (k + 1) + 1)
      else (k + 1, n - days_before ! nat k + 1))"
    using assms(1) False by (auto simp: month_and_day_def Let_def n_def k_def)
  have start: "days_before ! nat (m - 1) + d - 1 = n"
    using md k(1) by (auto simp: add.commute split: if_splits)
  have "3 \<le> m \<longleftrightarrow> 59 < yday" if leap
  proof (cases "59 < yday")
    case True
    then have "59 \<le> n" using that by (simp add: n_def)
    moreover from this k have "1 \<le> k" by linarith
    moreover have "days_before ! nat (k + 1) = 59" if "k = 1" using that by (simp add: days_before_def)
    ultimately show ?thesis
      using md True by (cases "k = 1") (auto split: if_splits)
  next
    case False
    then have "n \<le> 58" using that \<open>\<not> (leap \<and> yday = 59)\<close> by (simp add: n_def)
    moreover from this k have "k = 0 \<or> k = 1" by linarith
    ultimately show ?thesis
      using md False by (auto simp: days_before_def split: if_splits)
  qed
  then show ?thesis using start False by (auto simp: day_of_year_def n_def)
qed

lemma days_of_civil_round_trip: "civil_of_days n = (y, m, d) \<Longrightarrow> days_of_civil y m d = n"
proof -
  assume "civil_of_days n = (y, m, d)"
  then obtain yday where y: "year_and_day (n + epoch_days) = (y, yday)"
    and m: "month_and_day (is_leap y) yday = (m, d)"
    by (auto simp: civil_of_days_def split: prod.splits)
  have "day_of_year (is_leap y) m d = yday"
    using day_of_year_month_and_day [OF m] year_and_day_bounds [OF y] by simp
  with days_before_year_and_day [OF y] show ?thesis by (simp add: days_of_civil_def)
qed

section \<open>Dates as text\<close>

lemma month_and_day_range:
  assumes "month_and_day leap yday = (m, d)" and "0 \<le> yday" and "yday \<le> 365"
  shows "1 \<le> m \<and> m \<le> 13 \<and> 1 \<le> d \<and> d \<le> 31"
proof (cases "leap \<and> yday = 59")
  case False
  define n where "n = (if leap \<and> 59 < yday then yday - 1 else yday)"
  have n: "0 \<le> n" "n \<le> 365" using assms(2,3) False by (auto simp: n_def)
  have md: "(m, d) = (if days_before ! nat (n div 31 + 1) \<le> n then (n div 31 + 2, n - days_before ! nat (n div 31 + 1) + 1)
      else (n div 31 + 1, n - days_before ! nat (n div 31) + 1))"
    using assms(1) False by (auto simp: month_and_day_def Let_def n_def)
  have lo: "31 * (n div 31) \<le> n" "n < 31 * (n div 31) + 31" by presburger+
  from n have "n div 31 = 0 \<or> n div 31 = 1 \<or> n div 31 = 2 \<or> n div 31 = 3 \<or> n div 31 = 4 \<or> n div 31 = 5 \<or>
      n div 31 = 6 \<or> n div 31 = 7 \<or> n div 31 = 8 \<or> n div 31 = 9 \<or> n div 31 = 10 \<or> n div 31 = 11"
    by presburger
  then show ?thesis
    using md lo n by (elim disjE) (auto simp: days_before_def split: if_splits)
qed (use assms(1) in \<open>auto simp: month_and_day_def\<close>)

lemma civil_of_days_range:
  assumes "civil_of_days n = (y, m, d)"
  shows "1 \<le> m \<and> m \<le> 13 \<and> 1 \<le> d \<and> d \<le> 31"
proof -
  obtain yday where "year_and_day (n + epoch_days) = (y, yday)" "month_and_day (is_leap y) yday = (m, d)"
    using assms by (auto simp: civil_of_days_def split: prod.splits)
  then show ?thesis using year_and_day_bounds month_and_day_range by blast
qed

definition digits_value :: "string \<Rightarrow> nat" where
  "digits_value s = foldl (\<lambda>a c. 10 * a + (of_char c - 48)) 0 s"

lemma digits_value_nat_digits [simp]: "digits_value (nat_digits n) = n"
proof (induction n rule: nat_digits.induct)
  case (1 n)
  show ?case
  proof (cases "n < 10")
    case False
    then show ?thesis
      using 1 by (subst nat_digits.simps) (simp add: digits_value_def)
  qed (subst nat_digits.simps, simp add: digits_value_def)
qed

lemma nat_digits_inj: "nat_digits m = nat_digits n \<longleftrightarrow> m = n"
  by (metis digits_value_nat_digits)

lemma nat_digits_no_minus: "CHR ''-'' \<notin> set (nat_digits n)"
proof (induction n rule: nat_digits.induct)
  case (1 n)
  have digit: "char_of (48 + k) \<noteq> CHR ''-''" if "k < 10" for k :: nat
  proof
    assume "char_of (48 + k) = CHR ''-''"
    then have "(of_char (char_of (48 + k) :: char) :: nat) = of_char (CHR ''-'')" by simp
    with that show False by simp
  qed
  show ?case
    using 1 digit [of n] digit [of "n mod 10"] by (subst nat_digits.simps) auto
qed

lemma int_string_inj: "int_string a = int_string b \<longleftrightarrow> a = b"
proof
  assume eq: "int_string a = int_string b"
  have minus: "int_string i = CHR ''-'' # nat_digits (nat (- i))" if "i < 0" for i
    using that by (simp add: int_string_def)
  have plus: "int_string i = nat_digits (nat i)" "CHR ''-'' \<notin> set (int_string i)" if "\<not> i < 0" for i
    using that nat_digits_no_minus by (simp_all add: int_string_def)
  show "a = b"
  proof (cases "a < 0"; cases "b < 0")
    assume "a < 0" "b < 0"
    then show ?thesis using eq by (simp add: minus nat_digits_inj)
  next
    assume "\<not> a < 0" "\<not> b < 0"
    then show ?thesis using eq by (simp add: plus(1) nat_digits_inj)
  next
    assume "a < 0" "\<not> b < 0"
    then show ?thesis using eq minus [of a] plus(2) [of b] by (metis list.set_intros(1))
  next
    assume "\<not> a < 0" "b < 0"
    then show ?thesis using eq minus [of b] plus(2) [of a] by (metis list.set_intros(1))
  qed
qed simp

lemma length_pad2: "n < 100 \<Longrightarrow> length (pad2 n) = 2"
  by (auto simp: pad2_def nat_digits.simps [of n] nat_digits.simps [of "n div 10"])

lemma pad2_inj: "m < 100 \<Longrightarrow> n < 100 \<Longrightarrow> pad2 m = pad2 n \<longleftrightarrow> m = n"
proof
  have read: "digits_value (pad2 n) = n" for n
    using digits_value_nat_digits [of n] by (simp add: pad2_def digits_value_def)
  show "pad2 m = pad2 n \<Longrightarrow> m = n" by (metis read)
qed simp

text \<open>Two days with the same text are the same day, so comparing the text compares the day.\<close>

lemma date_string_of_inj: "date_string_of a = date_string_of b \<longleftrightarrow> a = b"
proof
  assume eq: "date_string_of a = date_string_of b"
  obtain y m d where a: "civil_of_days a = (y, m, d)" by (cases "civil_of_days a")
  obtain y' m' d' where b: "civil_of_days b = (y', m', d')" by (cases "civil_of_days b")
  note range = civil_of_days_range [OF a] civil_of_days_range [OF b]
  have small: "nat d < 100" "nat d' < 100" "nat m < 100" "nat m' < 100" using range by linarith+
  then have len: "length (pad2 (nat d)) = 2" "length (pad2 (nat d')) = 2" "length (pad2 (nat m)) = 2"
    "length (pad2 (nat m')) = 2"
    by (simp_all add: length_pad2)
  from eq have "int_string y @ ''-'' @ pad2 (nat m) @ ''-'' @ pad2 (nat d) =
      int_string y' @ ''-'' @ pad2 (nat m') @ ''-'' @ pad2 (nat d')"
    by (simp add: date_string_of_def a b)
  then have "int_string y = int_string y'" "pad2 (nat m) = pad2 (nat m')" "pad2 (nat d) = pad2 (nat d')"
    using len by (simp_all add: append_eq_append_conv)
  then have "(y, m, d) = (y', m', d')"
    using range small by (simp add: int_string_inj pad2_inj eq_nat_nat_iff)
  then show "a = b"
    using days_of_civil_round_trip [OF a] days_of_civil_round_trip [OF b] by simp
qed simp

lemma date_string_inj: "date_string loc t = date_string loc' t' \<longleftrightarrow> day_number loc t = day_number loc' t'"
  by (simp add: date_string_def date_string_of_inj)

section \<open>Instants of a fixed zone\<close>

lemma day_number_add_days [simp]:
  "day_number (fixed_zone z) (t + k * day) = day_number (fixed_zone z) t + k"
proof -
  have nonzero: "day \<noteq> 0" using units_pos(3) by linarith
  have "t + k * day + z * second = k * day + (t + z * second)" by simp
  then show ?thesis by (simp only: day_number_def wall_def fixed_zone_def div_mult_self3 [OF nonzero] add.commute)
qed

lemma wall_date_at: 
  "wall (fixed_zone z) (instant_of_wall (fixed_zone z) w) = w"
  by (simp add: wall_def instant_of_wall_def fixed_zone_def)

lemma go_date_parts:
  assumes "0 \<le> h" "h < 24" "0 \<le> mi" "mi < 60"
  shows "day_number (fixed_zone z) (go_date (fixed_zone z) y m d h mi) = days_of_civil y m d"
    and "hour_of (fixed_zone z) (go_date (fixed_zone z) y m d h mi) = h"
    and "minute_of (fixed_zone z) (go_date (fixed_zone z) y m d h mi) = mi"
proof -
  let ?r = "h * hour + mi * 60 * second"
  have r: "0 \<le> ?r" "?r < day" "?r div hour = h" "0 \<le> mi * 60 * second" "mi * 60 * second < hour"
    using assms by (auto simp: hour_def day_def second_def)
  have w: "wall (fixed_zone z) (go_date (fixed_zone z) y m d h mi) = days_of_civil y m d * day + ?r"
    by (simp add: go_date_def wall_date_at)
  show "day_number (fixed_zone z) (go_date (fixed_zone z) y m d h mi) = days_of_civil y m d"
    using r(1,2) by (simp add: day_number_def w)
  show "hour_of (fixed_zone z) (go_date (fixed_zone z) y m d h mi) = h"
    using r(1-3) by (simp add: hour_of_def w)
  have "(days_of_civil y m d * day + ?r) mod hour = mi * 60 * second"
  proof -
    have "days_of_civil y m d * day + ?r = (days_of_civil y m d * 24 + h) * hour + mi * 60 * second"
      by (simp add: day_def algebra_simps)
    then show ?thesis using r(4,5) by (simp only: mod_mult_self3 mod_pos_pos_trivial)
  qed
  then show "minute_of (fixed_zone z) (go_date (fixed_zone z) y m d h mi) = mi"
    by (simp add: minute_of_def w second_def)
qed

end
