(* ===== verification/CalendarApi.thy ===== *)
theory CalendarApi
  imports GoTime
begin

text \<open>
  The ReleaseCalendar and ReleaseEvent resources of the API group fleet v1alpha2
  (pkg/apis/fleet/v1alpha2/types.go), and the lease object of the coordination API as far as the
  calendar controller uses it. The last constructor of an enumeration holds every other string.
\<close>

datatype group_policy = GroupPolicyAll | GroupPolicyDaily | GroupPolicyOther string
datatype concurrent_policy = ConcurrentPolicyDelete | ConcurrentPolicyWait | ConcurrentPolicyOther string
datatype run_policy = RunPolicyAlways | RunPolicyLeaderOnly | RunPolicyOther string
datatype after_policy = AfterPolicyIgnore | AfterPolicyAlways | AfterPolicyOther string
datatype rollback_policy = RollbackPolicyAuto | RollbackPolicyNone | RollbackPolicyOther string

datatype event_phase =
    EventPending | EventRunning | EventCompleted | EventSkipped | EventCancelled | EventFailed
  | EventPhaseOther string

datatype run_status =
    RunPending | RunRunning | RunCompleted | RunCancelled | RunFailed | RunRollback | RunUnknown
  | RunStatusOther string

datatype int_or_string = IntVal int | StrVal string

record param =
  pm_name :: string
  pm_value :: string

record calendar_day =
  cd_from :: int
  cd_to :: int

record calendar_hour =
  ch_from :: int
  ch_to :: int
  ch_params :: "param list"

record template_ref =
  tr_name :: string
  tr_namespace :: string
  tr_kind :: string

record pipeline =
  pl_name :: string
  pl_time_offset :: string
  pl_run_policy :: run_policy
  pl_after_policy :: after_policy
  pl_rollback :: string
  pl_rollback_policy :: rollback_policy

record calendar_spec =
  cs_paused :: bool
  cs_template_ref :: template_ref
  cs_params :: "param list"
  cs_pipelines :: "pipeline list"
  cs_skip_days :: "string list"
  cs_weekdays :: "calendar_day list"
  cs_hours :: "calendar_hour list"
  cs_time_zone :: int_or_string
  cs_group_policy :: group_policy
  cs_concurrent_policy :: concurrent_policy

record calendar =
  cal_meta :: object_meta
  cal_spec :: calendar_spec

record run_after =
  ra_name :: string
  ra_pipeline :: string
  ra_time_offset :: string

record event_spec =
  es_calendar :: string
  es_paused :: bool
  es_time :: "instant option"
  es_params :: "param list"
  es_note :: string
  es_group :: string
  es_run_after :: "run_after list"

record event_run =
  er_name :: string
  er_cluster :: string
  er_pipeline :: string
  er_start :: "instant option"
  er_completion :: "instant option"
  er_status :: run_status
  er_results :: "string gomap"

record event_status =
  est_phase :: event_phase
  est_time :: "instant option"
  est_leader :: string
  est_runs :: "event_run list"

record event =
  ev_meta :: object_meta
  ev_spec :: event_spec
  ev_status :: event_status

record lease =
  ls_meta :: object_meta
  ls_holder :: "string option"

abbreviation ev_object_name :: "event \<Rightarrow> string" where
  "ev_object_name e \<equiv> om_name (ev_meta e)"

abbreviation ev_namespace :: "event \<Rightarrow> string" where
  "ev_namespace e \<equiv> om_namespace (ev_meta e)"

text \<open>A phase that still counts as not started: the empty string or Pending.\<close>

definition not_started :: "event_phase \<Rightarrow> bool" where
  "not_started p \<longleftrightarrow> p = EventPhaseOther [] \<or> p = EventPending"

definition empty_event_status :: event_status where
  "empty_event_status =
     \<lparr>est_phase = EventPhaseOther [], est_time = None, est_leader = [], est_runs = []\<rparr>"

definition empty_event_spec :: event_spec where
  "empty_event_spec =
     \<lparr>es_calendar = [], es_paused = False, es_time = None, es_params = [], es_note = [],
      es_group = [], es_run_after = []\<rparr>"

definition empty_event :: event where
  "empty_event = \<lparr>ev_meta = empty_meta, ev_spec = empty_event_spec, ev_status = empty_event_status\<rparr>"

definition empty_calendar_spec :: calendar_spec where
  "empty_calendar_spec =
     \<lparr>cs_paused = False, cs_template_ref = \<lparr>tr_name = [], tr_namespace = [], tr_kind = []\<rparr>,
      cs_params = [], cs_pipelines = [], cs_skip_days = [], cs_weekdays = [], cs_hours = [],
      cs_time_zone = IntVal 0, cs_group_policy = GroupPolicyOther [],
      cs_concurrent_policy = ConcurrentPolicyOther []\<rparr>"

definition empty_calendar :: calendar where
  "empty_calendar = \<lparr>cal_meta = empty_meta, cal_spec = empty_calendar_spec\<rparr>"

end
