(* ===== verification/GoDuration.thy ===== *)
theory GoDuration
  imports GoTime
begin

text \<open>
  \<open>time.ParseDuration\<close> of Go 1.19, the version the repository is built with: an optional sign, then
  numbers with units. A duration is a 64 bit number of nanoseconds, so every step checks for
  overflow. The value of a decimal fraction is computed in floating point in Go; that product is a
  parameter: \<open>frac f k unit\<close> stands for \<open>uint64(float64(f) * (float64(unit) / 10^k))\<close>.
\<close>

type_synonym fraction_value = "int \<Rightarrow> nat \<Rightarrow> int \<Rightarrow> int"

text \<open>The two signs for micro are U+00B5 and U+03BC in UTF-8.\<close>

definition unit_map :: "int gomap" where
  "unit_map =
     [(''ns'', 1), (''us'', 10 ^ 3), ([CHR 0xC2, CHR 0xB5, CHR ''s''], 10 ^ 3),
      ([CHR 0xCE, CHR 0xBC, CHR ''s''], 10 ^ 3), (''ms'', 10 ^ 6), (''s'', second),
      (''m'', 60 * second), (''h'', hour)]"

fun leading_int :: "int \<Rightarrow> string \<Rightarrow> (int \<times> string) option" where
  "leading_int x [] = Some (x, [])"
| "leading_int x (c # s) =
     (case digit_of c of
        None \<Rightarrow> Some (x, c # s)
      | Some d \<Rightarrow>
          if 2 ^ 63 div 10 < x then None
          else if 2 ^ 63 < 10 * x + d then None else leading_int (10 * x + d) s)"

text \<open>Digits after an overflow are skipped. The result is the digits, their number, and the rest.\<close>

fun leading_fraction :: "int \<Rightarrow> nat \<Rightarrow> bool \<Rightarrow> string \<Rightarrow> int \<times> nat \<times> string" where
  "leading_fraction x k overflow [] = (x, k, [])"
| "leading_fraction x k overflow (c # s) =
     (case digit_of c of
        None \<Rightarrow> (x, k, c # s)
      | Some d \<Rightarrow>
          if overflow \<or> (2 ^ 63 - 1) div 10 < x \<or> 2 ^ 63 < 10 * x + d then leading_fraction x k True s
          else leading_fraction (10 * x + d) (Suc k) False s)"

definition in_unit :: "char \<Rightarrow> bool" where
  "in_unit c \<longleftrightarrow> c \<noteq> CHR ''.'' \<and> digit_of c = None"

text \<open>One number with its unit: its value, and what follows. The accumulator is an unsigned 64 bit number.\<close>

definition parse_component :: "fraction_value \<Rightarrow> string \<Rightarrow> (int \<times> string) option" where
  "parse_component frac s =
     (if in_unit (hd s) then None
      else case leading_int 0 s of
        None \<Rightarrow> None
      | Some (v, s1) \<Rightarrow>
          let point = (s1 \<noteq> [] \<and> hd s1 = CHR ''.'');
              (f, k, s2) = (if point then leading_fraction 0 0 False (tl s1) else (0, 0, s1));
              pre = (length s1 \<noteq> length s); post = (point \<and> length s2 \<noteq> length (tl s1));
              u = takeWhile in_unit s2
          in if \<not> pre \<and> \<not> post then None
             else if u = [] then None
             else case map_of unit_map u of
               None \<Rightarrow> None
             | Some unit \<Rightarrow>
                 if 2 ^ 63 div unit < v then None
                 else let v = (if 0 < f then (v * unit + frac f k unit) mod 2 ^ 64 else v * unit)
                      in if 2 ^ 63 < v then None else Some (v, dropWhile in_unit s2))"

lemma length_leading_int: "leading_int x s = Some (v, s') \<Longrightarrow> length s' \<le> length s"
  by (induction x s rule: leading_int.induct) (auto split: option.splits if_splits)

lemma length_leading_fraction: "leading_fraction x k b s = (f, k', s') \<Longrightarrow> length s' \<le> length s"
  by (induction x k b s rule: leading_fraction.induct) (fastforce split: option.splits if_splits)+

lemma dropWhile_shorter: "takeWhile P s \<noteq> [] \<Longrightarrow> length (dropWhile P s) < length s"
  by (metis length_append length_greater_0_conv less_add_same_cancel2 takeWhile_dropWhile_id)

lemma parse_component_shorter: "parse_component frac s = Some (v, s') \<Longrightarrow> length s' < length s"
proof -
  assume run: "parse_component frac s = Some (v, s')"
  then obtain w s1 where s1: "leading_int 0 s = Some (w, s1)"
    by (auto simp: parse_component_def split: option.splits if_splits)
  define s2 where "s2 = (if s1 \<noteq> [] \<and> hd s1 = CHR ''.'' then snd (snd (leading_fraction 0 0 False (tl s1))) else s1)"
  from run s1 have "s' = dropWhile in_unit s2" "takeWhile in_unit s2 \<noteq> []"
    by (auto simp: parse_component_def s2_def Let_def split: option.splits if_splits prod.splits)
  moreover have "length s2 \<le> length s1"
    using length_leading_fraction [of 0 0 False "tl s1"]
    by (cases "leading_fraction 0 0 False (tl s1)") (fastforce simp: s2_def)
  ultimately show ?thesis
    using length_leading_int [OF s1] dropWhile_shorter [of in_unit s2] by simp
qed

function parse_components :: "fraction_value \<Rightarrow> int \<Rightarrow> string \<Rightarrow> int option" where
  "parse_components frac d s =
     (if s = [] then Some d
      else case parse_component frac s of
        None \<Rightarrow> None
      | Some (v, s') \<Rightarrow>
          if 2 ^ 63 < (d + v) mod 2 ^ 64 then None else parse_components frac ((d + v) mod 2 ^ 64) s')"
  by pat_completeness auto

termination
  by (relation "measure (\<lambda>(_, _, s). length s)") (auto dest: parse_component_shorter)

declare parse_components.simps [simp del]

definition parse_duration :: "fraction_value \<Rightarrow> string \<Rightarrow> int option" where
  "parse_duration frac s =
     (let neg = (s \<noteq> [] \<and> hd s = CHR ''-'');
          s = (if s \<noteq> [] \<and> (hd s = CHR ''-'' \<or> hd s = CHR ''+'') then tl s else s)
      in if s = ''0'' then Some 0
         else if s = [] then None
         else case parse_components frac 0 s of
           None \<Rightarrow> None
         | Some d \<Rightarrow> if neg then Some (- d) else if 2 ^ 63 - 1 < d then None else Some d)"

text \<open>A parsed duration is a 64 bit number.\<close>

lemma parse_components_range:
  "parse_components frac d s = Some r \<Longrightarrow> 0 \<le> d \<Longrightarrow> d \<le> 2 ^ 63 \<Longrightarrow> 0 \<le> r \<and> r \<le> 2 ^ 63"
proof (induction frac d s rule: parse_components.induct)
  case (1 frac d s)
  show ?case
  proof (cases "s = []")
    case True
    with "1.prems" show ?thesis by (simp add: parse_components.simps)
  next
    case False
    then obtain v s' where step: "parse_component frac s = Some (v, s')" "\<not> 2 ^ 63 < (d + v) mod 2 ^ 64"
      "parse_components frac ((d + v) mod 2 ^ 64) s' = Some r"
      using "1.prems"(1) by (subst (asm) parse_components.simps) (auto split: option.splits if_splits)
    then show ?thesis
      using "1.IH" [OF False step(1) refl step(2,3)] by simp
  qed
qed

lemma parse_duration_range: "parse_duration frac s = Some d \<Longrightarrow> - (2 ^ 63) \<le> d \<and> d < 2 ^ 63"
  using parse_components_range
  by (fastforce simp: parse_duration_def Let_def split: option.splits if_splits)

text \<open>Hours, minutes and seconds are units; days are not.\<close>

lemma parse_hours: "parse_duration frac ''24h'' = Some day" "parse_duration frac ''-24h'' = Some (- day)"
  by code_simp+

lemma parse_days: "parse_duration frac ''-1d'' = None"
  by code_simp

end
