(* ===== verification/CalendarTime.thy ===== *)
theory CalendarTime
  imports CalendarApi GoDuration
begin

text \<open>
  The time arithmetic of the calendar controller (pkg/controller/calendar/util.go): skipping to an
  allowed day, offsets in calendar days, and the execution hours.
\<close>

section \<open>Definitions\<close>

text \<open>
  What is a parameter: the time zone database, and the floating point product of a decimal fraction
  of a duration.
\<close>

record time_lib =
  tl_fraction :: fraction_value
  tl_load_location :: "string \<Rightarrow> location option"

definition location_of :: "time_lib \<Rightarrow> int_or_string \<Rightarrow> location res" where
  "location_of L tz =
     (case tz of
        IntVal n \<Rightarrow> Ok (fixed_zone (60 * 60 * n))
      | StrVal s \<Rightarrow> (case tl_load_location L s of Some loc \<Rightarrow> Ok loc | None \<Rightarrow> Err (Errorf ''unknown time zone'')))"

definition in_same_day :: "instant \<Rightarrow> instant \<Rightarrow> location \<Rightarrow> bool" where
  "in_same_day a b loc \<longleftrightarrow> date_string loc a = date_string loc b"

definition weekday_fits :: "calendar_day list \<Rightarrow> int \<Rightarrow> bool" where
  "weekday_fits weekdays d \<longleftrightarrow> (\<exists>w\<in>set weekdays. cd_from w \<le> d \<and> d \<le> cd_to w)"

text \<open>What both functions check on a day: no rule at all, or a weekday that fits and no skip day.\<close>

definition day_fits :: "location \<Rightarrow> calendar_day list \<Rightarrow> string list \<Rightarrow> instant \<Rightarrow> bool" where
  "day_fits loc weekdays skip t \<longleftrightarrow>
     weekdays = [] \<and> skip = [] \<or>
     weekday_fits weekdays (weekday loc t) \<and> date_string loc t \<notin> set skip"

text \<open>
  The source recurses until a day fits; when none does the recursion does not end, which is \<open>None\<close>
  here (in Go the stack overflows).
\<close>

partial_function (option) fits_in_forward ::
  "location \<Rightarrow> calendar_day list \<Rightarrow> string list \<Rightarrow> instant \<Rightarrow> instant option" where
  "fits_in_forward loc weekdays skip t =
     (if weekdays = [] \<and> skip = [] then Some t
      else if \<not> weekday_fits weekdays (weekday loc t) then fits_in_forward loc weekdays skip (t + day)
      else if date_string loc t \<in> set skip then fits_in_forward loc weekdays skip (t + day)
      else Some t)"

partial_function (option) fits_in_backward ::
  "location \<Rightarrow> calendar_day list \<Rightarrow> string list \<Rightarrow> instant \<Rightarrow> instant option" where
  "fits_in_backward loc weekdays skip t =
     (if weekdays = [] \<and> skip = [] then Some t
      else if \<not> weekday_fits weekdays (weekday loc t) then fits_in_backward loc weekdays skip (t + - day)
      else if date_string loc t \<in> set skip then fits_in_backward loc weekdays skip (t + - day)
      else Some t)"

declare fits_in_forward.simps [code] fits_in_backward.simps [code]

function move_forward ::
  "location \<Rightarrow> calendar_day list \<Rightarrow> string list \<Rightarrow> int \<Rightarrow> instant \<Rightarrow> instant option" where
  "move_forward loc weekdays skip d t =
     (if 0 < d
      then (case fits_in_forward loc weekdays skip (t + (if day < d then day else d)) of
              None \<Rightarrow> None
            | Some u \<Rightarrow> move_forward loc weekdays skip (d - day) u)
      else Some t)"
  by pat_completeness auto

termination
  by (relation "measure (\<lambda>(_, _, _, d, _). nat d)") auto

function move_backward ::
  "location \<Rightarrow> calendar_day list \<Rightarrow> string list \<Rightarrow> int \<Rightarrow> instant \<Rightarrow> instant option" where
  "move_backward loc weekdays skip d t =
     (if d < 0
      then (case fits_in_backward loc weekdays skip (t + (if d < - day then - day else d)) of
              None \<Rightarrow> None
            | Some u \<Rightarrow> move_backward loc weekdays skip (d + day) u)
      else Some t)"
  by pat_completeness auto

termination
  by (relation "measure (\<lambda>(_, _, _, d, _). nat (- d))") auto

declare move_forward.simps [simp del] move_backward.simps [simp del]

definition date_at :: "location \<Rightarrow> int \<Rightarrow> int \<Rightarrow> int \<Rightarrow> instant" where
  "date_at loc n h mi = (case civil_of_days n of (y, m, d) \<Rightarrow> go_date loc y m d h mi)"

definition get_time_with_offset ::
  "time_lib \<Rightarrow> instant \<Rightarrow> string \<Rightarrow> int_or_string \<Rightarrow> calendar_day list \<Rightarrow> string list \<Rightarrow> instant res" where
  "get_time_with_offset L t offset tz weekdays skip =
     (if offset = [] then Ok t
      else bind_res (wrap_res ''invalid timezone'' (location_of L tz)) (\<lambda>loc.
        let offsets = split_on (CHR '','') offset in
        case parse_duration (tl_fraction L) (hd offsets) of
          None \<Rightarrow> Err (Errorf ''failed to parse as duration'')
        | Some d \<Rightarrow>
            (case (if 0 < d then move_forward loc weekdays skip d t else move_backward loc weekdays skip d t) of
               None \<Rightarrow> Panic
             | Some u \<Rightarrow>
                 if 1 < length offsets
                 then (case parse_hh_mm (offsets ! 1) of
                         None \<Rightarrow> Err (Errorf ''failed to parse as time hh:mm'')
                       | Some (h, mi) \<Rightarrow> Ok (date_at loc (day_number loc u) h mi))
                 else Ok u)))"

text \<open>
  The hours: inside a window the estimate is 0 and the parameters of the window are returned,
  otherwise the estimate is the time to the next start, at most a day.
\<close>

definition hour_values :: "calendar_hour \<Rightarrow> string gomap" where
  "hour_values hr = fold (\<lambda>p. gm_set (pm_name p) (pm_value p)) (ch_params hr) []"

fun scan_hours ::
  "location \<Rightarrow> instant \<Rightarrow> calendar_hour list \<Rightarrow> int \<Rightarrow> int \<times> string gomap option" where
  "scan_hours loc t [] estimate = (estimate, None)"
| "scan_hours loc t (hr # hrs) estimate =
     (if hour_of loc t < ch_from hr
      then if 24 < ch_to hr \<and> hour_of loc t < ch_to hr - 24 then (0, Some (hour_values hr))
           else scan_hours loc t hrs (min estimate (date_at loc (day_number loc t) (ch_from hr) 0 - t))
      else if hour_of loc t < ch_to hr then (0, Some (hour_values hr))
      else scan_hours loc t hrs (min estimate
             (case civil_of_days (day_number loc t) of (y, m, d) \<Rightarrow> go_date loc y m (d + 1) (ch_from hr) 0 - t)))"

definition in_calendar_hours ::
  "time_lib \<Rightarrow> instant \<Rightarrow> calendar_hour list \<Rightarrow> int_or_string \<Rightarrow> (int \<times> string gomap option) res" where
  "in_calendar_hours L t hours tz =
     (if hours = [] then Ok (0, None)
      else bind_res (wrap_res ''invalid timezone'' (location_of L tz))
             (\<lambda>loc. Ok (scan_hours loc t hours (24 * hour))))"

section \<open>Searching for a day\<close>

text \<open>
  A search in steps of a fixed size: it stops exactly at the elements that fit, and a result has
  been reached by steps. Both directions of the program are such searches.
\<close>

locale day_search =
  fixes search :: "instant \<Rightarrow> instant option" and fits :: "instant \<Rightarrow> bool" and step :: int
  assumes stop: "fits t \<Longrightarrow> search t = Some t"
    and go: "\<not> fits t \<Longrightarrow> search t = search (t + step)"
    and sound: "search t = Some u \<Longrightarrow> \<exists>k. u = t + int k * step \<and> fits u"
begin

lemma search_le: "fits (t + int k * step) \<Longrightarrow>
  \<exists>j\<le>k. search t = Some (t + int j * step) \<and> fits (t + int j * step) \<and> (\<forall>i<j. \<not> fits (t + int i * step))"
proof (induction k arbitrary: t)
  case 0
  then show ?case by (auto intro: stop)
next
  case (Suc k)
  show ?case
  proof (cases "fits t")
    case True
    then show ?thesis by (intro exI [of _ 0]) (simp add: stop)
  next
    case False
    have "t + int (Suc k) * step = (t + step) + int k * step" by (simp add: algebra_simps)
    with Suc.prems Suc.IH [of "t + step"] obtain j where j: "j \<le> k"
      "search (t + step) = Some (t + step + int j * step)" "fits (t + step + int j * step)"
      "\<forall>i<j. \<not> fits (t + step + int i * step)" by metis
    have shift: "t + step + int i * step = t + int (Suc i) * step" for i by (simp add: algebra_simps)
    have "\<forall>i<Suc j. \<not> fits (t + int i * step)"
      using j(4) False by (auto simp: shift less_Suc_eq_0_disj)
    with j(1-3) False show ?thesis
      by (intro exI [of _ "Suc j"]) (simp add: go shift del: of_nat_Suc)
  qed
qed

lemma search_Some:
  assumes "search t = Some u"
  shows "\<exists>k. u = t + int k * step \<and> fits u \<and> (\<forall>i<k. \<not> fits (t + int i * step))"
proof -
  obtain k where k: "u = t + int k * step" "fits u" using sound [OF assms] by blast
  obtain j where "search t = Some (t + int j * step)" "fits (t + int j * step)"
    "\<forall>i<j. \<not> fits (t + int i * step)"
    using search_le [of t k] k by auto
  with assms show ?thesis by auto
qed

lemma search_None: "search t = None \<longleftrightarrow> (\<forall>k. \<not> fits (t + int k * step))"
  using search_le [of t] sound [of t] by (metis option.exhaust option.distinct(1))

end

lemma fits_in_forward_sound:
  "fits_in_forward loc weekdays skip t = Some u \<Longrightarrow> \<exists>k. u = t + int k * day \<and> day_fits loc weekdays skip u"
proof (rule fits_in_forward.raw_induct [of "\<lambda>loc weekdays skip t u. \<exists>k. u = t + int k * day \<and> day_fits loc weekdays skip u"])
  fix search loc weekdays skip t u
  assume IH: "\<And>loc weekdays skip t u. search loc weekdays skip t = Some u \<Longrightarrow>
      \<exists>k. u = t + int k * day \<and> day_fits loc weekdays skip u"
    and run: "(if weekdays = [] \<and> skip = [] then Some t
      else if \<not> weekday_fits weekdays (weekday loc t) then search loc weekdays skip (t + day)
      else if date_string loc t \<in> set skip then search loc weekdays skip (t + day)
      else Some t) = Some u"
  show "\<exists>k. u = t + int k * day \<and> day_fits loc weekdays skip u"
  proof (cases "search loc weekdays skip (t + day) = Some u")
    case True
    then obtain k where "u = t + day + int k * day" "day_fits loc weekdays skip u" using IH by blast
    then show ?thesis by (intro exI [of _ "Suc k"]) (simp add: algebra_simps)
  next
    case False
    with run show ?thesis by (intro exI [of _ 0]) (auto simp: day_fits_def split: if_splits)
  qed
qed

interpretation forward: day_search "fits_in_forward loc weekdays skip" "day_fits loc weekdays skip" "day"
  for loc weekdays skip
proof
  show "fits_in_forward loc weekdays skip t = Some t" if "day_fits loc weekdays skip t" for t
    using that by (subst fits_in_forward.simps) (auto simp: day_fits_def)
  show "fits_in_forward loc weekdays skip t = fits_in_forward loc weekdays skip (t + day)"
    if "\<not> day_fits loc weekdays skip t" for t
    using that by (subst fits_in_forward.simps) (auto simp: day_fits_def)
qed (rule fits_in_forward_sound)

lemma fits_in_backward_sound:
  "fits_in_backward loc weekdays skip t = Some u \<Longrightarrow> \<exists>k. u = t + int k * - day \<and> day_fits loc weekdays skip u"
proof (rule fits_in_backward.raw_induct [of "\<lambda>loc weekdays skip t u. \<exists>k. u = t + int k * - day \<and> day_fits loc weekdays skip u"])
  fix search loc weekdays skip t u
  assume IH: "\<And>loc weekdays skip t u. search loc weekdays skip t = Some u \<Longrightarrow>
      \<exists>k. u = t + int k * - day \<and> day_fits loc weekdays skip u"
    and run: "(if weekdays = [] \<and> skip = [] then Some t
      else if \<not> weekday_fits weekdays (weekday loc t) then search loc weekdays skip (t + - day)
      else if date_string loc t \<in> set skip then search loc weekdays skip (t + - day)
      else Some t) = Some u"
  show "\<exists>k. u = t + int k * - day \<and> day_fits loc weekdays skip u"
  proof (cases "search loc weekdays skip (t + - day) = Some u")
    case True
    then obtain k where "u = t + - day + int k * - day" "day_fits loc weekdays skip u" using IH by blast
    then show ?thesis by (intro exI [of _ "Suc k"]) (simp add: algebra_simps)
  next
    case False
    with run show ?thesis by (intro exI [of _ 0]) (auto simp: day_fits_def split: if_splits)
  qed
qed

interpretation backward: day_search "fits_in_backward loc weekdays skip" "day_fits loc weekdays skip" "- day"
  for loc weekdays skip
proof
  show "fits_in_backward loc weekdays skip t = Some t" if "day_fits loc weekdays skip t" for t
    using that by (subst fits_in_backward.simps) (auto simp: day_fits_def)
  show "fits_in_backward loc weekdays skip t = fits_in_backward loc weekdays skip (t + - day)"
    if "\<not> day_fits loc weekdays skip t" for t
    using that by (subst fits_in_backward.simps) (auto simp: day_fits_def)
qed (rule fits_in_backward_sound)

section \<open>Fixed zones\<close>

lemma date_at_fixed:
  "date_at (fixed_zone z) n h mi = n * day + h * hour + mi * 60 * second - z * second"
  by (cases "civil_of_days n")
    (auto simp: date_at_def go_date_def instant_of_wall_def fixed_zone_def dest: days_of_civil_round_trip)

lemma date_next_day_fixed:
  assumes "civil_of_days n = (y, m, d)"
  shows "go_date (fixed_zone z) y m (d + 1) h mi = (n + 1) * day + h * hour + mi * 60 * second - z * second"
proof -
  have "days_of_civil y m (d + 1) = n + 1"
    using days_of_civil_round_trip [OF assms] by (simp add: days_of_civil_def day_of_year_def)
  then show ?thesis by (simp add: go_date_def instant_of_wall_def fixed_zone_def)
qed

lemma date_at_parts:
  assumes "0 \<le> h" "h < 24" "0 \<le> mi" "mi < 60"
  shows "day_number (fixed_zone z) (date_at (fixed_zone z) n h mi) = n"
    and "hour_of (fixed_zone z) (date_at (fixed_zone z) n h mi) = h"
    and "minute_of (fixed_zone z) (date_at (fixed_zone z) n h mi) = mi"
  using go_date_parts [OF assms] days_of_civil_round_trip
  by (cases "civil_of_days n"; fastforce simp: date_at_def)+

lemma day_fits_same_day:
  "day_number loc a = day_number loc b \<Longrightarrow> day_fits loc weekdays skip a = day_fits loc weekdays skip b"
  by (simp add: day_fits_def weekday_def date_string_def)

lemma parse_hh_mm_range: "parse_hh_mm s = Some (h, mi) \<Longrightarrow> 0 \<le> h \<and> h < 24 \<and> 0 \<le> mi \<and> mi < 60"
  by (auto simp: parse_hh_mm_def Let_def two_digits_def digit_of_def split: list.splits option.splits if_splits)

section \<open>Every move ends on an allowed day\<close>

lemma move_forward_fits:
  "move_forward loc weekdays skip d t = Some u \<Longrightarrow> 0 < d \<Longrightarrow> day_fits loc weekdays skip u \<and> t < u"
proof (induction loc weekdays skip d t rule: move_forward.induct)
  case (1 loc weekdays skip d t)
  let ?s = "t + (if day < d then day else d)"
  obtain v where v: "fits_in_forward loc weekdays skip ?s = Some v"
    "move_forward loc weekdays skip (d - day) v = Some u"
    using "1.prems" by (subst (asm) move_forward.simps) (auto split: option.splits)
  obtain k where "v = ?s + int k * day" "day_fits loc weekdays skip v"
    using fits_in_forward_sound [OF v(1)] by blast
  moreover from this have "t < v"
    using \<open>0 < d\<close> units_pos(3) by (smt (verit) of_nat_0_le_iff mult_nonneg_nonneg)
  ultimately show ?case
    using v "1.IH" [OF \<open>0 < d\<close> v(1) v(2)]
    by (cases "0 < d - day") (auto simp: move_forward.simps [of _ _ _ "d - day"])
qed

lemma move_backward_fits:
  "move_backward loc weekdays skip d t = Some u \<Longrightarrow> d < 0 \<Longrightarrow> day_fits loc weekdays skip u \<and> u < t"
proof (induction loc weekdays skip d t rule: move_backward.induct)
  case (1 loc weekdays skip d t)
  let ?s = "t + (if d < - day then - day else d)"
  obtain v where v: "fits_in_backward loc weekdays skip ?s = Some v"
    "move_backward loc weekdays skip (d + day) v = Some u"
    using "1.prems" by (subst (asm) move_backward.simps) (auto split: option.splits)
  obtain k where "v = ?s - int k * day" "day_fits loc weekdays skip v"
    using fits_in_backward_sound [OF v(1)] by auto
  moreover from this have "v < t"
    using \<open>d < 0\<close> units_pos(3) by (smt (verit) of_nat_0_le_iff mult_nonneg_nonneg)
  ultimately show ?case
    using v "1.IH" [OF \<open>d < 0\<close> v(1) v(2)]
    by (cases "d + day < 0") (auto simp: move_backward.simps [of _ _ _ "d + day"])
qed

lemma get_time_with_offset_run:
  assumes "get_time_with_offset L t offset tz weekdays skip = Ok u" and "offset \<noteq> []"
    and "location_of L tz = Ok loc" and "parse_duration (tl_fraction L) (hd (split_on (CHR '','') offset)) = Some d"
  obtains v where "(if 0 < d then move_forward loc weekdays skip d t else move_backward loc weekdays skip d t) = Some v"
    and "length (split_on (CHR '','') offset) \<le> 1 \<Longrightarrow> u = v"
    and "1 < length (split_on (CHR '','') offset) \<Longrightarrow>
           \<exists>h mi. parse_hh_mm (split_on (CHR '','') offset ! 1) = Some (h, mi) \<and> u = date_at loc (day_number loc v) h mi"
  using assms by (auto simp: get_time_with_offset_def Let_def split: option.splits if_splits)

section \<open>The search ends\<close>

text \<open>
  With a rule for some day of the week, every seventh day has a weekday that fits; the skipped days
  are at most that many different dates, so one of the following weeks has a day that fits.
\<close>

lemma fitting_weekday_ahead:
  assumes "weekday_fits weekdays w" "0 \<le> w" "w \<le> 6"
  obtains j :: nat where "j < 7" "weekday_fits weekdays ((n + int j) mod 7)"
proof (rule that)
  show "nat ((w - n) mod 7) < 7" by (simp add: nat_less_iff)
  have "(n + (w - n) mod 7) mod 7 = w"
    using assms(2,3) by (simp add: mod_add_right_eq)
  then show "weekday_fits weekdays ((n + int (nat ((w - n) mod 7))) mod 7)"
    using assms(1) by simp
qed

lemma one_not_in_list:
  fixes f :: "nat \<Rightarrow> 'a"
  assumes "inj f"
  obtains i where "i \<le> length xs" "f i \<notin> set xs"
proof -
  have "\<not> f ` {..length xs} \<subseteq> set xs"
  proof
    assume "f ` {..length xs} \<subseteq> set xs"
    then have "card (f ` {..length xs}) \<le> card (set xs)" by (intro card_mono) simp_all
    moreover have "card (f ` {..length xs}) = Suc (length xs)"
      using assms by (simp add: card_image inj_on_subset [OF assms])
    ultimately show False using card_length [of xs] by linarith
  qed
  with that show thesis by auto
qed

lemma fitting_day_exists:
  assumes rule: "weekday_fits weekdays w" "0 \<le> w" "w \<le> 6" and "s = 1 \<or> s = - 1"
  shows "\<exists>k \<le> 6 + 7 * length skip. day_fits (fixed_zone z) weekdays skip (t + int k * (s * day))"
proof -
  let ?n = "day_number (fixed_zone z) t"
  have number: "day_number (fixed_zone z) (t + int k * (s * day)) = ?n + s * int k" for k
    using day_number_add_days [of z t "s * int k"] by (simp add: mult.assoc mult.left_commute)
  have "\<exists>j::nat. j < 7 \<and> weekday_fits weekdays ((?n + 4 + s * int j) mod 7)"
  proof (cases "s = 1")
    case True
    obtain j where "j < 7" "weekday_fits weekdays ((?n + 4 + int j) mod 7)"
      by (rule fitting_weekday_ahead [OF rule])
    with True show ?thesis by auto
  next
    case False
    obtain j where j: "j < 7" "weekday_fits weekdays ((?n + 4 + int j) mod 7)"
      by (rule fitting_weekday_ahead [OF rule])
    have "(?n + 4 + - int ((7 - j) mod 7)) mod 7 = (?n + 4 + int j) mod 7"
    proof -
      have "int ((7 - j) mod 7) = (7 - int j) mod 7" using j(1) by (simp add: zmod_int of_nat_diff)
      then have "(?n + 4 + - int ((7 - j) mod 7)) mod 7 = (?n + 4 - (7 - int j)) mod 7"
        by (simp only: mod_diff_right_eq diff_conv_add_uminus [symmetric])
      also have "?n + 4 - (7 - int j) = (?n + 4 + int j) + (- 1) * 7" by simp
      finally show ?thesis by (simp only: mod_mult_self1)
    qed
    with j False \<open>s = 1 \<or> s = - 1\<close> show ?thesis
      by (intro exI [of _ "(7 - j) mod 7"]) simp
  qed
  then obtain j where j: "j < 7" "weekday_fits weekdays ((?n + 4 + s * int j) mod 7)" by blast
  let ?date = "\<lambda>i. date_string_of (?n + s * int (j + 7 * i))"
  have "inj ?date"
    using \<open>s = 1 \<or> s = - 1\<close> by (auto simp: inj_def date_string_of_inj)
  then obtain i where i: "i \<le> length skip" "?date i \<notin> set skip"
    by (rule one_not_in_list)
  have "(?n + s * int (j + 7 * i) + 4) mod 7 = (?n + 4 + s * int j) mod 7"
  proof -
    have "?n + s * int (j + 7 * i) + 4 = (?n + 4 + s * int j) + (s * int i) * 7"
      by (simp add: algebra_simps)
    then show ?thesis by (simp only: mod_mult_self1)
  qed
  with i j have "day_fits (fixed_zone z) weekdays skip (t + int (j + 7 * i) * (s * day))"
    unfolding day_fits_def weekday_def date_string_def number by simp
  with i j show ?thesis by (intro exI [of _ "j + 7 * i"]) auto
qed

lemma fits_in_forward_total:
  assumes "weekday_fits weekdays w" "0 \<le> w" "w \<le> 6"
  shows "\<exists>k \<le> 6 + 7 * length skip. fits_in_forward (fixed_zone z) weekdays skip t = Some (t + int k * day)"
  using fitting_day_exists [OF assms, of 1 skip z t] forward.search_le [of "fixed_zone z" weekdays skip t]
  by simp (meson order_trans)

lemma fits_in_backward_total:
  assumes "weekday_fits weekdays w" "0 \<le> w" "w \<le> 6"
  shows "\<exists>k \<le> 6 + 7 * length skip. fits_in_backward (fixed_zone z) weekdays skip t = Some (t - int k * day)"
  using fitting_day_exists [OF assms, of "- 1" skip z t] backward.search_le [of "fixed_zone z" weekdays skip t]
  by simp (meson order_trans)

lemma move_forward_total:
  assumes "weekdays = [] \<and> skip = [] \<or> (\<exists>w. weekday_fits weekdays w \<and> 0 \<le> w \<and> w \<le> 6)"
  shows "move_forward (fixed_zone z) weekdays skip d t \<noteq> None"
proof -
  have stops: "\<exists>v. fits_in_forward (fixed_zone z) weekdays skip u = Some v" for u
    using assms fits_in_forward_total [of weekdays _ skip z u] fits_in_forward.simps [of _ "[]" "[]"]
    by (metis (mono_tags, lifting))
  show ?thesis
  proof (induction "nat d" arbitrary: d t rule: less_induct)
    case less
    show ?case
    proof (cases "0 < d")
      case True
      then have "nat (d - day) < nat d" using units_pos(3) by simp
      from less [OF this] show ?thesis
        using stops [of "t + (if day < d then day else d)"]
        by (subst move_forward.simps) (auto simp: True)
    qed (subst move_forward.simps, simp)
  qed
qed

lemma move_backward_total:
  assumes "weekdays = [] \<and> skip = [] \<or> (\<exists>w. weekday_fits weekdays w \<and> 0 \<le> w \<and> w \<le> 6)"
  shows "move_backward (fixed_zone z) weekdays skip d t \<noteq> None"
proof -
  have stops: "\<exists>v. fits_in_backward (fixed_zone z) weekdays skip u = Some v" for u
    using assms fits_in_backward_total [of weekdays _ skip z u] fits_in_backward.simps [of _ "[]" "[]"]
    by (metis (mono_tags, lifting))
  show ?thesis
  proof (induction "nat (- d)" arbitrary: d t rule: less_induct)
    case less
    show ?case
    proof (cases "d < 0")
      case True
      then have "nat (- (d + day)) < nat (- d)" using units_pos(3) by simp
      from less [OF this] show ?thesis
        using stops [of "t + (if d < - day then - day else d)"]
        by (subst move_backward.simps) (auto simp: True)
    qed (subst move_backward.simps, simp)
  qed
qed

lemma no_day_fits:
  assumes "\<forall>w. 0 \<le> w \<and> w \<le> 6 \<longrightarrow> \<not> weekday_fits weekdays w" and "weekdays \<noteq> [] \<or> skip \<noteq> []"
  shows "\<not> day_fits loc weekdays skip t"
  using assms by (auto simp: day_fits_def weekday_def)

lemma move_none:
  assumes "\<And>t. \<not> day_fits loc weekdays skip t" and "d \<noteq> 0"
  shows "(if 0 < d then move_forward loc weekdays skip d t else move_backward loc weekdays skip d t) = None"
proof -
  have "fits_in_forward loc weekdays skip u = None" "fits_in_backward loc weekdays skip u = None" for u
    using assms(1) by (simp_all add: forward.search_None backward.search_None)
  then show ?thesis using assms(2)
    by (subst move_forward.simps, subst move_backward.simps) simp
qed

section \<open>Offsets\<close>

text \<open>Exact fractions and no named zones, for the examples.\<close>

definition example_time_lib :: time_lib where
  "example_time_lib =
     \<lparr>tl_fraction = (\<lambda>f k unit. f * unit div 10 ^ k),
      tl_load_location = (\<lambda>_. None)\<rparr>"

definition workdays :: "calendar_day list" where
  "workdays = [\<lparr>cd_from = 1, cd_to = 5\<rparr>]"


text \<open>
  An offset that carries a time of day yields that hour and minute of the local day.
\<close>

theorem offset_time_of_day:
  assumes "get_time_with_offset L t offset (IntVal n) weekdays skip = Ok u" and "offset \<noteq> []"
    and "split_on (CHR '','') offset = dur # hm # rest" and "parse_hh_mm hm = Some (h, mi)"
  shows "hour_of (fixed_zone (60 * 60 * n)) u = h \<and> minute_of (fixed_zone (60 * 60 * n)) u = mi"
proof -
  obtain m where "u = date_at (fixed_zone (60 * 60 * n)) m h mi"
    using assms by (auto simp: get_time_with_offset_def location_of_def Let_def split: option.splits if_splits)
  then show ?thesis using date_at_parts parse_hh_mm_range [OF assms(4)] by simp
qed

text \<open>
  C31. Computing an offset always returns in a fixed zone when there are no day rules or some rule
  admits a day of the week: the recursion over the days ends however many days are skipped.
\<close>

theorem offset_returns:
  assumes "weekdays = [] \<and> skip = [] \<or> (\<exists>w. weekday_fits weekdays w \<and> 0 \<le> w \<and> w \<le> 6)"
  shows "get_time_with_offset L t offset (IntVal n) weekdays skip \<noteq> Panic"
  by (simp add: get_time_with_offset_def location_of_def Let_def move_forward_total [OF assms]
      move_backward_total [OF assms] split: option.splits)

text \<open>
  When there are rules and none of them admits a day of the week (in particular skip days
  alone, without weekdays) an offset with a non-zero duration never returns: the recursion goes on
  from day to day.
\<close>

theorem offset_without_weekdays_never_returns:
  assumes "\<forall>w. 0 \<le> w \<and> w \<le> 6 \<longrightarrow> \<not> weekday_fits weekdays w" and "weekdays \<noteq> [] \<or> skip \<noteq> []"
    and "offset \<noteq> []" and "location_of L tz = Ok loc"
    and "parse_duration (tl_fraction L) (hd (split_on (CHR '','') offset)) = Some d" and "d \<noteq> 0"
  shows "get_time_with_offset L t offset tz weekdays skip = Panic"
  using move_none [OF no_day_fits [OF assms(1,2)] assms(6)] assms(3-5)
  by (simp add: get_time_with_offset_def Let_def)

lemma split_24h: "split_on (CHR '','') ''24h,10:30'' = [''24h'', ''10:30'']"
  "split_on (CHR '','') ''24h'' = [''24h'']"
  by simp_all

lemma day_nonzero [simp]: "day \<noteq> 0"
  by (simp add: day_def hour_def second_def)

lemma offset_without_weekdays_never_returns_witness:
  "get_time_with_offset example_time_lib 0 ''24h'' (IntVal 0) [] [''2020-12-25''] = Panic"
proof (rule offset_without_weekdays_never_returns [where d = day])
  show "\<forall>w. 0 \<le> w \<and> w \<le> 6 \<longrightarrow> \<not> weekday_fits [] w" by (simp add: weekday_fits_def)
qed (simp_all add: location_of_def split_24h parse_hours)

lemma offset_returns_witness:
  "get_time_with_offset example_time_lib 0 ''24h'' (IntVal 0) workdays [''1970-01-02''] \<noteq> Panic"
  by (rule offset_returns) (auto simp: workdays_def weekday_fits_def intro!: exI [of _ 1])

text \<open>Friday 2 January 1970 is skipped, the weekend does not fit: the offset lands on Monday.\<close>

lemma example_offset:
  "get_time_with_offset example_time_lib 0 ''24h,10:30'' (IntVal 0) workdays [''1970-01-02''] =
     Ok (4 * day + 10 * hour + 30 * 60 * second)"
  by code_simp


lemma offset_time_of_day_witness:
  "hour_of (fixed_zone (60 * 60 * 0)) (4 * day + 10 * hour + 30 * 60 * second) = 10 \<and>
   minute_of (fixed_zone (60 * 60 * 0)) (4 * day + 10 * hour + 30 * 60 * second) = 30"
proof (rule offset_time_of_day [OF example_offset])
  show "parse_hh_mm ''10:30'' = Some (10, 30)" by code_simp
qed (simp_all add: split_24h)

section \<open>Execution hours\<close>

text \<open>
  The contract of a window: it is open from its first hour to its last one; a window whose end is
  after 24 goes on in the first hours of a day, when these come before its start.
\<close>

definition window_open :: "location \<Rightarrow> instant \<Rightarrow> calendar_hour \<Rightarrow> bool" where
  "window_open loc t hr \<longleftrightarrow>
     (if hour_of loc t < ch_from hr then hour_of loc t < ch_to hr - 24 \<and> 24 < ch_to hr
      else hour_of loc t < ch_to hr)"

definition until_start :: "location \<Rightarrow> instant \<Rightarrow> calendar_hour \<Rightarrow> int" where
  "until_start loc t hr =
     (if hour_of loc t < ch_from hr then date_at loc (day_number loc t) (ch_from hr) 0 - t
      else case civil_of_days (day_number loc t) of (y, m, d) \<Rightarrow> go_date loc y m (d + 1) (ch_from hr) 0 - t)"

lemma scan_hours_step:
  "scan_hours loc t (hr # hrs) e =
     (if window_open loc t hr then (0, Some (hour_values hr))
      else scan_hours loc t hrs (min e (until_start loc t hr)))"
  by (auto simp: window_open_def until_start_def split: prod.splits)

lemma scan_hours_eq:
  "scan_hours loc t hrs e =
     (case find (window_open loc t) hrs of
        Some hr \<Rightarrow> (0, Some (hour_values hr))
      | None \<Rightarrow> (fold (\<lambda>hr e. min e (until_start loc t hr)) hrs e, None))"
  by (induction hrs arbitrary: e) (simp_all add: scan_hours_step split: option.split del: scan_hours.simps(2))

lemma fold_min:
  fixes e :: int
  shows "fold (\<lambda>x e. min e (f x)) xs e = Min (insert e (f ` set xs))"
proof (induction xs arbitrary: e)
  case (Cons x xs)
  have "insert (min e (f x)) (f ` set xs) \<noteq> {}" by simp
  have "Min (insert (min e (f x)) (f ` set xs)) = Min (insert e (insert (f x) (f ` set xs)))"
    by (cases "set xs = {}") (auto simp: min.assoc)
  then show ?case by (simp add: Cons)
qed simp

text \<open>The clock of the day: day number, hour and the rest, in a fixed zone.\<close>

lemma clock_split:
  obtains n r where "wall (fixed_zone z) t = n * day + r" "0 \<le> r" "r < day"
    "day_number (fixed_zone z) t = n" "hour_of (fixed_zone z) t = r div hour"
  by (rule that [of "wall (fixed_zone z) t div day" "wall (fixed_zone z) t mod day"])
    (simp_all add: day_number_def hour_of_def)

lemma hour_of_clock:
  assumes "wall (fixed_zone z) t = n * day + r" "0 \<le> r" "r < day"
  shows "hour_of (fixed_zone z) t = r div hour"
  using assms by (simp add: hour_of_def)

lemma wall_add: "wall (fixed_zone z) (t + s) = wall (fixed_zone z) t + s"
  by (simp add: wall_def fixed_zone_def)

lemma until_start_clock:
  assumes "wall (fixed_zone z) t = n * day + r" "0 \<le> r" "r < day"
  shows "until_start (fixed_zone z) t hr = (if r div hour < ch_from hr then 0 else day) + ch_from hr * hour - r"
proof -
  have n: "day_number (fixed_zone z) t = n" using assms by (simp add: day_number_def)
  obtain y m d where c: "civil_of_days n = (y, m, d)" by (cases "civil_of_days n")
  have t: "t = n * day + r - z * second" using assms(1) by (simp add: wall_def fixed_zone_def)
  show ?thesis
    by (simp add: until_start_def hour_of_clock [OF assms] n c date_at_fixed date_next_day_fixed [OF c])
      (simp add: t algebra_simps)
qed

lemma hour_nonneg [simp]: "0 \<le> hour" "hour \<noteq> 0"
  using units_pos(2) by linarith+

lemma div_hour_less: "r div hour < k \<longleftrightarrow> r < k * hour"
proof -
  have q: "(r div hour) * hour \<le> r" "r < (r div hour + 1) * hour"
    using pos_mod_bound [OF units_pos(2), of r] pos_mod_sign [OF units_pos(2), of r] div_mult_mod_eq [of r hour]
    unfolding distrib_right mult_1_left by linarith+
  show ?thesis
  proof
    assume "r div hour < k"
    then have "(r div hour + 1) * hour \<le> k * hour" by (intro mult_right_mono) auto
    with q(2) show "r < k * hour" by linarith
  next
    assume r: "r < k * hour"
    show "r div hour < k"
    proof (rule ccontr)
      assume "\<not> r div hour < k"
      then have "k * hour \<le> (r div hour) * hour" by (intro mult_right_mono) auto
      with q(1) r show False by linarith
    qed
  qed
qed

lemma until_start_range:
  assumes "0 \<le> ch_from hr" "ch_from hr < 24"
  shows "0 < until_start (fixed_zone z) t hr \<and> until_start (fixed_zone z) t hr \<le> day \<and>
    hour_of (fixed_zone z) (t + until_start (fixed_zone z) t hr) = ch_from hr"
proof -
  obtain n r where clock: "wall (fixed_zone z) t = n * day + r" "0 \<le> r" "r < day" by (rule clock_split)
  have start: "0 \<le> ch_from hr * hour" "ch_from hr * hour < day"
    using assms by (simp_all add: day_def hour_def second_def)
  note u = until_start_clock [OF clock, of hr]
  have "wall (fixed_zone z) (t + until_start (fixed_zone z) t hr) =
      (if r div hour < ch_from hr then n else n + 1) * day + ch_from hr * hour"
    unfolding wall_add clock(1) u by (simp add: algebra_simps)
  then have "hour_of (fixed_zone z) (t + until_start (fixed_zone z) t hr) = ch_from hr"
    using hour_of_clock start by simp
  with u clock start show ?thesis by (simp add: div_hour_less)
qed

text \<open>A window that is closed stays closed until its next start.\<close>

lemma closed_until_start:
  assumes "0 \<le> ch_from hr" "ch_from hr < 24" and closed: "\<not> window_open (fixed_zone z) t hr"
    and s: "0 \<le> s" "s < until_start (fixed_zone z) t hr"
  shows "\<not> window_open (fixed_zone z) (t + s) hr"
proof -
  obtain n r where clock: "wall (fixed_zone z) t = n * day + r" "0 \<le> r" "r < day" by (rule clock_split)
  let ?a = "ch_from hr" and ?b = "ch_to hr"
  have start: "?a * hour < day" using assms by (simp add: day_def)
  note u = until_start_clock [OF clock, of hr]
  have opened: "window_open (fixed_zone z) (t + s) hr \<longleftrightarrow>
      (if x < ?a * hour then x < (?b - 24) * hour \<and> 24 < ?b else x < ?b * hour)"
    if "wall (fixed_zone z) (t + s) = m * day + x" "0 \<le> x" "x < day" for m x
    using hour_of_clock [OF that] by (simp only: window_open_def div_hour_less)
  have now: "\<not> (if r < ?a * hour then r < (?b - 24) * hour \<and> 24 < ?b else r < ?b * hour)"
    using closed unfolding window_open_def hour_of_clock [OF clock] div_hour_less .
  show ?thesis
  proof (cases "r + s < day")
    case True
    then have "wall (fixed_zone z) (t + s) = n * day + (r + s)" by (simp add: wall_add clock(1))
    from opened [OF this] now s u True clock show ?thesis by (auto simp: div_hour_less split: if_splits)
  next
    case False
    with s u clock start have tomorrow: "\<not> r < ?a * hour" "r + s - day < ?a * hour"
      by (auto simp: div_hour_less split: if_splits)
    have "?b \<le> 24"
    proof (rule ccontr)
      assume "\<not> ?b \<le> 24"
      then have "24 * hour \<le> ?b * hour" by (intro mult_right_mono) auto
      with now tomorrow(1) clock(3) show False by (simp add: day_def)
    qed
    moreover have "wall (fixed_zone z) (t + s) = (n + 1) * day + (r + s - day)"
      unfolding wall_add clock(1) by (simp add: algebra_simps)
    from opened [OF this] have "window_open (fixed_zone z) (t + s) hr \<longrightarrow> 24 < ?b"
      using False tomorrow(2) start by simp
    ultimately show ?thesis by simp
  qed
qed


definition example_hours :: "calendar_hour list" where
  "example_hours = [\<lparr>ch_from = 9, ch_to = 17, ch_params = [\<lparr>pm_name = ''speed'', pm_value = ''slow''\<rparr>]\<rparr>,
     \<lparr>ch_from = 22, ch_to = 26, ch_params = []\<rparr>]"


text \<open>
  The offset that the API documentation gives as its second example, one day back at ten
  o'clock, is always rejected: durations have no unit for days.
\<close>

theorem documented_day_offset_rejected:
  "get_time_with_offset L t ''-1d,10:00'' (IntVal n) weekdays skip = Err (Errorf ''failed to parse as duration'')"
  by (simp add: get_time_with_offset_def location_of_def Let_def parse_days)

end
