(* ===== verification/CalendarUtil.thy ===== *)
theory CalendarUtil
  imports CalendarTime
begin

text \<open>
  The helpers of the calendar controller that are not about time
  (pkg/controller/calendar/util.go): the name of an event, the ranges of pipelines, the choice among
  events of the same name, and the look-up of a template.
\<close>

section \<open>Definitions\<close>

definition name_of_event :: "event \<Rightarrow> string" where
  "name_of_event e =
     (case map_of (om_labels (ev_meta e)) ''name'' of
        Some n \<Rightarrow> n
      | None \<Rightarrow>
          if om_generate_name (ev_meta e) \<noteq> [] then trim_both (CHR ''-'') (om_generate_name (ev_meta e))
          else if has_prefix (ev_object_name e) (es_calendar (ev_spec e))
          then trim_both (CHR ''-'') (trim_prefix (ev_object_name e) (es_calendar (ev_spec e)))
          else ev_object_name e)"

text \<open>
  \<open>pipelineGroups\<close>: for every pipeline the first and the last pipeline of its range of consecutive
  Always pipelines (itself for a LeaderOnly pipeline), and the position of every name. The first
  argument of \<open>group_begins\<close> is the name the source carries along; empty means none.
\<close>

fun group_begins :: "string \<Rightarrow> pipeline list \<Rightarrow> string list" where
  "group_begins bname [] = []"
| "group_begins bname (p # ps) =
     (if pl_run_policy p = RunPolicyLeaderOnly then pl_name p # group_begins [] ps
      else let b = (if bname = [] then pl_name p else bname) in b # group_begins b ps)"

fun group_indexes :: "nat \<Rightarrow> pipeline list \<Rightarrow> nat gomap \<Rightarrow> nat gomap" where
  "group_indexes i [] m = m"
| "group_indexes i (p # ps) m = group_indexes (Suc i) ps (gm_set (pl_name p) i m)"

definition pipeline_groups :: "pipeline list \<Rightarrow> string list \<times> string list \<times> nat gomap" where
  "pipeline_groups ps = (group_begins [] ps, rev (group_begins [] (rev ps)), group_indexes 0 ps [])"

text \<open>
  \<open>filterEvents\<close>: events without a name label are dropped, events without a time are kept, and of
  the others the newest of every name is kept. The second argument is \<open>byName\<close>.
\<close>

fun filter_loop :: "event list \<Rightarrow> event gomap \<Rightarrow> event list \<Rightarrow> event list \<times> event gomap" where
  "filter_loop results by_name [] = (results, by_name)"
| "filter_loop results by_name (e # es) =
     (case map_of (om_labels (ev_meta e)) ''name'' of
        None \<Rightarrow> filter_loop results by_name es
      | Some n \<Rightarrow>
          (case est_time (ev_status e) of
             None \<Rightarrow> filter_loop (results @ [e]) by_name es
           | Some t \<Rightarrow>
               (case map_of by_name n of
                  None \<Rightarrow> filter_loop results (gm_set n e by_name) es
                | Some old \<Rightarrow>
                    (case est_time (ev_status old) of
                       None \<Rightarrow> filter_loop results by_name es
                     | Some u \<Rightarrow>
                         if u < t then filter_loop results (gm_set n e by_name) es
                         else filter_loop results by_name es))))"

definition filter_events :: "event list \<Rightarrow> event list" where
  "filter_events es = (case filter_loop [] [] es of (results, by_name) \<Rightarrow> results @ map snd by_name)"

definition run_after_of :: "event \<Rightarrow> run_after list" where
  "run_after_of e = es_run_after (ev_spec e)"

definition lookup_yaml :: "string gomap \<Rightarrow> string \<Rightarrow> string option" where
  "lookup_yaml data key =
     (case map_of data key of
        Some v \<Rightarrow> Some v
      | None \<Rightarrow> if has_suffix key ''.yaml'' then None else map_of data (key @ ''.yaml''))"

text \<open>The loop stops at the first run of the pipeline.\<close>

definition pipeline_completed :: "event \<Rightarrow> string \<Rightarrow> bool" where
  "pipeline_completed e p =
     (if p = [] then est_phase (ev_status e) = EventCompleted
      else (case find (\<lambda>r. er_pipeline r = p) (est_runs (ev_status e)) of
              None \<Rightarrow> False
            | Some r \<Rightarrow> er_status r = RunCompleted))"

text \<open>\<open>a.Sub(b)\<close>: a duration is a 64 bit number of nanoseconds, the difference saturates.\<close>

definition sub_time :: "instant \<Rightarrow> instant \<Rightarrow> int" where
  "sub_time a b = max (- (2 ^ 63)) (min (2 ^ 63 - 1) (a - b))"

text \<open>
  \<open>labels.NewRequirement("name", selection.In, values)\<close>: the values must not be empty and every
  value must be a label value.
\<close>

definition alphanumeric :: "char \<Rightarrow> bool" where
  "alphanumeric c \<longleftrightarrow>
     (let n = (of_char c :: nat) in 48 \<le> n \<and> n \<le> 57 \<or> 65 \<le> n \<and> n \<le> 90 \<or> 97 \<le> n \<and> n \<le> 122)"

definition valid_label_value :: "string \<Rightarrow> bool" where
  "valid_label_value v \<longleftrightarrow>
     length v \<le> 63 \<and>
     (v = [] \<or> alphanumeric (hd v) \<and> alphanumeric (last v) \<and>
        list_all (\<lambda>c. alphanumeric c \<or> c \<in> set ''-_.'') v)"

definition name_requirement :: "string list \<Rightarrow> go_error + string list" where
  "name_requirement names =
     (if names = [] \<or> \<not> list_all valid_label_value names then Inl (Errorf ''invalid label requirement'')
      else Inr names)"

section \<open>Comparison of event statuses\<close>

definition deep_eq_run :: "event_run \<Rightarrow> event_run \<Rightarrow> bool" where
  "deep_eq_run a b \<longleftrightarrow> gm_eq (er_results a) (er_results b) \<and> a\<lparr>er_results := []\<rparr> = b\<lparr>er_results := []\<rparr>"

definition deep_eq_status :: "event_status \<Rightarrow> event_status \<Rightarrow> bool" where
  "deep_eq_status a b \<longleftrightarrow>
     est_phase a = est_phase b \<and> est_time a = est_time b \<and> est_leader a = est_leader b \<and>
     list_all2 deep_eq_run (est_runs a) (est_runs b)"

lemma deep_eq_run_refl [simp]: "deep_eq_run r r"
  by (simp add: deep_eq_run_def)

lemma deep_eq_status_refl [simp]: "deep_eq_status s s"
  by (simp add: deep_eq_status_def list_all2_refl)

lemma sub_time_pos: "b < a \<longleftrightarrow> 0 < sub_time a b"
  by (auto simp: sub_time_def)

section \<open>The ranges of pipelines\<close>

lemma length_group_begins [simp]: "length (group_begins b ps) = length ps"
  by (induction b ps rule: group_begins.induct) (simp_all add: Let_def)

text \<open>The range of a pipeline: it is the first of the pipelines that run always before it.\<close>

lemma group_begins_range:
  assumes "i < length ps" and "\<forall>p\<in>set ps. pl_name p \<noteq> []"
    and "pl_run_policy (ps ! i) \<noteq> RunPolicyLeaderOnly"
  shows "(\<exists>a\<le>i. group_begins b ps ! i = pl_name (ps ! a) \<and>
            (\<forall>j. a \<le> j \<and> j \<le> i \<longrightarrow> pl_run_policy (ps ! j) \<noteq> RunPolicyLeaderOnly) \<and>
            (a = 0 \<and> b = [] \<or> 0 < a \<and> pl_run_policy (ps ! (a - 1)) = RunPolicyLeaderOnly)) \<or>
         b \<noteq> [] \<and> group_begins b ps ! i = b \<and>
            (\<forall>j\<le>i. pl_run_policy (ps ! j) \<noteq> RunPolicyLeaderOnly)"
  using assms
proof (induction b ps arbitrary: i rule: group_begins.induct)
  case (2 b p ps)
  show ?case
  proof (cases i)
    case 0
    with 2 show ?thesis by (auto simp: Let_def)
  next
    case (Suc k)
    let ?leader = "pl_run_policy p = RunPolicyLeaderOnly"
    let ?b = "if ?leader then [] else if b = [] then pl_name p else b"
    have step: "group_begins b (p # ps) ! i = group_begins ?b ps ! k" using Suc by (simp add: Let_def)
    have k: "k < length ps" "\<forall>p\<in>set ps. pl_name p \<noteq> []" "pl_run_policy (ps ! k) \<noteq> RunPolicyLeaderOnly"
      using "2.prems" Suc by simp_all
    have IH: "(\<exists>a\<le>k. group_begins ?b ps ! k = pl_name (ps ! a) \<and>
            (\<forall>j. a \<le> j \<and> j \<le> k \<longrightarrow> pl_run_policy (ps ! j) \<noteq> RunPolicyLeaderOnly) \<and>
            (a = 0 \<and> ?b = [] \<or> 0 < a \<and> pl_run_policy (ps ! (a - 1)) = RunPolicyLeaderOnly)) \<or>
         ?b \<noteq> [] \<and> group_begins ?b ps ! k = ?b \<and>
            (\<forall>j\<le>k. pl_run_policy (ps ! j) \<noteq> RunPolicyLeaderOnly)"
      using "2.IH" k by (cases ?leader) (simp_all split del: if_split)
    from IH show ?thesis
    proof (elim disjE exE conjE)
      fix a
      assume a: "a \<le> k" "group_begins ?b ps ! k = pl_name (ps ! a)"
        "\<forall>j. a \<le> j \<and> j \<le> k \<longrightarrow> pl_run_policy (ps ! j) \<noteq> RunPolicyLeaderOnly" "a = 0" "?b = []"
      then have "?leader" using "2.prems"(2) by (auto split: if_splits)
      with a Suc show ?thesis
        by (intro disjI1 exI [of _ "Suc a"]) (auto simp: step le_Suc_eq nth_Cons split: nat.splits)
    next
      fix a
      assume a: "a \<le> k" "group_begins ?b ps ! k = pl_name (ps ! a)"
        "\<forall>j. a \<le> j \<and> j \<le> k \<longrightarrow> pl_run_policy (ps ! j) \<noteq> RunPolicyLeaderOnly" "0 < a"
        "pl_run_policy (ps ! (a - 1)) = RunPolicyLeaderOnly"
      then show ?thesis using Suc
        by (intro disjI1 exI [of _ "Suc a"]) (auto simp: step nth_Cons Let_def split: nat.splits)
    next
      assume b: "?b \<noteq> []" "group_begins ?b ps ! k = ?b"
        "\<forall>j\<le>k. pl_run_policy (ps ! j) \<noteq> RunPolicyLeaderOnly"
      then have always: "\<forall>j\<le>i. pl_run_policy ((p # ps) ! j) \<noteq> RunPolicyLeaderOnly"
        using Suc by (auto simp: nth_Cons split: nat.splits if_splits)
      from b(1) have "\<not> ?leader" by auto
      with b(2) step have value_b: "group_begins b (p # ps) ! i = (if b = [] then pl_name p else b)" by simp
      show ?thesis
      proof (cases "b = []")
        case True
        with value_b always show ?thesis by (intro disjI1 exI [of _ 0]) simp
      next
        case False
        with value_b always show ?thesis by simp
      qed
    qed
  qed
qed simp

lemma group_begins_leader:
  "i < length ps \<Longrightarrow> pl_run_policy (ps ! i) = RunPolicyLeaderOnly \<Longrightarrow> group_begins b ps ! i = pl_name (ps ! i)"
  by (induction b ps arbitrary: i rule: group_begins.induct) (auto simp: nth_Cons Let_def split: nat.splits)

text \<open>
  \<open>pipelineGroups\<close>: the two names of an Always pipeline are those of the first and the last
  pipeline of the longest range of Always pipelines around it.
\<close>

theorem pipeline_groups_ranges:
  assumes "i < length ps" and "\<forall>p\<in>set ps. pl_name p \<noteq> []" and "pl_run_policy (ps ! i) \<noteq> RunPolicyLeaderOnly"
  shows "\<exists>a b. a \<le> i \<and> i \<le> b \<and> b < length ps \<and>
    fst (pipeline_groups ps) ! i = pl_name (ps ! a) \<and> fst (snd (pipeline_groups ps)) ! i = pl_name (ps ! b) \<and>
    (\<forall>j. a \<le> j \<and> j \<le> b \<longrightarrow> pl_run_policy (ps ! j) \<noteq> RunPolicyLeaderOnly) \<and>
    (0 < a \<longrightarrow> pl_run_policy (ps ! (a - 1)) = RunPolicyLeaderOnly) \<and>
    (Suc b < length ps \<longrightarrow> pl_run_policy (ps ! Suc b) = RunPolicyLeaderOnly)"
proof -
  let ?n = "length ps"
  obtain a where a: "a \<le> i" "group_begins [] ps ! i = pl_name (ps ! a)"
    "\<forall>j. a \<le> j \<and> j \<le> i \<longrightarrow> pl_run_policy (ps ! j) \<noteq> RunPolicyLeaderOnly"
    "a = 0 \<or> pl_run_policy (ps ! (a - 1)) = RunPolicyLeaderOnly"
    using group_begins_range [OF assms, of "[]"] by auto
  let ?i = "?n - 1 - i"
  have last_index: "rev ps ! ?i = ps ! i" "?i < length (rev ps)" using assms(1) by (simp_all add: rev_nth)
  obtain c where c: "c \<le> ?i" "group_begins [] (rev ps) ! ?i = pl_name (rev ps ! c)"
    "\<forall>j. c \<le> j \<and> j \<le> ?i \<longrightarrow> pl_run_policy (rev ps ! j) \<noteq> RunPolicyLeaderOnly"
    "c = 0 \<or> 0 < c \<and> pl_run_policy (rev ps ! (c - 1)) = RunPolicyLeaderOnly"
    using group_begins_range [of ?i "rev ps" "[]"] assms(2,3) last_index by auto
  define b where "b = ?n - 1 - c"
  have b: "i \<le> b" "b < ?n" using c(1) assms(1) by (auto simp: b_def)
  have turn: "ps ! j = rev ps ! (?n - 1 - j)" if "j < ?n" for j using that by (simp add: rev_nth)
  have "fst (snd (pipeline_groups ps)) ! i = pl_name (ps ! b)"
    using c(1,2) assms(1) by (simp add: pipeline_groups_def rev_nth b_def)
  moreover have "\<forall>j. i \<le> j \<and> j \<le> b \<longrightarrow> pl_run_policy (ps ! j) \<noteq> RunPolicyLeaderOnly"
  proof (intro allI impI)
    fix j
    assume "i \<le> j \<and> j \<le> b"
    with c(1) assms(1) have "c \<le> ?n - 1 - j" "?n - 1 - j \<le> ?i" "j < ?n" by (auto simp: b_def)
    with c(3) show "pl_run_policy (ps ! j) \<noteq> RunPolicyLeaderOnly" unfolding turn [OF \<open>j < ?n\<close>] by blast
  qed
  moreover have "Suc b < ?n \<longrightarrow> pl_run_policy (ps ! Suc b) = RunPolicyLeaderOnly"
  proof
    assume "Suc b < ?n"
    with c(4) have "0 < c" "?n - 1 - Suc b = c - 1" using c(1) assms(1) by (auto simp: b_def)
    with c(4) \<open>Suc b < ?n\<close> show "pl_run_policy (ps ! Suc b) = RunPolicyLeaderOnly" by (simp add: turn)
  qed
  moreover have "\<forall>j. a \<le> j \<and> j \<le> b \<longrightarrow> pl_run_policy (ps ! j) \<noteq> RunPolicyLeaderOnly"
    using a(3) calculation(2) by (metis linear)
  ultimately show ?thesis using a b
    by - (rule exI [of _ a], rule exI [of _ b], auto simp: pipeline_groups_def)
qed

definition named_pipeline :: "string \<Rightarrow> run_policy \<Rightarrow> pipeline" where
  "named_pipeline n policy =
     \<lparr>pl_name = n, pl_time_offset = [], pl_run_policy = policy, pl_after_policy = AfterPolicyOther [],
      pl_rollback = [], pl_rollback_policy = RollbackPolicyOther []\<rparr>"

definition example_pipelines :: "pipeline list" where
  "example_pipelines =
     [named_pipeline ''plan'' RunPolicyLeaderOnly, named_pipeline ''canary'' RunPolicyAlways,
      named_pipeline ''rollout'' RunPolicyAlways, named_pipeline ''report'' RunPolicyLeaderOnly]"

text \<open>
  The groups of one LeaderOnly, two Always and one LeaderOnly pipeline: the first component
  holds the first pipelines of the ranges and the second the last ones.
\<close>

theorem pipeline_groups_example:
  "pipeline_groups example_pipelines =
     ([''plan'', ''canary'', ''canary'', ''report''], [''plan'', ''rollout'', ''rollout'', ''report''],
      [(''plan'', 0), (''canary'', 1), (''rollout'', 2), (''report'', 3)])"
  by (simp add: pipeline_groups_def example_pipelines_def named_pipeline_def gm_set_def Let_def)

lemma pipeline_groups_ranges_witness:
  "\<exists>a b. a \<le> 2 \<and> 2 \<le> b \<and> b < length example_pipelines \<and>
    fst (pipeline_groups example_pipelines) ! 2 = pl_name (example_pipelines ! a) \<and>
    fst (snd (pipeline_groups example_pipelines)) ! 2 = pl_name (example_pipelines ! b)"
  using pipeline_groups_ranges [of 2 example_pipelines]
  by (simp add: example_pipelines_def named_pipeline_def) blast

section \<open>The choice among events of the same name\<close>

abbreviation label_name :: "event \<Rightarrow> string option" where
  "label_name e \<equiv> map_of (om_labels (ev_meta e)) ''name''"

definition timed :: "string \<Rightarrow> event \<Rightarrow> bool" where
  "timed n e \<longleftrightarrow> label_name e = Some n \<and> est_time (ev_status e) \<noteq> None"

text \<open>What \<open>byName\<close> holds for a name: the newest of the events seen, and no other name occurs.\<close>

definition newest_at :: "event list \<Rightarrow> event gomap \<Rightarrow> string \<Rightarrow> bool" where
  "newest_at es m n \<longleftrightarrow>
     (case map_of m n of
        None \<Rightarrow> \<forall>e\<in>set es. \<not> timed n e
      | Some b \<Rightarrow> b \<in> set es \<and> timed n b \<and>
          (\<forall>e\<in>set es. timed n e \<longrightarrow> the (est_time (ev_status e)) \<le> the (est_time (ev_status b))))"

definition newest_of :: "event list \<Rightarrow> event gomap \<Rightarrow> bool" where
  "newest_of es m \<longleftrightarrow> gm_ok m \<and> (\<forall>n. newest_at es m n)"

lemma newest_at_skip: "newest_at es m n \<Longrightarrow> \<not> timed n e \<Longrightarrow> newest_at (es @ [e]) m n"
  by (auto simp: newest_at_def split: option.splits)

lemma newest_at_other: "newest_at es m k \<Longrightarrow> k \<noteq> n \<Longrightarrow> label_name e = Some n \<Longrightarrow> newest_at (es @ [e]) (gm_set n e m) k"
  by (auto simp: newest_at_def timed_def split: option.splits)

lemma newest_at_first: "newest_at es m n \<Longrightarrow> map_of m n = None \<Longrightarrow> timed n e \<Longrightarrow> newest_at (es @ [e]) (gm_set n e m) n"
  by (auto simp: newest_at_def)

lemma newest_at_older:
  "newest_at es m n \<Longrightarrow> map_of m n = Some b \<Longrightarrow>
     the (est_time (ev_status e)) \<le> the (est_time (ev_status b)) \<Longrightarrow> newest_at (es @ [e]) m n"
  by (auto simp: newest_at_def)

lemma newest_at_newer:
  "newest_at es m n \<Longrightarrow> map_of m n = Some b \<Longrightarrow> timed n e \<Longrightarrow>
     the (est_time (ev_status b)) < the (est_time (ev_status e)) \<Longrightarrow> newest_at (es @ [e]) (gm_set n e m) n"
  by (fastforce simp: newest_at_def)

text \<open>One step of the loop, as what it does to the map.\<close>

definition take_event :: "event \<Rightarrow> event gomap \<Rightarrow> event gomap" where
  "take_event e m =
     (case label_name e of
        None \<Rightarrow> m
      | Some n \<Rightarrow>
          (case est_time (ev_status e) of
             None \<Rightarrow> m
           | Some t \<Rightarrow>
               (case map_of m n of
                  None \<Rightarrow> gm_set n e m
                | Some b \<Rightarrow> (case est_time (ev_status b) of
                      None \<Rightarrow> m | Some u \<Rightarrow> if u < t then gm_set n e m else m))))"

lemma newest_of_take:
  assumes "newest_of es m"
  shows "newest_of (es @ [e]) (take_event e m)"
proof -
  have ok: "gm_ok m" and at: "newest_at es m k" for k using assms by (simp_all add: newest_of_def)
  show ?thesis
  proof (cases "\<exists>n. timed n e")
    case False
    then have "take_event e m = m" by (auto simp: take_event_def timed_def split: option.splits)
    with False ok at show ?thesis by (simp add: newest_of_def newest_at_skip)
  next
    case True
    then obtain n t where n: "label_name e = Some n" "est_time (ev_status e) = Some t" by (auto simp: timed_def)
    then have timed: "timed n e" "k \<noteq> n \<Longrightarrow> \<not> timed k e" for k by (simp_all add: timed_def)
    show ?thesis
    proof (cases "map_of m n")
      case None
      with n have "take_event e m = gm_set n e m" by (simp add: take_event_def)
      with ok at None n timed show ?thesis
        by (auto simp: newest_of_def intro: newest_at_first newest_at_other)
    next
      case (Some b)
      with at [of n] obtain u where u: "est_time (ev_status b) = Some u"
        by (auto simp: newest_at_def timed_def)
      show ?thesis
      proof (cases "u < t")
        case True
        with n u Some have "take_event e m = gm_set n e m" by (simp add: take_event_def)
        moreover have "newest_at (es @ [e]) (gm_set n e m) k" for k
          using at Some timed(1) n u True by (cases "k = n") (auto intro: newest_at_newer newest_at_other)
        ultimately show ?thesis using ok by (simp add: newest_of_def)
      next
        case False
        with n u Some have "take_event e m = m" by (simp add: take_event_def)
        moreover have "newest_at (es @ [e]) m k" for k
          using at Some timed(2) n u False by (cases "k = n") (auto intro: newest_at_older newest_at_skip)
        ultimately show ?thesis using ok by (simp add: newest_of_def)
      qed
    qed
  qed
qed

lemma filter_loop_eq:
  "filter_loop rs m es =
     (rs @ filter (\<lambda>e. label_name e \<noteq> None \<and> est_time (ev_status e) = None) es, fold take_event es m)"
  by (induction rs m es rule: filter_loop.induct) (auto simp: take_event_def split: option.splits)

lemma newest_of_fold: "newest_of seen m \<Longrightarrow> newest_of (seen @ es) (fold take_event es m)"
proof (induction es arbitrary: seen m)
  case (Cons e es)
  from Cons.IH [OF newest_of_take [OF Cons.prems], of e] show ?case by simp
qed simp

lemma filter_key:
  "gm_ok m \<Longrightarrow> filter (\<lambda>kv. fst kv = n) m = (case map_of m n of None \<Rightarrow> [] | Some b \<Rightarrow> [(n, b)])"
proof (induction m)
  case (Cons kv m)
  obtain k v where "kv = (k, v)" by (cases kv)
  with Cons show ?case by (cases "k = n") (auto simp: gm_ok_Cons)
qed simp

lemma filter_timed:
  assumes "newest_of es m"
  shows "filter (timed n) (map snd m) = (case map_of m n of None \<Rightarrow> [] | Some b \<Rightarrow> [b])"
proof -
  have ok: "gm_ok m" using assms by (simp add: newest_of_def)
  have "timed n v \<longleftrightarrow> k = n" if "(k, v) \<in> set m" for k v
  proof -
    have "map_of m k = Some v" using that ok by (simp add: gm_ok_def)
    then have "timed k v" using assms by (auto simp: newest_of_def newest_at_def dest: spec [of _ k])
    then show ?thesis by (auto simp: timed_def)
  qed
  then have "filter (timed n) (map snd m) = map snd (filter (\<lambda>kv. fst kv = n) m)"
    by (auto simp: filter_map intro!: filter_cong arg_cong [where f = "map snd"])
  then show ?thesis by (simp add: filter_key [OF ok] split: option.splits)
qed

text \<open>
  \<open>filterEvents\<close> returns some of the given events, keeps every named event without a time, and
  keeps of the events of a name that have a time exactly one, which none of them is newer than.
\<close>

theorem filter_events_newest:
  "set (filter_events es) \<subseteq> set es \<and>
   (\<forall>e\<in>set es. label_name e \<noteq> None \<and> est_time (ev_status e) = None \<longrightarrow> e \<in> set (filter_events es)) \<and>
   (\<forall>n. \<forall>e\<in>set es. timed n e \<longrightarrow>
      (\<exists>b. filter (timed n) (filter_events es) = [b] \<and>
           the (est_time (ev_status e)) \<le> the (est_time (ev_status b))))"
proof -
  let ?m = "fold take_event es []"
  have newest: "newest_of es ?m"
    using newest_of_fold [of "[]" "[]" es] by (simp add: newest_of_def newest_at_def gm_ok_def)
  have eq: "filter_events es =
      filter (\<lambda>e. label_name e \<noteq> None \<and> est_time (ev_status e) = None) es @ map snd ?m"
    by (simp add: filter_events_def filter_loop_eq)
  have "b \<in> set es" if "b \<in> set (map snd ?m)" for b
  proof -
    obtain k where "(k, b) \<in> set ?m" using \<open>b \<in> set (map snd ?m)\<close> by auto
    then have "map_of ?m k = Some b" using newest by (simp add: newest_of_def gm_ok_def)
    then show ?thesis using newest by (auto simp: newest_of_def newest_at_def dest: spec [of _ k])
  qed
  moreover have "\<exists>b. filter (timed n) (filter_events es) = [b] \<and>
      the (est_time (ev_status e)) \<le> the (est_time (ev_status b))" if "e \<in> set es" "timed n e" for n e
  proof -
    have "newest_at es ?m n" using newest by (simp add: newest_of_def)
    moreover from this that obtain b where "map_of ?m n = Some b"
      by (cases "map_of ?m n") (auto simp: newest_at_def)
    ultimately have "map_of ?m n = Some b" "the (est_time (ev_status e)) \<le> the (est_time (ev_status b))"
      using that by (auto simp: newest_at_def)
    moreover have "filter (timed n) (filter (\<lambda>e. label_name e \<noteq> None \<and> est_time (ev_status e) = None) es) = []"
      by (auto simp: filter_empty_conv timed_def)
    ultimately show ?thesis using filter_timed [OF newest, of n] by (simp add: eq)
  qed
  ultimately show ?thesis by (auto simp: eq)
qed

definition named_event :: "string \<Rightarrow> string \<Rightarrow> instant option \<Rightarrow> event" where
  "named_event n label t =
     empty_event\<lparr>ev_meta := empty_meta\<lparr>om_name := n, om_labels := [(''name'', label)]\<rparr>,
       ev_status := empty_event_status\<lparr>est_time := t\<rparr>\<rparr>"

lemma filter_events_newest_witness:
  "\<exists>b. filter (timed ''app'') (filter_events [named_event ''a'' ''app'' (Some 5), named_event ''b'' ''app'' (Some 7)]) = [b] \<and>
     5 \<le> the (est_time (ev_status b))"
proof -
  let ?a = "named_event ''a'' ''app'' (Some 5)" and ?b = "named_event ''b'' ''app'' (Some 7)"
  have "timed ''app'' ?a" by (simp add: timed_def named_event_def)
  then have "\<exists>b. filter (timed ''app'') (filter_events [?a, ?b]) = [b] \<and>
      the (est_time (ev_status ?a)) \<le> the (est_time (ev_status b))"
    using filter_events_newest [of "[?a, ?b]"] by (simp only: list.set insert_iff ball_simps)
  then show ?thesis by (simp add: named_event_def)
qed

end
