(* ===== verification/Unstructured.thy ===== *)
theory Unstructured
  imports GoStrings
begin

text \<open>
  Decoded JSON objects as the API machinery handles them (vendored package
  apis/meta/v1/unstructured): a nested field is looked up or set along a path, and the typed
  look-ups fail on a value of another type. A number is kept as its text.
\<close>

datatype json =
    JNull
  | JBool bool
  | JNumber string
  | JStr string
  | JArr "json list"
  | JObj "(string \<times> json) list"

text \<open>
  \<open>NestedFieldNoCopy\<close>: \<open>Inr None\<close> is not found; an error when the path leads through something
  that is neither an object nor nil.
\<close>

fun nested_field :: "json \<Rightarrow> string list \<Rightarrow> go_error + json option" where
  "nested_field j [] = Inr (Some j)"
| "nested_field JNull (f # fs) = Inr None"
| "nested_field (JObj m) (f # fs) =
     (case map_of m f of None \<Rightarrow> Inr None | Some v \<Rightarrow> nested_field v fs)"
| "nested_field _ (f # fs) = Inl (Errorf ''accessor error'')"

definition nested_string :: "json \<Rightarrow> string list \<Rightarrow> go_error + string option" where
  "nested_string j fs =
     (case nested_field j fs of
        Inl e \<Rightarrow> Inl e
      | Inr None \<Rightarrow> Inr None
      | Inr (Some (JStr s)) \<Rightarrow> Inr (Some s)
      | Inr (Some _) \<Rightarrow> Inl (Errorf ''accessor error''))"

definition nested_slice :: "json \<Rightarrow> string list \<Rightarrow> go_error + json list option" where
  "nested_slice j fs =
     (case nested_field j fs of
        Inl e \<Rightarrow> Inl e
      | Inr None \<Rightarrow> Inr None
      | Inr (Some (JArr xs)) \<Rightarrow> Inr (Some xs)
      | Inr (Some _) \<Rightarrow> Inl (Errorf ''accessor error''))"

fun string_values :: "(string \<times> json) list \<Rightarrow> string gomap option" where
  "string_values [] = Some []"
| "string_values ((k, JStr s) # m) = map_option (Cons (k, s)) (string_values m)"
| "string_values (_ # m) = None"

definition nested_string_map :: "json \<Rightarrow> string list \<Rightarrow> go_error + string gomap option" where
  "nested_string_map j fs =
     (case nested_field j fs of
        Inl e \<Rightarrow> Inl e
      | Inr None \<Rightarrow> Inr None
      | Inr (Some (JObj m)) \<Rightarrow>
          (case string_values m of None \<Rightarrow> Inl (Errorf ''accessor error'') | Some sm \<Rightarrow> Inr (Some sm))
      | Inr (Some _) \<Rightarrow> Inl (Errorf ''accessor error''))"

text \<open>
  \<open>setNestedFieldNoCopy\<close> on an object; missing levels are created. The path is not empty.
\<close>

fun set_nested :: "(string \<times> json) list \<Rightarrow> json \<Rightarrow> string list \<Rightarrow> go_error + (string \<times> json) list" where
  "set_nested m v [] = Inr m"
| "set_nested m v [f] = Inr (gm_set f v m)"
| "set_nested m v (f # g # fs) =
     (case map_of m f of
        None \<Rightarrow> (case set_nested [] v (g # fs) of Inl e \<Rightarrow> Inl e | Inr m' \<Rightarrow> Inr (gm_set f (JObj m') m))
      | Some (JObj sub) \<Rightarrow>
          (case set_nested sub v (g # fs) of Inl e \<Rightarrow> Inl e | Inr m' \<Rightarrow> Inr (gm_set f (JObj m') m))
      | Some _ \<Rightarrow> Inl (Errorf ''value cannot be set''))"

fun remove_nested :: "(string \<times> json) list \<Rightarrow> string list \<Rightarrow> (string \<times> json) list" where
  "remove_nested m [] = m"
| "remove_nested m [f] = filter (\<lambda>kv. fst kv \<noteq> f) m"
| "remove_nested m (f # g # fs) =
     (case map_of m f of Some (JObj sub) \<Rightarrow> gm_set f (JObj (remove_nested sub (g # fs))) m | _ \<Rightarrow> m)"

text \<open>An unstructured object is the map it holds. The setters of the metadata drop errors.\<close>

type_synonym unstructured = "(string \<times> json) list"

definition set_field :: "json \<Rightarrow> string list \<Rightarrow> unstructured \<Rightarrow> unstructured" where
  "set_field v path u = (case set_nested u v path of Inl _ \<Rightarrow> u | Inr u' \<Rightarrow> u')"

definition set_namespace :: "string \<Rightarrow> unstructured \<Rightarrow> unstructured" where
  "set_namespace ns u =
     (if ns = [] then remove_nested u [''metadata'', ''namespace'']
      else set_field (JStr ns) [''metadata'', ''namespace''] u)"

definition set_name :: "string \<Rightarrow> unstructured \<Rightarrow> unstructured" where
  "set_name n u =
     (if n = [] then remove_nested u [''metadata'', ''name'']
      else set_field (JStr n) [''metadata'', ''name''] u)"

text \<open>\<open>GetLabels\<close>; \<open>None\<close> is the nil map, also when the labels are not strings.\<close>

definition get_labels :: "unstructured \<Rightarrow> string gomap option" where
  "get_labels u = (case nested_string_map (JObj u) [''metadata'', ''labels''] of Inl _ \<Rightarrow> None | Inr m \<Rightarrow> m)"

definition set_labels :: "string gomap \<Rightarrow> unstructured \<Rightarrow> unstructured" where
  "set_labels m u = set_field (JObj (map (\<lambda>(k, v). (k, JStr v)) m)) [''metadata'', ''labels''] u"

definition get_name :: "unstructured \<Rightarrow> string" where
  "get_name u =
     (case nested_string (JObj u) [''metadata'', ''name''] of Inr (Some s) \<Rightarrow> s | _ \<Rightarrow> [])"

section \<open>Lemmas\<close>

lemma set_nested_total_depth2:
  "set_nested u v [f, g] =
     (case map_of u f of
        None \<Rightarrow> Inr (gm_set f (JObj [(g, v)]) u)
      | Some (JObj sub) \<Rightarrow> Inr (gm_set f (JObj (gm_set g v sub)) u)
      | Some _ \<Rightarrow> Inl (Errorf ''value cannot be set''))"
  by (auto simp: gm_set_def split: option.splits json.splits)

lemma nested_field_set:
  "set_nested u v path = Inr u' \<Longrightarrow> path \<noteq> [] \<Longrightarrow> nested_field (JObj u') path = Inr (Some v)"
proof (induction u v path arbitrary: u' rule: set_nested.induct)
  case (3 m v f g fs)
  show ?case
  proof (cases "map_of m f")
    case None
    with 3 show ?thesis by (auto split: sum.splits)
  next
    case (Some j)
    with 3 show ?thesis by (cases j) (auto split: sum.splits)
  qed
qed auto

lemma string_values_map [simp]: "string_values (map (\<lambda>(k, v). (k, JStr v)) m) = Some m"
  by (induction m) auto

text \<open>The metadata of an object is an object, or is missing: what a decoder accepts.\<close>

definition sound_metadata :: "unstructured \<Rightarrow> bool" where
  "sound_metadata u \<longleftrightarrow> map_of u ''metadata'' = None \<or> (\<exists>m. map_of u ''metadata'' = Some (JObj m))"

lemma set_field_metadata:
  "sound_metadata u \<Longrightarrow> \<exists>m. set_field v [''metadata'', g] u = gm_set ''metadata'' (JObj (gm_set g v m)) u \<and>
     (map_of u ''metadata'' = Some (JObj m) \<or> map_of u ''metadata'' = None \<and> m = [])"
  by (auto simp: sound_metadata_def set_field_def set_nested_total_depth2 gm_set_def)

lemma nested_metadata:
  "nested_field (JObj u) [''metadata'', g] =
     (case map_of u ''metadata'' of
        None \<Rightarrow> Inr None | Some JNull \<Rightarrow> Inr None | Some (JObj m) \<Rightarrow> Inr (map_of m g)
      | Some _ \<Rightarrow> Inl (Errorf ''accessor error''))"
  by (auto split: option.splits json.splits)

end
