(* ===== verification/CalendarCalls.thy ===== *)
theory CalendarCalls
  imports CalendarUtil Unstructured
begin

text \<open>
  What the calendar controller (pkg/controller/calendar) says to the outside world: the informer
  caches, the API server with the events, leases and templates, the Tekton clusters, the template
  engine, the clock and the random name suffix. As in the release controller an entry of the log
  carries the arguments and the answer.
\<close>

section \<open>Values\<close>

text \<open>The parameters of a template: \<open>map[string]interface{}\<close>, with the values the code puts there.\<close>

datatype pval = PStr string | PTime instant | PBool bool | PFollowers "(string \<times> pval) list list"

type_synonym params = "pval gomap"

definition str_params :: "string gomap \<Rightarrow> params" where
  "str_params m = map (\<lambda>(k, v). (k, PStr v)) m"

text \<open>What a lister of Tekton objects returns: an unstructured object or something else.\<close>

datatype run_object = Run unstructured | NotUnstructured

record decoded =
  dc_gvk :: "(string \<times> string \<times> string) option"
  dc_object :: run_object

text \<open>A label selector: labels that must be equal, and names one of which must be the name label.\<close>

record selector =
  sel_labels :: "string gomap"
  sel_names :: "string list option"

datatype cal_call =
    FindEvent string string "go_error + event"
  | FindCalendar string string "go_error + calendar"
  | ListEvents string selector "go_error + event list"
  | UpdateEventStatus string event "go_error + unit"
  | DeleteEvent string string "go_error + unit"
  | GetLease string string "go_error + lease"
  | CreateLease string lease "go_error + lease"
  | UpdateLease string lease "go_error + unit"
  | DeleteLease string string "go_error + unit"
  | GetConfigMap string string "go_error + string gomap"
  | GetTemplateSecret string string "go_error + string gomap"
  | FindRun string string string "go_error + run_object"
  | CreateRun string string unstructured "go_error + unit"
  | UpdateRun string string unstructured "go_error + unit"
  | RenderTemplate string params "go_error + string"
  | ReadNow instant
  | NameSuffix string
  | QueueAdd string

text \<open>
  The answers. The last four are third-party or library functions without state: the parsers of
  templates, of YAML, of RFC 3339 instants, and the two of \<open>time_lib\<close>.
\<close>

record cal_env =
  ce_find_event :: "cal_call list \<Rightarrow> string \<Rightarrow> string \<Rightarrow> go_error + event"
  ce_find_calendar :: "cal_call list \<Rightarrow> string \<Rightarrow> string \<Rightarrow> go_error + calendar"
  ce_list_events :: "cal_call list \<Rightarrow> string \<Rightarrow> selector \<Rightarrow> go_error + event list"
  ce_update_status :: "cal_call list \<Rightarrow> string \<Rightarrow> event \<Rightarrow> go_error + unit"
  ce_delete_event :: "cal_call list \<Rightarrow> string \<Rightarrow> string \<Rightarrow> go_error + unit"
  ce_get_lease :: "cal_call list \<Rightarrow> string \<Rightarrow> string \<Rightarrow> go_error + lease"
  ce_create_lease :: "cal_call list \<Rightarrow> string \<Rightarrow> lease \<Rightarrow> go_error + lease"
  ce_update_lease :: "cal_call list \<Rightarrow> string \<Rightarrow> lease \<Rightarrow> go_error + unit"
  ce_delete_lease :: "cal_call list \<Rightarrow> string \<Rightarrow> string \<Rightarrow> go_error + unit"
  ce_get_config_map :: "cal_call list \<Rightarrow> string \<Rightarrow> string \<Rightarrow> go_error + string gomap"
  ce_get_secret :: "cal_call list \<Rightarrow> string \<Rightarrow> string \<Rightarrow> go_error + string gomap"
  ce_find_run :: "cal_call list \<Rightarrow> string \<Rightarrow> string \<Rightarrow> string \<Rightarrow> go_error + run_object"
  ce_create_run :: "cal_call list \<Rightarrow> string \<Rightarrow> string \<Rightarrow> unstructured \<Rightarrow> go_error + unit"
  ce_update_run :: "cal_call list \<Rightarrow> string \<Rightarrow> string \<Rightarrow> unstructured \<Rightarrow> go_error + unit"
  ce_render :: "cal_call list \<Rightarrow> string \<Rightarrow> params \<Rightarrow> go_error + string"
  ce_now :: "cal_call list \<Rightarrow> instant"
  ce_suffix :: "cal_call list \<Rightarrow> string"
  ce_parse_template :: "string \<Rightarrow> go_error + unit"
  ce_decode :: "string \<Rightarrow> go_error + decoded"
  ce_parse_time :: "string \<Rightarrow> go_error + instant"
  ce_time_lib :: time_lib

text \<open>The controller itself: the default cluster and the clusters with a client and with a lister.\<close>

record cal_config =
  cc_default_cluster :: string
  cc_clusters :: "string list"
  cc_listers :: "string list"

type_synonym 'a cal_eff = "(cal_call, 'a) eff"

section \<open>Calls\<close>

definition find_event :: "cal_env \<Rightarrow> string \<Rightarrow> string \<Rightarrow> event cal_eff" where
  "find_event E ns n = perform (\<lambda>h. ce_find_event E h ns n) (FindEvent ns n)"

definition find_calendar :: "cal_env \<Rightarrow> string \<Rightarrow> string \<Rightarrow> calendar cal_eff" where
  "find_calendar E ns n = perform (\<lambda>h. ce_find_calendar E h ns n) (FindCalendar ns n)"

definition list_events :: "cal_env \<Rightarrow> string \<Rightarrow> selector \<Rightarrow> event list cal_eff" where
  "list_events E ns sel = perform (\<lambda>h. ce_list_events E h ns sel) (ListEvents ns sel)"

definition update_event_status :: "cal_env \<Rightarrow> string \<Rightarrow> event \<Rightarrow> unit cal_eff" where
  "update_event_status E ns e = perform (\<lambda>h. ce_update_status E h ns e) (UpdateEventStatus ns e)"

definition delete_event :: "cal_env \<Rightarrow> string \<Rightarrow> string \<Rightarrow> unit cal_eff" where
  "delete_event E ns n = perform (\<lambda>h. ce_delete_event E h ns n) (DeleteEvent ns n)"

definition get_lease :: "cal_env \<Rightarrow> string \<Rightarrow> string \<Rightarrow> lease cal_eff" where
  "get_lease E ns n = perform (\<lambda>h. ce_get_lease E h ns n) (GetLease ns n)"

definition create_lease :: "cal_env \<Rightarrow> string \<Rightarrow> lease \<Rightarrow> lease cal_eff" where
  "create_lease E ns l = perform (\<lambda>h. ce_create_lease E h ns l) (CreateLease ns l)"

definition update_lease :: "cal_env \<Rightarrow> string \<Rightarrow> lease \<Rightarrow> unit cal_eff" where
  "update_lease E ns l = perform (\<lambda>h. ce_update_lease E h ns l) (UpdateLease ns l)"

definition delete_lease :: "cal_env \<Rightarrow> string \<Rightarrow> string \<Rightarrow> unit cal_eff" where
  "delete_lease E ns n = perform (\<lambda>h. ce_delete_lease E h ns n) (DeleteLease ns n)"

definition get_config_map :: "cal_env \<Rightarrow> string \<Rightarrow> string \<Rightarrow> string gomap cal_eff" where
  "get_config_map E ns n = perform (\<lambda>h. ce_get_config_map E h ns n) (GetConfigMap ns n)"

definition get_template_secret :: "cal_env \<Rightarrow> string \<Rightarrow> string \<Rightarrow> string gomap cal_eff" where
  "get_template_secret E ns n = perform (\<lambda>h. ce_get_secret E h ns n) (GetTemplateSecret ns n)"

text \<open>A cluster without a lister, or without a client, is a nil interface.\<close>

definition find_run :: "cal_env \<Rightarrow> cal_config \<Rightarrow> string \<Rightarrow> string \<Rightarrow> string \<Rightarrow> run_object cal_eff" where
  "find_run E cc cluster ns n =
     (if cluster \<notin> set (cc_listers cc) then eff_of_res Panic
      else perform (\<lambda>h. ce_find_run E h cluster ns n) (FindRun cluster ns n))"

definition create_run :: "cal_env \<Rightarrow> cal_config \<Rightarrow> string \<Rightarrow> string \<Rightarrow> unstructured \<Rightarrow> unit cal_eff" where
  "create_run E cc cluster ns u =
     (if cluster \<notin> set (cc_clusters cc) then eff_of_res Panic
      else perform (\<lambda>h. ce_create_run E h cluster ns u) (CreateRun cluster ns u))"

definition update_run :: "cal_env \<Rightarrow> cal_config \<Rightarrow> string \<Rightarrow> string \<Rightarrow> unstructured \<Rightarrow> unit cal_eff" where
  "update_run E cc cluster ns u =
     (if cluster \<notin> set (cc_clusters cc) then eff_of_res Panic
      else perform (\<lambda>h. ce_update_run E h cluster ns u) (UpdateRun cluster ns u))"

definition render_template :: "cal_env \<Rightarrow> string \<Rightarrow> params \<Rightarrow> string cal_eff" where
  "render_template E tpl ps = perform (\<lambda>h. ce_render E h tpl ps) (RenderTemplate tpl ps)"

definition read_now :: "cal_env \<Rightarrow> instant cal_eff" where
  "read_now E = observe (ce_now E) ReadNow"

definition name_suffix :: "cal_env \<Rightarrow> string cal_eff" where
  "name_suffix E = observe (ce_suffix E) NameSuffix"

definition queue_add :: "string \<Rightarrow> unit cal_eff" where
  "queue_add key = notify (QueueAdd key)"

lemmas cal_call_defs = find_event_def find_calendar_def list_events_def update_event_status_def
  delete_event_def get_lease_def create_lease_def update_lease_def delete_lease_def get_config_map_def
  get_template_secret_def find_run_def create_run_def update_run_def render_template_def read_now_def
  name_suffix_def queue_add_def

abbreviation calendar_selector :: "string \<Rightarrow> selector" where
  "calendar_selector c \<equiv> \<lparr>sel_labels = [(''calendar'', c)], sel_names = None\<rparr>"

text \<open>The kinds of writes: to an event, to a lease, to a Tekton cluster.\<close>

fun is_event_write :: "cal_call \<Rightarrow> bool" where
  "is_event_write (UpdateEventStatus _ _ _) = True"
| "is_event_write (DeleteEvent _ _ _) = True"
| "is_event_write _ = False"

fun is_lease_write :: "cal_call \<Rightarrow> bool" where
  "is_lease_write (CreateLease _ _ _) = True"
| "is_lease_write (UpdateLease _ _ _) = True"
| "is_lease_write (DeleteLease _ _ _) = True"
| "is_lease_write _ = False"

fun is_run_write :: "cal_call \<Rightarrow> bool" where
  "is_run_write (CreateRun _ _ _ _) = True"
| "is_run_write (UpdateRun _ _ _ _) = True"
| "is_run_write _ = False"

section \<open>An environment for the examples\<close>

text \<open>Nothing is found, every write succeeds, the clock stands at the epoch.\<close>

definition idle_env :: cal_env where
  "idle_env =
     \<lparr>ce_find_event = (\<lambda>_ _ _. Inl NotFound), ce_find_calendar = (\<lambda>_ _ _. Inl NotFound),
      ce_list_events = (\<lambda>_ _ _. Inr []), ce_update_status = (\<lambda>_ _ _. Inr ()),
      ce_delete_event = (\<lambda>_ _ _. Inr ()), ce_get_lease = (\<lambda>_ _ _. Inl NotFound),
      ce_create_lease = (\<lambda>_ _ l. Inr l), ce_update_lease = (\<lambda>_ _ _. Inr ()),
      ce_delete_lease = (\<lambda>_ _ _. Inr ()), ce_get_config_map = (\<lambda>_ _ _. Inl NotFound),
      ce_get_secret = (\<lambda>_ _ _. Inl NotFound), ce_find_run = (\<lambda>_ _ _ _. Inl NotFound),
      ce_create_run = (\<lambda>_ _ _ _. Inr ()), ce_update_run = (\<lambda>_ _ _ _. Inr ()),
      ce_render = (\<lambda>_ tpl _. Inr tpl), ce_now = (\<lambda>_. 0), ce_suffix = (\<lambda>_. ''xxxxx''),
      ce_parse_template = (\<lambda>_. Inr ()), ce_decode = (\<lambda>_. Inl (Errorf ''no object'')),
      ce_parse_time = (\<lambda>_. Inl (Errorf ''no time'')), ce_time_lib = example_time_lib\<rparr>"

end
