(* ===== verification/CalendarLease.thy ===== *)
theory CalendarLease
  imports CalendarCalls
begin

text \<open>
  The leases of the calendar controller: an event lease, so that of the events with one name only
  one runs (pkg/controller/calendar/event.go), and a group lease, which elects the leader of a group
  (pkg/controller/calendar/group.go).
\<close>

section \<open>Event leases\<close>

definition release_event_ref :: "event \<Rightarrow> owner_ref" where
  "release_event_ref e = new_controller_ref (ev_meta e) ''fleet.crd.tess.io/v1alpha2'' ''ReleaseEvent''"

definition new_lease :: "event \<Rightarrow> string \<Rightarrow> lease" where
  "new_lease e name =
     \<lparr>ls_meta = empty_meta\<lparr>om_namespace := ev_namespace e, om_name := name, om_owner_refs := [release_event_ref e]\<rparr>,
      ls_holder = Some (ev_object_name e)\<rparr>"

definition event_lease_name :: "event \<Rightarrow> string" where
  "event_lease_name e = es_calendar (ev_spec e) @ ''-'' @ name_of_event e"

text \<open>\<open>lease, err := Get(name); if IsNotFound { lease, err = Create(...) }\<close>, in both files.\<close>

definition get_or_create_lease :: "cal_env \<Rightarrow> event \<Rightarrow> string \<Rightarrow> lease cal_eff" where
  "get_or_create_lease E e name =
     eff_bind (eff_try (get_lease E (ev_namespace e) name)) (\<lambda>answer. case answer of
         Inr l \<Rightarrow> eff_ret l
       | Inl err \<Rightarrow>
           if err \<noteq> NotFound then eff_fail (Errorf ''failed to get lease'')
           else eff_wrap ''failed to create lease'' (create_lease E (ev_namespace e) (new_lease e name)))"

text \<open>A leader that still holds the lease against the others.\<close>

definition still_active :: "event_phase \<Rightarrow> bool" where
  "still_active p \<longleftrightarrow> p = EventPhaseOther [] \<or> p = EventPending \<or> p = EventRunning"

definition challenge_leader :: "cal_env \<Rightarrow> event \<Rightarrow> lease \<Rightarrow> event \<Rightarrow> bool cal_eff" where
  "challenge_leader E e l leader =
     (if om_creation (ev_meta e) < om_creation (ev_meta leader)
      then eff_bind (eff_wrap ''failed to delete event'' (delete_event E (ev_namespace e) (ev_object_name e)))
             (\<lambda>_. eff_ret False)
      else if still_active (est_phase (ev_status leader)) then eff_ret False
      else eff_bind (eff_wrap ''failed to update event lease'' (update_lease E (ev_namespace e)
             (l\<lparr>ls_meta := (ls_meta l)\<lparr>om_owner_refs := [release_event_ref e]\<rparr>,
                ls_holder := Some (ev_object_name e)\<rparr>)))
             (\<lambda>_. eff_ret True))"

definition acquire_lease :: "cal_env \<Rightarrow> event \<Rightarrow> bool cal_eff" where
  "acquire_lease E e =
     (if \<not> not_started (est_phase (ev_status e)) then eff_ret True
      else eff_bind (get_or_create_lease E e (event_lease_name e)) (\<lambda>l.
           case ls_holder l of
             None \<Rightarrow> eff_fail (Errorf ''invalid lease: holderIdentity is nil'')
           | Some holder \<Rightarrow>
               if holder = ev_object_name e then eff_ret True
               else eff_bind (eff_wrap ''failed to get event leader'' (find_event E (ev_namespace e) holder))
                      (challenge_leader E e l)))"

section \<open>Group leases\<close>

definition group_lease_name :: "event \<Rightarrow> string" where
  "group_lease_name e = to_lower (es_calendar (ev_spec e) @ ''-'' @ es_group (ev_spec e))"

abbreviation set_leader :: "string \<Rightarrow> event \<Rightarrow> event" where
  "set_leader n e \<equiv> e\<lparr>ev_status := (ev_status e)\<lparr>est_leader := n\<rparr>\<rparr>"

text \<open>Both times are dereferenced only under the daily policy; the location is needed in any case.\<close>

definition other_day :: "calendar \<Rightarrow> location \<Rightarrow> event \<Rightarrow> event \<Rightarrow> bool res" where
  "other_day c loc a b =
     (if cs_group_policy (cal_spec c) \<noteq> GroupPolicyDaily then Ok False
      else bind_res (deref (est_time (ev_status a))) (\<lambda>t.
           bind_res (deref (est_time (ev_status b))) (\<lambda>u. Ok (\<not> in_same_day t u loc))))"

definition probe_leader :: "cal_env \<Rightarrow> event \<Rightarrow> calendar \<Rightarrow> event cal_eff" where
  "probe_leader E e c =
     (if es_group (ev_spec e) = [] \<or> est_leader (ev_status e) \<noteq> [] then eff_ret e
      else eff_bind (eff_try (get_lease E (ev_namespace e) (group_lease_name e))) (\<lambda>answer. case answer of
          Inl err \<Rightarrow> if err \<noteq> NotFound then eff_fail (Errorf ''failed to get lease'') else eff_ret e
        | Inr l \<Rightarrow>
            eff_bind (eff_of_res (deref (ls_holder l))) (\<lambda>holder.
            eff_bind (eff_try (find_event E (ev_namespace e) holder)) (\<lambda>answer. case answer of
                Inl err \<Rightarrow>
                  if err \<noteq> NotFound then eff_fail (Errorf ''failed to get leader event'') else eff_ret e
              | Inr leader \<Rightarrow>
                  eff_bind (eff_wrap ''invalid timezone''
                              (eff_of_res (location_of (ce_time_lib E) (cs_time_zone (cal_spec c))))) (\<lambda>loc.
                  eff_bind (eff_of_res (other_day c loc leader e)) (\<lambda>other.
                    eff_ret (if other then e else set_leader holder e)))))))"

definition leader_elect :: "cal_env \<Rightarrow> event \<Rightarrow> event cal_eff" where
  "leader_elect E e =
     (if est_leader (ev_status e) \<noteq> [] then eff_ret e
      else if es_group (ev_spec e) = [] then eff_ret (set_leader (ev_object_name e) e)
      else eff_bind (get_or_create_lease E e (group_lease_name e)) (\<lambda>l.
           case ls_holder l of
             None \<Rightarrow> eff_fail (Errorf ''invalid lease: holderIdentity is nil'')
           | Some holder \<Rightarrow> eff_ret (set_leader holder e)))"

text \<open>Whether a listed event of the group still has no leader: then the leader has to wait.\<close>

fun someone_joining :: "calendar \<Rightarrow> location \<Rightarrow> event \<Rightarrow> event list \<Rightarrow> bool res" where
  "someone_joining c loc e [] = Ok False"
| "someone_joining c loc e (x # xs) =
     (if \<not> equal_fold (es_group (ev_spec x)) (es_group (ev_spec e)) then someone_joining c loc e xs
      else bind_res (other_day c loc x e) (\<lambda>other.
             if other then someone_joining c loc e xs
             else if est_leader (ev_status x) = [] then Ok True
             else someone_joining c loc e xs))"

definition lock_leader :: "cal_env \<Rightarrow> event \<Rightarrow> calendar \<Rightarrow> bool cal_eff" where
  "lock_leader E e c =
     (if es_group (ev_spec e) = [] \<or> est_leader (ev_status e) \<noteq> ev_object_name e then eff_ret True
      else eff_bind (eff_try (get_lease E (ev_namespace e) (group_lease_name e))) (\<lambda>answer. case answer of
          Inl err \<Rightarrow> if err = NotFound then eff_ret True else eff_fail (Errorf ''failed to get lease'')
        | Inr l \<Rightarrow>
            eff_bind (eff_wrap ''failed to list all releaseevents''
                        (list_events E (ev_namespace e) (calendar_selector (es_calendar (ev_spec e))))) (\<lambda>events.
            eff_bind (eff_wrap ''invalid timezone''
                        (eff_of_res (location_of (ce_time_lib E) (cs_time_zone (cal_spec c))))) (\<lambda>loc.
            eff_bind (eff_of_res (someone_joining c loc e events)) (\<lambda>joining.
              if joining then eff_ret False
              else eff_bind (eff_wrap ''failed to delete lease lock''
                               (delete_lease E (ev_namespace e) (om_name (ls_meta l)))) (\<lambda>_. eff_ret True))))))"

end
