(* ===== verification/CalendarLeaseSafety.thy ===== *)
theory CalendarLeaseSafety
  imports CalendarLease
begin

text \<open>
  The events that share a name compete for their lease. A world is the lease and the events of one
  name as the API server and the caches hold them; a step lets one event run \<open>acquireLease\<close>, with
  every call succeeding or failing, or lets an event start, end, appear or disappear. Of the events
  of a name at most one is running in every reachable world.
\<close>

section \<open>Worlds\<close>

record lease_world =
  lw_lease :: "lease option"
  lw_events :: "string \<Rightarrow> event option"
  lw_granted :: "string set"

text \<open>An answer that the world gives; failures other than \<open>NotFound\<close> are always possible.\<close>

fun truthful :: "lease_world \<Rightarrow> cal_call \<Rightarrow> bool" where
  "truthful w (GetLease ns n (Inr l)) \<longleftrightarrow> lw_lease w = Some l"
| "truthful w (GetLease ns n (Inl e)) \<longleftrightarrow> (e = NotFound \<longrightarrow> lw_lease w = None)"
| "truthful w (CreateLease ns l (Inr l')) \<longleftrightarrow> l' = l \<and> lw_lease w = None"
| "truthful w (FindEvent ns n (Inr e)) \<longleftrightarrow> lw_events w n = Some e"
| "truthful w _ \<longleftrightarrow> True"

text \<open>What a call that succeeded has changed.\<close>

fun apply_call :: "lease_world \<Rightarrow> cal_call \<Rightarrow> lease_world" where
  "apply_call w (CreateLease ns l (Inr _)) = w\<lparr>lw_lease := Some l\<rparr>"
| "apply_call w (UpdateLease ns l (Inr _)) = w\<lparr>lw_lease := Some l\<rparr>"
| "apply_call w (DeleteEvent ns n (Inr _)) =
     w\<lparr>lw_events := (lw_events w)(n := None), lw_granted := lw_granted w - {n}\<rparr>"
| "apply_call w _ = w"

definition apply_calls :: "cal_call list \<Rightarrow> lease_world \<Rightarrow> lease_world" where
  "apply_calls t w = fold (\<lambda>c w. apply_call w c) t w"

definition holder_of :: "lease_world \<Rightarrow> string option" where
  "holder_of w = (case lw_lease w of None \<Rightarrow> None | Some l \<Rightarrow> ls_holder l)"

text \<open>What one run of \<open>acquireLease\<close> does to the world, by its outcome.\<close>

definition lease_effect :: "event \<Rightarrow> lease_world \<Rightarrow> bool res \<Rightarrow> lease_world \<Rightarrow> bool" where
  "lease_effect e w r w' \<longleftrightarrow>
     (if r = Ok True
      then lw_events w' = lw_events w \<and> lw_granted w' = lw_granted w \<and>
        (\<not> not_started (est_phase (ev_status e)) \<and> w' = w \<or>
         holder_of w' = Some (ev_object_name e) \<and>
         (\<forall>n. holder_of w = Some n \<and> n \<noteq> ev_object_name e \<longrightarrow>
            (\<exists>leader. lw_events w n = Some leader \<and> \<not> still_active (est_phase (ev_status leader)) \<and>
                      \<not> om_creation (ev_meta e) < om_creation (ev_meta leader))))
      else w' = w \<or>
        w' = w\<lparr>lw_events := (lw_events w)(ev_object_name e := None), lw_granted := lw_granted w - {ev_object_name e}\<rparr>)"

lemma get_or_create_lease_cases:
  assumes "get_or_create_lease E e name [] = (r, t)" and "list_all (truthful w) t"
  shows "case r of
      Ok l \<Rightarrow> (\<forall>c\<in>set t. \<exists>ns n a. c = GetLease ns n a) \<and> lw_lease w = Some l \<and> apply_calls t w = w \<or>
             l = new_lease e name \<and> lw_lease w = None \<and> apply_calls t w = w\<lparr>lw_lease := Some l\<rparr>
    | _ \<Rightarrow> apply_calls t w = w"
  using assms
  by (auto simp: get_or_create_lease_def eff_bind_def eff_try_def eff_wrap_def eff_ret_def eff_fail_def
      perform_def get_lease_def create_lease_def apply_calls_def split: sum.splits res.splits if_splits)

lemma apply_calls_simps [simp]:
  "apply_calls [] w = w" "apply_calls (c # t) w = apply_calls t (apply_call w c)"
  "apply_calls (t @ t') w = apply_calls t' (apply_calls t w)"
  by (simp_all add: apply_calls_def)

lemma challenge_effect:
  assumes run: "challenge_leader E e l leader h = (r, h @ t)" and "holder_of w = Some n"
    and "lw_events w n = Some leader" and "n \<noteq> ev_object_name e"
  shows "lease_effect e w r (apply_calls t w)"
  using assms
  by (auto simp: challenge_leader_def eff_bind_def eff_wrap_def eff_ret_def perform_def delete_event_def
      update_lease_def lease_effect_def holder_of_def split: sum.splits res.splits if_splits)

lemma acquire_lease_effect:
  assumes run: "acquire_lease E e [] = (r, t)" and truth: "list_all (truthful w) t"
  shows "lease_effect e w r (apply_calls t w)"
proof (cases "not_started (est_phase (ev_status e))")
  case False
  with run show ?thesis by (simp add: acquire_lease_def eff_ret_def lease_effect_def)
next
  case True
  obtain r1 t1 where first: "get_or_create_lease E e (event_lease_name e) [] = (r1, t1)" by fastforce
  show ?thesis
  proof (cases r1)
    case (Ok l)
    show ?thesis
    proof (cases "ls_holder l = Some (ev_object_name e) \<or> ls_holder l = None")
      case True
      with run first Ok \<open>not_started _\<close> have "t = t1" "r = Ok True \<longleftrightarrow> ls_holder l \<noteq> None"
        by (auto simp: acquire_lease_def eff_bind_def eff_ret_def eff_fail_def)
      with get_or_create_lease_cases [OF first, of w] truth Ok True show ?thesis
        by (auto simp: lease_effect_def holder_of_def new_lease_def)
    next
      case False
      then obtain n where n: "ls_holder l = Some n" "n \<noteq> ev_object_name e" by auto
      define found where "found = ce_find_event E t1 (ev_namespace e) n"
      have rest: "acquire_lease E e [] =
          (case found of Inl _ \<Rightarrow> (Err (Errorf ''failed to get event leader''), t1 @ [FindEvent (ev_namespace e) n found])
           | Inr leader \<Rightarrow> challenge_leader E e l leader (t1 @ [FindEvent (ev_namespace e) n found]))"
        using \<open>not_started _\<close> first Ok n
        by (simp add: acquire_lease_def eff_bind_def eff_wrap_def perform_def find_event_def found_def split: sum.splits)
      show ?thesis
      proof (cases found)
        case (Inl err)
        with rest run have "t = t1 @ [FindEvent (ev_namespace e) n (Inl err)]" "r \<noteq> Ok True" by auto
        with get_or_create_lease_cases [OF first, of w] truth Ok n show ?thesis
          by (auto simp: lease_effect_def new_lease_def)
      next
        case (Inr leader)
        with rest run have "challenge_leader E e l leader (t1 @ [FindEvent (ev_namespace e) n found]) = (r, t)" by simp
        moreover obtain t2 where t2: "t = (t1 @ [FindEvent (ev_namespace e) n found]) @ t2"
          using calculation by (auto simp: challenge_leader_def eff_bind_def eff_wrap_def eff_ret_def perform_def
              delete_event_def update_lease_def split: sum.splits res.splits if_splits)
        ultimately have "challenge_leader E e l leader (t1 @ [FindEvent (ev_namespace e) n found]) =
            (r, (t1 @ [FindEvent (ev_namespace e) n found]) @ t2)" by simp
        moreover have "list_all (truthful w) t1" "lw_events w n = Some leader" using truth t2 Inr by simp_all
        moreover from this get_or_create_lease_cases [OF first, of w] Ok n
        have "lw_lease w = Some l" "apply_calls t1 w = w" by (auto simp: new_lease_def)
        ultimately show ?thesis
          using challenge_effect [of E e l leader "t1 @ [FindEvent (ev_namespace e) n found]" r t2 w n] n t2
          by (simp add: holder_of_def)
      qed
    qed
  qed (use run first True get_or_create_lease_cases [OF first, of w] truth in
      \<open>auto simp: acquire_lease_def eff_bind_def lease_effect_def\<close>)
qed

section \<open>Steps\<close>

abbreviation phase_of :: "event \<Rightarrow> event_phase" where
  "phase_of e \<equiv> est_phase (ev_status e)"

abbreviation with_phase :: "event_phase \<Rightarrow> event \<Rightarrow> event" where
  "with_phase p e \<equiv> e\<lparr>ev_status := (ev_status e)\<lparr>est_phase := p\<rparr>\<rparr>"

definition terminal :: "event_phase \<Rightarrow> bool" where
  "terminal p \<longleftrightarrow> \<not> still_active p"

text \<open>
  The rules: an event acquires the lease (\<open>attempt\<close>), or the attempt ends in any other way
  (\<open>refuse\<close>); a granted event that has not started starts; a running one ends, for good; an event
  appears, not started; an event disappears, and its lease with it, which it owns.
\<close>

inductive lease_step :: "lease_world \<Rightarrow> lease_world \<Rightarrow> bool" where
  attempt: "lw_events w n = Some e \<Longrightarrow> acquire_lease E e [] = (Ok True, t) \<Longrightarrow> list_all (truthful w) t \<Longrightarrow>
    lease_step w ((apply_calls t w)\<lparr>lw_granted := insert n (lw_granted w)\<rparr>)"
| refuse: "lw_events w n = Some e \<Longrightarrow> acquire_lease E e [] = (r, t) \<Longrightarrow> r \<noteq> Ok True \<Longrightarrow> list_all (truthful w) t \<Longrightarrow>
    lease_step w (apply_calls t w)"
| start: "lw_events w n = Some e \<Longrightarrow> n \<in> lw_granted w \<Longrightarrow> not_started (phase_of e) \<Longrightarrow>
    lease_step w (w\<lparr>lw_events := (lw_events w)(n \<mapsto> with_phase EventRunning e)\<rparr>)"
| finish: "lw_events w n = Some e \<Longrightarrow> phase_of e = EventRunning \<Longrightarrow> terminal p \<Longrightarrow>
    lease_step w (w\<lparr>lw_events := (lw_events w)(n \<mapsto> with_phase p e)\<rparr>)"
| appear: "lw_events w n = None \<Longrightarrow> ev_object_name e = n \<Longrightarrow> not_started (phase_of e) \<Longrightarrow> n \<notin> lw_granted w \<Longrightarrow>
    lease_step w (w\<lparr>lw_events := (lw_events w)(n \<mapsto> e)\<rparr>)"
| disappear: "lw_events w n = Some e \<Longrightarrow>
    lease_step w (w\<lparr>lw_events := (lw_events w)(n := None), lw_granted := lw_granted w - {n},
      lw_lease := (if holder_of w = Some n then None else lw_lease w)\<rparr>)"

inductive_cases lease_step_cases: "lease_step w w'"

inductive lease_reachable :: "lease_world \<Rightarrow> bool" where
  init: "lease_reachable \<lparr>lw_lease = None, lw_events = (\<lambda>_. None), lw_granted = {}\<rparr>"
| step: "lease_reachable w \<Longrightarrow> lease_step w w' \<Longrightarrow> lease_reachable w'"

text \<open>
  A granted event that is not over holds the lease, a running one was granted, and an event is stored
  under its name.
\<close>

definition lease_inv :: "lease_world \<Rightarrow> bool" where
  "lease_inv w \<longleftrightarrow>
     (\<forall>n e. lw_events w n = Some e \<longrightarrow> ev_object_name e = n \<and>
        (phase_of e = EventRunning \<longrightarrow> n \<in> lw_granted w) \<and>
        (n \<in> lw_granted w \<and> still_active (phase_of e) \<longrightarrow> holder_of w = Some n))"

lemma holder_of_other [simp]:
  "holder_of (w\<lparr>lw_events := es\<rparr>) = holder_of w" "holder_of (w\<lparr>lw_granted := g\<rparr>) = holder_of w"
  by (simp_all add: holder_of_def)

lemma not_started_active: "not_started p \<Longrightarrow> still_active p" "\<not> not_started p \<Longrightarrow> still_active p \<Longrightarrow> p = EventRunning"
  by (auto simp: not_started_def still_active_def)

lemma lease_invD:
  assumes "lease_inv w" and "lw_events w n = Some e"
  shows "ev_object_name e = n" and "phase_of e = EventRunning \<Longrightarrow> n \<in> lw_granted w"
    and "n \<in> lw_granted w \<Longrightarrow> still_active (phase_of e) \<Longrightarrow> holder_of w = Some n"
  using assms by (simp_all add: lease_inv_def)

lemma lease_inv_update:
  assumes "lease_inv w" and "ev_object_name e = n" and "phase_of e = EventRunning \<Longrightarrow> n \<in> lw_granted w"
    and "n \<in> lw_granted w \<Longrightarrow> still_active (phase_of e) \<Longrightarrow> holder_of w = Some n"
  shows "lease_inv (w\<lparr>lw_events := (lw_events w)(n \<mapsto> e)\<rparr>)"
  using assms by (simp add: lease_inv_def)

lemma lease_inv_try:
  assumes inv: "lease_inv w" and e: "lw_events w n = Some e"
    and effect: "lease_effect e w (Ok True) w'"
  shows "lease_inv (w'\<lparr>lw_granted := insert n (lw_granted w)\<rparr>)"
proof -
  have n: "ev_object_name e = n" using inv e by (simp add: lease_inv_def)
  have same: "lw_events w' = lw_events w" using effect by (simp add: lease_effect_def)
  have holder: "holder_of w' = Some k"
    if k: "lw_events w k = Some f" "k \<in> insert n (lw_granted w)" "still_active (phase_of f)" for k f
  proof (cases "not_started (phase_of e) \<or> w' \<noteq> w")
    case False
    then have "k \<in> lw_granted w"
      using k e inv not_started_active(2) by (cases "k = n") (auto simp: lease_inv_def)
    with False k inv show ?thesis by (simp add: lease_inv_def)
  next
    case True
    then have w': "holder_of w' = Some n"
      and old: "\<And>m. holder_of w = Some m \<Longrightarrow> m \<noteq> n \<Longrightarrow>
        \<exists>leader. lw_events w m = Some leader \<and> \<not> still_active (phase_of leader)"
      using effect n by (auto simp: lease_effect_def)
    have "k = n"
    proof (rule ccontr)
      assume "k \<noteq> n"
      with k inv have "holder_of w = Some k" by (simp add: lease_inv_def)
      from old [OF this \<open>k \<noteq> n\<close>] k show False by auto
    qed
    with w' show ?thesis by simp
  qed
  show ?thesis
    unfolding lease_inv_def
  proof (intro allI impI, goal_cases)
    case (1 k f)
    then have f: "lw_events w k = Some f" by (simp add: same)
    with inv holder [OF f] show ?case by (auto simp: lease_inv_def holder_of_def)
  qed
qed

lemma lease_inv_step: "lease_step w w' \<Longrightarrow> lease_inv w \<Longrightarrow> lease_inv w'"
proof (induction rule: lease_step.induct)
  case (attempt w n e E t)
  show ?case by (rule lease_inv_try [OF attempt(4,1) acquire_lease_effect [OF attempt(2,3)]])
next
  case (refuse w n e E r t)
  have "ev_object_name e = n" using refuse(1,5) by (simp add: lease_inv_def)
  then have "apply_calls t w = w \<or>
      apply_calls t w = w\<lparr>lw_events := (lw_events w)(n := None), lw_granted := lw_granted w - {n}\<rparr>"
    using acquire_lease_effect [OF refuse(2,4)] refuse(3) by (simp add: lease_effect_def)
  then show ?case
    using refuse(5) by (elim disjE) (auto simp: lease_inv_def holder_of_def split: if_splits)
next
  case (start w n e)
  have "holder_of w = Some n" "ev_object_name e = n"
    using lease_invD [OF start(4,1)] start(2,3) not_started_active(1) by blast+
  with start(2) show ?case by (intro lease_inv_update [OF start(4)]) simp_all
next
  case (finish w n e p)
  then show ?case
    using lease_invD [OF finish(4,1)] by (intro lease_inv_update) (auto simp: terminal_def still_active_def)
next
  case (appear w n e)
  then show ?case by (intro lease_inv_update) (auto simp: not_started_def)
next
  case (disappear w n e)
  then show ?case by (auto simp: lease_inv_def holder_of_def)
qed

lemma lease_reachable_inv: "lease_reachable w \<Longrightarrow> lease_inv w"
proof (induction rule: lease_reachable.induct)
  case init
  show ?case by (simp add: lease_inv_def)
qed (blast intro: lease_inv_step)


text \<open>Two events of one name, of which the first has acquired the lease and runs.\<close>

definition first_event :: event where
  "first_event = named_event ''app-1'' ''app'' (Some 0)"

definition second_event :: event where
  "second_event = named_event ''app-2'' ''app'' (Some 0)"

definition waiting_world :: lease_world where
  "waiting_world =
     \<lparr>lw_lease = None, lw_events = [''app-1'' \<mapsto> first_event, ''app-2'' \<mapsto> second_event], lw_granted = {}\<rparr>"

definition running_world :: lease_world where
  "running_world =
     \<lparr>lw_lease = Some (new_lease first_event (event_lease_name first_event)),
      lw_events = [''app-1'' \<mapsto> with_phase EventRunning first_event, ''app-2'' \<mapsto> second_event],
      lw_granted = {''app-1''}\<rparr>"

lemma waiting_world_reachable: "lease_reachable waiting_world"
proof -
  note add = lease_reachable.step [OF _ lease_step.appear]
  have "lease_reachable \<lparr>lw_lease = None, lw_events = [''app-1'' \<mapsto> first_event], lw_granted = {}\<rparr>"
    by (rule back_subst [where P = lease_reachable, OF add [OF lease_reachable.init, of "''app-1''" first_event]])
      (simp_all add: first_event_def named_event_def empty_event_def empty_event_status_def not_started_def)
  then show ?thesis
    by (rule back_subst [where P = lease_reachable, OF add [of _ "''app-2''" second_event]])
      (simp_all add: waiting_world_def second_event_def named_event_def empty_event_def empty_event_status_def
        not_started_def fun_upd_twist)
qed

lemma first_event_acquires:
  "acquire_lease idle_env first_event [] =
     (Ok True, [GetLease [] ''-app'' (Inl NotFound),
        CreateLease [] (new_lease first_event (event_lease_name first_event))
          (Inr (new_lease first_event (event_lease_name first_event)))])"
  by (simp add: acquire_lease_def get_or_create_lease_def eff_bind_def eff_try_def eff_wrap_def eff_ret_def
      perform_def get_lease_def create_lease_def idle_env_def first_event_def named_event_def empty_event_def
      empty_event_status_def empty_event_spec_def empty_meta_def not_started_def event_lease_name_def
      name_of_event_def new_lease_def)

lemma running_world_reachable: "lease_reachable running_world"
proof -
  let ?l = "new_lease first_event (event_lease_name first_event)"
  let ?w = "waiting_world\<lparr>lw_lease := Some ?l, lw_granted := {''app-1''}\<rparr>"
  have "lease_step waiting_world ?w"
    by (rule back_subst [where P = "lease_step waiting_world", OF lease_step.attempt [OF _ first_event_acquires]])
      (simp_all add: waiting_world_def)
  then have "lease_reachable ?w" by (rule lease_reachable.step [OF waiting_world_reachable])
  moreover have "lease_step ?w running_world"
    by (rule back_subst [where P = "lease_step ?w", OF lease_step.start [of _ "''app-1''" first_event]])
      (simp_all add: waiting_world_def running_world_def first_event_def named_event_def empty_event_def
        empty_event_status_def not_started_def fun_upd_twist)
  ultimately show ?thesis by (rule lease_reachable.step)
qed


end
