(* ===== verification/CalendarLock.thy ===== *)
theory CalendarLock
  imports CalendarLeaseSafety
begin

text \<open>
  What the event leases promise: a lock of the name. The lock is free, held by an event that may
  start, or busy with an event that runs. \<open>acquireLease\<close> and the life of the events refine it: every
  step of a world is a step of the lock or leaves the lock as it is.
\<close>

section \<open>The lock\<close>

datatype lock = Free | Held string | Busy string

inductive lock_step :: "lock \<Rightarrow> lock \<Rightarrow> bool" where
  take: "lock_step Free (Held n)"
| busy: "lock_step (Held n) (Busy n)"
| give_up: "lock_step (Held n) Free"
| release: "lock_step (Busy n) Free"

inductive_simps lock_step_simps [simp]:
  "lock_step Free l" "lock_step (Held n) l" "lock_step (Busy n) l"

text \<open>The lock of a world: its holder, when it was granted the lease and is not over.\<close>

definition lock_of :: "lease_world \<Rightarrow> lock" where
  "lock_of w =
     (case holder_of w of
        None \<Rightarrow> Free
      | Some n \<Rightarrow> (case lw_events w n of
          None \<Rightarrow> Free
        | Some e \<Rightarrow> if n \<in> lw_granted w \<and> still_active (phase_of e)
            then (if phase_of e = EventRunning then Busy n else Held n) else Free))"

lemma lock_of_active:
  assumes "lease_inv w" and "lw_events w n = Some e" and "n \<in> lw_granted w" and "still_active (phase_of e)"
  shows "lock_of w = (if phase_of e = EventRunning then Busy n else Held n)"
  using lease_invD(3) [OF assms] assms by (simp add: lock_of_def)

lemma lock_of_idle:
  assumes "\<And>n e. lw_events w n = Some e \<Longrightarrow> n \<in> lw_granted w \<Longrightarrow> \<not> still_active (phase_of e)"
  shows "lock_of w = Free"
  using assms by (force simp: lock_of_def split: option.splits)

text \<open>A change that leaves the active events with a grant alone leaves the lock alone.\<close>

lemma lock_of_cong:
  assumes "lease_inv w" and "lease_inv w'"
    and "\<And>n e. still_active (phase_of e) \<Longrightarrow>
      (lw_events w n = Some e \<and> n \<in> lw_granted w) = (lw_events w' n = Some e \<and> n \<in> lw_granted w')"
  shows "lock_of w' = lock_of w"
proof (cases "\<exists>n e. lw_events w n = Some e \<and> n \<in> lw_granted w \<and> still_active (phase_of e)")
  case True
  then obtain n e where "lw_events w n = Some e" "n \<in> lw_granted w" "still_active (phase_of e)" by blast
  with assms show ?thesis by (metis lock_of_active)
next
  case False
  with assms(3) have "lock_of w = Free" "lock_of w' = Free" by (blast intro: lock_of_idle)+
  then show ?thesis by simp
qed

section \<open>The refinement\<close>

lemma attempt_refines:
  assumes inv: "lease_inv w" and e: "lw_events w n = Some e"
    and effect: "lease_effect e w (Ok True) v"
  shows "lock_of (v\<lparr>lw_granted := insert n (lw_granted w)\<rparr>) = lock_of w \<or>
    lock_step (lock_of w) (lock_of (v\<lparr>lw_granted := insert n (lw_granted w)\<rparr>))"
    (is "lock_of ?w = _ \<or> _")
proof -
  have inv': "lease_inv ?w" by (rule lease_inv_try [OF inv e effect])
  have same: "lw_events v = lw_events w" using effect by (simp add: lease_effect_def)
  show ?thesis
  proof (cases "n \<in> lw_granted w \<or> \<not> still_active (phase_of e)")
    case True
    then have "lock_of ?w = lock_of w"
      by (intro lock_of_cong [OF inv inv']) (use e same in auto)
    then show ?thesis ..
  next
    case False
    then have fresh: "not_started (phase_of e)"
      using not_started_active(2) lease_invD(2) [OF inv e] by blast
    have "lock_of w = Free"
    proof (rule lock_of_idle)
      fix k f
      assume f: "lw_events w k = Some f" "k \<in> lw_granted w"
      show "\<not> still_active (phase_of f)"
      proof
        assume "still_active (phase_of f)"
        with lease_invD(3) [OF inv f(1)] f have "holder_of w = Some k" by simp
        with effect fresh f False e inv \<open>still_active (phase_of f)\<close> show False
          by (auto simp: lease_effect_def lease_inv_def)
      qed
    qed
    moreover have "lock_of ?w = Held n"
      using lock_of_active [OF inv', of n e] False e same fresh by (auto simp: not_started_def)
    ultimately show ?thesis by simp
  qed
qed

text \<open>
  The lock after one event got a new state: free when the event was the owner and is over or gone.
\<close>

lemma lock_of_update:
  assumes "lease_inv w" and "lease_inv w'" and "lw_granted w' - {n} = lw_granted w - {n}"
    and "\<And>k. k \<noteq> n \<Longrightarrow> lw_events w' k = lw_events w k"
    and "lw_events w n = Some e" and "n \<in> lw_granted w" and "still_active (phase_of e)"
    and "\<And>f. lw_events w' n = Some f \<Longrightarrow> n \<in> lw_granted w' \<Longrightarrow> \<not> still_active (phase_of f)"
  shows "lock_of w' = Free"
proof (rule lock_of_idle)
  fix k f
  assume f: "lw_events w' k = Some f" "k \<in> lw_granted w'"
  show "\<not> still_active (phase_of f)"
  proof (cases "k = n")
    case True
    with f assms(8) show ?thesis by blast
  next
    case False
    with f assms(3,4) have "lw_events w k = Some f" "k \<in> lw_granted w" by auto
    with assms False show ?thesis by (metis lease_invD(3) option.inject)
  qed
qed

lemma removal_refines:
  assumes "lease_inv w" and "lease_inv w'" and "lw_granted w' = lw_granted w - {n}"
    and "lw_events w' = (lw_events w)(n := None)"
  shows "lock_of w' = lock_of w \<or> lock_step (lock_of w) (lock_of w')"
proof (cases "\<exists>e. lw_events w n = Some e \<and> n \<in> lw_granted w \<and> still_active (phase_of e)")
  case True
  then obtain e where e: "lw_events w n = Some e" "n \<in> lw_granted w" "still_active (phase_of e)" by blast
  have "lock_of w' = Free"
    by (rule lock_of_update [OF assms(1,2) _ _ e]) (auto simp: assms(3,4))
  moreover have "lock_of w = Held n \<or> lock_of w = Busy n"
    using lock_of_active [OF assms(1) e] by (simp split: if_splits)
  ultimately show ?thesis by auto
next
  case False
  then have "lock_of w' = lock_of w"
    by (intro lock_of_cong [OF assms(1,2)]) (auto simp: assms(3,4))
  then show ?thesis ..
qed

lemma lease_step_refines:
  assumes "lease_step w w'" and "lease_inv w"
  shows "lock_of w' = lock_of w \<or> lock_step (lock_of w) (lock_of w')"
  using assms
proof (cases rule: lease_step.cases)
  case (attempt n e E t)
  show ?thesis
    unfolding attempt(1) by (rule attempt_refines [OF assms(2) attempt(2) acquire_lease_effect [OF attempt(3,4)]])
next
  case (refuse n e E r t)
  have n: "ev_object_name e = n" using assms(2) refuse(2) by (simp add: lease_inv_def)
  from acquire_lease_effect [OF refuse(3,5)] refuse(4) have
    "w' = w \<or> w' = w\<lparr>lw_events := (lw_events w)(n := None), lw_granted := lw_granted w - {n}\<rparr>"
    by (simp add: lease_effect_def refuse(1) n)
  then show ?thesis
    using removal_refines [OF assms(2) lease_inv_step [OF assms], of n] by auto
next
  case (start n e)
  have "phase_of e \<noteq> EventRunning" using start(4) by (auto simp: not_started_def)
  with lock_of_active [OF assms(2) start(2,3)] start(4) have "lock_of w = Held n"
    by (simp add: not_started_active(1))
  moreover have "lock_of w' = Busy n"
    using lock_of_active [OF lease_inv_step [OF assms], of n "with_phase EventRunning e"] start(1,3)
    by (simp add: still_active_def)
  ultimately show ?thesis by simp
next
  case (finish n e p)
  have e: "n \<in> lw_granted w" "still_active (phase_of e)"
    using lease_invD(2) [OF assms(2) finish(2)] finish(3) by (simp_all add: still_active_def)
  have "lock_of w' = Free"
    by (rule lock_of_update [OF assms(2) lease_inv_step [OF assms] _ _ finish(2) e])
      (use finish(1,4) in \<open>auto simp: terminal_def\<close>)
  moreover have "lock_of w = Busy n"
    using lock_of_active [OF assms(2) finish(2) e] finish(3) by simp
  ultimately show ?thesis by simp
next
  case (appear n e)
  have "lock_of w' = lock_of w"
    by (rule lock_of_cong [OF assms(2) lease_inv_step [OF assms]]) (use appear in auto)
  then show ?thesis ..
next
  case (disappear n e)
  show ?thesis
    by (rule removal_refines [OF assms(2) lease_inv_step [OF assms], of n]) (simp_all add: disappear(1))
qed



end
