(* ===== verification/CalendarPipelineRun.thy ===== *)
theory CalendarPipelineRun
  imports CalendarCalls
begin

text \<open>
  The PipelineRun objects of the Tekton clusters (pkg/controller/calendar/pipelinerun.go): rendering
  and creating one, cancelling one, reading the status of one, and running the rollback pipeline.
\<close>

section \<open>Creating and cancelling\<close>

definition label_event_namespace :: string where
  "label_event_namespace = ''releaseevent.fleet.tess.io/namespace''"
definition label_event_name :: string where
  "label_event_name = ''releaseevent.fleet.tess.io/name''"
definition label_event_pipeline :: string where
  "label_event_pipeline = ''releaseevent.fleet.tess.io/pipeline''"

definition pipeline_run_gvk :: "string \<times> string \<times> string" where
  "pipeline_run_gvk = (''tekton.dev'', ''v1beta1'', ''PipelineRun'')"

text \<open>The namespace, the name and the three labels; other labels of the template stay.\<close>

definition claim_run :: "event \<Rightarrow> string \<Rightarrow> string \<Rightarrow> unstructured \<Rightarrow> unstructured" where
  "claim_run e p name u =
     (let u = set_name name (set_namespace (ev_namespace e) u);
          labels = (case get_labels u of None \<Rightarrow> [] | Some m \<Rightarrow> m)
      in set_labels (gm_set label_event_pipeline p
           (gm_set label_event_name (ev_object_name e)
             (gm_set label_event_namespace (ev_namespace e) labels))) u)"

definition decoded_run :: "decoded \<Rightarrow> unstructured res" where
  "decoded_run d =
     (case dc_gvk d of
        None \<Rightarrow> Err (Errorf ''unknown gvk found in template: <nil>'')
      | Some gvk \<Rightarrow>
          if gvk \<noteq> pipeline_run_gvk then Err (Errorf ''unknown gvk found in template'')
          else (case dc_object d of
                  NotUnstructured \<Rightarrow> Err (Errorf ''unknown object in template'')
                | Run u \<Rightarrow> Ok u))"

definition create_pipeline_run ::
  "cal_env \<Rightarrow> cal_config \<Rightarrow> event \<Rightarrow> string \<Rightarrow> string \<Rightarrow> string \<Rightarrow> string \<Rightarrow> params \<Rightarrow> unit cal_eff" where
  "create_pipeline_run E cc e p cluster name tpl ps =
     eff_bind (eff_wrap ''failed to parse as template'' (eff_of_res (lift_res (ce_parse_template E tpl)))) (\<lambda>_.
     eff_bind (eff_wrap ''failed to execute template'' (render_template E tpl ps)) (\<lambda>text.
     eff_bind (eff_wrap ''failed to decode template'' (eff_of_res (lift_res (ce_decode E text)))) (\<lambda>d.
     eff_bind (eff_of_res (decoded_run d)) (\<lambda>u.
       create_run E cc cluster (ev_namespace e) (claim_run e p name u)))))"

text \<open>The values of \<open>spec.status\<close> that say that a run is already being stopped.\<close>

definition stopping :: "string list" where
  "stopping = [''Cancelled'', ''PipelineRunCancelled'', ''CancelledRunFinally'', ''StoppedRunFinally'']"

definition cancel_pipeline_run :: "cal_env \<Rightarrow> cal_config \<Rightarrow> string \<Rightarrow> string \<Rightarrow> string \<Rightarrow> unit cal_eff" where
  "cancel_pipeline_run E cc ns cluster name =
     eff_bind (eff_try (find_run E cc cluster ns name)) (\<lambda>answer. case answer of
         Inl err \<Rightarrow> if err \<noteq> NotFound then eff_fail (Errorf ''failed to get pipelinerun'') else eff_ret ()
       | Inr NotUnstructured \<Rightarrow> eff_fail (Errorf ''object in pipelineRunLister is not unstructured'')
       | Inr (Run u) \<Rightarrow>
           eff_bind (eff_wrap ''failed to look at spec.status''
                       (eff_of_res (lift_res (nested_string (JObj u) [''spec'', ''status''])))) (\<lambda>status.
             if (case status of None \<Rightarrow> [] | Some s \<Rightarrow> s) \<in> set stopping then eff_ret ()
             else eff_bind (eff_wrap ''failed to set spec.status to Cancelled''
                       (eff_of_res (lift_res (set_nested u (JStr ''Cancelled'') [''spec'', ''status''])))) (\<lambda>u'.
                  eff_wrap ''failed to update spec.status to Cancelled'' (update_run E cc cluster ns u'))))"

section \<open>The status of a run\<close>

text \<open>
  \<open>getPipelineRunStatus\<close>. The error branches return values that no caller looks at, so they are
  plain errors. The results of a completed run: an entry that is not an object, or whose name or
  value is not a string, is an error, one without name or value is skipped.
\<close>

fun run_results :: "json list \<Rightarrow> string gomap \<Rightarrow> string gomap res" where
  "run_results [] m = Ok m"
| "run_results (JObj r # rs) m =
     bind_res (wrap_res ''failed to look at pipelineResults name'' (lift_res (nested_string (JObj r) [''name'']))) (\<lambda>name.
       case name of None \<Rightarrow> run_results rs m
       | Some n \<Rightarrow>
           bind_res (wrap_res ''failed to look at pipelineResults value'' (lift_res (nested_string (JObj r) [''value'']))) (\<lambda>val.
             case val of None \<Rightarrow> run_results rs m | Some v \<Rightarrow> run_results rs (gm_set n v m)))"
| "run_results (_ # rs) m = Err (Errorf ''failed to look at pipelineResults: not map[string]interface{}'')"

definition completed_results :: "unstructured \<Rightarrow> string gomap res" where
  "completed_results u =
     bind_res (wrap_res ''failed to look at status.pipelineResults''
                 (lift_res (nested_slice (JObj u) [''status'', ''pipelineResults'']))) (\<lambda>results.
       case results of None \<Rightarrow> Ok [] | Some rs \<Rightarrow> run_results rs [])"

fun scan_conditions :: "unstructured \<Rightarrow> json list \<Rightarrow> (string gomap \<times> run_status) res" where
  "scan_conditions u [] = Ok ([], RunUnknown)"
| "scan_conditions u (JObj c # cs) =
     bind_res (wrap_res ''failed to look at status.conditions.reason'' (lift_res (nested_string (JObj c) [''reason'']))) (\<lambda>reason.
       case reason of
         None \<Rightarrow> scan_conditions u cs
       | Some r \<Rightarrow>
           if r = ''Started'' \<or> r = ''Running'' then Ok ([], RunRunning)
           else if r = ''PipelineRunCancelled'' then Ok ([], RunCancelled)
           else bind_res (wrap_res ''failed to look at status.conditions.status'' (lift_res (nested_string (JObj c) [''status'']))) (\<lambda>status.
             case status of
               None \<Rightarrow> scan_conditions u cs
             | Some s \<Rightarrow>
                 if s = ''False'' then Ok ([], RunFailed)
                 else if r \<noteq> ''Succeeded'' \<and> r \<noteq> ''Completed'' then scan_conditions u cs
                 else bind_res (completed_results u) (\<lambda>m. Ok (m, RunCompleted))))"
| "scan_conditions u (_ # cs) = scan_conditions u cs"

record observed_run =
  ob_results :: "string gomap"
  ob_status :: run_status
  ob_start :: string
  ob_completion :: string

definition text_or_empty :: "string option \<Rightarrow> string" where
  "text_or_empty s = (case s of None \<Rightarrow> [] | Some t \<Rightarrow> t)"

definition get_pipeline_run_status :: "unstructured \<Rightarrow> observed_run res" where
  "get_pipeline_run_status u =
     bind_res (wrap_res ''failed to look at status.startTime''
                 (lift_res (nested_string (JObj u) [''status'', ''startTime'']))) (\<lambda>start.
     bind_res (wrap_res ''failed to look at status.completionTime''
                 (lift_res (nested_string (JObj u) [''status'', ''completionTime'']))) (\<lambda>completion.
     bind_res (wrap_res ''failed to look at status.conditions''
                 (lift_res (nested_slice (JObj u) [''status'', ''conditions'']))) (\<lambda>conditions.
     bind_res (case conditions of None \<Rightarrow> Ok ([], RunPending) | Some cs \<Rightarrow> scan_conditions u cs) (\<lambda>(results, status).
       Ok \<lparr>ob_results = results, ob_status = status,
           ob_start = text_or_empty start, ob_completion = text_or_empty completion\<rparr>))))"

section \<open>The run of an event\<close>

text \<open>
  \<open>getPipelineRunStatusOrInit\<close>: the position of the first run of the pipeline; without one a pending
  run with a generated name is appended.
\<close>

definition run_index :: "event \<Rightarrow> string \<Rightarrow> nat option" where
  "run_index e p =
     (let i = length (takeWhile (\<lambda>r. er_pipeline r \<noteq> p) (est_runs (ev_status e)))
      in if i < length (est_runs (ev_status e)) then Some i else None)"

definition pending_run :: "event \<Rightarrow> string \<Rightarrow> string \<Rightarrow> string \<Rightarrow> event_run" where
  "pending_run e p cluster suffix =
     \<lparr>er_name = generate_name (ev_object_name e @ ''-'' @ p @ ''-'') suffix, er_cluster = cluster, er_pipeline = p,
      er_start = None, er_completion = None, er_status = RunPending, er_results = []\<rparr>"

abbreviation set_runs :: "event_run list \<Rightarrow> event \<Rightarrow> event" where
  "set_runs rs e \<equiv> e\<lparr>ev_status := (ev_status e)\<lparr>est_runs := rs\<rparr>\<rparr>"

abbreviation set_run :: "nat \<Rightarrow> event_run \<Rightarrow> event \<Rightarrow> event" where
  "set_run i r e \<equiv> set_runs ((est_runs (ev_status e))[i := r]) e"

definition get_run_or_init :: "cal_env \<Rightarrow> event \<Rightarrow> string \<Rightarrow> string \<Rightarrow> (event \<times> nat option) cal_eff" where
  "get_run_or_init E e p cluster =
     (case run_index e p of
        Some i \<Rightarrow> eff_ret (e, Some i)
      | None \<Rightarrow> eff_bind (name_suffix E) (\<lambda>suffix.
          eff_ret (set_runs (est_runs (ev_status e) @ [pending_run e p cluster suffix]) e, None)))"

text \<open>The times and the results that both callers copy from the observed run.\<close>

definition observe_times :: "cal_env \<Rightarrow> observed_run \<Rightarrow> event_run \<Rightarrow> event_run res" where
  "observe_times E ob r =
     bind_res (if ob_start ob = [] then Ok r
               else bind_res (wrap_res ''failed to parse startTime'' (lift_res (ce_parse_time E (ob_start ob))))
                      (\<lambda>t. Ok (r\<lparr>er_start := Some t\<rparr>))) (\<lambda>r.
     bind_res (if ob_completion ob = [] then Ok r
               else bind_res (wrap_res ''failed to parse completionTime'' (lift_res (ce_parse_time E (ob_completion ob))))
                      (\<lambda>t. Ok (r\<lparr>er_completion := Some t\<rparr>))) (\<lambda>r.
       Ok (r\<lparr>er_results := ob_results ob\<rparr>)))"

definition rollback_observed ::
  "cal_env \<Rightarrow> cal_config \<Rightarrow> event \<Rightarrow> string \<Rightarrow> nat \<Rightarrow> event_run \<Rightarrow> unstructured \<Rightarrow> event cal_eff" where
  "rollback_observed E cc e cluster i r u =
     eff_bind (eff_wrap ''failed to check pipelineRun status'' (eff_of_res (get_pipeline_run_status u))) (\<lambda>ob.
     eff_bind (eff_of_res (observe_times E ob r)) (\<lambda>r'.
       if ob_status ob \<in> {RunCompleted, RunCancelled, RunFailed}
       then eff_ret (set_run i (r'\<lparr>er_status := ob_status ob\<rparr>) e)
       else if er_status r' = RunCancelled
       then eff_bind (cancel_pipeline_run E cc (ev_namespace e) cluster (er_name r')) (\<lambda>_. eff_ret e)
       else eff_ret (set_run i (r'\<lparr>er_status := ob_status ob\<rparr>) e)))"

definition rollback_event_pipeline ::
  "cal_env \<Rightarrow> cal_config \<Rightarrow> event \<Rightarrow> string \<Rightarrow> string \<Rightarrow> string gomap \<Rightarrow> params \<Rightarrow> event cal_eff" where
  "rollback_event_pipeline E cc e cluster p templates ps =
     eff_bind (get_run_or_init E e p cluster) (\<lambda>(e, index).
       case index of
         None \<Rightarrow> eff_ret e
       | Some i \<Rightarrow>
           let r = est_runs (ev_status e) ! i in
           if er_status r = RunCompleted \<or> er_status r = RunFailed then eff_ret e
           else eff_bind (eff_try (find_run E cc cluster (ev_namespace e) (er_name r))) (\<lambda>answer. case answer of
               Inl err \<Rightarrow>
                 if err \<noteq> NotFound then eff_fail (Errorf ''failed to get pipelinerun'')
                 else if er_status r = RunCancelled then eff_ret e
                 else (case lookup_yaml templates p of
                     None \<Rightarrow> eff_fail (Errorf ''pipeline does not exist in template'')
                   | Some tpl \<Rightarrow>
                       eff_bind (eff_wrap ''failed to create pipelinerun''
                                   (create_pipeline_run E cc e p cluster (er_name r) tpl ps)) (\<lambda>_. eff_ret e))
             | Inr NotUnstructured \<Rightarrow> eff_fail (Errorf ''object in pipelineRunLister is not unstructured'')
             | Inr (Run u) \<Rightarrow> rollback_observed E cc e cluster i r u))"

end
