(* ===== verification/CalendarSync.thy ===== *)
theory CalendarSync
  imports CalendarLease CalendarPipelineRun
begin

text \<open>
  The event controller (pkg/controller/calendar/event_controller.go): the probes of time and phase,
  the parameters of the followers, one pipeline of an event, the handler, and the work queue with its
  event handlers.
\<close>

section \<open>Probing time and phase\<close>

text \<open>The inner loop over the preceding events; \<open>None\<close> is the early return that leaves the time alone.\<close>

fun latest_time ::
  "time_lib \<Rightarrow> string \<Rightarrow> int_or_string \<Rightarrow> calendar_day list \<Rightarrow> string list \<Rightarrow> instant \<Rightarrow> event list \<Rightarrow> instant option res" where
  "latest_time L offset tz weekdays skip t [] = Ok (Some t)"
| "latest_time L offset tz weekdays skip t (e # es) =
     (case est_time (ev_status e) of
        None \<Rightarrow> Ok None
      | Some u \<Rightarrow>
          bind_res (wrap_res ''failed to get time with runAfter offset''
                      (get_time_with_offset L u offset tz weekdays skip)) (\<lambda>when.
            latest_time L offset tz weekdays skip (if t < when then when else t) es))"

fun probe_after ::
  "cal_env \<Rightarrow> event \<Rightarrow> int_or_string \<Rightarrow> calendar_day list \<Rightarrow> string list \<Rightarrow> run_after list \<Rightarrow> instant \<Rightarrow>
   instant option cal_eff" where
  "probe_after E e tz weekdays skip [] t = eff_ret (Some t)"
| "probe_after E e tz weekdays skip (a # as) t =
     eff_bind (eff_wrap ''failed to list events for runAfter event name''
       (list_events E (ev_namespace e)
          \<lparr>sel_labels = [(''calendar'', es_calendar (ev_spec e)), (''name'', ra_name a)], sel_names = None\<rparr>)) (\<lambda>events.
     eff_bind (eff_of_res (latest_time (ce_time_lib E) (ra_time_offset a) tz weekdays skip t events)) (\<lambda>t'.
       case t' of None \<Rightarrow> eff_ret None | Some t' \<Rightarrow> probe_after E e tz weekdays skip as t'))"

abbreviation set_time :: "instant \<Rightarrow> event \<Rightarrow> event" where
  "set_time t e \<equiv> e\<lparr>ev_status := (ev_status e)\<lparr>est_time := Some t\<rparr>\<rparr>"

abbreviation set_event_phase :: "event_phase \<Rightarrow> event \<Rightarrow> event" where
  "set_event_phase p e \<equiv> e\<lparr>ev_status := (ev_status e)\<lparr>est_phase := p\<rparr>\<rparr>"

definition initial_time :: "instant \<Rightarrow> event \<Rightarrow> instant" where
  "initial_time now e =
     (case es_time (ev_spec e) of
        Some t \<Rightarrow> t
      | None \<Rightarrow> (case est_time (ev_status e) of Some t \<Rightarrow> t | None \<Rightarrow> now))"

definition probe_time ::
  "cal_env \<Rightarrow> event \<Rightarrow> int_or_string \<Rightarrow> calendar_day list \<Rightarrow> string list \<Rightarrow> event cal_eff" where
  "probe_time E e tz weekdays skip =
     eff_bind (read_now E) (\<lambda>now.
       let t = initial_time now e in
       if \<not> not_started (est_phase (ev_status e)) then eff_ret (set_time t e)
       else eff_bind (if run_after_of e = [] then eff_ret False
                      else eff_bind (read_now E) (\<lambda>now2. eff_ret (now2 < om_creation (ev_meta e) + 15 * second))) (\<lambda>early.
            if early then eff_ret e
            else eff_bind (probe_after E e tz weekdays skip (run_after_of e) t) (\<lambda>t'.
                 case t' of None \<Rightarrow> eff_ret e | Some t' \<Rightarrow> eff_ret (set_time t' e))))"

definition runs_completed :: "event_run list \<Rightarrow> bool gomap" where
  "runs_completed rs = fold (\<lambda>r. gm_set (er_pipeline r) (er_status r = RunCompleted)) rs []"

definition probe_phase :: "event \<Rightarrow> calendar \<Rightarrow> event" where
  "probe_phase e c =
     (if est_runs (ev_status e) = [] then set_event_phase EventPending e
      else if est_leader (ev_status e) = [] \<or> est_leader (ev_status e) = ev_object_name e then e
      else if list_all (\<lambda>p. pl_run_policy p = RunPolicyLeaderOnly \<or>
                            map_of (runs_completed (est_runs (ev_status e))) (pl_name p) = Some True)
                (cs_pipelines (cal_spec c))
      then set_event_phase EventCompleted e else e)"

section \<open>Followers\<close>

text \<open>
  The runs of a follower, up to the pipeline that is waited for: the results are filled in, and the
  flag says whether the pipeline has ended.
\<close>

fun follower_runs :: "string \<Rightarrow> event_run list \<Rightarrow> params \<Rightarrow> params \<times> bool" where
  "follower_runs p [] ps = (ps, False)"
| "follower_runs p (r # rs) ps =
     (let ps = gm_fill_from (str_params (er_results r)) ps in
      if er_pipeline r \<noteq> p then follower_runs p rs ps
      else if er_status r = RunCompleted then (gm_set ''status'' (PBool True) ps, True)
      else if er_status r \<in> {RunCancelled, RunFailed, RunRollback} then (gm_set ''status'' (PBool False) ps, True)
      else (ps, False))"

definition follower_base :: "event \<Rightarrow> instant \<Rightarrow> params" where
  "follower_base e t =
     fold (\<lambda>p. gm_set (pm_name p) (PStr (pm_value p))) (es_params (ev_spec e))
       [(''name'', PStr (name_of_event e)), (''id'', PStr (ev_object_name e)), (''time'', PTime t)]"

definition follower_params :: "string \<Rightarrow> event \<Rightarrow> instant \<Rightarrow> params option" where
  "follower_params p e t =
     (if p = [] then Some (follower_base e t)
      else if est_phase (ev_status e) = EventFailed \<or> est_phase (ev_status e) = EventCancelled
      then Some (gm_set ''status'' (PBool False) (follower_base e t))
      else (case follower_runs p (est_runs (ev_status e)) (follower_base e t) of
              (ps, completed) \<Rightarrow> if completed then Some ps else None))"

text \<open>The loop over the events of the calendar: \<open>Ok None\<close> when a follower is not done.\<close>

fun collect_followers ::
  "string \<Rightarrow> string \<Rightarrow> event list \<Rightarrow> instant \<Rightarrow> params list \<Rightarrow> (instant \<times> params list) option res" where
  "collect_followers name p [] min_time followers = Ok (Some (min_time, followers))"
| "collect_followers name p (e # es) min_time followers =
     (if est_leader (ev_status e) \<noteq> name then collect_followers name p es min_time followers
      else bind_res (deref (est_time (ev_status e))) (\<lambda>t.
             case follower_params p e t of
               None \<Rightarrow> Ok None
             | Some ps \<Rightarrow>
                 collect_followers name p es
                   (if min_time = zero_time \<or> t < min_time then t else min_time) (followers @ [ps])))"

definition get_followers_params ::
  "cal_env \<Rightarrow> string \<Rightarrow> string \<Rightarrow> string \<Rightarrow> string \<Rightarrow> params option cal_eff" where
  "get_followers_params E cal name ns p =
     eff_bind (eff_wrap ''failed to list events in namespace'' (list_events E ns (calendar_selector cal))) (\<lambda>events.
     eff_bind (eff_of_res (collect_followers name p events zero_time [])) (\<lambda>group.
       eff_ret (map_option (\<lambda>(min_time, followers).
         [(''followers'', PFollowers followers), (''minTime'', PTime min_time)]) group)))"

section \<open>One pipeline of an event\<close>

text \<open>
  The result of \<open>syncEventPipeline\<close>: when to try again, whether the pipeline is done, and the event
  and the parameters as the code has changed them.
\<close>

type_synonym step_result = "int \<times> bool \<times> event \<times> params"

abbreviation wait_step :: "event \<Rightarrow> params \<Rightarrow> step_result cal_eff" where
  "wait_step e ps \<equiv> eff_ret (0, False, e, ps)"

definition fill_results :: "string gomap \<Rightarrow> params \<Rightarrow> params" where
  "fill_results results ps = gm_fill_from (str_params results) ps"

text \<open>\<open>event.Status.Time\<close> is a pointer; the location is looked up before it is used.\<close>

definition event_time_with_offset ::
  "time_lib \<Rightarrow> instant option \<Rightarrow> string \<Rightarrow> calendar_spec \<Rightarrow> instant res" where
  "event_time_with_offset L t offset cs =
     (case t of
        Some t \<Rightarrow> get_time_with_offset L t offset (cs_time_zone cs) (cs_weekdays cs) (cs_skip_days cs)
      | None \<Rightarrow> (if offset = [] then Panic
                 else bind_res (wrap_res ''invalid timezone'' (location_of L (cs_time_zone cs))) (\<lambda>_. Panic)))"

text \<open>\<open>if t.After(now()) { return t.Sub(now()), ... }\<close>: the clock is read twice.\<close>

definition not_before :: "cal_env \<Rightarrow> instant \<Rightarrow> event \<Rightarrow> params \<Rightarrow> step_result cal_eff \<Rightarrow> step_result cal_eff" where
  "not_before E t e ps next_step =
     eff_bind (read_now E) (\<lambda>now.
       if now < t then eff_bind (read_now E) (\<lambda>now2. eff_ret (sub_time t now2, False, e, ps))
       else next_step)"

text \<open>What a preceding event must have completed before this pipeline may run.\<close>

definition precedes_done ::
  "event \<Rightarrow> pipeline \<Rightarrow> string gomap \<Rightarrow> string \<Rightarrow> string \<Rightarrow> nat gomap \<Rightarrow> event \<Rightarrow> bool" where
  "precedes_done e p afters lo hi indexes prev =
     (let wanted = gm_get [] afters (name_of_event prev);
          leader = est_leader (ev_status prev)
      in if leader = [] \<or> leader \<noteq> est_leader (ev_status e) then pipeline_completed prev wanted
         else if pl_run_policy p = RunPolicyLeaderOnly \<and> leader \<noteq> [] \<and> leader \<noteq> ev_object_name prev then True
         else pipeline_completed prev
                (if wanted = [] \<or> gm_get 0 indexes wanted < gm_get 0 indexes lo \<or>
                    gm_get 0 indexes hi < gm_get 0 indexes wanted
                 then hi else wanted))"

definition precedents_done ::
  "cal_env \<Rightarrow> event \<Rightarrow> pipeline \<Rightarrow> string \<Rightarrow> string \<Rightarrow> nat gomap \<Rightarrow> bool cal_eff" where
  "precedents_done E e p lo hi indexes =
     (if run_after_of e = [] \<or> pl_after_policy p = AfterPolicyIgnore then eff_ret True
      else eff_bind (eff_wrap ''failed to new label requirements''
                       (eff_of_res (lift_res (name_requirement (map ra_name (run_after_of e)))))) (\<lambda>names.
           eff_bind (eff_wrap ''failed to list events''
             (list_events E (ev_namespace e)
                \<lparr>sel_labels = [(''calendar'', es_calendar (ev_spec e))], sel_names = Some names\<rparr>)) (\<lambda>events.
             let afters = fold (\<lambda>a. gm_set (ra_name a) (ra_pipeline a)) (run_after_of e) [] in
             eff_ret (list_all (precedes_done e p afters lo hi indexes) (filter_events events)))))"

text \<open>A follower takes the results of a LeaderOnly pipeline from its leader.\<close>

definition follow_leader :: "cal_env \<Rightarrow> event \<Rightarrow> pipeline \<Rightarrow> params \<Rightarrow> step_result cal_eff" where
  "follow_leader E e p ps =
     eff_bind (eff_wrap ''failed to get leader event''
                 (find_event E (ev_namespace e) (est_leader (ev_status e)))) (\<lambda>leader.
       case find (\<lambda>r. er_pipeline r = pl_name p) (est_runs (ev_status leader)) of
         None \<Rightarrow> wait_step e ps
       | Some r \<Rightarrow> if er_status r = RunCompleted then eff_ret (0, True, e, fill_results (er_results r) ps)
                   else wait_step e ps)"

definition choose_cluster :: "cal_config \<Rightarrow> pipeline \<Rightarrow> params \<Rightarrow> string" where
  "choose_cluster cc p ps =
     (let override = (\<lambda>key cluster. case map_of ps key of Some (PStr v) \<Rightarrow> v | _ \<Rightarrow> cluster)
      in override (''_cluster_'' @ pl_name p) (override ''_cluster'' (cc_default_cluster cc)))"

definition needs_rollback :: "pipeline \<Rightarrow> bool" where
  "needs_rollback p \<longleftrightarrow> pl_rollback p \<noteq> [] \<and> pl_rollback_policy p \<noteq> RollbackPolicyNone"

text \<open>Creating the run: only in the execution hours, with the parameters of the hours of the event.\<close>

definition launch_run ::
  "cal_env \<Rightarrow> cal_config \<Rightarrow> event \<Rightarrow> calendar \<Rightarrow> pipeline \<Rightarrow> string gomap \<Rightarrow> string \<Rightarrow> event_run \<Rightarrow> params \<Rightarrow>
   step_result cal_eff" where
  "launch_run E cc e c p templates cluster r ps =
     eff_bind (read_now E) (\<lambda>now.
     eff_bind (eff_wrap ''failed to check whether current time is in calendar hours''
       (eff_of_res (in_calendar_hours (ce_time_lib E) now (cs_hours (cal_spec c)) (cs_time_zone (cal_spec c))))) (\<lambda>(estimate, _).
       if 0 < estimate then eff_ret (estimate, False, e, ps)
       else eff_bind (eff_of_res (deref (est_time (ev_status e)))) (\<lambda>t.
            eff_bind (eff_wrap ''failed to check whether status.time is in calendar hours''
              (eff_of_res (in_calendar_hours (ce_time_lib E) t (cs_hours (cal_spec c)) (cs_time_zone (cal_spec c))))) (\<lambda>(_, values).
              let ps = fill_results (case values of None \<Rightarrow> [] | Some m \<Rightarrow> m) ps;
                  ps = gm_set ''_time'' (PTime t) (gm_set ''time'' (PTime t) ps)
              in case lookup_yaml templates (pl_name p) of
                   None \<Rightarrow> eff_fail (Errorf ''pipeline does not exist in template'')
                 | Some tpl \<Rightarrow>
                     eff_bind (eff_wrap ''failed to create pipelinerun''
                       (create_pipeline_run E cc e (pl_name p) cluster (er_name r) tpl ps)) (\<lambda>_. wait_step e ps)))))"

text \<open>The run is not in the cluster.\<close>

definition run_missing ::
  "cal_env \<Rightarrow> cal_config \<Rightarrow> event \<Rightarrow> calendar \<Rightarrow> pipeline \<Rightarrow> string gomap \<Rightarrow> string \<Rightarrow> nat \<Rightarrow> event_run \<Rightarrow> params \<Rightarrow>
   step_result cal_eff" where
  "run_missing E cc e c p templates cluster i r ps =
     (if er_status r = RunCancelled then wait_step e ps
      else if er_status r = RunFailed
      then wait_step (set_run i (if needs_rollback p then r\<lparr>er_status := RunRollback\<rparr> else r) e) ps
      else if er_status r = RunRollback
      then eff_bind (rollback_event_pipeline E cc e cluster (pl_rollback p) templates ps) (\<lambda>e'. wait_step e' ps)
      else launch_run E cc e c p templates cluster r ps)"

text \<open>The run is in the cluster: its status drives the event.\<close>

definition run_present ::
  "cal_env \<Rightarrow> cal_config \<Rightarrow> event \<Rightarrow> pipeline \<Rightarrow> string gomap \<Rightarrow> string \<Rightarrow> nat \<Rightarrow> event_run \<Rightarrow> params \<Rightarrow> unstructured \<Rightarrow>
   step_result cal_eff" where
  "run_present E cc e p templates cluster i r ps u =
     eff_bind (eff_wrap ''failed to check pipelineRun status'' (eff_of_res (get_pipeline_run_status u))) (\<lambda>ob.
     eff_bind (eff_of_res (observe_times E ob r)) (\<lambda>r.
       let ps = fill_results (ob_results ob) ps;
           rollback = (\<lambda>e. eff_bind (rollback_event_pipeline E cc e cluster (pl_rollback p) templates ps) (\<lambda>e'. wait_step e' ps))
       in if ob_status ob = RunCompleted
          then eff_ret (0, True, set_run i (r\<lparr>er_status := RunCompleted\<rparr>) (set_event_phase EventRunning e), ps)
          else if ob_status ob = RunCancelled
          then let e = set_event_phase EventCancelled e in
               if er_status r = RunRollback then rollback e
               else wait_step (set_run i (r\<lparr>er_status := RunCancelled\<rparr>) e) ps
          else if ob_status ob = RunFailed
          then let e = set_event_phase EventFailed e in
               if er_status r = RunRollback then rollback e
               else wait_step (set_run i (r\<lparr>er_status := if needs_rollback p then RunRollback else RunFailed\<rparr>) e) ps
          else let e = set_event_phase EventRunning e in
               if er_status r = RunCancelled
               then eff_bind (cancel_pipeline_run E cc (ev_namespace e) cluster (er_name r)) (\<lambda>_. wait_step e ps)
               else wait_step (set_run i (r\<lparr>er_status := ob_status ob\<rparr>) e) ps))"

text \<open>From the choice of the cluster on.\<close>

definition drive_run ::
  "cal_env \<Rightarrow> cal_config \<Rightarrow> event \<Rightarrow> calendar \<Rightarrow> pipeline \<Rightarrow> string gomap \<Rightarrow> params \<Rightarrow> step_result cal_eff" where
  "drive_run E cc e c p templates ps =
     (let cluster = choose_cluster cc p ps in
      if cluster \<notin> set (cc_clusters cc) then eff_fail (Errorf ''there is no cluster of that name'')
      else let ps = gm_set ''_tekton_id'' (PStr cluster) (gm_set ''tekton_id'' (PStr cluster) ps) in
           eff_bind (get_run_or_init E e (pl_name p) cluster) (\<lambda>(e, index).
             case index of
               None \<Rightarrow> wait_step e ps
             | Some i \<Rightarrow>
                 let r = est_runs (ev_status e) ! i in
                 if er_status r = RunCompleted then eff_ret (0, True, e, fill_results (er_results r) ps)
                 else eff_bind (eff_try (find_run E cc cluster (ev_namespace e) (er_name r))) (\<lambda>answer. case answer of
                     Inl err \<Rightarrow> if err \<noteq> NotFound then eff_fail (Errorf ''failed to get pipelinerun'')
                               else run_missing E cc e c p templates cluster i r ps
                   | Inr NotUnstructured \<Rightarrow> eff_fail (Errorf ''object in pipelineRunLister is not unstructured'')
                   | Inr (Run u) \<Rightarrow> run_present E cc e p templates cluster i r ps u)))"

text \<open>The leader of a group waits for its followers before a LeaderOnly pipeline.\<close>

definition lead_group ::
  "cal_env \<Rightarrow> cal_config \<Rightarrow> event \<Rightarrow> calendar \<Rightarrow> pipeline \<Rightarrow> string gomap \<Rightarrow> params \<Rightarrow> string \<Rightarrow> step_result cal_eff" where
  "lead_group E cc e c p templates ps last_always =
     not_before E (om_creation (ev_meta e) + 30 * second) e ps
       (eff_bind (eff_wrap ''failed to lock leader'' (lock_leader E e c)) (\<lambda>locked.
          if \<not> locked then wait_step e ps
          else eff_bind (eff_wrap ''failed to get group parameters''
                 (get_followers_params E (es_calendar (ev_spec e)) (ev_object_name e) (ev_namespace e) last_always)) (\<lambda>group.
               case group of
                 None \<Rightarrow> wait_step e ps
               | Some g \<Rightarrow> drive_run E cc e c p templates (gm_copy_into g ps))))"

definition sync_event_pipeline ::
  "cal_env \<Rightarrow> cal_config \<Rightarrow> event \<Rightarrow> calendar \<Rightarrow> pipeline \<Rightarrow> string gomap \<Rightarrow> params \<Rightarrow> string \<Rightarrow> string \<Rightarrow> string \<Rightarrow>
   nat gomap \<Rightarrow> step_result cal_eff" where
  "sync_event_pipeline E cc current c p templates ps last_always lo hi indexes =
     eff_bind (eff_wrap ''failed to probe leader'' (probe_leader E current c)) (\<lambda>e.
       if \<not> deep_eq_status (ev_status e) (ev_status current) then wait_step e ps
       else eff_bind (eff_wrap ''failed to get time with offset'' (eff_of_res
              (event_time_with_offset (ce_time_lib E) (est_time (ev_status e)) (pl_time_offset p) (cal_spec c)))) (\<lambda>when.
            not_before E when e ps
             (eff_bind (precedents_done E e p lo hi indexes) (\<lambda>ready.
                if \<not> ready then wait_step e ps
                else if pl_run_policy p \<noteq> RunPolicyLeaderOnly then drive_run E cc e c p templates ps
                else eff_bind (eff_wrap ''failed to run leader election'' (leader_elect E e)) (\<lambda>e.
                     if \<not> deep_eq_status (ev_status e) (ev_status current) then wait_step e ps
                     else if est_leader (ev_status e) \<noteq> ev_object_name e then follow_leader E e p ps
                     else lead_group E cc e c p templates ps last_always)))))"

section \<open>The handler\<close>

definition get_template :: "cal_env \<Rightarrow> calendar \<Rightarrow> string gomap cal_eff" where
  "get_template E c =
     (let ref = cs_template_ref (cal_spec c);
          ns = (if tr_namespace ref = [] then om_namespace (cal_meta c) else tr_namespace ref)
      in if tr_kind ref = [] \<or> tr_kind ref = ''ConfigMap''
         then eff_wrap ''failed to get configMap'' (get_config_map E ns (tr_name ref))
         else if tr_kind ref = ''Secret''
         then eff_wrap ''failed to get secret'' (get_template_secret E ns (tr_name ref))
         else eff_fail (Errorf ''unknown template ref kind''))"

definition event_params :: "string \<Rightarrow> event \<Rightarrow> calendar \<Rightarrow> params" where
  "event_params ns e c =
     (let cal = PStr (om_name (cal_meta c)); name = PStr (name_of_event e); i = PStr (ev_object_name e);
          group = PStr (es_group (ev_spec e));
          defaults = [(''calendar'', cal), (''_calendar'', cal), (''namespace'', PStr ns), (''_namespace'', PStr ns),
            (''name'', name), (''_name'', name), (''id'', i), (''_id'', i), (''group'', group), (''_group'', group)]
      in fold (\<lambda>p. gm_set (pm_name p) (PStr (pm_value p)))
           (cs_params (cal_spec c) @ es_params (ev_spec e)) defaults)"

definition store_event_status :: "cal_env \<Rightarrow> string \<Rightarrow> event \<Rightarrow> event \<Rightarrow> int cal_eff" where
  "store_event_status E msg e copy =
     eff_bind (eff_wrap msg (update_event_status E (ev_namespace e) copy)) (\<lambda>_. eff_ret 0)"

text \<open>
  The loop over the pipelines with their groups: it stops with an error or a delay, with the first
  change of the status, which it stores, and with the first pipeline that is not done.
\<close>

fun sync_pipelines ::
  "cal_env \<Rightarrow> cal_config \<Rightarrow> event \<Rightarrow> calendar \<Rightarrow> string gomap \<Rightarrow> nat gomap \<Rightarrow> event \<Rightarrow> params \<Rightarrow> string \<Rightarrow>
   (pipeline \<times> string \<times> string) list \<Rightarrow> int cal_eff" where
  "sync_pipelines E cc e c templates indexes copy ps last_always [] =
     (let copy = set_event_phase EventCompleted copy in
      if deep_eq_status (ev_status e) (ev_status copy) then eff_ret 0
      else store_event_status E ''failed to update event phase in status'' e copy)"
| "sync_pipelines E cc e c templates indexes copy ps last_always ((p, lo, hi) # rest) =
     eff_bind (sync_event_pipeline E cc copy c p templates ps last_always lo hi indexes) (\<lambda>(after, finished, copy, ps).
       if 0 < after then eff_ret after
       else if \<not> deep_eq_status (ev_status e) (ev_status copy)
       then store_event_status E ''failed to update event status'' e copy
       else if \<not> finished then eff_ret 0
       else sync_pipelines E cc e c templates indexes copy ps
              (if pl_run_policy p \<noteq> RunPolicyLeaderOnly then pl_name p else last_always) rest)"

definition run_event :: "cal_env \<Rightarrow> cal_config \<Rightarrow> string \<Rightarrow> event \<Rightarrow> calendar \<Rightarrow> event \<Rightarrow> int cal_eff" where
  "run_event E cc ns e c copy =
     eff_bind (eff_wrap ''failed to acquire event lease'' (acquire_lease E e)) (\<lambda>acquired.
       if \<not> acquired then eff_ret 0
       else eff_bind (eff_wrap ''failed to get template'' (get_template E c)) (\<lambda>templates.
            case pipeline_groups (cs_pipelines (cal_spec c)) of
              (begins, ends, indexes) \<Rightarrow>
                sync_pipelines E cc e c templates indexes copy (event_params ns e c) []
                  (zip (cs_pipelines (cal_spec c)) (zip begins ends))))"

definition sync_found_event :: "cal_env \<Rightarrow> cal_config \<Rightarrow> string \<Rightarrow> event \<Rightarrow> calendar \<Rightarrow> int cal_eff" where
  "sync_found_event E cc ns e c =
     eff_bind (eff_wrap ''failed to probe time''
       (probe_time E e (cs_time_zone (cal_spec c)) (cs_weekdays (cal_spec c)) (cs_skip_days (cal_spec c)))) (\<lambda>copy.
       let copy = probe_phase copy c in
       if \<not> deep_eq_status (ev_status e) (ev_status copy)
       then store_event_status E ''failed to update event phase in status'' e copy
       else if est_time (ev_status e) = None then eff_ret (5 * second)
       else if es_paused (ev_spec e) \<or> cs_paused (cal_spec c) \<or> est_phase (ev_status e) = EventCompleted
       then eff_ret 0
       else run_event E cc ns e c copy)"

definition sync_event_handler :: "cal_env \<Rightarrow> cal_config \<Rightarrow> string \<Rightarrow> int cal_eff" where
  "sync_event_handler E cc key =
     (case split_meta_namespace_key key of
        None \<Rightarrow> eff_ret 0
      | Some (ns, name) \<Rightarrow>
          eff_bind (eff_try (find_event E ns name)) (\<lambda>answer. case answer of
              Inl err \<Rightarrow> if err = NotFound then eff_ret 0 else eff_fail (Errorf ''failed to get releaseevent'')
            | Inr e \<Rightarrow>
                eff_bind (eff_try (find_calendar E ns (es_calendar (ev_spec e)))) (\<lambda>answer. case answer of
                    Inl err \<Rightarrow> if err = NotFound then eff_ret 0 else eff_fail (Errorf ''failed to get releasecalendar'')
                  | Inr c \<Rightarrow> sync_found_event E cc ns e c)))"

section \<open>The work queue and the event handlers\<close>

datatype event_queue_op = ForgetItem string | RetryItem string | ItemDone string | AddAfter string int

definition event_queue_ops :: "string \<Rightarrow> int res \<Rightarrow> event_queue_op list" where
  "event_queue_ops key outcome =
     (case outcome of
        Ok after \<Rightarrow> [ForgetItem key, ItemDone key] @ (if 0 < after then [AddAfter key after] else [])
      | Err _ \<Rightarrow> [RetryItem key, ItemDone key]
      | Panic \<Rightarrow> [ItemDone key])"

definition process_next_event ::
  "cal_env \<Rightarrow> cal_config \<Rightarrow> string \<Rightarrow> cal_call list \<Rightarrow> event_queue_op list \<times> cal_call list" where
  "process_next_event E cc key h =
     (case sync_event_handler E cc key h of (outcome, h') \<Rightarrow> (event_queue_ops key outcome, h'))"

definition event_key :: "event \<Rightarrow> string" where
  "event_key e = ev_namespace e @ ''/'' @ ev_object_name e"

text \<open>The keys that another event of the calendar is queued under: at most twice.\<close>

definition related_keys :: "event \<Rightarrow> event \<Rightarrow> string list" where
  "related_keys e other =
     (if ev_object_name other = ev_object_name e then []
      else if name_of_event e = name_of_event other then [event_key other]
      else if est_leader (ev_status other) = ev_object_name e then [event_key other]
      else (if \<exists>a\<in>set (run_after_of other). ra_name a = name_of_event e then [event_key other] else []) @
           (if es_group (ev_spec other) \<noteq> [] \<and> equal_fold (es_group (ev_spec other)) (es_group (ev_spec e))
            then [event_key other] else []))"

definition enqueue_event :: "cal_env \<Rightarrow> event \<Rightarrow> unit cal_eff" where
  "enqueue_event E e =
     eff_bind (queue_add (event_key e)) (\<lambda>_.
     eff_bind (if est_leader (ev_status e) \<noteq> [] \<and> est_leader (ev_status e) \<noteq> ev_object_name e
               then queue_add (ev_namespace e @ ''/'' @ est_leader (ev_status e)) else eff_ret ()) (\<lambda>_.
     eff_bind (eff_try (list_events E (ev_namespace e) (calendar_selector (es_calendar (ev_spec e))))) (\<lambda>answer.
       case answer of
         Inl _ \<Rightarrow> eff_ret ()
       | Inr events \<Rightarrow> eff_each (\<lambda>other. eff_each queue_add (related_keys e other)) events)))"

definition handle_calendar :: "cal_env \<Rightarrow> calendar \<Rightarrow> unit cal_eff" where
  "handle_calendar E c =
     eff_bind (eff_try (list_events E (om_namespace (cal_meta c)) (calendar_selector (om_name (cal_meta c))))) (\<lambda>answer.
       case answer of Inl _ \<Rightarrow> eff_ret () | Inr events \<Rightarrow> eff_each (enqueue_event E) events)"

text \<open>A Tekton informer hands over an object, a tombstone with or without one, or something else.\<close>

datatype run_notice = RunNotice unstructured | RunTombstone "string gomap option" | OtherNotice

definition handle_pipeline_run :: "run_notice \<Rightarrow> string option" where
  "handle_pipeline_run notice =
     (case (case notice of
              RunNotice u \<Rightarrow> Some (case get_labels u of None \<Rightarrow> [] | Some m \<Rightarrow> m)
            | RunTombstone labels \<Rightarrow> labels
            | OtherNotice \<Rightarrow> None) of
        None \<Rightarrow> None
      | Some labels \<Rightarrow>
          (case (map_of labels label_event_namespace, map_of labels label_event_name) of
             (Some ns, Some name) \<Rightarrow> Some (ns @ ''/'' @ name)
           | _ \<Rightarrow> None))"

end
