(* ===== verification/CalendarSafety.thy ===== *)
theory CalendarSafety
  imports CalendarSync
begin

text \<open>
  What one run of the event controller's handler may do: which pipeline runs it creates, what it
  writes into the status of the event, and when it reports an event as completed.
\<close>

lemma ensures_bind_any:
  "emits P m \<Longrightarrow> (\<And>x. ensures P (f x) S) \<Longrightarrow> ensures P (eff_bind m f) S"
  by (rule ensures_bind [OF emits_ensures]) auto

lemma ensures_of_emits: "emits P m \<Longrightarrow> (\<And>x. R x) \<Longrightarrow> ensures P m R"
  by (rule ensures_weaken [OF emits_ensures]) auto

lemma ensures_of_res_bind:
  "(\<And>x. r = Ok x \<Longrightarrow> ensures P (f x) S) \<Longrightarrow> ensures P (eff_bind (eff_of_res r) f) S"
  by (rule ensures_bind [OF ensures_of_res [where R = "\<lambda>x. r = Ok x"]]) auto

lemma ensures_wrap_res_bind:
  "(\<And>x. r = Ok x \<Longrightarrow> ensures P (f x) S) \<Longrightarrow> ensures P (eff_bind (eff_wrap msg (eff_of_res r)) f) S"
  by (rule ensures_bind [OF ensures_wrap [OF ensures_of_res [where R = "\<lambda>x. r = Ok x"]]]) auto

lemma ensures_if: "(b \<Longrightarrow> ensures P m R) \<Longrightarrow> (\<not> b \<Longrightarrow> ensures P n R) \<Longrightarrow> ensures P (if b then m else n) R"
  by simp

section \<open>One pipeline\<close>

text \<open>
  The calls of a step: it does not write the event, and a run that it creates carries the name and
  the pipeline of a run in the status of the event.
\<close>

fun step_call :: "event \<Rightarrow> cal_call \<Rightarrow> bool" where
  "step_call e (CreateRun cluster ns u a) \<longleftrightarrow>
     ns = ev_namespace e \<and>
     (\<exists>r\<in>set (est_runs (ev_status e)). \<exists>u0. u = claim_run e (er_pipeline r) (er_name r) u0)"
| "step_call e (UpdateEventStatus ns e' a) \<longleftrightarrow> False"
| "step_call e (DeleteEvent ns n a) \<longleftrightarrow> False"
| "step_call e _ \<longleftrightarrow> True"

lemma claim_run_meta: "ev_meta e' = ev_meta e \<Longrightarrow> claim_run e' = claim_run e"
  by (simp add: claim_run_def fun_eq_iff)

definition run_ids :: "event \<Rightarrow> (string \<times> string) list" where
  "run_ids e = map (\<lambda>r. (er_pipeline r, er_name r)) (est_runs (ev_status e))"

lemma step_call_ids:
  "step_call e (CreateRun cluster ns u a) \<longleftrightarrow>
     ns = ev_namespace e \<and> (\<exists>(p, n)\<in>set (run_ids e). \<exists>u0. u = claim_run e p n u0)"
  by (auto simp: run_ids_def)

lemma step_call_cong:
  assumes "ev_meta e' = ev_meta e" and "run_ids e' = run_ids e"
  shows "step_call e' = step_call e"
proof
  fix c
  show "step_call e' c = step_call e c"
  proof (cases c)
    case (CreateRun cluster ns u a)
    show ?thesis unfolding CreateRun step_call_ids claim_run_meta [OF assms(1)] assms ..
  qed simp_all
qed

lemma find_run_emits [intro!]: "emits (step_call e) (find_run E cc cluster ns n)"
  by (auto simp: find_run_def)

lemma update_run_emits [intro!]: "emits (step_call e) (update_run E cc cluster ns u)"
  by (auto simp: update_run_def)

lemma cancel_emits [intro!]: "emits (step_call e) (cancel_pipeline_run E cc ns cluster n)"
  by (auto simp: cancel_pipeline_run_def split: sum.splits run_object.splits)

lemma create_emits:
  "r \<in> set (est_runs (ev_status e)) \<Longrightarrow>
     emits (step_call e) (create_pipeline_run E cc e (er_pipeline r) cluster (er_name r) tpl ps)"
  by (auto 0 4 simp: create_pipeline_run_def create_run_def render_template_def)

lemma run_index_Some:
  assumes "run_index e p = Some i"
  shows "i < length (est_runs (ev_status e))" and "er_pipeline (est_runs (ev_status e) ! i) = p"
  using assms nth_length_takeWhile [of "\<lambda>r. er_pipeline r \<noteq> p" "est_runs (ev_status e)"]
  by (auto simp: run_index_def Let_def split: if_splits)

lemma run_index_None: "run_index e p = None \<longleftrightarrow> p \<notin> er_pipeline ` set (est_runs (ev_status e))"
proof -
  have "length (takeWhile (\<lambda>r. er_pipeline r \<noteq> p) xs) < length xs \<longleftrightarrow> p \<in> er_pipeline ` set xs" for xs
    by (induction xs) auto
  then show ?thesis by (auto simp: run_index_def Let_def)
qed

text \<open>
  What may happen to an event in a step: metadata, spec and time stay, the phase stays or follows a
  run, no pipeline gets a second run, and runs keep their names.
\<close>

definition step_ok :: "event \<Rightarrow> event \<Rightarrow> bool" where
  "step_ok e e' \<longleftrightarrow>
     ev_meta e' = ev_meta e \<and> ev_spec e' = ev_spec e \<and> est_time (ev_status e') = est_time (ev_status e) \<and>
     est_phase (ev_status e') \<in> {est_phase (ev_status e), EventRunning, EventCancelled, EventFailed} \<and>
     (\<exists>new. run_ids e' = run_ids e @ new \<and> length new \<le> 1 \<and>
            (\<forall>(p, n)\<in>set new. p \<notin> er_pipeline ` set (est_runs (ev_status e))))"

lemma step_ok_refl [simp, intro]: "step_ok e e"
  by (simp add: step_ok_def)

lemma step_ok_leader [simp, intro]: "step_ok e (set_leader n e)"
  by (simp add: step_ok_def run_ids_def)

lemma run_ids_set_run:
  "i < length (est_runs (ev_status e)) \<Longrightarrow> er_pipeline r = er_pipeline (est_runs (ev_status e) ! i) \<Longrightarrow>
     er_name r = er_name (est_runs (ev_status e) ! i) \<Longrightarrow> run_ids (set_run i r e) = run_ids e"
  unfolding run_ids_def by (rule nth_equalityI) (auto simp: nth_list_update)

lemma step_ok_set_run:
  assumes "i < length (est_runs (ev_status e))" "er_pipeline r = er_pipeline (est_runs (ev_status e) ! i)"
    "er_name r = er_name (est_runs (ev_status e) ! i)"
    and "p \<in> {est_phase (ev_status e), EventRunning, EventCancelled, EventFailed}"
  shows "step_ok e (set_run i r (set_event_phase p e))"
  using run_ids_set_run [OF assms(1-3)] assms(4) by (simp add: step_ok_def run_ids_def)

lemma step_ok_phase:
  "step_ok (set_event_phase p e) e' \<Longrightarrow> p \<in> {EventRunning, EventCancelled, EventFailed} \<Longrightarrow> step_ok e e'"
  by (auto simp: step_ok_def run_ids_def)

lemma get_run_or_init_ok:
  "ensures (step_call e) (get_run_or_init E e p cluster)
     (\<lambda>(e', index). step_ok e e' \<and> (case index of None \<Rightarrow> True | Some i \<Rightarrow> e' = e \<and> run_index e p = Some i))"
  unfolding get_run_or_init_def
  by (auto simp: name_suffix_def step_ok_def run_ids_def pending_run_def run_index_None split: option.splits
      intro!: ensures_bind_any ensures_ret)

lemma step_call_phase [simp]: "step_call (set_event_phase p e) = step_call e"
  by (rule step_call_cong) (simp_all add: run_ids_def)

lemma step_call_leader [simp]: "step_call (set_leader n e) = step_call e"
  by (rule step_call_cong) (simp_all add: run_ids_def)

lemma observe_times_ids:
  "observe_times E ob r = Ok r' \<Longrightarrow> er_pipeline r' = er_pipeline r \<and> er_name r' = er_name r"
  by (auto simp: observe_times_def split: if_splits)

lemma rollback_observed_ok:
  assumes "i < length (est_runs (ev_status e))" and "r = est_runs (ev_status e) ! i"
  shows "ensures (step_call e) (rollback_observed E cc e cluster i r u) (step_ok e)"
proof -
  have same: "step_ok e (set_run i r' e)"
    if "er_pipeline r' = er_pipeline r" "er_name r' = er_name r" for r'
    using step_ok_set_run [of i e r' "est_phase (ev_status e)"] that assms by simp
  show ?thesis
    unfolding rollback_observed_def
    by (intro ensures_wrap_res_bind ensures_of_res_bind)
      (auto intro!: ensures_ret ensures_bind_any same dest: observe_times_ids)
qed

lemma rollback_ok:
  "ensures (step_call e) (rollback_event_pipeline E cc e cluster p templates ps) (step_ok e)"
  unfolding rollback_event_pipeline_def
proof (rule ensures_bind [OF get_run_or_init_ok], clarify)
  fix e' index
  assume index: "step_ok e e'" "case index of None \<Rightarrow> True | Some i \<Rightarrow> e' = e \<and> run_index e p = Some i"
  show "ensures (step_call e) (case index of
      None \<Rightarrow> eff_ret e'
    | Some i \<Rightarrow>
        let r = est_runs (ev_status e') ! i in
        if er_status r = RunCompleted \<or> er_status r = RunFailed then eff_ret e'
        else eff_bind (eff_try (find_run E cc cluster (ev_namespace e') (er_name r))) (\<lambda>answer. case answer of
            Inl err \<Rightarrow>
              if err \<noteq> NotFound then eff_fail (Errorf ''failed to get pipelinerun'')
              else if er_status r = RunCancelled then eff_ret e'
              else (case lookup_yaml templates p of
                  None \<Rightarrow> eff_fail (Errorf ''pipeline does not exist in template'')
                | Some tpl \<Rightarrow>
                    eff_bind (eff_wrap ''failed to create pipelinerun''
                                (create_pipeline_run E cc e' p cluster (er_name r) tpl ps)) (\<lambda>_. eff_ret e'))
          | Inr NotUnstructured \<Rightarrow> eff_fail (Errorf ''object in pipelineRunLister is not unstructured'')
          | Inr (Run u) \<Rightarrow> rollback_observed E cc e' cluster i r u)) (step_ok e)"
  proof (cases index)
    case None
    with index show ?thesis by (simp add: ensures_ret)
  next
    case (Some i)
    with index have i: "e' = e" "i < length (est_runs (ev_status e))" "er_pipeline (est_runs (ev_status e) ! i) = p"
      using run_index_Some by auto
    then have "emits (step_call e) (create_pipeline_run E cc e p cluster (er_name (est_runs (ev_status e) ! i)) tpl ps)" for tpl
      using create_emits [of "est_runs (ev_status e) ! i" e] by simp
    with Some i show ?thesis
      by (auto simp: Let_def split: sum.splits run_object.splits option.splits
          intro!: ensures_ret ensures_fail ensures_bind_any rollback_observed_ok)
  qed
qed

text \<open>A step that says it is done leaves a completed run of its pipeline behind.\<close>

definition has_completed :: "event \<Rightarrow> string \<Rightarrow> bool" where
  "has_completed e p \<longleftrightarrow> (\<exists>r\<in>set (est_runs (ev_status e)). er_pipeline r = p \<and> er_status r = RunCompleted)"

definition result_ok :: "event \<Rightarrow> pipeline \<Rightarrow> step_result \<Rightarrow> bool" where
  "result_ok e p = (\<lambda>(after, finished, e', ps). step_ok e e' \<and>
     (finished \<longrightarrow> pl_run_policy p = RunPolicyLeaderOnly \<or> has_completed e' (pl_name p)))"

lemma result_ok_wait [intro!]: "step_ok e e' \<Longrightarrow> result_ok e p (after, False, e', ps)"
  by (simp add: result_ok_def)

lemma launch_run_ok:
  assumes "i < length (est_runs (ev_status e))" "r = est_runs (ev_status e) ! i" "er_pipeline r = pl_name p"
  shows "ensures (step_call e) (launch_run E cc e c p templates cluster r ps) (result_ok e p)"
proof -
  have "emits (step_call e) (create_pipeline_run E cc e (pl_name p) cluster (er_name r) tpl ps)" for tpl ps
    using create_emits [of r e] assms by simp
  then show ?thesis
    unfolding launch_run_def
    by (auto simp: read_now_def Let_def split: option.splits
        intro!: ensures_ret ensures_fail ensures_bind_any)
qed

lemma run_missing_ok:
  assumes "i < length (est_runs (ev_status e))" "r = est_runs (ev_status e) ! i" "er_pipeline r = pl_name p"
  shows "ensures (step_call e) (run_missing E cc e c p templates cluster i r ps) (result_ok e p)"
  unfolding run_missing_def
  using assms launch_run_ok [OF assms] step_ok_set_run [of i e _ "est_phase (ev_status e)"]
  by (auto intro!: ensures_ret ensures_bind [OF rollback_ok])

lemma has_completed_set_run:
  "i < length (est_runs (ev_status e)) \<Longrightarrow> er_pipeline r = p \<Longrightarrow> er_status r = RunCompleted \<Longrightarrow>
     has_completed (set_run i r e) p"
  by (auto simp: has_completed_def intro!: bexI [OF _ set_update_memI])

lemma run_present_ok:
  assumes "i < length (est_runs (ev_status e))" "r = est_runs (ev_status e) ! i" "er_pipeline r = pl_name p"
  shows "ensures (step_call e) (run_present E cc e p templates cluster i r ps u) (result_ok e p)"
  unfolding run_present_def
proof (intro ensures_wrap_res_bind ensures_of_res_bind)
  fix ob r'
  assume "observe_times E ob r = Ok r'"
  then have ids: "er_pipeline r' = pl_name p" "er_name r' = er_name r" using observe_times_ids assms by auto
  have stored: "step_ok e (set_run i (r'\<lparr>er_status := s\<rparr>) (set_event_phase q e))"
    if "q \<in> {EventRunning, EventCancelled, EventFailed}" for s q
    using that assms ids by (intro step_ok_set_run) auto
  have rollback: "ensures (step_call e) (rollback_event_pipeline E cc (set_event_phase q e) cluster pr templates ps') (step_ok e)"
    if "q \<in> {EventRunning, EventCancelled, EventFailed}" for q pr ps'
    by (rule ensures_weaken [OF rollback_ok [of "set_event_phase q e"]]) (auto intro: step_ok_phase [OF _ that])
  have phase: "step_ok e (set_event_phase q e)" if "q \<in> {EventRunning, EventCancelled, EventFailed}" for q
    using that by (simp add: step_ok_def run_ids_def)
  have finished: "result_ok e p (0, True, set_run i (r'\<lparr>er_status := RunCompleted\<rparr>) (set_event_phase EventRunning e), ps')" for ps'
    using stored [of EventRunning] assms(1) ids
      has_completed_set_run [of i "set_event_phase EventRunning e" "r'\<lparr>er_status := RunCompleted\<rparr>" "pl_name p"]
    by (simp add: result_ok_def)
  show "ensures (step_call e)
      (let ps = fill_results (ob_results ob) ps;
           rollback = (\<lambda>e. eff_bind (rollback_event_pipeline E cc e cluster (pl_rollback p) templates ps) (\<lambda>e'. wait_step e' ps))
       in if ob_status ob = RunCompleted
          then eff_ret (0, True, set_run i (r'\<lparr>er_status := RunCompleted\<rparr>) (set_event_phase EventRunning e), ps)
          else if ob_status ob = RunCancelled
          then let e = set_event_phase EventCancelled e in
               if er_status r' = RunRollback then rollback e
               else wait_step (set_run i (r'\<lparr>er_status := RunCancelled\<rparr>) e) ps
          else if ob_status ob = RunFailed
          then let e = set_event_phase EventFailed e in
               if er_status r' = RunRollback then rollback e
               else wait_step (set_run i (r'\<lparr>er_status := if needs_rollback p then RunRollback else RunFailed\<rparr>) e) ps
          else let e = set_event_phase EventRunning e in
               if er_status r' = RunCancelled
               then eff_bind (cancel_pipeline_run E cc (ev_namespace e) cluster (er_name r')) (\<lambda>_. wait_step e ps)
               else wait_step (set_run i (r'\<lparr>er_status := ob_status ob\<rparr>) e) ps) (result_ok e p)"
    unfolding Let_def
    by (intro ensures_if ensures_ret finished result_ok_wait stored phase ensures_bind [OF rollback]
        ensures_bind_any cancel_emits) simp_all
qed

lemma drive_run_ok:
  "ensures (step_call e) (drive_run E cc e c p templates ps) (result_ok e p)"
proof -
  let ?cluster = "choose_cluster cc p ps"
  let ?ps = "gm_set ''_tekton_id'' (PStr ?cluster) (gm_set ''tekton_id'' (PStr ?cluster) ps)"
  have step: "ensures (step_call e)
      (case index of
         None \<Rightarrow> wait_step e' ?ps
       | Some i \<Rightarrow>
           let r = est_runs (ev_status e') ! i in
           if er_status r = RunCompleted then eff_ret (0, True, e', fill_results (er_results r) ?ps)
           else eff_bind (eff_try (find_run E cc ?cluster (ev_namespace e') (er_name r))) (\<lambda>answer. case answer of
               Inl err \<Rightarrow> if err \<noteq> NotFound then eff_fail (Errorf ''failed to get pipelinerun'')
                         else run_missing E cc e' c p templates ?cluster i r ?ps
             | Inr NotUnstructured \<Rightarrow> eff_fail (Errorf ''object in pipelineRunLister is not unstructured'')
             | Inr (Run u) \<Rightarrow> run_present E cc e' p templates ?cluster i r ?ps u)) (result_ok e p)"
    if "step_ok e e'" "case index of None \<Rightarrow> True | Some i \<Rightarrow> e' = e \<and> run_index e (pl_name p) = Some i" for e' index
  proof (cases index)
    case None
    with that show ?thesis by (auto intro: ensures_ret)
  next
    case (Some i)
    with that have i: "e' = e" "i < length (est_runs (ev_status e))" "er_pipeline (est_runs (ev_status e) ! i) = pl_name p"
      using run_index_Some by auto
    have "result_ok e p (0, True, e, ps')" if "er_status (est_runs (ev_status e) ! i) = RunCompleted" for ps'
      using that i by (auto simp: result_ok_def has_completed_def)
    with Some i show ?thesis
      by (auto simp: Let_def split: sum.splits run_object.splits
          intro!: ensures_ret ensures_fail ensures_bind_any run_missing_ok run_present_ok)
  qed
  show ?thesis
    unfolding drive_run_def Let_def
    by (auto intro!: ensures_fail ensures_bind [OF get_run_or_init_ok] step [unfolded Let_def])
qed

definition led :: "event \<Rightarrow> event \<Rightarrow> bool" where
  "led e e' \<longleftrightarrow> e' = e \<or> (\<exists>n. e' = set_leader n e)"

lemma led_intros [intro!]: "led e e" "led e (set_leader n e)" "led (set_leader m e) (set_leader n e)"
  by (auto simp: led_def)

lemma led_trans: "led e e1 \<Longrightarrow> led e1 e2 \<Longrightarrow> led e e2"
  by (auto simp: led_def)

lemma led_step: "led e e' \<Longrightarrow> step_ok e e'"
  by (auto simp: led_def)

lemma probe_leader_ok:
  "ensures (step_call e) (probe_leader E e c) (led e)"
  unfolding probe_leader_def
  by (auto simp: get_lease_def find_event_def split: sum.splits
      intro!: ensures_ret ensures_fail ensures_bind_any)

lemma get_or_create_lease_emits [intro!]:
  "emits (step_call e) (get_or_create_lease E e' n)"
  by (auto simp: get_or_create_lease_def get_lease_def create_lease_def split: sum.splits)

lemma leader_elect_ok:
  "ensures (step_call e) (leader_elect E e) (led e)"
  unfolding leader_elect_def
  by (auto split: option.splits intro!: ensures_ret ensures_fail ensures_bind_any)

lemma lock_leader_emits [intro!]: "emits (step_call e) (lock_leader E e' c)"
  by (auto simp: lock_leader_def get_lease_def list_events_def delete_lease_def split: sum.splits)

lemma followers_emits [intro!]: "emits (step_call e) (get_followers_params E cal n ns p)"
  by (auto simp: get_followers_params_def list_events_def)

lemma precedents_emits [intro!]: "emits (step_call e) (precedents_done E e' p lo hi indexes)"
  by (auto simp: precedents_done_def list_events_def Let_def)

lemma not_before_ok:
  "step_ok e e' \<Longrightarrow> ensures (step_call e) k (result_ok e p) \<Longrightarrow>
     ensures (step_call e) (not_before E t e' ps k) (result_ok e p)"
  unfolding not_before_def by (auto simp: read_now_def intro!: ensures_ret ensures_bind_any)

lemma follow_leader_ok:
  "pl_run_policy p = RunPolicyLeaderOnly \<Longrightarrow>
     ensures (step_call e) (follow_leader E e p ps) (result_ok e p)"
  unfolding follow_leader_def
  by (auto simp: find_event_def result_ok_def split: option.splits intro!: ensures_ret ensures_bind_any)

lemma lead_group_ok:
  "ensures (step_call e) (lead_group E cc e c p templates ps la) (result_ok e p)"
  unfolding lead_group_def
  by (auto split: option.splits intro!: not_before_ok ensures_ret ensures_bind_any drive_run_ok)

text \<open>A change of the leader alone does not weaken what is known of the rest.\<close>

lemma led_result:
  "ensures (step_call e1) m (result_ok e1 p) \<Longrightarrow> led e e1 \<Longrightarrow> ensures (step_call e) m (result_ok e p)"
  by (erule ensures_weaken) (auto simp: led_def result_ok_def step_ok_def run_ids_def)

lemma led_led: "ensures (step_call e1) m (led e1) \<Longrightarrow> led e e1 \<Longrightarrow> ensures (step_call e) m (led e)"
  by (erule ensures_weaken) (auto simp: led_def)

lemma sync_event_pipeline_ok:
  "ensures (step_call e) (sync_event_pipeline E cc e c p templates ps la lo hi indexes) (result_ok e p)"
proof -
  have lead: "ensures (step_call e)
      (if \<not> deep_eq_status (ev_status e2) (ev_status e) then wait_step e2 ps
       else if est_leader (ev_status e2) \<noteq> ev_object_name e2 then follow_leader E e2 p ps
       else lead_group E cc e2 c p templates ps la) (result_ok e p)"
    if "pl_run_policy p = RunPolicyLeaderOnly" "led e e2" for e2
    by (intro ensures_if ensures_ret result_ok_wait led_step [OF that(2)]
        led_result [OF follow_leader_ok [OF that(1)] that(2)] led_result [OF lead_group_ok that(2)])
  have ready: "ensures (step_call e)
      (if pl_run_policy p \<noteq> RunPolicyLeaderOnly then drive_run E cc e1 c p templates ps
       else eff_bind (eff_wrap ''failed to run leader election'' (leader_elect E e1)) (\<lambda>e2.
              if \<not> deep_eq_status (ev_status e2) (ev_status e) then wait_step e2 ps
              else if est_leader (ev_status e2) \<noteq> ev_object_name e2 then follow_leader E e2 p ps
              else lead_group E cc e2 c p templates ps la)) (result_ok e p)"
    if "led e e1" for e1
    by (intro ensures_if led_result [OF drive_run_ok that]
        ensures_bind [OF ensures_wrap [OF led_led [OF leader_elect_ok that]]] lead) simp_all
  show ?thesis
    unfolding sync_event_pipeline_def
    by (intro ensures_bind [OF ensures_wrap [OF probe_leader_ok]] ensures_if ensures_ret result_ok_wait
        ensures_wrap_res_bind not_before_ok ensures_bind_any [OF precedents_emits] led_step ready)
qed

section \<open>The handler\<close>

definition always_done :: "calendar \<Rightarrow> event \<Rightarrow> bool" where
  "always_done c e \<longleftrightarrow>
     (\<forall>p\<in>set (cs_pipelines (cal_spec c)). pl_run_policy p = RunPolicyLeaderOnly \<or> has_completed e (pl_name p))"

abbreviation run_pipelines :: "event \<Rightarrow> string list" where
  "run_pipelines e \<equiv> map er_pipeline (est_runs (ev_status e))"

text \<open>A write of the status of \<open>e\<close>, under the calendar \<open>c\<close>.\<close>

definition update_ok :: "event \<Rightarrow> calendar \<Rightarrow> event \<Rightarrow> bool" where
  "update_ok e c e' \<longleftrightarrow>
     ev_meta e' = ev_meta e \<and> ev_spec e' = ev_spec e \<and>
     (distinct (run_pipelines e) \<longrightarrow> distinct (run_pipelines e')) \<and>
     (est_phase (ev_status e') = EventCompleted \<longrightarrow> est_phase (ev_status e) = EventCompleted \<or> always_done c e')"

fun handler_call :: "event \<Rightarrow> calendar \<Rightarrow> cal_call \<Rightarrow> bool" where
  "handler_call e c (UpdateEventStatus ns e' a) \<longleftrightarrow> ns = ev_namespace e \<and> update_ok e c e'"
| "handler_call e c (DeleteEvent ns n a) \<longleftrightarrow> ns = ev_namespace e \<and> n = ev_object_name e"
| "handler_call e c call \<longleftrightarrow> step_call e call"

lemma step_handler_call: "step_call e call \<Longrightarrow> handler_call e c call"
  by (cases call) simp_all

definition like :: "event \<Rightarrow> event \<Rightarrow> bool" where
  "like e copy \<longleftrightarrow> ev_meta copy = ev_meta e \<and> ev_spec copy = ev_spec e \<and> deep_eq_status (ev_status e) (ev_status copy)"

lemma deep_eq_run_fields:
  "deep_eq_run a b \<Longrightarrow> er_pipeline a = er_pipeline b \<and> er_name a = er_name b \<and> er_status a = er_status b"
  unfolding deep_eq_run_def by (metis event_run.select_convs(1,3,6) event_run.surjective event_run.update_convs(7))

lemma like_runs:
  assumes "like e copy"
  shows "run_ids copy = run_ids e" and "has_completed copy p = has_completed e p"
    and "est_phase (ev_status copy) = est_phase (ev_status e)"
proof -
  have runs: "list_all2 deep_eq_run (est_runs (ev_status e)) (est_runs (ev_status copy))"
    using assms by (simp add: like_def deep_eq_status_def)
  then show "run_ids copy = run_ids e" unfolding run_ids_def
    by (induction rule: list_all2_induct) (auto dest: deep_eq_run_fields)
  from runs show "has_completed copy p = has_completed e p" unfolding has_completed_def
    by (induction rule: list_all2_induct) (auto dest: deep_eq_run_fields)
  show "est_phase (ev_status copy) = est_phase (ev_status e)"
    using assms by (simp add: like_def deep_eq_status_def)
qed

lemma run_pipelines_ids: "run_pipelines e = map fst (run_ids e)"
  by (simp add: run_ids_def)

lemma step_ok_distinct: "step_ok e e' \<Longrightarrow> distinct (run_pipelines e) \<Longrightarrow> distinct (run_pipelines e')"
proof -
  assume "step_ok e e'" and distinct: "distinct (run_pipelines e)"
  then obtain new where new: "run_ids e' = run_ids e @ new" "length new \<le> 1"
    "\<forall>(p, n)\<in>set new. p \<notin> er_pipeline ` set (est_runs (ev_status e))"
    by (auto simp: step_ok_def)
  show ?thesis
    using new distinct by (cases new) (auto simp: run_pipelines_ids run_ids_def)
qed

lemma step_update_ok:
  assumes "like e copy" and "step_ok copy copy'" and "est_phase (ev_status e) \<noteq> EventCompleted"
  shows "update_ok e c copy'"
  unfolding update_ok_def
proof (intro conjI impI)
  show "ev_meta copy' = ev_meta e" "ev_spec copy' = ev_spec e"
    using assms(1,2) by (simp_all add: like_def step_ok_def)
  show "distinct (run_pipelines copy')" if "distinct (run_pipelines e)"
    using step_ok_distinct [OF assms(2)] that like_runs(1) [OF assms(1)] by (simp add: run_pipelines_ids)
  assume "est_phase (ev_status copy') = EventCompleted"
  with assms like_runs(3) [OF assms(1)] show "est_phase (ev_status e) = EventCompleted \<or> always_done c copy'"
    by (auto simp: step_ok_def)
qed

lemma store_emits: "update_ok e c copy \<Longrightarrow> emits (handler_call e c) (store_event_status E msg e copy)"
  by (auto simp: store_event_status_def update_event_status_def)

lemma sync_pipelines_emits:
  assumes "like e copy" and "est_phase (ev_status e) \<noteq> EventCompleted"
    and "cs_pipelines (cal_spec c) = before @ map fst rest"
    and "\<forall>p\<in>set before. pl_run_policy p = RunPolicyLeaderOnly \<or> has_completed e (pl_name p)"
  shows "emits (handler_call e c) (sync_pipelines E cc e c templates indexes copy ps la rest)"
  using assms
proof (induction E cc e c templates indexes copy ps la rest arbitrary: before rule: sync_pipelines.induct)
  case (1 E cc e c templates indexes copy ps la)
  let ?copy = "set_event_phase EventCompleted copy"
  have "has_completed ?copy p = has_completed e p" for p
    using like_runs(2) [OF "1.prems"(1)] by (simp add: has_completed_def)
  moreover have "distinct (run_pipelines e) \<Longrightarrow> distinct (run_pipelines ?copy)"
    using like_runs(1) [OF "1.prems"(1)] by (simp add: run_pipelines_ids run_ids_def)
  ultimately have "update_ok e c ?copy"
    using "1.prems" by (simp add: update_ok_def like_def always_done_def)
  then show ?case by (auto simp: Let_def intro: store_emits)
next
  case (2 E cc e c templates indexes copy ps la p lo hi rest)
  have calls: "step_call copy = step_call e"
    using "2.prems"(1) like_runs(1) by (intro step_call_cong) (auto simp: like_def)
  have step: "ensures (handler_call e c) (sync_event_pipeline E cc copy c p templates ps la lo hi indexes) (result_ok copy p)"
    by (rule ensures_weaken [OF sync_event_pipeline_ok]) (auto simp: calls step_handler_call)
  have rest: "emits (handler_call e c)
      (if 0 < after then eff_ret after
       else if \<not> deep_eq_status (ev_status e) (ev_status copy')
       then store_event_status E ''failed to update event status'' e copy'
       else if \<not> finished then eff_ret 0
       else sync_pipelines E cc e c templates indexes copy' ps'
              (if pl_run_policy p \<noteq> RunPolicyLeaderOnly then pl_name p else la) rest)"
    if ok: "result_ok copy p (after, finished, copy', ps')" for after finished copy' ps'
  proof (intro emits_if emits_ret)
    have "step_ok copy copy'" using ok by (simp add: result_ok_def)
    then show "emits (handler_call e c) (store_event_status E ''failed to update event status'' e copy')"
      using "2.prems"(1,2) by (intro store_emits step_update_ok)
    assume run: "\<not> 0 < after" "\<not> \<not> deep_eq_status (ev_status e) (ev_status copy')" "\<not> \<not> finished"
    have like': "like e copy'"
      using run(2) \<open>step_ok copy copy'\<close> "2.prems"(1) by (simp add: like_def step_ok_def)
    have "pl_run_policy p = RunPolicyLeaderOnly \<or> has_completed e (pl_name p)"
      using ok run(3) like_runs(2) [OF like'] by (simp add: result_ok_def)
    then show "emits (handler_call e c) (sync_pipelines E cc e c templates indexes copy' ps'
        (if pl_run_policy p \<noteq> RunPolicyLeaderOnly then pl_name p else la) rest)"
      using "2.IH" [where before = "before @ [p]"] run like' "2.prems" by auto
  qed
  show ?case
    unfolding sync_pipelines.simps
    by (rule ensures_emits [where R = "\<lambda>_. True"], rule ensures_bind [OF step], clarify, rule emits_ensures, rule rest)
qed

lemma runs_completed_Some:
  "map_of (runs_completed rs) p = Some True \<Longrightarrow> \<exists>r\<in>set rs. er_pipeline r = p \<and> er_status r = RunCompleted"
proof -
  have "map_of (fold (\<lambda>r. gm_set (er_pipeline r) (er_status r = RunCompleted)) rs m) p = Some True \<Longrightarrow>
      map_of m p = Some True \<or> (\<exists>r\<in>set rs. er_pipeline r = p \<and> er_status r = RunCompleted)" for m
    by (induction rs arbitrary: m) (fastforce split: if_splits)+
  then show "map_of (runs_completed rs) p = Some True \<Longrightarrow>
      \<exists>r\<in>set rs. er_pipeline r = p \<and> er_status r = RunCompleted"
    unfolding runs_completed_def by fastforce
qed

definition retimed :: "event \<Rightarrow> event \<Rightarrow> bool" where
  "retimed e copy \<longleftrightarrow> copy = e \<or> (\<exists>t. copy = set_time t e)"

lemma retimed_intros [intro!]: "retimed e e" "retimed e (set_time t e)"
  by (auto simp: retimed_def)

lemma probe_phase_update_ok:
  assumes "retimed e copy"
  shows "update_ok e c (probe_phase copy c)"
proof -
  have runs: "est_runs (ev_status copy) = est_runs (ev_status e)" "est_phase (ev_status copy) = est_phase (ev_status e)"
    "ev_meta copy = ev_meta e" "ev_spec copy = ev_spec e"
    using assms by (auto simp: retimed_def)
  have "always_done c (set_event_phase EventCompleted copy)"
    if "list_all (\<lambda>p. pl_run_policy p = RunPolicyLeaderOnly \<or>
          map_of (runs_completed (est_runs (ev_status copy))) (pl_name p) = Some True) (cs_pipelines (cal_spec c))"
    using that runs_completed_Some by (fastforce simp: always_done_def has_completed_def list_all_iff)
  with runs show ?thesis
    by (auto simp: update_ok_def probe_phase_def)
qed

lemma probe_after_emits [intro!]: "emits (step_call e0) (probe_after E e tz weekdays skip as t)"
  by (induction E e tz weekdays skip as t rule: probe_after.induct)
    (auto simp: list_events_def split: option.splits)

lemma probe_time_ok:
  "ensures (step_call e) (probe_time E e tz weekdays skip) (retimed e)"
  unfolding probe_time_def
  by (auto simp: read_now_def Let_def split: option.splits intro!: ensures_bind_any ensures_ret)

lemma acquire_lease_emits: "emits (handler_call e c) (acquire_lease E e)"
proof -
  have "emits (handler_call e c) (get_or_create_lease E e n)" for n
    by (rule emits_mono [OF get_or_create_lease_emits]) (rule step_handler_call)
  then show ?thesis
    by (auto simp: acquire_lease_def challenge_leader_def delete_event_def update_lease_def find_event_def
        split: option.splits)
qed

lemma get_template_emits: "emits (step_call e) (get_template E c)"
  by (auto simp: get_template_def Let_def get_config_map_def get_template_secret_def)

lemma sync_found_event_emits: "emits (handler_call e c) (sync_found_event E cc ns e c)"
proof -
  have probed: "emits (handler_call e c)
      (let copy = probe_phase copy c in
       if \<not> deep_eq_status (ev_status e) (ev_status copy)
       then store_event_status E ''failed to update event phase in status'' e copy
       else if est_time (ev_status e) = None then eff_ret (5 * second)
       else if es_paused (ev_spec e) \<or> cs_paused (cal_spec c) \<or> est_phase (ev_status e) = EventCompleted
       then eff_ret 0
       else run_event E cc ns e c copy)"
    if copy: "retimed e copy" for copy
  proof -
    have ok: "update_ok e c (probe_phase copy c)" by (rule probe_phase_update_ok [OF copy])
    have meta: "ev_meta (probe_phase copy c) = ev_meta e" "ev_spec (probe_phase copy c) = ev_spec e"
      using ok by (simp_all add: update_ok_def)
    have "emits (handler_call e c) (run_event E cc ns e c (probe_phase copy c))"
      if "deep_eq_status (ev_status e) (ev_status (probe_phase copy c))" "est_phase (ev_status e) \<noteq> EventCompleted"
    proof -
      have "emits (handler_call e c) (sync_pipelines E cc e c templates indexes (probe_phase copy c) ps la
          (zip (cs_pipelines (cal_spec c)) (zip begins ends)))"
        if "pipeline_groups (cs_pipelines (cal_spec c)) = (begins, ends, indexes)" for begins ends indexes templates ps la
      proof (rule sync_pipelines_emits [where before = "[]"])
        show "like e (probe_phase copy c)"
          using meta \<open>deep_eq_status (ev_status e) (ev_status (probe_phase copy c))\<close> by (simp add: like_def)
        have "length begins = length (cs_pipelines (cal_spec c))" "length ends = length (cs_pipelines (cal_spec c))"
          using that by (auto simp: pipeline_groups_def)
        then show "cs_pipelines (cal_spec c) = [] @ map fst (zip (cs_pipelines (cal_spec c)) (zip begins ends))" by simp
      qed (use \<open>est_phase (ev_status e) \<noteq> EventCompleted\<close> in simp_all)
      then show ?thesis
        unfolding run_event_def
        by (auto intro!: acquire_lease_emits emits_mono [OF get_template_emits] step_handler_call split: prod.splits)
    qed
    then show ?thesis
      unfolding Let_def by (intro emits_if emits_ret store_emits ok) auto
  qed
  have probe: "ensures (handler_call e c) (probe_time E e (cs_time_zone (cal_spec c)) (cs_weekdays (cal_spec c)) (cs_skip_days (cal_spec c))) (retimed e)"
    by (rule ensures_weaken [OF probe_time_ok]) (auto simp: step_handler_call)
  show ?thesis
    unfolding sync_found_event_def
    by (rule ensures_emits [where R = "\<lambda>_. True"], rule ensures_bind [OF ensures_wrap [OF probe]])
      (rule emits_ensures, rule probed)
qed

lemma handler_calls:
  "call \<in> set (snd (sync_found_event E cc ns e c [])) \<Longrightarrow> handler_call e c call"
proof -
  obtain r t where run: "sync_found_event E cc ns e c [] = (r, t)" by (cases "sync_found_event E cc ns e c []")
  assume "call \<in> set (snd (sync_found_event E cc ns e c []))"
  with emitsD [OF sync_found_event_emits run] run show ?thesis by auto
qed

text \<open>
  C5. A pipeline run is created only with the name, and for the pipeline, of a run that the stored
  status of the event already lists: a repeated attempt creates the same object.
\<close>

theorem runs_created_under_stored_name:
  assumes "CreateRun cluster ns' u a \<in> set (snd (sync_found_event E cc ns e c []))"
  shows "ns' = ev_namespace e \<and>
    (\<exists>r\<in>set (est_runs (ev_status e)). \<exists>u0. u = claim_run e (er_pipeline r) (er_name r) u0)"
  using handler_calls [OF assms] by simp

text \<open>
  C11. The handler reports an event as completed only when every pipeline that runs always has a
  completed run in the status that it stores.
\<close>

theorem completed_only_when_done:
  assumes "UpdateEventStatus ns' e' a \<in> set (snd (sync_found_event E cc ns e c []))"
    and "est_phase (ev_status e') = EventCompleted" and "est_phase (ev_status e) \<noteq> EventCompleted"
    and "p \<in> set (cs_pipelines (cal_spec c))" and "pl_run_policy p \<noteq> RunPolicyLeaderOnly"
  shows "\<exists>r\<in>set (est_runs (ev_status e')). er_pipeline r = pl_name p \<and> er_status r = RunCompleted"
  using handler_calls [OF assms(1)] assms(2-5)
  by (auto simp: update_ok_def always_done_def has_completed_def)

text \<open>
  C23. The status keeps its shape: every write keeps the object and its spec, and leaves every
  pipeline with at most one run.
\<close>

theorem event_status_well_formed:
  assumes "UpdateEventStatus ns' e' a \<in> set (snd (sync_found_event E cc ns e c []))"
    and "distinct (map er_pipeline (est_runs (ev_status e)))"
  shows "ns' = ev_namespace e \<and> ev_meta e' = ev_meta e \<and> ev_spec e' = ev_spec e \<and>
    distinct (map er_pipeline (est_runs (ev_status e')))"
  using handler_calls [OF assms(1)] assms(2) by (simp add: update_ok_def)

section \<open>An event with one pipeline\<close>

definition one_pipeline_calendar :: calendar where
  "one_pipeline_calendar =
     empty_calendar\<lparr>cal_spec := empty_calendar_spec
       \<lparr>cs_template_ref := \<lparr>tr_name = ''templates'', tr_namespace = [], tr_kind = []\<rparr>,
        cs_pipelines := [named_pipeline ''canary'' RunPolicyAlways]\<rparr>\<rparr>"

definition started_event :: "run_status \<Rightarrow> event" where
  "started_event s =
     empty_event\<lparr>ev_meta := empty_meta\<lparr>om_name := ''app'', om_namespace := ''ns''\<rparr>,
       ev_status := \<lparr>est_phase = EventRunning, est_time = Some 0, est_leader = [],
         est_runs = [\<lparr>er_name = ''app-canary-xxxxx'', er_cluster = ''main'', er_pipeline = ''canary'', er_start = None,
           er_completion = None, er_status = s, er_results = []\<rparr>]\<rparr>\<rparr>"

definition tekton_env :: cal_env where
  "tekton_env =
     idle_env\<lparr>ce_get_config_map := (\<lambda>_ _ _. Inr [(''canary'', ''template'')]),
       ce_decode := (\<lambda>_. Inr \<lparr>dc_gvk = Some pipeline_run_gvk, dc_object = Run []\<rparr>)\<rparr>"

definition one_cluster :: cal_config where
  "one_cluster = \<lparr>cc_default_cluster = ''main'', cc_clusters = [''main''], cc_listers = [''main'']\<rparr>"

abbreviation canary_run :: unstructured where
  "canary_run \<equiv> claim_run (started_event RunPending) ''canary'' ''app-canary-xxxxx'' []"

lemma example_creates_run:
  "CreateRun ''main'' ''ns'' canary_run (Inr ())
     \<in> set (snd (sync_found_event tekton_env one_cluster ''ns'' (started_event RunPending) one_pipeline_calendar []))"
  by code_simp

lemma runs_created_under_stored_name_witness:
  "''ns'' = ev_namespace (started_event RunPending) \<and>
   (\<exists>r\<in>set (est_runs (ev_status (started_event RunPending))). \<exists>u0.
      canary_run = claim_run (started_event RunPending) (er_pipeline r) (er_name r) u0)"
  by (rule runs_created_under_stored_name [OF example_creates_run])

abbreviation completed_event :: event where
  "completed_event \<equiv> set_event_phase EventCompleted (started_event RunCompleted)"

lemma example_completes:
  "UpdateEventStatus ''ns'' completed_event (Inr ())
     \<in> set (snd (sync_found_event tekton_env one_cluster ''ns'' (started_event RunCompleted) one_pipeline_calendar []))"
  by code_simp

lemma completed_only_when_done_witness:
  "\<exists>r\<in>set (est_runs (ev_status completed_event)). er_pipeline r = ''canary'' \<and> er_status r = RunCompleted"
  using completed_only_when_done [OF example_completes, of "named_pipeline ''canary'' RunPolicyAlways"]
  by (simp add: started_event_def one_pipeline_calendar_def named_pipeline_def)

lemma event_status_well_formed_witness:
  "ev_meta completed_event = ev_meta (started_event RunCompleted) \<and>
   distinct (map er_pipeline (est_runs (ev_status completed_event)))"
  using event_status_well_formed [OF example_completes] by (simp add: started_event_def)

end
