(* ===== verification/CalendarOutcome.thy ===== *)
theory CalendarOutcome
  imports CalendarSafety
begin

text \<open>
  More of the calendar controller: the way from a pipeline run back to its event, the time of an
  event that runs after others, the parameters of the followers, cancelling, and three behaviours
  that its authors will not have meant.
\<close>

section \<open>From a pipeline run back to its event\<close>

lemma set_field_sound: "sound_metadata u \<Longrightarrow> sound_metadata (set_field v [''metadata'', g] u)"
  using set_field_metadata [of u v g] by (auto simp: sound_metadata_def)

lemma remove_sound: "sound_metadata u \<Longrightarrow> sound_metadata (remove_nested u [''metadata'', g])"
  by (auto simp: sound_metadata_def split: option.splits json.splits)

lemma set_namespace_sound: "sound_metadata u \<Longrightarrow> sound_metadata (set_namespace ns u)"
  by (simp add: set_namespace_def set_field_sound remove_sound del: remove_nested.simps)

lemma set_name_sound: "sound_metadata u \<Longrightarrow> sound_metadata (set_name n u)"
  by (simp add: set_name_def set_field_sound remove_sound del: remove_nested.simps)

lemma get_set_labels:
  assumes "sound_metadata u"
  shows "get_labels (set_labels m u) = Some m"
proof -
  obtain sub where u: "set_labels m u = gm_set ''metadata'' (JObj (gm_set ''labels'' (JObj (map (\<lambda>(k, v). (k, JStr v)) m)) sub)) u"
    using set_field_metadata [OF assms] unfolding set_labels_def by blast
  show ?thesis by (simp add: get_labels_def nested_string_map_def u)
qed

text \<open>
  C21. The labels of a run that the controller creates lead the event handler of the Tekton informer
  back to the event: whatever labels the template has, the key is the one of the event.
\<close>

theorem pipeline_run_round_trip:
  assumes "sound_metadata u"
  shows "handle_pipeline_run (RunNotice (claim_run e p n u)) = Some (event_key e)"
proof -
  let ?u = "set_name n (set_namespace (ev_namespace e) u)"
  have "sound_metadata ?u" using assms by (intro set_name_sound set_namespace_sound)
  then show ?thesis
    by (simp add: handle_pipeline_run_def claim_run_def Let_def get_set_labels event_key_def
        label_event_namespace_def label_event_name_def label_event_pipeline_def)
qed

lemma pipeline_run_round_trip_witness:
  "handle_pipeline_run (RunNotice (claim_run (started_event RunPending) ''canary'' ''app-1-canary-xxxxx''
     [(''metadata'', JObj [(''labels'', JObj [(''team'', JStr ''a'')])])])) = Some (event_key (started_event RunPending))"
  by (rule pipeline_run_round_trip) (simp add: sound_metadata_def)

section \<open>The time of an event that runs after others\<close>

lemma latest_time_bound:
  assumes "latest_time L offset tz weekdays skip t es = Ok (Some u)"
  shows "t \<le> u \<and> (\<forall>e\<in>set es. \<exists>s w. est_time (ev_status e) = Some s \<and>
    get_time_with_offset L s offset tz weekdays skip = Ok w \<and> w \<le> u)"
  using assms
proof (induction L offset tz weekdays skip t es rule: latest_time.induct)
  case (2 L offset tz weekdays skip t e es)
  then obtain s w where s: "est_time (ev_status e) = Some s" "get_time_with_offset L s offset tz weekdays skip = Ok w"
    "latest_time L offset tz weekdays skip (if t < w then w else t) es = Ok (Some u)"
    by (auto split: option.splits)
  from "2.IH" [OF s(1) this(3)] s show ?case by (auto split: if_splits)
qed simp

text \<open>
  What a listed event has to satisfy when the time \<open>u\<close> is stored.
\<close>

definition waits_for :: "time_lib \<Rightarrow> string \<Rightarrow> int_or_string \<Rightarrow> calendar_day list \<Rightarrow> string list \<Rightarrow> instant \<Rightarrow> event \<Rightarrow> bool" where
  "waits_for L offset tz weekdays skip u e \<longleftrightarrow>
     (\<exists>s w. est_time (ev_status e) = Some s \<and> get_time_with_offset L s offset tz weekdays skip = Ok w \<and> w \<le> u)"

lemma probe_after_bound:
  "holds (probe_after E e tz weekdays skip as t) (\<lambda>tr r. \<forall>u. r = Ok (Some u) \<longrightarrow> t \<le> u \<and>
     (\<forall>a\<in>set as. \<exists>events. ListEvents (ev_namespace e)
         \<lparr>sel_labels = [(''calendar'', es_calendar (ev_spec e)), (''name'', ra_name a)], sel_names = None\<rparr> (Inr events) \<in> set tr \<and>
       (\<forall>prev\<in>set events. waits_for (ce_time_lib E) (ra_time_offset a) tz weekdays skip u prev)))"
proof (induction E e tz weekdays skip as t rule: probe_after.induct)
  case (1 E e tz weekdays skip t)
  then show ?case by (auto intro: holds_ret)
next
  case (2 E e tz weekdays skip a as t)
  let ?sel = "\<lparr>sel_labels = [(''calendar'', es_calendar (ev_spec e)), (''name'', ra_name a)], sel_names = None\<rparr>"
  have waits: "waits_for (ce_time_lib E) (ra_time_offset a) tz weekdays skip u prev"
    if "latest_time (ce_time_lib E) (ra_time_offset a) tz weekdays skip t events = Ok (Some t')" "t' \<le> u"
      "prev \<in> set events" for t' u events prev
    using latest_time_bound [OF that(1)] that(2,3) unfolding waits_for_def by (meson order_trans)
  have later: "t \<le> t'" if "latest_time (ce_time_lib E) (ra_time_offset a) tz weekdays skip t events = Ok (Some t')" for t' events
    using latest_time_bound [OF that] by simp
  let ?bound = "\<lambda>as t tr r. \<forall>u. r = Ok (Some u) \<longrightarrow> t \<le> u \<and>
     (\<forall>a\<in>set as. \<exists>events. ListEvents (ev_namespace e)
         \<lparr>sel_labels = [(''calendar'', es_calendar (ev_spec e)), (''name'', ra_name a)], sel_names = None\<rparr> (Inr events) \<in> set tr \<and>
       (\<forall>prev\<in>set events. waits_for (ce_time_lib E) (ra_time_offset a) tz weekdays skip u prev))"
  have "?bound (a # as) t (ListEvents (ev_namespace e) ?sel (Inr events) # tr) r"
    if "latest_time (ce_time_lib E) (ra_time_offset a) tz weekdays skip t events = Ok (Some t')" "?bound as t' tr r"
    for events t' tr r
    using that(2) later [OF that(1)] waits [OF that(1)] by (auto intro: order_trans) (meson list.set_intros(2))+
  then have rest: "holds (probe_after E e tz weekdays skip as t')
      (\<lambda>tr r. ?bound (a # as) t (ListEvents (ev_namespace e) ?sel (Inr events) # tr) r)"
    if "latest_time (ce_time_lib E) (ra_time_offset a) tz weekdays skip t events = Ok (Some t')" for events t'
    using that by (intro holds_mono [OF "2.IH"]) blast
  show ?case
    unfolding probe_after.simps list_events_def
    by (rule holds_bind, rule holds_wrap, rule holds_perform)
      (auto simp del: list.set split: res.splits option.splits sum.splits intro!: holds_bind holds_of_res holds_ret rest)
qed

text \<open>
  When the handler gives a time to an event that has not started, that time is not before the
  time of any event it runs after, moved by the offset, and all of these have a time.
\<close>

theorem event_time_after_precedents:
  assumes "probe_time E e tz weekdays skip [] = (Ok copy, t)" and "copy \<noteq> e"
    and "not_started (est_phase (ev_status e))" and "a \<in> set (es_run_after (ev_spec e))"
  shows "\<exists>u events. est_time (ev_status copy) = Some u \<and>
    ListEvents (ev_namespace e)
      \<lparr>sel_labels = [(''calendar'', es_calendar (ev_spec e)), (''name'', ra_name a)], sel_names = None\<rparr> (Inr events) \<in> set t \<and>
    (\<forall>prev\<in>set events. waits_for (ce_time_lib E) (ra_time_offset a) tz weekdays skip u prev)"
proof -
  have "holds (probe_time E e tz weekdays skip) (\<lambda>t r. \<forall>copy. r = Ok copy \<and> copy \<noteq> e \<longrightarrow>
      (\<exists>u. est_time (ev_status copy) = Some u \<and> (\<forall>a\<in>set (run_after_of e). \<exists>events. ListEvents (ev_namespace e)
         \<lparr>sel_labels = [(''calendar'', es_calendar (ev_spec e)), (''name'', ra_name a)], sel_names = None\<rparr> (Inr events) \<in> set t \<and>
       (\<forall>prev\<in>set events. waits_for (ce_time_lib E) (ra_time_offset a) tz weekdays skip u prev))))"
    using assms(3) unfolding probe_time_def Let_def read_now_def
    by (auto intro!: holds_bind holds_observe holds_ret holds_mono [OF probe_after_bound] split: res.splits option.splits)
  from holds_run [OF this assms(1)] assms(2,4) show ?thesis by (auto simp: run_after_of_def)
qed

definition after_event :: event where
  "after_event = empty_event\<lparr>ev_spec := empty_event_spec\<lparr>es_run_after :=
     [\<lparr>ra_name = ''db'', ra_pipeline = [], ra_time_offset = ''24h''\<rparr>]\<rparr>,
     ev_meta := empty_meta\<lparr>om_creation := - day\<rparr>\<rparr>"

definition one_event_env :: "event \<Rightarrow> cal_env" where
  "one_event_env e = idle_env\<lparr>ce_list_events := (\<lambda>_ _ _. Inr [e])\<rparr>"

lemma example_probe_time:
  "fst (probe_time (one_event_env (named_event ''db-1'' ''db'' (Some 7))) after_event (IntVal 0) [] [] []) =
     Ok (set_time (day + 7) after_event)"
  by code_simp

lemma event_time_after_precedents_witness:
  "\<exists>u. est_time (ev_status (set_time (day + 7) after_event)) = Some u \<and> 7 \<le> u"
proof -
  let ?E = "one_event_env (named_event ''db-1'' ''db'' (Some 7))"
  obtain t where run: "probe_time ?E after_event (IntVal 0) [] [] [] = (Ok (set_time (day + 7) after_event), t)"
    using example_probe_time by (metis prod.collapse)
  have "\<exists>u events. est_time (ev_status (set_time (day + 7) after_event)) = Some u \<and>
      ListEvents (ev_namespace after_event)
        \<lparr>sel_labels = [(''calendar'', es_calendar (ev_spec after_event)), (''name'', ''db'')], sel_names = None\<rparr> (Inr events) \<in> set t \<and>
      (\<forall>prev\<in>set events. waits_for (ce_time_lib ?E) ''24h'' (IntVal 0) [] [] u prev)"
    using event_time_after_precedents [OF run, of "\<lparr>ra_name = ''db'', ra_pipeline = [], ra_time_offset = ''24h''\<rparr>"]
    by (simp add: after_event_def empty_event_def empty_event_status_def not_started_def)
  then show ?thesis by (auto simp: day_def hour_def second_def)
qed

section \<open>The parameters of the followers\<close>

definition followers_of :: "string \<Rightarrow> event list \<Rightarrow> event list" where
  "followers_of name es = filter (\<lambda>e. est_leader (ev_status e) = name) es"

lemma collect_followers_spec:
  assumes "collect_followers name p es m acc = Ok (Some (m', followers))"
  shows "\<exists>ts. list_all2 (\<lambda>e t. est_time (ev_status e) = Some t) (followers_of name es) ts \<and>
    list_all2 (\<lambda>(e, t) ps. follower_params p e t = Some ps) (zip (followers_of name es) ts) (drop (length acc) followers) \<and>
    take (length acc) followers = acc \<and> length acc \<le> length followers \<and>
    m' = fold (\<lambda>t m. if m = zero_time \<or> t < m then t else m) ts m"
  using assms
proof (induction name p es m acc rule: collect_followers.induct)
  case (1 name p m acc)
  then show ?case by (auto simp: followers_of_def)
next
  case (2 name p e es m acc)
  show ?case
  proof (cases "est_leader (ev_status e) = name")
    case False
    with 2 show ?thesis by (simp add: followers_of_def)
  next
    case True
    with "2.prems" obtain t ps where t: "est_time (ev_status e) = Some t" "follower_params p e t = Some ps"
      "collect_followers name p es (if m = zero_time \<or> t < m then t else m) (acc @ [ps]) = Ok (Some (m', followers))"
      by (auto split: option.splits)
    with "2.IH"(2) True obtain ts where
      ts: "list_all2 (\<lambda>e t. est_time (ev_status e) = Some t) (followers_of name es) ts"
        "list_all2 (\<lambda>(e, t) ps. follower_params p e t = Some ps) (zip (followers_of name es) ts) (drop (Suc (length acc)) followers)"
        "take (Suc (length acc)) followers = acc @ [ps]" "Suc (length acc) \<le> length followers"
        "m' = fold (\<lambda>t m. if m = zero_time \<or> t < m then t else m) ts (if m = zero_time \<or> t < m then t else m)"
      by fastforce
    have "drop (length acc) followers = ps # drop (Suc (length acc)) followers" "take (length acc) followers = acc"
      using ts(3,4) by (auto simp: take_Suc_conv_app_nth Cons_nth_drop_Suc [symmetric])
    with ts t True show ?thesis
      by (intro exI [of _ "t # ts"]) (simp add: followers_of_def)
  qed
qed

lemma fold_min_time:
  fixes ts :: "int list"
  assumes "ts \<noteq> []" and "\<forall>t\<in>set ts. zero < t"
  shows "fold (\<lambda>t m. if m = zero \<or> t < m then t else m) ts zero = Min (set ts)"
proof -
  have later: "fold (\<lambda>t m. if m = zero \<or> t < m then t else m) ts m = Min (insert m (set ts))"
    if "zero < m" "\<forall>t\<in>set ts. zero < t" for m and ts :: "int list"
    using that
  proof (induction ts arbitrary: m)
    case (Cons t ts)
    have "Min (insert (min m t) (set ts)) = Min (insert m (insert t (set ts)))"
      by (cases "set ts = {}") (auto simp: min.assoc)
    with Cons show ?case by (auto simp: min_def)
  qed simp
  obtain t ts' where "ts = t # ts'" using assms(1) by (cases ts) auto
  with later [of t ts'] assms(2) show ?thesis by simp
qed

text \<open>
  The parameters that a leader gets hold one entry per follower, and the smallest of the
  followers' times.
\<close>

theorem followers_params_complete:
  assumes "collect_followers name p es zero_time [] = Ok (Some (m, followers))"
    and "\<forall>e\<in>set es. \<forall>t. est_time (ev_status e) = Some t \<longrightarrow> zero_time < t"
    and "\<exists>e\<in>set es. est_leader (ev_status e) = name"
  shows "length followers = length (followers_of name es) \<and>
    m = Min ((\<lambda>e. the (est_time (ev_status e))) ` set (followers_of name es))"
proof -
  obtain ts where ts: "list_all2 (\<lambda>e t. est_time (ev_status e) = Some t) (followers_of name es) ts"
    "list_all2 (\<lambda>(e, t) ps. follower_params p e t = Some ps) (zip (followers_of name es) ts) followers"
    "m = fold (\<lambda>t m. if m = zero_time \<or> t < m then t else m) ts zero_time"
    using collect_followers_spec [OF assms(1)] by auto
  have eq: "ts = map (\<lambda>e. the (est_time (ev_status e))) (followers_of name es)"
    using ts(1) by (induction rule: list_all2_induct) auto
  have "ts \<noteq> []" using assms(3) by (auto simp: eq followers_of_def filter_empty_conv)
  moreover have "\<forall>t\<in>set ts. zero_time < t"
    using assms(2) ts(1) by (auto simp: list_all2_conv_all_nth in_set_conv_nth followers_of_def)
      (metis filter_is_subset nth_mem subsetD)
  ultimately have "m = Min (set ts)" using ts(3) fold_min_time by simp
  moreover have "length followers = length (followers_of name es)"
    using list_all2_lengthD [OF ts(2)] by (simp add: eq)
  ultimately show ?thesis by (simp add: eq)
qed

definition follower :: "string \<Rightarrow> instant \<Rightarrow> event" where
  "follower n t = (case named_event n n (Some t) of e \<Rightarrow> set_leader ''app-1'' e)"

lemma followers_params_complete_witness:
  "2 = length (followers_of ''app-1'' [follower ''app-1'' 9, follower ''app-2'' 5]) \<and>
   5 = Min ((\<lambda>e. the (est_time (ev_status e))) ` set (followers_of ''app-1'' [follower ''app-1'' 9, follower ''app-2'' 5]))"
proof -
  let ?es = "[follower ''app-1'' 9, follower ''app-2'' 5]"
  have run: "collect_followers ''app-1'' [] ?es zero_time [] =
      Ok (Some (5, [follower_base (follower ''app-1'' 9) 9, follower_base (follower ''app-2'' 5) 5]))"
    by (simp add: follower_def named_event_def follower_params_def zero_time_def epoch_days_def day_def hour_def second_def)
  show ?thesis
    using followers_params_complete [OF run]
    by (simp add: follower_def named_event_def zero_time_def epoch_days_def day_def hour_def second_def)
qed

section \<open>Cancelling\<close>

lemma nested_string_set: "set_nested u (JStr s) path = Inr u' \<Longrightarrow> path \<noteq> [] \<Longrightarrow> nested_string (JObj u') path = Inr (Some s)"
  using nested_field_set [of u "JStr s" path u'] by (simp add: nested_string_def)

text \<open>
  Cancelling is idempotent: a run that the controller has cancelled, once the cache shows it, is left
  alone.
\<close>

theorem cancel_idempotent:
  assumes "set_nested u (JStr ''Cancelled'') [''spec'', ''status''] = Inr u'" and "cluster \<in> set (cc_listers cc)"
    and "ce_find_run E h cluster ns n = Inr (Run u')"
  shows "cancel_pipeline_run E cc ns cluster n h = (Ok (), h @ [FindRun cluster ns n (Inr (Run u'))])"
proof -
  have status: "nested_string (JObj u') [''spec'', ''status''] = Inr (Some ''Cancelled'')"
    by (rule nested_string_set [OF assms(1)]) simp
  show ?thesis
    unfolding cancel_pipeline_run_def
    using assms(2,3)
    by (simp add: eff_bind_def eff_try_def find_run_def perform_def eff_wrap_def eff_of_res_def eff_ret_def status
        stopping_def del: nested_field.simps)
qed

lemma cancel_idempotent_witness:
  "cancel_pipeline_run
     (idle_env\<lparr>ce_find_run := (\<lambda>_ _ _ _. Inr (Run [(''spec'', JObj [(''status'', JStr ''Cancelled'')])]))\<rparr>)
     one_cluster ''ns'' ''main'' ''run'' [] =
   (Ok (), [FindRun ''main'' ''ns'' ''run'' (Inr (Run [(''spec'', JObj [(''status'', JStr ''Cancelled'')])]))])"
  using cancel_idempotent [of "[]" "[(''spec'', JObj [(''status'', JStr ''Cancelled'')])]" "''main''" one_cluster
      "idle_env\<lparr>ce_find_run := (\<lambda>_ _ _ _. Inr (Run [(''spec'', JObj [(''status'', JStr ''Cancelled'')])]))\<rparr>" "[]" "''ns''" "''run''"]
  by (simp add: one_cluster_def gm_set_def)

section \<open>Behaviours that go wrong\<close>

text \<open>
  Under the daily policy the leader compares its day with the day of every event of its group; an
  event that has not got a time yet makes the worker panic.
\<close>

theorem lock_leader_without_time_panics:
  assumes "cs_group_policy (cal_spec c) = GroupPolicyDaily" and "cs_time_zone (cal_spec c) = IntVal n"
    and "es_group (ev_spec e) \<noteq> []" and "est_leader (ev_status e) = ev_object_name e"
    and "equal_fold (es_group (ev_spec x)) (es_group (ev_spec e))" and "est_time (ev_status x) = None"
  shows "fst (lock_leader (E\<lparr>ce_get_lease := (\<lambda>_ _ _. Inr l), ce_list_events := (\<lambda>_ _ _. Inr (x # xs))\<rparr>) e c h) = Panic"
  using assms
  by (simp add: lock_leader_def eff_bind_def eff_try_def get_lease_def list_events_def perform_def eff_wrap_def
      eff_of_res_def location_of_def other_day_def)

definition daily_calendar :: calendar where
  "daily_calendar = empty_calendar\<lparr>cal_spec := empty_calendar_spec\<lparr>cs_group_policy := GroupPolicyDaily\<rparr>\<rparr>"

definition group_event :: "string \<Rightarrow> instant option \<Rightarrow> event" where
  "group_event n t = (named_event n n t)\<lparr>ev_spec := empty_event_spec\<lparr>es_calendar := ''prod'', es_group := ''EU''\<rparr>\<rparr>"

lemma lock_leader_without_time_panics_witness:
  "fst (lock_leader (idle_env\<lparr>ce_get_lease := (\<lambda>_ _ _. Inr (new_lease (group_event ''a'' (Some 0)) ''prod-eu'')),
      ce_list_events := (\<lambda>_ _ _. Inr [group_event ''b'' None])\<rparr>)
      (set_leader ''a'' (group_event ''a'' (Some 0))) daily_calendar []) = Panic"
  by (rule lock_leader_without_time_panics)
    (simp_all add: daily_calendar_def empty_calendar_def empty_calendar_spec_def group_event_def named_event_def
      empty_event_def empty_event_status_def empty_event_spec_def)

text \<open>
  The clock is read twice, once for the comparison and once for the delay. When the time is reached
  between the two, the delay is not positive, the event is not queued again, and nothing else wakes it.
\<close>

theorem delay_lost_between_two_readings:
  assumes "ce_now E h < t" and "t \<le> ce_now E (h @ [ReadNow (ce_now E h)])"
  shows "\<exists>d. fst (not_before E t e ps next_step h) = Ok (d, False, e, ps) \<and>
    event_queue_ops key (Ok d) = [ForgetItem key, ItemDone key]"
proof -
  have "sub_time t (ce_now E (h @ [ReadNow (ce_now E h)])) \<le> 0"
    using assms(2) by (simp add: sub_time_def)
  with assms(1) show ?thesis
    by (simp add: not_before_def eff_bind_def read_now_def observe_def eff_ret_def event_queue_ops_def)
qed

lemma delay_lost_between_two_readings_witness:
  "\<exists>d. fst (not_before (idle_env\<lparr>ce_now := (\<lambda>h. int (length h))\<rparr>) 1 empty_event [] (wait_step empty_event []) []) =
      Ok (d, False, empty_event, []) \<and>
    event_queue_ops ''ns/app'' (Ok d) = [ForgetItem ''ns/app'', ItemDone ''ns/app'']"
  by (rule delay_lost_between_two_readings) simp_all

text \<open>
  The lease of the events of one name and the lease of a group share one space of names: an event
  whose name is the lower case name of another event's group competes for the group's lease.
\<close>

theorem lease_names_collide:
  assumes "es_calendar (ev_spec e) = es_calendar (ev_spec f)" and "to_lower (es_calendar (ev_spec e)) = es_calendar (ev_spec e)"
    and "name_of_event f = to_lower (es_group (ev_spec e))"
  shows "group_lease_name e = event_lease_name f"
  using assms by (simp add: group_lease_name_def event_lease_name_def to_lower_def)
    (simp add: to_lower_char_def)

lemma lease_names_collide_witness:
  "group_lease_name (group_event ''a'' None) = event_lease_name (group_event ''eu'' None)"
proof (rule lease_names_collide)
  show "to_lower (es_calendar (ev_spec (group_event ''a'' None))) = es_calendar (ev_spec (group_event ''a'' None))"
    by code_simp
  show "name_of_event (group_event ''eu'' None) = to_lower (es_group (ev_spec (group_event ''a'' None)))"
    by code_simp
qed (simp add: group_event_def)

end
