(* ===== verification/GoNumbers.thy ===== *)
theory GoNumbers
  imports GoTime
begin

text \<open>
  \<open>strconv.ParseInt(s, 10, 64)\<close> and, on 64 bit platforms, \<open>strconv.Atoi\<close>: an optional sign and
  decimal digits, within the range of the type. \<open>None\<close> is the error.
\<close>

fun parse_digits :: "nat \<Rightarrow> string \<Rightarrow> nat option" where
  "parse_digits a [] = Some a"
| "parse_digits a (c # s) =
     (case digit_of c of None \<Rightarrow> None | Some d \<Rightarrow> parse_digits (10 * a + nat d) s)"

definition in_int64 :: "int \<Rightarrow> bool" where
  "in_int64 i \<longleftrightarrow> - (2 ^ 63) \<le> i \<and> i < 2 ^ 63"

definition signed_digits :: "string \<Rightarrow> int option" where
  "signed_digits s =
     (case s of
        [] \<Rightarrow> None
      | c # r \<Rightarrow>
          if c = CHR ''-'' then (if r = [] then None else map_option (\<lambda>n. - int n) (parse_digits 0 r))
          else if c = CHR ''+'' then (if r = [] then None else map_option int (parse_digits 0 r))
          else map_option int (parse_digits 0 s))"

definition parse_int64 :: "string \<Rightarrow> int option" where
  "parse_int64 s =
     (case signed_digits s of None \<Rightarrow> None | Some i \<Rightarrow> if in_int64 i then Some i else None)"

lemma parse_int64_range: "parse_int64 s = Some i \<Longrightarrow> in_int64 i"
  by (auto simp: parse_int64_def split: option.splits if_splits)

lemma parse_digits_append:
  "parse_digits a (s @ t) = (case parse_digits a s of None \<Rightarrow> None | Some b \<Rightarrow> parse_digits b t)"
  by (induction s arbitrary: a) (auto split: option.splits)

lemma digit_of_char: "n < 10 \<Longrightarrow> digit_of (char_of (48 + n)) = Some (int n)"
  by (simp add: digit_of_def)

lemma parse_nat_digits: "parse_digits 0 (nat_digits n) = Some n"
proof (induction n rule: nat_digits.induct)
  case (1 n)
  show ?case
  proof (cases "n < 10")
    case True
    then show ?thesis by (subst nat_digits.simps) (simp add: digit_of_char)
  next
    case False
    then show ?thesis
      using 1 digit_of_char [of "n mod 10"] by (subst nat_digits.simps) (simp add: parse_digits_append)
  qed
qed

lemma nat_digits_nonempty [simp]: "nat_digits n \<noteq> []"
  by (subst nat_digits.simps) simp

lemma hd_nat_digits: "\<exists>d < 10. hd (nat_digits n) = char_of (48 + d) \<and> (0 < n \<longrightarrow> 0 < (d::nat))"
proof (induction n rule: nat_digits.induct)
  case (1 n)
  show ?case
  proof (cases "n < 10")
    case True
    then show ?thesis by (subst nat_digits.simps) auto
  next
    case False
    then have "0 < n div 10" by simp
    with 1 False show ?thesis by (subst nat_digits.simps) auto
  qed
qed

lemma signed_int_string: "signed_digits (int_string i) = Some i"
proof (cases "i < 0")
  case True
  then show ?thesis by (simp add: signed_digits_def int_string_def parse_nat_digits)
next
  case False
  obtain c r where digits: "nat_digits (nat i) = c # r" by (metis nat_digits_nonempty list.exhaust)
  then obtain d where "d < (10::nat)" "c = char_of (48 + d)"
    using hd_nat_digits [of "nat i"] by auto
  then have "c \<noteq> CHR ''-'' \<and> c \<noteq> CHR ''+''" by (auto dest!: arg_cong [of _ _ "of_char :: char \<Rightarrow> nat"])
  with False digits parse_nat_digits [of "nat i"] show ?thesis by (simp add: signed_digits_def int_string_def)
qed

lemma parse_int_string: "parse_int64 (int_string i) = (if in_int64 i then Some i else None)"
  by (simp add: parse_int64_def signed_int_string)

end
