(* ===== verification/Strvals.thy ===== *)
theory Strvals
  imports GoNumbers Unstructured
begin

text \<open>
  The parser of set lines (src/pkg/util/strvals/parser.go): \<open>a.b[0]=x,c={1,2}\<close> is read into a tree
  of objects and lists, which is updated in place. The scanner is the rest of the line. Objects and
  lists are references in Go: where a step fails after it has written into a value that is shared
  with the tree, the tree returned beside the error shows the write. A run-time panic below
  \<open>key\<close> becomes an error there. Lines are UTF-8; every character the parser looks for is ASCII, so
  bytes are as good as runes.
\<close>

datatype parse_error = EOF | NotList | Failed string

type_synonym value_reader = "string \<Rightarrow> json \<times> parse_error option"

section \<open>Scanning\<close>

text \<open>
  \<open>runesUntil\<close>: the characters read, the stop character (\<open>None\<close> at the end), the rest. A backslash
  takes the next character as it is.
\<close>

abbreviation backslash :: char where
  "backslash \<equiv> CHR 0x5C"

fun runes_until :: "string \<Rightarrow> string \<Rightarrow> string \<times> char option \<times> string" where
  "runes_until stop [] = ([], None, [])"
| "runes_until stop [c] =
     (if c \<in> set stop then ([], Some c, []) else if c = backslash then ([], None, []) else ([c], None, []))"
| "runes_until stop (c # n # s) =
     (if c \<in> set stop then ([], Some c, n # s)
      else if c = backslash
      then (case runes_until stop s of (v, last_rune, rest) \<Rightarrow> (n # v, last_rune, rest))
      else (case runes_until stop (n # s) of (v, last_rune, rest) \<Rightarrow> (c # v, last_rune, rest)))"

definition typed_val :: "string \<Rightarrow> bool \<Rightarrow> json" where
  "typed_val v st =
     (if st then JStr v
      else if equal_fold v ''true'' then JBool True
      else if equal_fold v ''false'' then JBool False
      else if equal_fold v ''null'' then JNull
      else if equal_fold v ''0'' then JNumber ''0''
      else if v \<noteq> [] \<and> hd v \<noteq> CHR ''0''
      then (case parse_int64 v of Some i \<Rightarrow> JNumber (int_string i) | None \<Rightarrow> JStr v)
      else JStr v)"

definition typed_reader :: "bool \<Rightarrow> value_reader" where
  "typed_reader st rs = (typed_val rs st, None)"

text \<open>The reader of \<open>ParseFile\<close> and \<open>ParseIntoFile\<close> is the caller's.\<close>

function val_items :: "value_reader \<Rightarrow> json list \<Rightarrow> string \<Rightarrow> json list \<times> parse_error option \<times> string" where
  "val_items R xs s =
     (case runes_until '',}'' s of
        (rs, None, rest) \<Rightarrow> (xs, Some (Failed ''list must terminate with '}' ''), rest)
      | (rs, Some c, rest) \<Rightarrow>
          if c = CHR ''}''
          then (case R rs of (v, e) \<Rightarrow>
            (xs @ [v], e, case rest of [] \<Rightarrow> [] | r # rest' \<Rightarrow> if r = CHR '','' then rest' else rest))
          else (case R rs of
              (v, Some e) \<Rightarrow> (xs, Some e, rest)
            | (v, None) \<Rightarrow> val_items R (xs @ [v]) rest))"
  by pat_completeness auto

lemma runes_until_rest:
  "runes_until stop s = (v, Some c, rest) \<Longrightarrow> length rest < length s \<and> c \<in> set stop"
proof (induction stop s arbitrary: v rule: runes_until.induct)
  case (3 stop c n s)
  then show ?case by (fastforce split: if_splits prod.splits)
qed (auto split: if_splits)

termination val_items
  by (relation "measure (\<lambda>(_, _, s). length s)") (auto dest: runes_until_rest [OF sym])

definition val_list :: "value_reader \<Rightarrow> string \<Rightarrow> json list \<times> parse_error option \<times> string" where
  "val_list R s =
     (case s of
        [] \<Rightarrow> ([], Some EOF, [])
      | r # rest \<Rightarrow> if r \<noteq> CHR ''{'' then ([], Some NotList, s) else val_items R [] rest)"

definition key_index :: "string \<Rightarrow> int option \<times> string" where
  "key_index s =
     (case runes_until '']'' s of
        (v, None, rest) \<Rightarrow> (None, rest)
      | (v, Some _, rest) \<Rightarrow> (parse_int64 v, rest))"

section \<open>Writing into the tree\<close>

definition set_key :: "string \<Rightarrow> json \<Rightarrow> json gomap \<Rightarrow> json gomap" where
  "set_key k v data = (if k = [] then data else gm_set k v data)"

text \<open>
  An object or a list that was found in the map and written in place stays in the map, also under
  the empty key, which \<open>set\<close> ignores; of a list that was copied only the old part is shared.
\<close>

definition put_map :: "string \<Rightarrow> json gomap \<Rightarrow> json gomap \<Rightarrow> json gomap" where
  "put_map k m data = (if k \<noteq> [] \<or> gm_has data k then gm_set k (JObj m) data else data)"

definition put_list :: "string \<Rightarrow> json list \<Rightarrow> json list \<Rightarrow> json gomap \<Rightarrow> json gomap" where
  "put_list k old new data =
     (if k \<noteq> [] then gm_set k (JArr new) data
      else if gm_has data k then gm_set k (JArr (take (length old) new)) data else data)"

text \<open>
  The outcome of \<open>listItem\<close>: the list it returns with an error, the nil list and the error of a
  recovered \<open>setIndex\<close>, or a panic that the caller recovers. \<open>limit\<close> is the length of the longest
  slice that the run-time can make.
\<close>

datatype item_result =
    Items "json list" "parse_error option" string
  | NilItems string
  | ItemPanic

definition set_index :: "nat \<Rightarrow> json list \<Rightarrow> int \<Rightarrow> json \<Rightarrow> string \<Rightarrow> item_result" where
  "set_index limit xs i v rest =
     (if i < 0 then Items xs (Some (Failed ''negative index not allowed'')) rest
      else if nat i < length xs then Items (xs[nat i := v]) None rest
      else if limit < nat i + 1 then NilItems rest
      else Items (xs @ replicate (nat i - length xs) JNull @ [v]) None rest)"

text \<open>The type assertions of \<open>key\<close> and \<open>listItem\<close>; \<open>None\<close> is their panic.\<close>

fun target_list :: "json option \<Rightarrow> json list option" where
  "target_list None = Some []"
| "target_list (Some (JArr xs)) = Some xs"
| "target_list (Some _) = None"

fun target_map :: "json option \<Rightarrow> json gomap option" where
  "target_map None = Some []"
| "target_map (Some (JObj m)) = Some m"
| "target_map (Some _) = None"

definition nested_list :: "json list \<Rightarrow> int \<Rightarrow> json list option" where
  "nested_list xs i =
     (if nat i < length xs \<and> xs ! nat i \<noteq> JNull then target_list (Some (xs ! nat i)) else Some [])"

definition nested_map :: "json list \<Rightarrow> int \<Rightarrow> json gomap" where
  "nested_map xs i = (if nat i < length xs then (case xs ! nat i of JObj m \<Rightarrow> m | _ \<Rightarrow> []) else [])"

text \<open>What a failed step leaves in the list that is kept.\<close>

definition keep_list :: "json list \<Rightarrow> int \<Rightarrow> json list \<Rightarrow> json list" where
  "keep_list xs i ys = (if nat i < length xs \<and> xs ! nat i \<noteq> JNull then xs[nat i := JArr ys] else xs)"

definition keep_map :: "json list \<Rightarrow> int \<Rightarrow> json gomap \<Rightarrow> json list" where
  "keep_map xs i m = (if nat i < length xs then xs[nat i := JObj m] else xs)"

section \<open>The parser\<close>

text \<open>The value after \<open>=\<close>, for a key and for a list item.\<close>

definition assign_key ::
  "value_reader \<Rightarrow> json gomap \<Rightarrow> string \<Rightarrow> string \<Rightarrow> parse_error option \<times> string \<times> json gomap" where
  "assign_key R data k s =
     (case val_list R s of
        (vl, None, rest) \<Rightarrow> (None, rest, set_key k (JArr vl) data)
      | (vl, Some EOF, rest) \<Rightarrow> (Some EOF, rest, set_key k (JStr []) data)
      | (vl, Some NotList, rest) \<Rightarrow>
          (case runes_until '','' rest of (rs, _, rest) \<Rightarrow>
             (case R rs of (v, e) \<Rightarrow> (e, rest, set_key k v data)))
      | (vl, Some e, rest) \<Rightarrow> (Some e, rest, data))"

definition assign_item :: "value_reader \<Rightarrow> nat \<Rightarrow> json list \<Rightarrow> int \<Rightarrow> string \<Rightarrow> item_result" where
  "assign_item R limit xs i s =
     (case val_list R s of
        (vl, None, rest) \<Rightarrow> set_index limit xs i (JArr vl) rest
      | (vl, Some EOF, rest) \<Rightarrow> set_index limit xs i (JStr []) rest
      | (vl, Some NotList, rest) \<Rightarrow>
          (case runes_until '','' rest of (rs, _, rest) \<Rightarrow>
             (case R rs of
                (v, None) \<Rightarrow> set_index limit xs i v rest
              | (v, Some e) \<Rightarrow> Items xs (Some e) rest))
      | (vl, Some e, rest) \<Rightarrow> Items xs (Some e) rest)"

function (sequential)
  parse_key :: "value_reader \<Rightarrow> nat \<Rightarrow> json gomap \<Rightarrow> string \<Rightarrow> parse_error option \<times> string \<times> json gomap" and
  list_item :: "value_reader \<Rightarrow> nat \<Rightarrow> json list \<Rightarrow> int \<Rightarrow> string \<Rightarrow> item_result" where
  "parse_key R limit data s =
     (case runes_until ''=[,.'' s of
        (k, None, rest) \<Rightarrow> (Some (if k = [] then EOF else Failed ''key has no value''), rest, data)
      | (k, Some c, rest) \<Rightarrow>
          if c = CHR ''['' then
            (case key_index rest of
               (None, rest) \<Rightarrow> (Some (Failed ''error parsing index''), rest, data)
             | (Some i, rest) \<Rightarrow>
                 (case target_list (map_of data k) of
                    None \<Rightarrow> (Some (Failed ''unable to parse key''), rest, data)
                  | Some xs \<Rightarrow>
                      (case list_item R limit xs i rest of
                         Items xs' e rest \<Rightarrow> (e, rest, put_list k xs xs' data)
                       | NilItems rest \<Rightarrow>
                           (Some (Failed ''error processing index''), rest, set_key k (JArr []) data)
                       | ItemPanic \<Rightarrow> (Some (Failed ''unable to parse key''), rest, data))))
          else if c = CHR ''='' then assign_key R data k rest
          else if c = CHR '','' then (Some (Failed ''key has no value''), rest, set_key k (JStr []) data)
          else
            (case target_map (map_of data k) of
               None \<Rightarrow> (Some (Failed ''unable to parse key''), rest, data)
             | Some m \<Rightarrow>
                 (case parse_key R limit m rest of (e, rest, m') \<Rightarrow>
                    if m' = [] then (Some (Failed ''key map has no value''), rest, data)
                    else (e, rest, put_map k m' data))))"
| "list_item R limit xs i s =
     (if i < 0 then Items xs (Some (Failed ''negative index not allowed'')) s
      else case runes_until ''[.='' s of (k, stopped, rest) \<Rightarrow>
        if k \<noteq> [] then Items xs (Some (Failed ''unexpected data at end of array index'')) rest
        else (case stopped of
            None \<Rightarrow> Items xs (Some EOF) rest
          | Some c \<Rightarrow>
              if c = CHR ''='' then assign_item R limit xs i rest
              else if c = CHR ''['' then
                (case key_index rest of
                   (None, rest) \<Rightarrow> Items xs (Some (Failed ''error parsing index'')) rest
                 | (Some next, rest) \<Rightarrow>
                     (case nested_list xs i of
                        None \<Rightarrow> ItemPanic
                      | Some ys \<Rightarrow>
                          (case list_item R limit ys next rest of
                             Items ys' None rest \<Rightarrow> set_index limit xs i (JArr ys') rest
                           | Items ys' (Some e) rest \<Rightarrow> Items (keep_list xs i ys') (Some e) rest
                           | NilItems rest \<Rightarrow> Items xs (Some (Failed ''error processing index'')) rest
                           | ItemPanic \<Rightarrow> ItemPanic)))
              else
                (case parse_key R limit (nested_map xs i) rest of
                   (None, rest, m) \<Rightarrow> set_index limit xs i (JObj m) rest
                 | (Some e, rest, m) \<Rightarrow> Items (keep_map xs i m) (Some e) rest)))"
  by pat_completeness auto

lemma key_index_rest: "key_index s = (Some i, rest) \<Longrightarrow> length rest < length s"
  by (auto simp: key_index_def dest: runes_until_rest split: prod.splits option.splits)

termination parse_key
  by (relation "measure (\<lambda>x. case x of Inl (_, _, _, s) \<Rightarrow> length s | Inr (_, _, _, _, s) \<Rightarrow> length s)")
    (auto dest!: key_index_rest [OF sym] runes_until_rest [OF sym])

declare val_items.simps [simp del] parse_key.simps [simp del] list_item.simps [simp del]

text \<open>
  A step that ends without an error has read something, so the loop of \<open>parse\<close> ends.
\<close>

lemma runes_until_le: "runes_until stop s = (v, c, rest) \<Longrightarrow> length rest \<le> length s"
  by (induction stop s arbitrary: v rule: runes_until.induct)
    (fastforce split: if_splits prod.splits)+

lemma val_items_le: "val_items R xs s = (ys, e, rest) \<Longrightarrow> length rest \<le> length s"
proof (induction R xs s rule: val_items.induct)
  case (1 R xs s)
  obtain rs c r where run: "runes_until '',}'' s = (rs, c, r)" by (metis prod_cases3)
  note less = runes_until_le [OF run]
  obtain v f where R: "R rs = (v, f)" by fastforce
  show ?case
  proof (cases "c = Some (CHR '','') \<and> f = None")
    case True
    with run R 1(2) have "val_items R (xs @ [v]) r = (ys, e, rest)" by (simp add: val_items.simps [of R xs s])
    with 1(1) [OF run [symmetric] refl _ _ R [symmetric]] True less show ?thesis by simp
  next
    case False
    moreover have "d \<in> set '',}''" if "c = Some d" for d using runes_until_rest run that by blast
    ultimately show ?thesis
      using run R 1(2) less by (auto simp: val_items.simps [of R xs s] split: option.splits list.splits if_splits)
  qed
qed

lemma val_list_le: "val_list R s = (vl, e, rest) \<Longrightarrow> length rest \<le> length s"
  by (auto simp: val_list_def dest: val_items_le split: list.splits if_splits)

lemma assign_key_le: "assign_key R data k s = (e, rest, data') \<Longrightarrow> length rest \<le> length s"
  by (auto simp: assign_key_def dest!: val_list_le runes_until_le
      split: prod.splits option.splits parse_error.splits)

text \<open>The rest that a list item leaves.\<close>

fun rest_of :: "item_result \<Rightarrow> string option" where
  "rest_of (Items xs e rest) = Some rest"
| "rest_of (NilItems rest) = Some rest"
| "rest_of ItemPanic = None"

lemma rest_of_set_index [simp]: "rest_of (set_index limit xs i v rest) = Some rest"
  by (simp add: set_index_def)

lemma assign_item_le: "rest_of (assign_item R limit xs i s) = Some rest \<Longrightarrow> length rest \<le> length s"
  by (auto simp: assign_item_def dest!: val_list_le runes_until_le
      split: prod.splits option.splits parse_error.splits)

lemma key_index_le: "key_index s = (i, rest) \<Longrightarrow> length rest \<le> length s"
  by (auto simp: key_index_def dest: runes_until_le split: prod.splits option.splits)

section \<open>Invariants of the parser\<close>

text \<open>
  A pair of properties, of \<open>key\<close> and of \<open>listItem\<close>, that every way in which a step ends establishes:
  it holds of every run.
\<close>

locale parser_invariant =
  fixes R :: value_reader and limit :: nat
    and P :: "json gomap \<Rightarrow> string \<Rightarrow> parse_error option \<Rightarrow> string \<Rightarrow> json gomap \<Rightarrow> bool"
    and Q :: "json list \<Rightarrow> int \<Rightarrow> string \<Rightarrow> item_result \<Rightarrow> bool"
  assumes stop: "\<And>data s e rest. length rest \<le> length s \<Longrightarrow> P data s (Some e) rest data"
    and no_value: "\<And>data s e k rest. length rest \<le> length s \<Longrightarrow> P data s (Some e) rest (set_key k (JStr []) data)"
    and nil_list: "\<And>data s e k xs i r rest. target_list (map_of data k) = Some xs \<Longrightarrow> length r < length s \<Longrightarrow>
      Q xs i r (NilItems rest) \<Longrightarrow> P data s (Some e) rest (set_key k (JArr []) data)"
    and key: "\<And>data s e k r rest data'. assign_key R data k r = (e, rest, data') \<Longrightarrow> length r < length s \<Longrightarrow>
      P data s e rest data'"
    and items: "\<And>data s e k xs i r xs' rest. target_list (map_of data k) = Some xs \<Longrightarrow> length r < length s \<Longrightarrow>
      Q xs i r (Items xs' e rest) \<Longrightarrow> P data s e rest (put_list k xs xs' data)"
    and inner: "\<And>data s e k m r m' rest. target_map (map_of data k) = Some m \<Longrightarrow> length r < length s \<Longrightarrow>
      P m r e rest m' \<Longrightarrow> m' \<noteq> [] \<Longrightarrow> P data s e rest (put_map k m' data)"
    and dropped: "\<And>data s e e' k m r rest. target_map (map_of data k) = Some m \<Longrightarrow> length r < length s \<Longrightarrow>
      P m r e rest [] \<Longrightarrow> P data s (Some e') rest data"
    and item_stop: "\<And>xs i s e rest. length rest \<le> length s \<Longrightarrow> Q xs i s (Items xs (Some e) rest)"
    and panic: "\<And>xs i s. Q xs i s ItemPanic"
    and item: "\<And>xs i s r. 0 \<le> i \<Longrightarrow> length r < length s \<Longrightarrow> Q xs i s (assign_item R limit xs i r)"
    and nested: "\<And>xs i s ys j r ys' rest. 0 \<le> i \<Longrightarrow> nested_list xs i = Some ys \<Longrightarrow> length r < length s \<Longrightarrow>
      Q ys j r (Items ys' None rest) \<Longrightarrow> Q xs i s (set_index limit xs i (JArr ys') rest)"
    and nested_stop: "\<And>xs i s ys j r ys' e rest. 0 \<le> i \<Longrightarrow> nested_list xs i = Some ys \<Longrightarrow> length r < length s \<Longrightarrow>
      Q ys j r (Items ys' (Some e) rest) \<Longrightarrow> Q xs i s (Items (keep_list xs i ys') (Some e) rest)"
    and nested_nil: "\<And>xs i s ys j r e rest. 0 \<le> i \<Longrightarrow> nested_list xs i = Some ys \<Longrightarrow> length r < length s \<Longrightarrow>
      Q ys j r (NilItems rest) \<Longrightarrow> Q xs i s (Items xs (Some e) rest)"
    and item_map: "\<And>xs i s r rest m. 0 \<le> i \<Longrightarrow> length r < length s \<Longrightarrow> P (nested_map xs i) r None rest m \<Longrightarrow>
      Q xs i s (set_index limit xs i (JObj m) rest)"
    and item_map_stop: "\<And>xs i s r e rest m. 0 \<le> i \<Longrightarrow> length r < length s \<Longrightarrow> P (nested_map xs i) r (Some e) rest m \<Longrightarrow>
      Q xs i s (Items (keep_map xs i m) (Some e) rest)"
begin

lemma index_step:
  assumes run: "runes_until ''=[,.'' s = (k, Some (CHR ''[''), r)"
    and Q: "\<And>xs i r. length r < length s \<Longrightarrow> Q xs i r (list_item R limit xs i r)"
    and result: "parse_key R limit data s = (e, rest, data')"
  shows "P data s e rest data'"
proof -
  obtain i r1 where i: "key_index r = (i, r1)" by fastforce
  have r1: "length r1 < length s" using runes_until_rest [OF run] key_index_le [OF i] by simp
  show ?thesis
  proof (cases "i = None \<or> target_list (map_of data k) = None")
    case True
    with run i r1 stop result show ?thesis by (auto simp: parse_key.simps [of R limit data s] split: option.splits)
  next
    case False
    then obtain j xs where j: "i = Some j" and xs: "target_list (map_of data k) = Some xs" by auto
    from Q [OF r1, of xs j] show ?thesis
      using run i j xs r1 result stop [of r1] items [OF xs r1] nil_list [OF xs r1]
      by (cases "list_item R limit xs j r1") (auto simp: parse_key.simps [of R limit data s])
  qed
qed

lemma key_step:
  assumes P: "\<And>data r e rest data'. length r < length s \<Longrightarrow> parse_key R limit data r = (e, rest, data') \<Longrightarrow>
      P data r e rest data'"
    and Q: "\<And>xs i r. length r < length s \<Longrightarrow> Q xs i r (list_item R limit xs i r)"
    and result: "parse_key R limit data s = (e, rest, data')"
  shows "P data s e rest data'"
proof -
  obtain k c r where run: "runes_until ''=[,.'' s = (k, c, r)" by (metis prod_cases3)
  note r = runes_until_le [OF run]
  consider (ended) "c = None" | (index) "c = Some (CHR ''['')" | (val) "c = Some (CHR ''='')"
    | (comma) "c = Some (CHR '','')" | (dot) d where "c = Some d" "d \<notin> set ''[=,''" by (cases c) auto
  then show ?thesis
  proof cases
    case val
    with run have "length r < length s" by (simp add: runes_until_rest)
    with val run key result show ?thesis by (auto simp: parse_key.simps [of R limit data s])
  next
    case (dot d)
    show ?thesis
    proof (cases "target_map (map_of data k)")
      case None
      with run dot stop r result show ?thesis by (auto simp: parse_key.simps [of R limit data s])
    next
      case m: (Some m)
      from run dot have rs: "length r < length s" by (simp add: runes_until_rest)
      obtain e1 rest1 m1 where sub: "parse_key R limit m r = (e1, rest1, m1)" by (metis prod_cases3)
      with run dot m sub result inner [OF m rs P [OF rs sub]] dropped [OF m rs] P [OF rs sub] show ?thesis
        by (auto simp: parse_key.simps [of R limit data s] split: if_splits)
    qed
  qed (use run r stop no_value index_step [OF _ Q result] result in
      \<open>auto simp: parse_key.simps [of R limit data s]\<close>)
qed

lemma nested_step:
  assumes run: "runes_until ''[.='' s = ([], Some (CHR ''[''), r)" and i: "0 \<le> i"
    and Q: "\<And>xs i r. length r < length s \<Longrightarrow> Q xs i r (list_item R limit xs i r)"
  shows "Q xs i s (list_item R limit xs i s)"
proof -
  obtain j r1 where j: "key_index r = (j, r1)" by fastforce
  have r1: "length r1 < length s" using runes_until_rest [OF run] key_index_le [OF j] by simp
  show ?thesis
  proof (cases "j = None \<or> nested_list xs i = None")
    case True
    with run i j item_stop panic r1 show ?thesis
      by (auto simp: list_item.simps [of R limit xs i s] split: option.splits)
  next
    case False
    then obtain j' ys where j': "j = Some j'" and ys: "nested_list xs i = Some ys" by auto
    note rules = nested [OF i ys r1] nested_stop [OF i ys r1] nested_nil [OF i ys r1]
    from Q [OF r1, of ys j'] show ?thesis
      using run i j j' ys panic rules
      by (cases "list_item R limit ys j' r1")
        (auto simp: list_item.simps [of R limit xs i s] split: option.split)
  qed
qed

lemma item_step:
  assumes P: "\<And>data r e rest data'. length r < length s \<Longrightarrow> parse_key R limit data r = (e, rest, data') \<Longrightarrow>
      P data r e rest data'"
    and Q: "\<And>xs i r. length r < length s \<Longrightarrow> Q xs i r (list_item R limit xs i r)"
  shows "Q xs i s (list_item R limit xs i s)"
proof (cases "i < 0")
  case True
  then show ?thesis using item_stop by (simp add: list_item.simps [of R limit xs i s])
next
  case False
  then have i: "0 \<le> i" by simp
  obtain k c r where run: "runes_until ''[.='' s = (k, c, r)" by (metis prod_cases3)
  consider (stop) "k \<noteq> [] \<or> c = None" | (index) "k = []" "c = Some (CHR ''['')" | (val) "k = []" "c = Some (CHR ''='')"
    | (dot) d where "k = []" "c = Some d" "d \<notin> set ''[=''" by (cases c) auto
  then show ?thesis
  proof cases
    case stop
    with run i item_stop runes_until_le [OF run] show ?thesis by (auto simp: list_item.simps [of R limit xs i s])
  next
    case index
    with run show ?thesis using nested_step [OF _ i Q] by simp
  next
    case val
    with run have "length r < length s" by (simp add: runes_until_rest)
    with run i val item [OF i] show ?thesis by (simp add: list_item.simps [of R limit xs i s])
  next
    case (dot d)
    with run have rs: "length r < length s" by (simp add: runes_until_rest)
    obtain e rest m where sub: "parse_key R limit (nested_map xs i) r = (e, rest, m)" by (metis prod_cases3)
    with run i dot P [OF rs sub] item_map [OF i rs] item_map_stop [OF i rs] show ?thesis
      by (auto simp: list_item.simps [of R limit xs i s] split: option.split)
  qed
qed

lemma holds_all:
  "(\<forall>data e rest data'. parse_key R limit data s = (e, rest, data') \<longrightarrow> P data s e rest data') \<and>
   (\<forall>xs i. Q xs i s (list_item R limit xs i s))"
proof (induction s rule: length_induct)
  case (1 s)
  have P: "P data r e rest data'" if "length r < length s" "parse_key R limit data r = (e, rest, data')"
    for data r e rest data'
    using conjunct1 [OF mp [OF spec [OF 1] that(1)], rule_format, OF that(2)] .
  have Q: "Q xs i r (list_item R limit xs i r)" if "length r < length s" for xs i r
    using conjunct2 [OF mp [OF spec [OF 1] that], rule_format] .
  show ?case
    by (intro conjI allI impI key_step [OF P Q] item_step [OF P Q])
qed

lemma key_holds: "parse_key R limit data s = (e, rest, data') \<Longrightarrow> P data s e rest data'"
  by (rule conjunct1 [OF holds_all, rule_format])

lemma item_holds: "Q xs i s (list_item R limit xs i s)"
  by (rule conjunct2 [OF holds_all, rule_format])

end

text \<open>A step never gives back more than it was given, and without an error it has read something.\<close>

interpretation rest: parser_invariant R limit
    "\<lambda>data s e rest data'. length rest \<le> length s \<and> (e = None \<longrightarrow> length rest < length s)"
    "\<lambda>xs i s x. \<forall>rest. rest_of x = Some rest \<longrightarrow> length rest \<le> length s"
  for R limit
  by unfold_locales (force dest: assign_key_le assign_item_le)+

lemmas parse_key_le = rest.key_holds

function parse :: "value_reader \<Rightarrow> nat \<Rightarrow> json gomap \<Rightarrow> string \<Rightarrow> parse_error option \<times> json gomap" where
  "parse R limit data s =
     (case parse_key R limit data s of
        (None, rest, data) \<Rightarrow> parse R limit data rest
      | (Some EOF, _, data) \<Rightarrow> (None, data)
      | (Some e, _, data) \<Rightarrow> (Some e, data))"
  by pat_completeness auto

termination
  by (relation "measure (\<lambda>(_, _, _, s). length s)") (auto dest: parse_key_le [OF sym])

declare parse.simps [simp del]

text \<open>The entry points; \<open>ParseInto\<close> and its siblings write into the map of the caller.\<close>

definition strvals_parse :: "nat \<Rightarrow> string \<Rightarrow> parse_error option \<times> json gomap" where
  "strvals_parse limit s = parse (typed_reader False) limit [] s"

definition strvals_parse_string :: "nat \<Rightarrow> string \<Rightarrow> parse_error option \<times> json gomap" where
  "strvals_parse_string limit s = parse (typed_reader True) limit [] s"

definition parse_into :: "nat \<Rightarrow> string \<Rightarrow> json gomap \<Rightarrow> parse_error option \<times> json gomap" where
  "parse_into limit s dest = parse (typed_reader False) limit dest s"

definition parse_into_string :: "nat \<Rightarrow> string \<Rightarrow> json gomap \<Rightarrow> parse_error option \<times> json gomap" where
  "parse_into_string limit s dest = parse (typed_reader True) limit dest s"

definition parse_file :: "value_reader \<Rightarrow> nat \<Rightarrow> string \<Rightarrow> parse_error option \<times> json gomap" where
  "parse_file R limit s = parse R limit [] s"

definition parse_into_file :: "value_reader \<Rightarrow> nat \<Rightarrow> string \<Rightarrow> json gomap \<Rightarrow> parse_error option \<times> json gomap" where
  "parse_into_file R limit s dest = parse R limit dest s"

end
