(* ===== verification/Values.thy ===== *)
theory Values
  imports Strvals
begin

text \<open>
  The values of a template (src/pkg/util/values/values.go): environment variables, value files,
  config maps, secrets and literal values, merged in this order into one tree. The environment, the
  files and the API server are arguments. \<open>klog.Fatalf\<close> ends the process.
\<close>

section \<open>Merging\<close>

text \<open>The value that a key of the second map gets, given what the output holds for it.\<close>

function merge_maps :: "json gomap \<Rightarrow> json gomap \<Rightarrow> json gomap" where
  "merge_maps a [] = a"
| "merge_maps a ((k, v) # b) =
     merge_maps
       (gm_set k
         (case v of
            JObj m \<Rightarrow> (case map_of a k of Some (JObj old) \<Rightarrow> JObj (merge_maps old m) | _ \<Rightarrow> v)
          | _ \<Rightarrow> v) a) b"
  by pat_completeness auto

termination
  by (relation "measure (\<lambda>(_, b). size_list (size_prod (\<lambda>_. 0) size) b)") auto

definition merged :: "json option \<Rightarrow> json \<Rightarrow> json" where
  "merged old v =
     (case v of JObj m \<Rightarrow> (case old of Some (JObj o') \<Rightarrow> JObj (merge_maps o' m) | _ \<Rightarrow> v) | _ \<Rightarrow> v)"

declare merge_maps.simps [simp del]

lemma merge_maps_Nil [simp]: "merge_maps a [] = a"
  by (simp add: merge_maps.simps)

lemma merged_simps [simp]:
  "merged None v = v" "merged (Some (JObj old)) (JObj m) = JObj (merge_maps old m)"
  by (simp_all add: merged_def split: json.split)

lemma merge_maps_Cons: "merge_maps a ((k, v) # b) = merge_maps (gm_set k (merged (map_of a k) v) a) b"
  by (simp add: merge_maps.simps(2) merged_def)

lemma merge_maps_fresh:
  "gm_ok m \<Longrightarrow> fst ` set a \<inter> fst ` set m = {} \<Longrightarrow> merge_maps a m = a @ m"
proof (induction m arbitrary: a)
  case (Cons kv m)
  obtain k v where kv: "kv = (k, v)" by fastforce
  with Cons.prems(2) have fresh: "map_of a k = None" by (simp add: map_of_eq_None_iff)
  then have set: "gm_set k v a = a @ [(k, v)]"
    by (induction a) (auto simp: gm_set_def split: if_splits)
  have "merge_maps (a @ [(k, v)]) m = (a @ [(k, v)]) @ m"
    using Cons.prems kv by (intro Cons.IH) (auto simp: gm_ok_def)
  with fresh set show ?case by (simp add: kv merge_maps_Cons)
qed simp

lemma merged_target:
  "target_map old = Some sub \<Longrightarrow> gm_ok m \<Longrightarrow> merged old (JObj m) = JObj (merge_maps sub m)"
  using merge_maps_fresh [of m "[]"] by (cases old rule: target_map.cases) auto

text \<open>Key by key, the second map wins, and two objects are merged.\<close>

lemma map_of_merge_maps:
  "gm_ok b \<Longrightarrow> map_of (merge_maps a b) k =
     (case map_of b k of None \<Rightarrow> map_of a k | Some v \<Rightarrow> Some (merged (map_of a k) v))"
proof (induction b arbitrary: a)
  case (Cons lw b)
  obtain l w where lw: "lw = (l, w)" by fastforce
  with Cons.prems have "map_of b l = None" "gm_ok b" by (auto simp: gm_ok_def map_of_eq_None_iff)
  with Cons.IH [of "gm_set l (merged (map_of a l) w) a"] show ?case
    by (auto simp: lw merge_maps_Cons split: option.split)
qed simp

section \<open>Expansion of paths\<close>

text \<open>\<open>os.Expand\<close>: \<open>$name\<close> and \<open>${name}\<close> are replaced.\<close>

definition shell_special :: "char \<Rightarrow> bool" where
  "shell_special c \<longleftrightarrow> c \<in> set ''*#$@!?-0123456789''"

definition shell_name_char :: "char \<Rightarrow> bool" where
  "shell_name_char c \<longleftrightarrow>
     (let n = (of_char c :: nat) in c = CHR ''_'' \<or> 48 \<le> n \<and> n \<le> 57 \<or> 65 \<le> n \<and> n \<le> 90 \<or> 97 \<le> n \<and> n \<le> 122)"

text \<open>\<open>getShellName\<close>: the name and the rest behind it, for a text that is not empty.\<close>

definition shell_name :: "string \<Rightarrow> string \<times> string" where
  "shell_name s =
     (case s of
        [] \<Rightarrow> ([], [])
      | c # r \<Rightarrow>
          if c = CHR ''{'' then
            (if 2 < length s \<and> shell_special (s ! 1) \<and> s ! 2 = CHR ''}'' then ([s ! 1], drop 3 s)
             else case index_of (CHR ''}'') r of
                None \<Rightarrow> ([], r)
              | Some i \<Rightarrow> (take i r, drop (i + 1) r))
          else if shell_special c then ([c], r)
          else (takeWhile shell_name_char s, dropWhile shell_name_char s))"

lemma shell_name_rest: "shell_name s = (n, r) \<Longrightarrow> length r \<le> length s"
  by (auto simp: shell_name_def intro: le_SucI [OF length_dropWhile_le] split: list.splits if_splits option.splits)

function expand :: "(string \<Rightarrow> string) \<Rightarrow> string \<Rightarrow> string" where
  "expand f [] = []"
| "expand f (c # s) =
     (if c = CHR ''$'' \<and> s \<noteq> []
      then (case shell_name s of (n, r) \<Rightarrow>
              if n \<noteq> [] then f n @ expand f r
              else if r = s then c # expand f s
              else expand f r)
      else c # expand f s)"
  by pat_completeness auto

termination
  by (relation "measure (\<lambda>(_, s). length s)") (auto dest!: shell_name_rest [OF sym])

section \<open>The provider\<close>

text \<open>
  What the provider sees of its surroundings: the environment, the files that walking a path
  visits (name, whether it is a directory, the decoded content), config maps and secrets.
\<close>

record values_env =
  ve_getenv :: "string \<Rightarrow> string"
  ve_walk :: "string \<Rightarrow> (string \<times> bool \<times> (go_error + json gomap)) list"
  ve_config_map :: "string \<Rightarrow> string \<Rightarrow> go_error + string gomap"
  ve_secret :: "string \<Rightarrow> string \<Rightarrow> go_error + string gomap"

record object_ref =
  ref_namespace :: string
  ref_name :: string

record provider =
  pr_values :: "string gomap"
  pr_files :: "string list"
  pr_config_maps :: "object_ref list"
  pr_secrets :: "object_ref list"
  pr_parse_into :: "string \<Rightarrow> json gomap \<Rightarrow> parse_error option \<times> json gomap"

definition default_envs :: "string list" where
  "default_envs =
     [''cluster'', ''namespace'', ''cluster_type'', ''zone'', ''region'', ''env'', ''purpose'', ''fcp'']"

definition to_upper_char :: "char \<Rightarrow> char" where
  "to_upper_char c =
     (if 97 \<le> (of_char c :: nat) \<and> (of_char c :: nat) \<le> 122 then char_of ((of_char c :: nat) - 32) else c)"

definition get_env_default :: "values_env \<Rightarrow> string \<Rightarrow> string" where
  "get_env_default V key = (let v = ve_getenv V key in if v = [] then ''unknown'' else v)"

text \<open>\<open>k=v\<close> and \<open>namespace/name\<close> are split at the first separator; without one they are dropped.\<close>

definition cut :: "char \<Rightarrow> string \<Rightarrow> (string \<times> string) option" where
  "cut c s = map_option (\<lambda>i. (take i s, drop (i + 1) s)) (index_of c s)"

definition literal_values :: "string list \<Rightarrow> string gomap" where
  "literal_values kvs = fold (\<lambda>(k, v). gm_set k v) (List.map_filter (cut (CHR ''='')) kvs) []"

definition default_namespace :: "string \<Rightarrow> object_ref \<Rightarrow> object_ref" where
  "default_namespace ns r = (if ref_namespace r = [] then r\<lparr>ref_namespace := ns\<rparr> else r)"

definition parse_refs :: "string \<Rightarrow> string list \<Rightarrow> object_ref list" where
  "parse_refs ns refs =
     map (\<lambda>(a, b). default_namespace ns \<lparr>ref_namespace = a, ref_name = b\<rparr>)
       (List.map_filter (cut (CHR ''/'')) refs)"

definition new_provider ::
  "string list \<Rightarrow> string list \<Rightarrow> string list \<Rightarrow> string list \<Rightarrow> string \<Rightarrow>
   (string \<Rightarrow> json gomap \<Rightarrow> parse_error option \<times> json gomap) \<Rightarrow> provider" where
  "new_provider values files config_maps secrets ns parse_fun =
     \<lparr>pr_values = literal_values values, pr_files = files, pr_config_maps = parse_refs ns config_maps,
      pr_secrets = parse_refs ns secrets, pr_parse_into = parse_fun\<rparr>"

definition new_provider2 ::
  "string gomap \<Rightarrow> string list \<Rightarrow> object_ref list \<Rightarrow> object_ref list \<Rightarrow> string \<Rightarrow>
   (string \<Rightarrow> json gomap \<Rightarrow> parse_error option \<times> json gomap) \<Rightarrow> provider" where
  "new_provider2 values files config_maps secrets ns parse_fun =
     \<lparr>pr_values = values, pr_files = files, pr_config_maps = map (default_namespace ns) config_maps,
      pr_secrets = map (default_namespace ns) secrets, pr_parse_into = parse_fun\<rparr>"

text \<open>\<open>readFile\<close>: the \<open>.yaml\<close> files below a path, a later one overriding the keys of an earlier one.\<close>

fun read_files :: "(string \<times> bool \<times> (go_error + json gomap)) list \<Rightarrow> json gomap \<Rightarrow> go_error + json gomap" where
  "read_files [] result = Inr result"
| "read_files ((path, is_dir, content) # fs) result =
     (if is_dir \<or> \<not> has_suffix path ''.yaml'' then read_files fs result
      else case content of
          Inl e \<Rightarrow> Inl (Errorf ''failed to walk'')
        | Inr values \<Rightarrow> read_files fs (gm_copy_into values result))"

text \<open>The outcome of \<open>Values\<close>; \<open>Fatal\<close> is the end of the process.\<close>

datatype values_result = Tree "json gomap" | Failure go_error | Fatal string

fun bind_values :: "values_result \<Rightarrow> (json gomap \<Rightarrow> values_result) \<Rightarrow> values_result" where
  "bind_values (Tree m) f = f m"
| "bind_values (Failure e) f = Failure e"
| "bind_values (Fatal msg) f = Fatal msg"

definition env_values :: "values_env \<Rightarrow> json gomap" where
  "env_values V =
     fold (\<lambda>env m. let v = ve_getenv V (map to_upper_char env) in if v = [] then m else gm_set env (JStr v) m)
       default_envs []"

fun file_values :: "values_env \<Rightarrow> string list \<Rightarrow> json gomap \<Rightarrow> values_result" where
  "file_values V [] m = Tree m"
| "file_values V (f # fs) m =
     (case read_files (ve_walk V (expand (get_env_default V) f)) [] of
        Inl e \<Rightarrow> Failure (Errorf ''failed to read values'')
      | Inr values \<Rightarrow> file_values V fs (merge_maps m values))"

text \<open>\<open>fmt.Sprintf("%s=%s", k, strings.ReplaceAll(v, ",", "\,"))\<close>\<close>

definition assignment :: "string \<Rightarrow> string \<Rightarrow> string" where
  "assignment k v = k @ CHR ''='' # replace_char (CHR '','') [backslash, CHR '',''] v"

fun merge_entries ::
  "(string \<Rightarrow> json gomap \<Rightarrow> parse_error option \<times> json gomap) \<Rightarrow> string \<Rightarrow> string gomap \<Rightarrow> json gomap \<Rightarrow> values_result" where
  "merge_entries parse_fun msg [] m = Tree m"
| "merge_entries parse_fun msg ((k, v) # kvs) m =
     (case parse_fun (assignment k v) m of
        (Some e, _) \<Rightarrow> Fatal msg
      | (None, m') \<Rightarrow> merge_entries parse_fun msg kvs m')"

fun ref_values ::
  "(string \<Rightarrow> string \<Rightarrow> go_error + string gomap) \<Rightarrow> (string \<Rightarrow> json gomap \<Rightarrow> parse_error option \<times> json gomap) \<Rightarrow>
   object_ref list \<Rightarrow> json gomap \<Rightarrow> values_result" where
  "ref_values get parse_fun [] m = Tree m"
| "ref_values get parse_fun (r # rs) m =
     (case get (ref_namespace r) (ref_name r) of
        Inl e \<Rightarrow> Fatal ''failed to read object''
      | Inr data \<Rightarrow> bind_values (merge_entries parse_fun ''failed to merge object'' data m) (ref_values get parse_fun rs))"

definition provider_values :: "values_env \<Rightarrow> provider \<Rightarrow> values_result" where
  "provider_values V p =
     bind_values (file_values V (pr_files p) (env_values V)) (\<lambda>m.
     bind_values (ref_values (ve_config_map V) (pr_parse_into p) (pr_config_maps p) m) (\<lambda>m.
     bind_values (ref_values (ve_secret V) (pr_parse_into p) (pr_secrets p) m) (\<lambda>m.
     merge_entries (pr_parse_into p) ''failed to merge key'' (pr_values p) m)))"

end
