(* ===== verification/StrvalsRoundTrip.thy ===== *)
theory StrvalsRoundTrip
  imports Values
begin

text \<open>
  What the parser of set lines promises: a tree of objects whose leaves are strings and lists of
  strings can be written as one line, with the special characters escaped, and reading the line
  gives the tree back.
\<close>

section \<open>Writing a tree as a line\<close>

definition special :: "char \<Rightarrow> bool" where
  "special c \<longleftrightarrow> c = backslash \<or> c \<in> set ''=[,.{}''"

definition escape :: "string \<Rightarrow> string" where
  "escape s = concat (map (\<lambda>c. if special c then [backslash, c] else [c]) s)"

fun text_of :: "json \<Rightarrow> string" where
  "text_of (JStr s) = s"
| "text_of _ = []"

fun is_text :: "json \<Rightarrow> bool" where
  "is_text (JStr _) \<longleftrightarrow> True"
| "is_text _ \<longleftrightarrow> False"

fun leaf :: "json \<Rightarrow> bool" where
  "leaf (JStr s) \<longleftrightarrow> True"
| "leaf (JArr xs) \<longleftrightarrow> xs \<noteq> [] \<and> list_all is_text xs"
| "leaf _ \<longleftrightarrow> False"

fun render_leaf :: "json \<Rightarrow> string" where
  "render_leaf (JStr s) = escape s"
| "render_leaf (JArr xs) = CHR ''{'' # join_with (CHR '','') (map (\<lambda>x. escape (text_of x)) xs) @ ''}''"
| "render_leaf _ = []"

definition entry :: "string list \<times> json \<Rightarrow> string" where
  "entry pv = join_with (CHR ''.'') (map escape (fst pv)) @ CHR ''='' # render_leaf (snd pv)"

definition set_line :: "(string list \<times> json) list \<Rightarrow> string" where
  "set_line es = join_with (CHR '','') (map entry es)"

fun flat :: "json \<Rightarrow> (string list \<times> json) list" where
  "flat (JObj m) = concat (map (\<lambda>kj. map (\<lambda>(p, v). (fst kj # p, v)) (flat (snd kj))) m)"
| "flat v = [([], v)]"

fun plain_tree :: "json \<Rightarrow> bool" where
  "plain_tree (JObj m) \<longleftrightarrow> m \<noteq> [] \<and> gm_ok m \<and> list_all (\<lambda>kj. fst kj \<noteq> [] \<and> plain_tree (snd kj)) m"
| "plain_tree v \<longleftrightarrow> leaf v"

text \<open>What one entry does to the tree; \<open>None\<close> when the path leads through something else.\<close>

fun set_path :: "string list \<Rightarrow> json \<Rightarrow> json gomap \<Rightarrow> json gomap option" where
  "set_path [] v m = None"
| "set_path [k] v m = Some (gm_set k v m)"
| "set_path (k # l # p) v m =
     (case target_map (map_of m k) of
        None \<Rightarrow> None
      | Some sub \<Rightarrow> map_option (\<lambda>sub'. gm_set k (JObj sub') m) (set_path (l # p) v sub))"

fun set_paths :: "(string list \<times> json) list \<Rightarrow> json gomap \<Rightarrow> json gomap option" where
  "set_paths [] m = Some m"
| "set_paths ((p, v) # es) m = (case set_path p v m of None \<Rightarrow> None | Some m' \<Rightarrow> set_paths es m')"

section \<open>Scanning what was escaped\<close>

definition stops :: "string \<Rightarrow> bool" where
  "stops stop \<longleftrightarrow> (\<forall>c\<in>set stop. special c \<and> c \<noteq> backslash)"

lemma stops_simps [simp]: "stops ''=[,.''" "stops '',''" "stops '',}''"
  by (simp_all add: stops_def special_def)

lemma runes_until_plain:
  "c \<notin> set stop \<Longrightarrow> c \<noteq> backslash \<Longrightarrow>
   runes_until stop (c # s) = (case runes_until stop s of (v, l, rest) \<Rightarrow> (c # v, l, rest))"
  by (cases s) auto

lemma runes_until_escaped:
  "backslash \<notin> set stop \<Longrightarrow>
   runes_until stop (backslash # c # s) = (case runes_until stop s of (v, l, rest) \<Rightarrow> (c # v, l, rest))"
  by simp

lemma runes_until_stop: "c \<in> set stop \<Longrightarrow> runes_until stop (c # s) = ([], Some c, s)"
  by (cases s) auto

lemma escape_simps [simp]:
  "escape [] = []" "escape (c # s) = (if special c then backslash # c # escape s else c # escape s)"
  by (simp_all add: escape_def)

lemma stopsD: "stops stop \<Longrightarrow> backslash \<notin> set stop" "stops stop \<Longrightarrow> \<not> special c \<Longrightarrow> c \<notin> set stop \<and> c \<noteq> backslash"
  by (auto simp: stops_def special_def)

lemma runes_until_escape:
  assumes "stops stop"
  shows "c \<in> set stop \<Longrightarrow> runes_until stop (escape s @ c # r) = (s, Some c, r)"
    and "runes_until stop (escape s) = (s, None, [])"
proof -
  show "runes_until stop (escape s @ c # r) = (s, Some c, r)" if "c \<in> set stop"
  proof (induction s)
    case Nil
    then show ?case using that by (simp add: runes_until_stop del: runes_until.simps)
  next
    case (Cons d s)
    then show ?case
      using stopsD [OF assms]
      by (cases "special d") (simp_all add: runes_until_plain runes_until_escaped del: runes_until.simps)
  qed
  show "runes_until stop (escape s) = (s, None, [])"
  proof (induction s)
    case (Cons d s)
    then show ?case
      using stopsD [OF assms]
      by (cases "special d") (simp_all add: runes_until_plain runes_until_escaped del: runes_until.simps)
  qed simp
qed

lemma escape_not_brace: "escape s = c # r \<Longrightarrow> c \<noteq> CHR ''{''"
  by (cases s) (auto simp: special_def split: if_splits)

lemma escape_Nil [simp]: "escape s = [] \<longleftrightarrow> s = []"
  by (cases s) auto

section \<open>Reading one entry\<close>

definition text_reader :: value_reader where
  "text_reader = typed_reader True"

lemma text_reader_case [simp]: "(case text_reader s of (v, e) \<Rightarrow> f v e) = f (JStr s) None"
  by (simp add: text_reader_def typed_reader_def typed_val_def)

definition skip_comma :: "string \<Rightarrow> string" where
  "skip_comma s = (case s of [] \<Rightarrow> [] | c # r \<Rightarrow> if c = CHR '','' then r else s)"

lemma val_items_texts:
  "xs \<noteq> [] \<Longrightarrow> list_all is_text xs \<Longrightarrow>
   val_items text_reader ys (join_with (CHR '','') (map (\<lambda>x. escape (text_of x)) xs) @ CHR ''}'' # r) =
     (ys @ xs, None, skip_comma r)"
proof (induction xs arbitrary: ys)
  case (Cons x xs)
  then obtain t where x: "x = JStr t" by (cases x) auto
  show ?case
  proof (cases xs)
    case Nil
    with x show ?thesis
      by (subst val_items.simps) (auto simp: runes_until_escape skip_comma_def split: list.split)
  next
    case (Cons y zs)
    with x Cons.prems Cons.IH [of "ys @ [x]"] show ?thesis
      by (subst val_items.simps) (simp add: runes_until_escape)
  qed
qed simp

lemma val_list_text:
  "val_list R (escape s @ CHR '','' # r) = ([], Some NotList, escape s @ CHR '','' # r)"
  "val_list R (escape s) = ([], Some (if s = [] then EOF else NotList), escape s)"
  by (cases "escape s"; auto simp: val_list_def dest: escape_not_brace)+

lemma val_list_texts:
  assumes "xs \<noteq> []" and "list_all is_text xs"
  shows "val_list text_reader (render_leaf (JArr xs) @ r) = (xs, None, skip_comma r)"
  using val_items_texts [OF assms, of "[]" r] by (simp add: val_list_def)

lemma assign_leaf:
  assumes "leaf v"
  shows "assign_key text_reader m k (render_leaf v @ CHR '','' # r) = (None, r, set_key k v m)"
    and "\<exists>e. e \<in> {None, Some EOF} \<and> assign_key text_reader m k (render_leaf v) = (e, [], set_key k v m)"
proof -
  from assms consider (one) s where "v = JStr s" | (many) xs where "v = JArr xs" "xs \<noteq> []" "list_all is_text xs"
    by (cases v) auto
  then have "assign_key text_reader m k (render_leaf v @ CHR '','' # r) = (None, r, set_key k v m) \<and>
      (\<exists>e. e \<in> {None, Some EOF} \<and> assign_key text_reader m k (render_leaf v) = (e, [], set_key k v m))"
  proof cases
    case one
    then show ?thesis by (auto simp: assign_key_def val_list_text runes_until_escape)
  next
    case many
    note run = val_list_texts [OF many(2,3)]
    from run [of "CHR '','' # r"] run [of "[]"] show ?thesis
      by (simp add: assign_key_def many(1) skip_comma_def del: render_leaf.simps)
  qed
  then show "assign_key text_reader m k (render_leaf v @ CHR '','' # r) = (None, r, set_key k v m)"
    "\<exists>e. e \<in> {None, Some EOF} \<and> assign_key text_reader m k (render_leaf v) = (e, [], set_key k v m)" by simp_all
qed

lemma set_path_nonempty: "set_path p v m = Some m' \<Longrightarrow> m' \<noteq> []"
  by (induction p v m rule: set_path.induct) (auto simp: gm_set_def split: option.splits)

lemma key_entry:
  assumes "leaf v" and "list_all (\<lambda>k. k \<noteq> []) p" and "set_path p v m = Some m'"
  shows "parse_key text_reader limit m (entry (p, v) @ CHR '','' # r) = (None, r, m')"
    and "\<exists>e. e \<in> {None, Some EOF} \<and> parse_key text_reader limit m (entry (p, v)) = (e, [], m')"
proof -
  have "parse_key text_reader limit m (entry (p, v) @ CHR '','' # r) = (None, r, m') \<and>
      (\<exists>e. e \<in> {None, Some EOF} \<and> parse_key text_reader limit m (entry (p, v)) = (e, [], m'))"
    using assms
  proof (induction p v m arbitrary: m' rule: set_path.induct)
    case (2 k v m)
    then show ?case
      using assign_leaf [OF 2(1), of m k]
      by (simp add: entry_def parse_key.simps [of _ _ m] runes_until_escape set_key_def)
  next
    case (3 k l p v m)
    then obtain sub sub' where sub: "target_map (map_of m k) = Some sub" "set_path (l # p) v sub = Some sub'"
      and m': "m' = gm_set k (JObj sub') m" by (auto split: option.splits)
    from 3 sub have IH: "parse_key text_reader limit sub (entry (l # p, v) @ CHR '','' # r) = (None, r, sub') \<and>
      (\<exists>e. e \<in> {None, Some EOF} \<and> parse_key text_reader limit sub (entry (l # p, v)) = (e, [], sub'))" by simp
    have "entry (k # l # p, v) = escape k @ CHR ''.'' # entry (l # p, v)" by (simp add: entry_def)
    with IH sub m' 3(3) set_path_nonempty [OF sub(2)] show ?case
      by (auto simp: parse_key.simps [of _ _ m] runes_until_escape put_map_def)
  qed simp
  then show "parse_key text_reader limit m (entry (p, v) @ CHR '','' # r) = (None, r, m')"
    "\<exists>e. e \<in> {None, Some EOF} \<and> parse_key text_reader limit m (entry (p, v)) = (e, [], m')" by simp_all
qed

section \<open>Reading a line\<close>

lemma parse_line:
  assumes "es \<noteq> []" and "list_all (\<lambda>pv. leaf (snd pv) \<and> list_all (\<lambda>k. k \<noteq> []) (fst pv)) es"
    and "set_paths es m = Some m'"
  shows "parse text_reader limit m (set_line es) = (None, m')"
  using assms
proof (induction es arbitrary: m)
  case (Cons pv es)
  obtain p v where pv: "pv = (p, v)" by fastforce
  with Cons.prems obtain m1 where m1: "set_path p v m = Some m1" "set_paths es m1 = Some m'"
    by (auto split: option.splits)
  have ok: "leaf v" "list_all (\<lambda>k. k \<noteq> []) p" using Cons.prems(2) pv by simp_all
  show ?case
  proof (cases es)
    case Nil
    obtain e where "e \<in> {None, Some EOF}" "parse_key text_reader limit m (entry (p, v)) = (e, [], m1)"
      using key_entry(2) [OF ok m1(1)] by blast
    moreover have "parse text_reader limit m1 [] = (None, m1)"
      by (simp add: parse.simps [of _ _ _ "[]"] parse_key.simps [of _ _ _ "[]"])
    ultimately show ?thesis
      using Nil pv m1 by (auto simp: set_line_def parse.simps [of _ _ m])
  next
    case (Cons qw fs)
    have "set_line (pv # es) = entry (p, v) @ CHR '','' # set_line es" by (simp add: set_line_def pv Cons)
    with key_entry(1) [OF ok m1(1), of limit "set_line es"] Cons.IH [OF _ _ m1(2)] Cons.prems(2) Cons show ?thesis
      by (simp add: parse.simps [of _ _ m])
  qed
qed simp

section \<open>Writing and reading a tree\<close>

lemma set_paths_append:
  "set_paths (es @ fs) m = (case set_paths es m of None \<Rightarrow> None | Some m' \<Rightarrow> set_paths fs m')"
  by (induction es m rule: set_paths.induct) (auto split: option.splits)

lemma gm_set_twice: "gm_set k v (gm_set k w m) = gm_set k v m"
  by (induction m) (auto simp: gm_set_def)

text \<open>Entries below a key build the object under the key, entry by entry.\<close>

abbreviation below :: "string \<Rightarrow> (string list \<times> json) list \<Rightarrow> (string list \<times> json) list" where
  "below k \<equiv> map (\<lambda>(p, v). (k # p, v))"

lemma set_paths_below:
  assumes "set_paths es sub = Some sub'" and "target_map (map_of m k) = Some sub" and "es \<noteq> []"
    and "list_all (\<lambda>pv. fst pv \<noteq> []) es"
  shows "set_paths (below k es) m = Some (gm_set k (JObj sub') m)"
  using assms
proof (induction es arbitrary: m sub)
  case (Cons pv es)
  obtain p v where pv: "pv = (p, v)" by fastforce
  with Cons.prems obtain sub1 where sub1: "set_path p v sub = Some sub1" "set_paths es sub1 = Some sub'"
    by (auto split: option.splits)
  obtain l q where p: "p = l # q" using Cons.prems(4) pv by (cases p) auto
  have first: "set_path (k # p) v m = Some (gm_set k (JObj sub1) m)"
    using Cons.prems(2) sub1 p by simp
  show ?case
  proof (cases "es = []")
    case True
    with first sub1 pv show ?thesis by simp
  next
    case False
    have "set_paths (below k es) (gm_set k (JObj sub1) m) = Some (gm_set k (JObj sub') (gm_set k (JObj sub1) m))"
      by (rule Cons.IH [OF sub1(2) _ False]) (use Cons.prems(4) in simp_all)
    with first pv show ?thesis by (simp add: gm_set_twice)
  qed
qed simp

lemma flat_nonempty: "plain_tree j \<Longrightarrow> flat j \<noteq> []"
proof (induction j rule: flat.induct)
  case (1 m)
  then obtain kj rest where "m = kj # rest" by (cases m) auto
  with 1 show ?case by auto
qed auto

lemma flat_paths:
  "plain_tree j \<Longrightarrow> (p, v) \<in> set (flat j) \<Longrightarrow>
   leaf v \<and> list_all (\<lambda>k. k \<noteq> []) p \<and> ((\<exists>m. j = JObj m) \<longrightarrow> p \<noteq> [])"
proof (induction j arbitrary: p rule: flat.induct)
  case (1 m)
  then obtain k j q where j: "(k, j) \<in> set m" "(q, v) \<in> set (flat j)" "p = k # q" by auto
  with 1(2) have "k \<noteq> []" "plain_tree j" by (auto simp: list_all_iff)
  with 1(1) [OF j(1), of q] j show ?case by auto
qed auto

lemma flat_leaves:
  assumes "plain_tree (JObj m)"
  shows "list_all (\<lambda>pv. leaf (snd pv) \<and> list_all (\<lambda>k. k \<noteq> []) (fst pv) \<and> fst pv \<noteq> []) (flat (JObj m))"
proof -
  have "leaf v \<and> list_all (\<lambda>k. k \<noteq> []) p \<and> p \<noteq> []" if "(p, v) \<in> set (flat (JObj m))" for p v
    using flat_paths [OF assms that] by blast
  then show ?thesis by (simp only: list_all_iff split_paired_Ball_Sigma) (metis prod.collapse)
qed

text \<open>The old value leaves room for the new one: no object is to be built over something else.\<close>

fun fits_over :: "json option \<Rightarrow> json \<Rightarrow> bool" where
  "fits_over old (JObj m) \<longleftrightarrow>
     (case target_map old of
        None \<Rightarrow> False
      | Some sub \<Rightarrow> list_all (\<lambda>kj. fits_over (map_of sub (fst kj)) (snd kj)) m)"
| "fits_over old _ \<longleftrightarrow> True"

lemma fits_over_None: "fits_over None j"
  by (induction "None :: json option" j rule: fits_over.induct) (auto simp: list_all_iff)

lemma set_paths_entries:
  assumes "\<And>k j acc. (k, j) \<in> set n \<Longrightarrow> fits_over (map_of acc k) j \<Longrightarrow>
      set_paths (below k (flat j)) acc = Some (gm_set k (merged (map_of acc k) j) acc)"
    and "gm_ok n" and "\<And>k j. (k, j) \<in> set n \<Longrightarrow> fits_over (map_of acc k) j"
  shows "set_paths (flat (JObj n)) acc = Some (merge_maps acc n)"
  using assms
proof (induction n arbitrary: acc)
  case (Cons kj n)
  obtain k j where kj: "kj = (k, j)" by fastforce
  let ?acc = "gm_set k (merged (map_of acc k) j) acc"
  have "set_paths (below k (flat j)) acc = Some ?acc" using Cons.prems(1,3) kj by simp
  moreover have "fits_over (map_of ?acc l) i" if "(l, i) \<in> set n" for l i
  proof -
    from that Cons.prems(2) kj have "l \<noteq> k" by (auto simp: gm_ok_def rev_image_eqI)
    with that Cons.prems(3) [of l i] show ?thesis by simp
  qed
  then have "set_paths (flat (JObj n)) ?acc = Some (merge_maps ?acc n)"
    using Cons.prems(1,2) kj by (intro Cons.IH) (simp_all add: gm_ok_def)
  ultimately show ?case by (simp add: set_paths_append kj merge_maps_Cons case_prod_unfold)
qed simp

lemma set_paths_flat:
  "plain_tree j \<Longrightarrow> fits_over (map_of m k) j \<Longrightarrow>
   set_paths (below k (flat j)) m = Some (gm_set k (merged (map_of m k) j) m)"
proof (induction j arbitrary: m k rule: flat.induct)
  case (1 n)
  then obtain sub where sub: "target_map (map_of m k) = Some sub"
    and fits: "list_all (\<lambda>kj. fits_over (map_of sub (fst kj)) (snd kj)) n" by (auto split: option.splits)
  have "set_paths (flat (JObj n)) sub = Some (merge_maps sub n)"
    using 1(1,2) fits by (intro set_paths_entries) (force simp: list_all_iff)+
  moreover have "list_all (\<lambda>pv. fst pv \<noteq> []) (flat (JObj n))" using flat_leaves [OF 1(2)] by (simp add: list_all_iff)
  moreover have "merged (map_of m k) (JObj n) = JObj (merge_maps sub n)"
    using merged_target [OF sub] 1(2) by simp
  ultimately show ?case
    using set_paths_below [OF _ sub flat_nonempty [OF 1(2)]] by (simp del: flat.simps)
qed (auto simp: merged_def)



text \<open>
  C32. Every tree of non-empty objects whose keys are not empty and whose leaves are strings or
  non-empty lists of strings is read back from the line of its leaves: escaping the special
  characters with a backslash is enough, and the order of the entries is kept.
\<close>

theorem set_line_round_trip:
  assumes "plain_tree (JObj m)"
  shows "strvals_parse_string limit (set_line (flat (JObj m))) = (None, m)"
proof -
  have "set_paths (flat (JObj m)) [] = Some (merge_maps [] m)"
    using assms by (intro set_paths_entries set_paths_flat) (auto simp: list_all_iff fits_over_None)
  moreover have "merge_maps [] m = m" using merge_maps_fresh [of m "[]"] assms by simp
  ultimately show ?thesis
    using parse_line [OF flat_nonempty [OF assms], of "[]" m limit] flat_leaves [OF assms]
    by (simp add: strvals_parse_string_def text_reader_def list_all_iff)
qed

lemma set_line_round_trip_witness:
  "strvals_parse_string 0
     (set_line (flat (JObj [(''a'', JObj [(''b'', JStr ''x,y''), (''c.d'', JArr [JStr ''1'', JStr ''{''])]), (''e'', JStr [])])))
   = (None, [(''a'', JObj [(''b'', JStr ''x,y''), (''c.d'', JArr [JStr ''1'', JStr ''{''])]), (''e'', JStr [])]) \<and>
   set_line (flat (JObj [(''a'', JObj [(''b'', JStr ''x,y'')])])) = ''a.b=x'' @ [backslash] @ '',y''"
proof
  show "set_line (flat (JObj [(''a'', JObj [(''b'', JStr ''x,y'')])])) = ''a.b=x'' @ [backslash] @ '',y''"
    by code_simp
qed (rule set_line_round_trip, code_simp)

section \<open>Typed values\<close>

lemma hd_int_string: "(of_char (hd (int_string i)) :: nat) \<le> 57" "int_string i \<noteq> []"
  "hd (int_string i) = CHR ''0'' \<Longrightarrow> i = 0"
proof -
  obtain d where d: "d < (10::nat)" "hd (nat_digits (nat i)) = char_of (48 + d)" "0 < nat i \<longrightarrow> 0 < d"
    using hd_nat_digits by blast
  then show "(of_char (hd (int_string i)) :: nat) \<le> 57" "int_string i \<noteq> []" by (auto simp: int_string_def)
  assume "hd (int_string i) = CHR ''0''"
  then have "\<not> i < 0" and "hd (nat_digits (nat i)) = CHR ''0''" by (auto simp: int_string_def split: if_splits)
  with d(2) have "48 + d = (of_char CHR ''0'' :: nat)" using d(1) by simp
  with d(3) \<open>\<not> i < 0\<close> show "i = 0" by simp
qed

lemma int_string_not_word:
  assumes "57 < (of_char (hd (to_lower w)) :: nat)"
  shows "\<not> equal_fold (int_string i) w"
proof
  assume "equal_fold (int_string i) w"
  then have "hd (to_lower (int_string i)) = hd (to_lower w)" by (simp add: equal_fold_def)
  moreover have "hd (to_lower (int_string i)) = hd (int_string i)"
    using hd_int_string(1,2) [of i] by (simp add: to_lower_def hd_map to_lower_char_def)
  ultimately show False using assms hd_int_string(1) [of i] by simp
qed

text \<open>
  A decimal number is read as a number exactly when it fits into 64 bits; beyond that the value
  stays the string it was.
\<close>

theorem typed_val_int:
  "typed_val (int_string i) False = (if in_int64 i then JNumber (int_string i) else JStr (int_string i))"
proof -
  have words: "\<not> equal_fold (int_string i) ''true''" "\<not> equal_fold (int_string i) ''false''"
    "\<not> equal_fold (int_string i) ''null''"
    by (rule int_string_not_word; code_simp)+
  show ?thesis
  proof (cases "i = 0")
    case True
    have "int_string 0 = ''0''" "in_int64 0" by code_simp+
    with True words show ?thesis by (simp add: typed_val_def)
  next
    case False
    then have "hd (int_string i) \<noteq> CHR ''0''" using hd_int_string(3) by blast
    moreover from this have "\<not> equal_fold (int_string i) ''0''"
      using hd_int_string(1) [of i] by (cases "int_string i") (auto simp: equal_fold_def to_lower_def to_lower_char_def)
    ultimately show ?thesis
      using words hd_int_string(2) [of i] by (simp add: typed_val_def parse_int_string)
  qed
qed

section \<open>Values that are lost\<close>

text \<open>
  An empty value at the end of the line is stored under a key, but not in an object inside a list,
  and a list item without a value is accepted: both end the line like its end does.
\<close>

lemma empty_value_in_list_lost:
  "strvals_parse 10 ''a.b='' = (None, [(''a'', JObj [(''b'', JStr [])])]) \<and>
   strvals_parse 10 ''a[0].b='' = (None, [(''a'', JArr [])]) \<and>
   strvals_parse 10 ''a[0]'' = (None, [(''a'', JArr [])])"
  by code_simp

end
