(* ===== verification/ValuesOutcome.thy ===== *)
theory ValuesOutcome
  imports StrvalsRoundTrip
begin

text \<open>
  What a template gets to see: literal values arrive as they were given and override everything
  else, as long as they have no backslash and do not open a list; a backslash in a value, on the
  other hand, is swallowed, and together with a comma it lets the value set other keys.
\<close>

section \<open>Literal values\<close>

definition plain_key :: "string \<Rightarrow> bool" where
  "plain_key k \<longleftrightarrow> k \<noteq> [] \<and> list_all (\<lambda>c. \<not> special c) k"

definition plain_text :: "string \<Rightarrow> bool" where
  "plain_text v \<longleftrightarrow> backslash \<notin> set v \<and> (v = [] \<or> hd v \<noteq> CHR ''{'')"

lemma escape_plain: "list_all (\<lambda>c. \<not> special c) k \<Longrightarrow> escape k = k"
  by (induction k) auto

abbreviation commas_escaped :: "string \<Rightarrow> string" where
  "commas_escaped \<equiv> replace_char (CHR '','') [backslash, CHR '','']"

lemma runes_until_commas: "backslash \<notin> set v \<Longrightarrow> runes_until '','' (commas_escaped v) = (v, None, [])"
proof (induction v)
  case (Cons c v)
  then have "c \<noteq> backslash" by auto
  with Cons show ?case
    by (cases "c = CHR '',''")
      (simp_all add: replace_char_def runes_until_plain runes_until_escaped del: runes_until.simps)
qed (simp add: replace_char_def)

lemma val_list_commas:
  "plain_text v \<Longrightarrow> val_list R (commas_escaped v) = ([], Some (if v = [] then EOF else NotList), commas_escaped v)"
  by (cases v) (auto simp: val_list_def plain_text_def replace_char_def split: list.split)

lemma parse_into_string_assignment:
  assumes "plain_key k" and "plain_text v"
  shows "parse_into_string limit (assignment k v) m = (None, gm_set k (JStr v) m)"
proof -
  let ?s = "commas_escaped v"
  have "runes_until ''=[,.'' (assignment k v) = (k, Some (CHR ''=''), ?s)"
    using assms(1) runes_until_escape(1) [of "''=[,.''" "CHR ''=''" k ?s] escape_plain [of k]
    by (simp add: assignment_def plain_key_def)
  then have "parse_key text_reader limit m (assignment k v) = assign_key text_reader m k ?s"
    by (simp add: parse_key.simps [of _ _ m])
  moreover have "\<exists>e. e \<in> {None, Some EOF} \<and> assign_key text_reader m k ?s = (e, [], gm_set k (JStr v) m)"
    using assms val_list_commas [OF assms(2), of text_reader] runes_until_commas [of v]
    by (auto simp: assign_key_def set_key_def plain_key_def plain_text_def replace_char_def)
  moreover have "parse text_reader limit m' [] = (None, m')" for m'
    by (simp add: parse.simps [of _ _ _ "[]"] parse_key.simps [of _ _ _ "[]"])
  ultimately show ?thesis
    by (auto simp: parse_into_string_def text_reader_def [symmetric] parse.simps [of _ _ m])
qed

lemma merge_entries_plain:
  "list_all (\<lambda>(k, v). plain_key k \<and> plain_text v) kvs \<Longrightarrow>
   merge_entries (parse_into_string limit) msg kvs m = Tree (gm_copy_into (map (\<lambda>(k, v). (k, JStr v)) kvs) m)"
  by (induction kvs arbitrary: m) (auto simp: parse_into_string_assignment gm_copy_into_def)


definition sample_env :: values_env where
  "sample_env =
     \<lparr>ve_getenv = (\<lambda>n. if n = ''REGION'' then ''west'' else []),
      ve_walk = (\<lambda>f. if f = ''values/west'' then [(''values/west/a.yaml'', False, Inr [(''image'', JStr ''old'')])] else []),
      ve_config_map = (\<lambda>ns n. Inr [(''image'', ''older'')]), ve_secret = (\<lambda>ns n. Inl NotFound)\<rparr>"

definition sample_provider :: provider where
  "sample_provider =
     new_provider2 [(''image'', ''a,b'')] [''values/${REGION}''] [\<lparr>ref_namespace = [], ref_name = ''cm''\<rparr>] [] ''ns''
       (parse_into_string 10)"


section \<open>Values that are not kept\<close>

text \<open>
  A backslash in a value disappears; before a comma it escapes the backslash that the provider adds,
  so the comma ends the value and the rest of it is read as another assignment.
\<close>

lemma backslash_in_value_lost:
  "parse_into_string 0 (assignment ''path'' (''C:'' @ [backslash] @ ''temp'')) [] = (None, [(''path'', JStr ''C:temp'')]) \<and>
   parse_into_string 0 (assignment ''note'' (''x'' @ [backslash] @ '',admin=yes'')) [] =
     (None, [(''note'', JStr (''x'' @ [backslash])), (''admin'', JStr ''yes'')])"
  by code_simp

section \<open>References\<close>

text \<open>Of a reference without a namespace the default one is taken; without a slash it is dropped.\<close>

lemma parse_refs_simps:
  "CHR ''/'' \<notin> set ns \<Longrightarrow> parse_refs d ((ns @ CHR ''/'' # n) # refs) =
     \<lparr>ref_namespace = (if ns = [] then d else ns), ref_name = n\<rparr> # parse_refs d refs"
  "CHR ''/'' \<notin> set n \<Longrightarrow> parse_refs d (n # refs) = parse_refs d refs"
  by (simp_all add: parse_refs_def cut_def index_of_append default_namespace_def index_of_None_iff [THEN iffD2]
      List.map_filter_simps)

end
