(* ===== verification/Deployer.thy ===== *)
theory Deployer
  imports ReleasePhase GoTime
begin

text \<open>
  The worker of a release (src/pkg/deployer/controller/controller.go and main.go): commits that the
  webhook reports are deployed and checked by a plugin, and the status of the release is patched.
  The plugin, the API server and the clock answer through an environment; the encoding of an event
  as a queue key is a parameter.
\<close>

section \<open>Events and options\<close>

record deploy_event =
  de_commit :: string
  de_tag :: string
  de_version :: string
  de_path :: string
  de_message :: string

record deploy_options =
  do_namespace :: string
  do_name :: string
  do_reconcile :: bool
  do_dry_run :: bool
  do_parameters :: "string gomap"

text \<open>
  \<open>--parameters\<close> flags: a flag without an equals sign is dropped, a later key wins.
\<close>

definition parse_parameters :: "string list \<Rightarrow> string gomap" where
  "parse_parameters flags =
     fold (\<lambda>p m. case index_of (CHR ''='') p of
         None \<Rightarrow> m
       | Some i \<Rightarrow> gm_set (take i p) (drop (i + 1) p) m) flags []"

section \<open>Patches\<close>

text \<open>
  The operations of the two JSON patches. Adding to the end of the conditions fails when the status
  has no conditions: an empty list is left out of the stored object.
\<close>

datatype patch_op = SetCommit string | SetParametersHash string | SetVersion string | AddCondition release_condition

fun apply_op :: "patch_op \<Rightarrow> release_status \<Rightarrow> release_status option" where
  "apply_op (SetCommit c) st = Some (st\<lparr>rst_commit := c\<rparr>)"
| "apply_op (SetParametersHash h) st = Some (st\<lparr>rst_parameters_hash := h\<rparr>)"
| "apply_op (SetVersion v) st = Some (st\<lparr>rst_version := v\<rparr>)"
| "apply_op (AddCondition c) st =
     (if rst_conditions st = [] then None else Some (st\<lparr>rst_conditions := rst_conditions st @ [c]\<rparr>))"

fun apply_patch :: "patch_op list \<Rightarrow> release_status \<Rightarrow> release_status option" where
  "apply_patch [] st = Some st"
| "apply_patch (p # ps) st = (case apply_op p st of None \<Rightarrow> None | Some st' \<Rightarrow> apply_patch ps st')"

text \<open>\<open>Format(time.RFC3339)\<close> drops the fractions of a second.\<close>

definition to_seconds :: "instant \<Rightarrow> instant" where
  "to_seconds t = t - t mod second"

definition deployed_patch :: "string \<Rightarrow> string \<Rightarrow> string \<Rightarrow> instant \<Rightarrow> patch_op list" where
  "deployed_patch commit hash version now =
     [SetCommit commit, SetParametersHash hash, SetVersion version,
      AddCondition \<lparr>rc_type = ReleaseDeployed, rc_status = ConditionTrue, rc_last_transition = to_seconds now,
        rc_reason = ''Deployed'',
        rc_message = ''commit '' @ commit @ '' is deployed with parameters hash '' @ hash\<rparr>]"

definition checked_patch :: "string \<Rightarrow> string \<Rightarrow> instant \<Rightarrow> patch_op list" where
  "checked_patch commit hash now =
     [AddCondition \<lparr>rc_type = ReleaseChecked, rc_status = ConditionTrue, rc_last_transition = to_seconds now,
        rc_reason = ''Checked'',
        rc_message = ''commit '' @ commit @ '' is checked with parameters hash '' @ hash\<rparr>]"

section \<open>Interactions\<close>

datatype deploy_call =
    PluginInit string string string "go_error + unit"
  | PluginDiff "go_error + bool"
  | PluginRun bool "go_error + unit"
  | PluginTest instant "go_error + unit"
  | FetchRelease string string "go_error + release"
  | PatchStatus string string "patch_op list" "go_error + unit"
  | ClockRead instant
  | CallBack string

type_synonym 'a dep_eff = "(deploy_call, 'a) eff"

record deploy_env =
  dv_init :: "deploy_call list \<Rightarrow> string \<Rightarrow> string \<Rightarrow> string \<Rightarrow> go_error + unit"
  dv_diff :: "deploy_call list \<Rightarrow> go_error + bool"
  dv_run :: "deploy_call list \<Rightarrow> bool \<Rightarrow> go_error + unit"
  dv_test :: "deploy_call list \<Rightarrow> instant \<Rightarrow> go_error + unit"
  dv_fetch :: "deploy_call list \<Rightarrow> string \<Rightarrow> string \<Rightarrow> go_error + release"
  dv_patch :: "deploy_call list \<Rightarrow> string \<Rightarrow> string \<Rightarrow> patch_op list \<Rightarrow> go_error + unit"
  dv_now :: "deploy_call list \<Rightarrow> instant"
  dv_decode :: "string \<Rightarrow> go_error + deploy_event"
  dv_sha256 :: "string \<Rightarrow> string"

definition plugin_init :: "deploy_env \<Rightarrow> string \<Rightarrow> string \<Rightarrow> string \<Rightarrow> unit dep_eff" where
  "plugin_init D c t v = perform (\<lambda>h. dv_init D h c t v) (PluginInit c t v)"

definition plugin_diff :: "deploy_env \<Rightarrow> bool dep_eff" where
  "plugin_diff D = perform (dv_diff D) PluginDiff"

definition plugin_run :: "deploy_env \<Rightarrow> bool \<Rightarrow> unit dep_eff" where
  "plugin_run D dry = perform (\<lambda>h. dv_run D h dry) (PluginRun dry)"

definition plugin_test :: "deploy_env \<Rightarrow> instant \<Rightarrow> unit dep_eff" where
  "plugin_test D t = perform (\<lambda>h. dv_test D h t) (PluginTest t)"

definition fetch_release :: "deploy_env \<Rightarrow> string \<Rightarrow> string \<Rightarrow> release dep_eff" where
  "fetch_release D ns n = perform (\<lambda>h. dv_fetch D h ns n) (FetchRelease ns n)"

definition patch_status :: "deploy_env \<Rightarrow> string \<Rightarrow> string \<Rightarrow> patch_op list \<Rightarrow> unit dep_eff" where
  "patch_status D ns n p = perform (\<lambda>h. dv_patch D h ns n p) (PatchStatus ns n p)"

definition clock_read :: "deploy_env \<Rightarrow> instant dep_eff" where
  "clock_read D = observe (dv_now D) ClockRead"

lemmas deploy_call_defs = plugin_init_def plugin_diff_def plugin_run_def plugin_test_def fetch_release_def
  patch_status_def clock_read_def

section \<open>The handler\<close>

definition is_deployed :: "release_condition \<Rightarrow> bool" where
  "is_deployed c \<longleftrightarrow> rc_type c = ReleaseDeployed \<and> rc_status c = ConditionTrue"

text \<open>The time of the last deployment, \<open>time.Time{}\<close> without one.\<close>

definition last_run :: "release_condition list \<Rightarrow> instant" where
  "last_run cs =
     fold (\<lambda>c t. if is_deployed c \<and> t < rc_last_transition c then rc_last_transition c else t) cs zero_time"

definition is_ready :: "release \<Rightarrow> bool" where
  "is_ready r \<longleftrightarrow> rst_phase (rl_status r) = ReleaseFailed \<or> rst_phase (rl_status r) = ReleaseSucceeded"

definition is_applied :: "string \<Rightarrow> string \<Rightarrow> release \<Rightarrow> bool" where
  "is_applied commit hash r \<longleftrightarrow>
     rst_commit (rl_status r) = commit \<and>
     (rst_parameters_hash (rl_status r) = [] \<or> rst_parameters_hash (rl_status r) = hash)"

definition detect_diff :: "deploy_env \<Rightarrow> deploy_options \<Rightarrow> string \<Rightarrow> string \<Rightarrow> release \<Rightarrow> bool dep_eff" where
  "detect_diff D opts commit hash r =
     (if is_applied commit hash r
      then if \<not> do_reconcile opts then eff_ret False
           else eff_wrap ''failed to call Diff'' (plugin_diff D)
      else eff_ret True)"

text \<open>The deployment: the time for the test is read after the patch; a dry run ends here.\<close>

definition deploy_commit ::
  "deploy_env \<Rightarrow> deploy_options \<Rightarrow> deploy_event \<Rightarrow> string \<Rightarrow> release \<Rightarrow> instant flow dep_eff" where
  "deploy_commit D opts ev hash r =
     eff_bind (eff_wrap ''failed to call Run'' (plugin_run D (do_dry_run opts))) (\<lambda>_.
       if do_dry_run opts then eff_ret Done
       else eff_bind (clock_read D) (\<lambda>now.
            eff_bind (eff_wrap ''failed to patch release as deployed''
              (patch_status D (rl_namespace r) (rl_name r) (deployed_patch (de_commit ev) hash (de_version ev) now))) (\<lambda>_.
            eff_bind (clock_read D) (\<lambda>now. eff_ret (Go now)))))"

definition check_commit ::
  "deploy_env \<Rightarrow> deploy_event \<Rightarrow> string \<Rightarrow> string \<Rightarrow> release \<Rightarrow> instant \<Rightarrow> unit dep_eff" where
  "check_commit D ev hash key r t =
     eff_bind (eff_wrap ''failed to call Test'' (plugin_test D t)) (\<lambda>_.
     eff_bind (clock_read D) (\<lambda>now.
     eff_bind (eff_wrap ''failed to patch release as checked''
       (patch_status D (rl_namespace r) (rl_name r) (checked_patch (de_commit ev) hash now))) (\<lambda>_.
     notify (CallBack key))))"

definition deploy_release ::
  "deploy_env \<Rightarrow> deploy_options \<Rightarrow> deploy_event \<Rightarrow> string \<Rightarrow> string \<Rightarrow> release \<Rightarrow> unit dep_eff" where
  "deploy_release D opts ev hash key r =
     eff_bind (detect_diff D opts (de_commit ev) hash r) (\<lambda>has_diff.
       if is_ready r \<and> \<not> has_diff then eff_ret ()
       else eff_stage
         (if has_diff then deploy_commit D opts ev hash r else eff_ret (Go (last_run (rl_conditions r))))
         (check_commit D ev hash key r))"

text \<open>\<open>current\<close> is the commit that the listener has stored last.\<close>

definition deploy_handler :: "deploy_env \<Rightarrow> deploy_options \<Rightarrow> string \<Rightarrow> string \<Rightarrow> unit dep_eff" where
  "deploy_handler D opts current key =
     eff_bind (eff_wrap ''failed to parse event'' (eff_of_res (lift_res (dv_decode D key)))) (\<lambda>ev.
       if de_commit ev \<noteq> current then eff_ret ()
       else eff_bind (eff_wrap ''failed to call Init'' (plugin_init D (de_commit ev) (de_tag ev) (de_version ev))) (\<lambda>_.
            eff_bind (eff_wrap ''failed to get release'' (fetch_release D (do_namespace opts) (do_name opts))) (\<lambda>r.
            deploy_release D opts ev (hash_string_map (dv_sha256 D) (do_parameters opts)) key r)))"

section \<open>The queue and the listener\<close>

text \<open>
  \<open>processNextWorkItem\<close>: a key that failed comes back with a delay. The item is finished by a
  deferred call.
\<close>

datatype deploy_queue_op = Forgotten string | Delayed string | Finished string

definition deploy_queue_ops :: "string \<Rightarrow> unit res \<Rightarrow> deploy_queue_op list" where
  "deploy_queue_ops key outcome =
     (case outcome of Ok _ \<Rightarrow> [Forgotten key] | Err _ \<Rightarrow> [Delayed key] | Panic \<Rightarrow> []) @ [Finished key]"

definition process_next_deploy ::
  "deploy_env \<Rightarrow> deploy_options \<Rightarrow> string \<Rightarrow> string \<Rightarrow> deploy_call list \<Rightarrow> deploy_queue_op list \<times> deploy_call list" where
  "process_next_deploy D opts current key h =
     (case deploy_handler D opts current key h of (outcome, h') \<Rightarrow> (deploy_queue_ops key outcome, h'))"

record worker_state =
  ws_commit :: string
  ws_env :: "string gomap"
  ws_queued :: "string list"

text \<open>The listener: a commit is stored, exported and queued; a message without a commit is dropped.\<close>

definition on_commit ::
  "(deploy_event \<Rightarrow> string) \<Rightarrow> string \<Rightarrow> string \<Rightarrow> string \<Rightarrow> string \<Rightarrow> worker_state \<Rightarrow> worker_state" where
  "on_commit encode commit tag version message s =
     (if commit = [] then s
      else s\<lparr>ws_commit := commit,
             ws_env := gm_set ''__VERSION'' version (gm_set ''__TAG'' tag (gm_set ''__COMMIT'' commit (ws_env s))),
             ws_queued := ws_queued s @
               [encode \<lparr>de_commit = commit, de_tag = tag, de_version = version, de_path = [], de_message = message\<rparr>]\<rparr>)"

definition new_worker :: "deploy_options \<Rightarrow> worker_state" where
  "new_worker opts =
     \<lparr>ws_commit = [], ws_env = [(''__NAMESPACE'', do_namespace opts), (''__NAME'', do_name opts)], ws_queued = []\<rparr>"

text \<open>\<open>Run\<close> waits until the release controller has seen the spec and the phase allows to work.\<close>

definition may_start :: "release \<Rightarrow> bool" where
  "may_start r \<longleftrightarrow>
     \<not> rst_observed_generation (rl_status r) < rl_generation r \<and>
     (rst_phase (rl_status r) = ReleaseRunning \<or> rst_phase (rl_status r) = ReleaseSucceeded \<or>
      rst_phase (rl_status r) = ReleaseFailed)"

end
