(* ===== verification/TraceMonitor.thy ===== *)
theory TraceMonitor
  imports Prelude
begin

text \<open>
  Order properties of a run as a monitor: a state that every interaction advances, and the
  interactions that the state allows. Inside the locale the effects are stepped through from a
  monitor state, with a postcondition on the result and the state that is reached.
\<close>

named_theorems watch_intros \<open>rules that step a monitor through an effect\<close>

fun monitored :: "('c \<Rightarrow> 's \<Rightarrow> bool) \<Rightarrow> ('c \<Rightarrow> 's \<Rightarrow> 's) \<Rightarrow> 's \<Rightarrow> 'c list \<Rightarrow> bool" where
  "monitored allows advance s [] \<longleftrightarrow> True"
| "monitored allows advance s (c # cs) \<longleftrightarrow> allows c s \<and> monitored allows advance (advance c s) cs"

lemma monitored_append:
  "monitored allows advance s (t @ u) \<longleftrightarrow>
   monitored allows advance s t \<and> monitored allows advance (fold advance t s) u"
  by (induction t arbitrary: s) auto

lemma monitoredD:
  assumes "monitored allows advance s (t @ c # u)"
  shows "allows c (fold advance t s)"
  using assms by (simp add: monitored_append)

locale trace_monitor =
  fixes allows :: "'c \<Rightarrow> 's \<Rightarrow> bool" and advance :: "'c \<Rightarrow> 's \<Rightarrow> 's"
begin

definition watch :: "'s \<Rightarrow> ('c, 'a) eff \<Rightarrow> ('a \<Rightarrow> 's \<Rightarrow> bool) \<Rightarrow> bool" where
  "watch s m K \<longleftrightarrow> holds m (\<lambda>t r. monitored allows advance s t \<and> (\<forall>x. r = Ok x \<longrightarrow> K x (fold advance t s)))"

lemma watch_run:
  assumes "watch s m K"
  shows "monitored allows advance s (snd (m []))"
proof -
  from assms obtain t where "snd (m []) = [] @ t" "monitored allows advance s t"
    unfolding watch_def holds_def by blast
  then show ?thesis by simp
qed

lemma watch_mono: "watch s m K \<Longrightarrow> (\<And>x s'. K x s' \<Longrightarrow> K' x s') \<Longrightarrow> watch s m K'"
  unfolding watch_def by (erule holds_mono) auto

lemma watch_ret [watch_intros]: "K x s \<Longrightarrow> watch s (eff_ret x) K"
  unfolding watch_def by (rule holds_ret) simp

lemma watch_of_res [watch_intros]: "(\<And>x. r = Ok x \<Longrightarrow> K x s) \<Longrightarrow> watch s (eff_of_res r) K"
  unfolding watch_def by (rule holds_of_res) simp

lemma watch_fail [watch_intros]: "watch s (eff_fail e) K"
  unfolding watch_def by (rule holds_fail) simp

lemma watch_perform [watch_intros]:
  "(\<And>a. allows (entry a) s) \<Longrightarrow> (\<And>x. K x (advance (entry (Inr x)) s)) \<Longrightarrow> watch s (perform ask entry) K"
  unfolding watch_def by (rule holds_perform) auto

lemma watch_observe [watch_intros]:
  "(\<And>x. allows (entry x) s) \<Longrightarrow> (\<And>x. K x (advance (entry x) s)) \<Longrightarrow> watch s (observe ask entry) K"
  unfolding watch_def by (rule holds_observe) auto

lemma watch_notify [watch_intros]: "allows c s \<Longrightarrow> K () (advance c s) \<Longrightarrow> watch s (notify c) K"
  unfolding watch_def by (rule holds_notify) auto

lemma watch_wrap [watch_intros]: "watch s m K \<Longrightarrow> watch s (eff_wrap msg m) K"
  unfolding watch_def by (rule holds_wrap) simp

lemma watch_bind [watch_intros]:
  assumes "watch s m (\<lambda>x s'. watch s' (f x) K)"
  shows "watch s (eff_bind m f) K"
  unfolding watch_def
proof (rule holds_bind, rule holds_mono [OF assms [unfolded watch_def [of s m]]])
  fix t r
  assume m: "monitored allows advance s t \<and> (\<forall>x. r = Ok x \<longrightarrow> watch (fold advance t s) (f x) K)"
  show "case r of
      Ok x \<Rightarrow> holds (f x) (\<lambda>t' r'. monitored allows advance s (t @ t') \<and> (\<forall>x. r' = Ok x \<longrightarrow> K x (fold advance (t @ t') s)))
    | Err e \<Rightarrow> monitored allows advance s t \<and> (\<forall>x. Err e = Ok x \<longrightarrow> K x (fold advance t s))
    | Panic \<Rightarrow> monitored allows advance s t \<and> (\<forall>x. Panic = Ok x \<longrightarrow> K x (fold advance t s))"
    using m by (auto simp: watch_def monitored_append split: res.split)
qed

lemma watch_try [watch_intros]:
  assumes "watch s m (\<lambda>x s'. K (Inr x) s')" and "\<And>e s'. K (Inl e) s'"
  shows "watch s (eff_try m) K"
  unfolding watch_def
  by (rule holds_try, rule holds_mono [OF assms(1) [unfolded watch_def]]) (auto simp: assms(2) split: res.split)

lemma watch_stage [watch_intros]:
  assumes "watch s m (\<lambda>x s'. case x of Done \<Rightarrow> K () s' | Go y \<Rightarrow> watch s' (k y) K)"
  shows "watch s (eff_stage m k) K"
  unfolding eff_stage_def
  by (rule watch_bind, rule watch_mono [OF assms]) (auto split: flow.splits intro: watch_ret)

lemma watch_each:
  assumes "\<And>x s. x \<in> set xs \<Longrightarrow> I s \<Longrightarrow> watch s (f x) (\<lambda>_ s'. I s')" and "I s" and "\<And>s'. I s' \<Longrightarrow> K () s'"
  shows "watch s (eff_each f xs) K"
  using assms(1,2)
proof (induction xs arbitrary: s)
  case Nil
  then show ?case by (simp add: watch_ret assms(3))
next
  case (Cons x xs)
  have "watch s (f x) (\<lambda>_ s'. watch s' (eff_each f xs) K)"
    by (rule watch_mono [OF Cons.prems(1) [OF _ Cons.prems(2)]]) (use Cons in auto)
  then show ?case by (simp add: watch_bind)
qed

text \<open>Interactions that every state allows and that advance nothing.\<close>

definition idle :: "'c \<Rightarrow> bool" where
  "idle c \<longleftrightarrow> (\<forall>s. allows c s \<and> advance c s = s)"

lemma idle_trace: "list_all idle t \<Longrightarrow> monitored allows advance s t \<and> fold advance t s = s"
  by (induction t) (auto simp: idle_def)

lemma watch_idle:
  assumes "emits idle m" and "\<And>x. K x s"
  shows "watch s m K"
  unfolding watch_def
  by (rule holds_mono [OF assms(1) [unfolded emits_def]]) (use idle_trace assms(2) in fastforce)

lemma watch_idle_bind: "emits idle m \<Longrightarrow> (\<And>x. watch s (f x) K) \<Longrightarrow> watch s (eff_bind m f) K"
  by (rule watch_bind, rule watch_idle)

lemma watch_then: "watch s m I \<Longrightarrow> (\<And>x s'. I x s' \<Longrightarrow> watch s' (f x) K) \<Longrightarrow> watch s (eff_bind m f) K"
  by (rule watch_bind) (rule watch_mono)

lemma watch_if [watch_intros]:
  "(b \<Longrightarrow> watch s m K) \<Longrightarrow> (\<not> b \<Longrightarrow> watch s n K) \<Longrightarrow> watch s (if b then m else n) K"
  by simp

end

end
