(* ===== verification/DeployerSafety.thy ===== *)
theory DeployerSafety
  imports Deployer ReleaseWorker TraceMonitor
begin

text \<open>
  What the worker of a release promises: it reports in the right order, a commit that it reports as
  checked makes the release controller call the release succeeded, and then neither side does
  anything again.
\<close>

section \<open>The order of the reports\<close>

text \<open>
  A monitor of the interactions of one run: whether the commit counts as deployed, whether the
  plugin has run, whether it has tested the deployed commit, whether that was reported.
\<close>

record deploy_monitor =
  mon_deployed :: bool
  mon_ran :: bool
  mon_tested :: bool
  mon_checked :: bool

definition reports :: "condition_type \<Rightarrow> patch_op list \<Rightarrow> bool" where
  "reports ct p \<longleftrightarrow> list_ex (\<lambda>x. case x of AddCondition c \<Rightarrow> rc_type c = ct | _ \<Rightarrow> False) p"

text \<open>
  The two patches: the first reports that the commit of the run is deployed and needs a run of the plugin,
  the second that it is checked and needs a test.
\<close>

fun patch_allowed :: "string \<Rightarrow> string \<Rightarrow> patch_op list \<Rightarrow> deploy_monitor \<Rightarrow> bool" where
  "patch_allowed commit hash [SetCommit c, SetParametersHash h, SetVersion v, AddCondition d] m \<longleftrightarrow>
     c = commit \<and> h = hash \<and> rc_type d = ReleaseDeployed \<and> mon_ran m"
| "patch_allowed commit hash [AddCondition d] m \<longleftrightarrow> rc_type d = ReleaseChecked \<and> mon_tested m"
| "patch_allowed commit hash _ m \<longleftrightarrow> False"

fun monitor_allows :: "string \<Rightarrow> string \<Rightarrow> deploy_call \<Rightarrow> deploy_monitor \<Rightarrow> bool" where
  "monitor_allows commit hash (PatchStatus ns n p a) m \<longleftrightarrow> patch_allowed commit hash p m"
| "monitor_allows commit hash (PluginTest t a) m \<longleftrightarrow> mon_deployed m"
| "monitor_allows commit hash (CallBack key) m \<longleftrightarrow> mon_checked m"
| "monitor_allows commit hash _ m \<longleftrightarrow> True"

fun monitor_next :: "string \<Rightarrow> string \<Rightarrow> deploy_call \<Rightarrow> deploy_monitor \<Rightarrow> deploy_monitor" where
  "monitor_next commit hash (FetchRelease ns n (Inr r)) m = m\<lparr>mon_deployed := is_applied commit hash r\<rparr>"
| "monitor_next commit hash (PluginRun False (Inr x)) m = m\<lparr>mon_ran := True, mon_deployed := False, mon_tested := False\<rparr>"
| "monitor_next commit hash (PluginTest t (Inr x)) m = m\<lparr>mon_tested := True\<rparr>"
| "monitor_next commit hash (PatchStatus ns n p (Inr x)) m =
     m\<lparr>mon_deployed := mon_deployed m \<or> (reports ReleaseDeployed p \<and> SetCommit commit \<in> set p \<and> SetParametersHash hash \<in> set p),
       mon_checked := mon_checked m \<or> reports ReleaseChecked p\<rparr>"
| "monitor_next commit hash _ m = m"

definition monitor_start :: deploy_monitor where
  "monitor_start = \<lparr>mon_deployed = False, mon_ran = False, mon_tested = False, mon_checked = False\<rparr>"

lemma reports_patches [simp]:
  "reports ct (deployed_patch c h v now) \<longleftrightarrow> ct = ReleaseDeployed"
  "reports ct (checked_patch c h now) \<longleftrightarrow> ct = ReleaseChecked"
  by (auto simp: reports_def deployed_patch_def checked_patch_def)

lemma deployed_patch_sets [simp]:
  "SetCommit c \<in> set (deployed_patch c h v now)" "SetParametersHash h \<in> set (deployed_patch c h v now)"
  by (simp_all add: deployed_patch_def)

lemma patch_allowed_patches [simp]:
  "patch_allowed c h (deployed_patch c' h' v now) m \<longleftrightarrow> c' = c \<and> h' = h \<and> mon_ran m"
  "patch_allowed c h (checked_patch c' h' now) m \<longleftrightarrow> mon_tested m"
  by (simp_all add: deployed_patch_def checked_patch_def)

interpretation reporting: trace_monitor "monitor_allows commit hash" "monitor_next commit hash"
  for commit hash .

lemma check_in_order:
  "mon_deployed m \<Longrightarrow> reporting.watch c h m (check_commit D ev h' key r t) (\<lambda>_ _. True)"
  unfolding check_commit_def deploy_call_defs by (intro watch_intros) auto

lemma release_in_order:
  assumes "mon_deployed m = is_applied c h r" and "de_commit ev = c"
  shows "reporting.watch c h m (deploy_release D opts ev h key r) (\<lambda>_ _. True)"
proof -
  have diff: "reporting.watch c h m (detect_diff D opts c h r) (\<lambda>d m'. m' = m \<and> (\<not> d \<longrightarrow> mon_deployed m))"
    unfolding detect_diff_def deploy_call_defs by (intro watch_intros) (auto simp: assms)
  have deploy: "reporting.watch c h m (deploy_commit D opts ev h r)
      (\<lambda>x m'. case x of Done \<Rightarrow> True | Go y \<Rightarrow> mon_deployed m')"
    unfolding deploy_commit_def deploy_call_defs by (intro watch_intros) (auto simp: assms(2) split: bool.splits)
  have stage: "reporting.watch c h m
      (eff_stage (if d then deploy_commit D opts ev h r else eff_ret (Go t)) (check_commit D ev h key r)) (\<lambda>_ _. True)"
    if "\<not> d \<longrightarrow> mon_deployed m" for d t
  proof (rule reporting.watch_stage, rule reporting.watch_if)
    show "reporting.watch c h m (deploy_commit D opts ev h r) (\<lambda>x m'. case x of Done \<Rightarrow> True
        | Go y \<Rightarrow> reporting.watch c h m' (check_commit D ev h key r y) (\<lambda>_ _. True))"
      by (rule reporting.watch_mono [OF deploy]) (auto split: flow.splits intro: check_in_order)
    show "reporting.watch c h m (eff_ret (Go t)) (\<lambda>x m'. case x of Done \<Rightarrow> True
        | Go y \<Rightarrow> reporting.watch c h m' (check_commit D ev h key r y) (\<lambda>_ _. True))" if "\<not> d"
      by (rule reporting.watch_ret) (use that \<open>\<not> d \<longrightarrow> _\<close> in \<open>auto intro: check_in_order\<close>)
  qed
  show ?thesis
    unfolding deploy_release_def assms(2)
    by (rule reporting.watch_bind, rule reporting.watch_mono [OF diff])
      (clarify, intro reporting.watch_if reporting.watch_ret stage, simp_all)
qed

lemma handler_in_order:
  "monitored (monitor_allows current (hash_string_map (dv_sha256 D) (do_parameters opts)))
     (monitor_next current (hash_string_map (dv_sha256 D) (do_parameters opts)))
     monitor_start (snd (deploy_handler D opts current key []))"
proof (rule reporting.watch_run [where K = "\<lambda>_ _. True"])
  show "reporting.watch current (hash_string_map (dv_sha256 D) (do_parameters opts)) monitor_start
      (deploy_handler D opts current key) (\<lambda>_ _. True)"
    unfolding deploy_handler_def deploy_call_defs
    by (intro watch_intros) (auto simp: monitor_start_def intro!: release_in_order watch_intros)
qed


section \<open>From the report to the phase of the release\<close>

text \<open>What a run amounts to: the release it saw, the patches that were accepted, the callback.\<close>

record deploy_summary =
  sum_release :: "release option"
  sum_patches :: "patch_op list"
  sum_called :: bool

fun summarize :: "deploy_call \<Rightarrow> deploy_summary \<Rightarrow> deploy_summary" where
  "summarize (FetchRelease ns n (Inr r)) s = s\<lparr>sum_release := Some r\<rparr>"
| "summarize (PatchStatus ns n p (Inr x)) s = s\<lparr>sum_patches := sum_patches s @ p\<rparr>"
| "summarize (CallBack key) s = s\<lparr>sum_called := True\<rparr>"
| "summarize _ s = s"

definition summary :: "deploy_call list \<Rightarrow> deploy_summary" where
  "summary t = fold summarize t \<lparr>sum_release = None, sum_patches = [], sum_called = False\<rparr>"

interpretation summing: trace_monitor "\<lambda>_ _. True" summarize .

text \<open>The patches of a completed run.\<close>

definition completed_by :: "string \<Rightarrow> string \<Rightarrow> release \<Rightarrow> patch_op list \<Rightarrow> bool" where
  "completed_by c h r ps \<longleftrightarrow>
     (\<exists>now. is_applied c h r \<and> ps = checked_patch c h now) \<or>
     (\<exists>v now later. ps = deployed_patch c h v now @ checked_patch c h later)"

lemma completed_byI [intro]:
  "is_applied c h r \<Longrightarrow> completed_by c h r (checked_patch c h now)"
  "completed_by c h r (deployed_patch c h v now @ checked_patch c h later)"
  by (auto simp: completed_by_def)

abbreviation done_by :: "string \<Rightarrow> string \<Rightarrow> unit \<Rightarrow> deploy_summary \<Rightarrow> bool" where
  "done_by c h \<equiv> \<lambda>_ s. sum_called s \<longrightarrow> (\<exists>r. sum_release s = Some r \<and> completed_by c h r (sum_patches s))"

lemma check_summary:
  assumes "\<And>now. K () (s\<lparr>sum_patches := sum_patches s @ checked_patch (de_commit ev) h now, sum_called := True\<rparr>)"
  shows "summing.watch s (check_commit D ev h key r t) K"
  unfolding check_commit_def deploy_call_defs by (intro watch_intros) (auto simp: assms)

lemma release_summary:
  assumes "sum_release s = Some r" and "sum_patches s = []" and "\<not> sum_called s" and "de_commit ev = c"
  shows "summing.watch s (deploy_release D opts ev h key r) (done_by c h)"
proof -
  have diff: "summing.watch s (detect_diff D opts c h r) (\<lambda>d s'. s' = s \<and> (\<not> d \<longrightarrow> is_applied c h r))"
    unfolding detect_diff_def deploy_call_defs by (intro watch_intros) auto
  have deploy: "summing.watch s (deploy_commit D opts ev h r)
      (\<lambda>x s'. case x of Done \<Rightarrow> \<not> sum_called s'
        | Go y \<Rightarrow> sum_release s' = Some r \<and> (\<exists>v now. sum_patches s' = deployed_patch c h v now))"
    unfolding deploy_commit_def deploy_call_defs by (intro watch_intros) (auto simp: assms)
  have stage: "summing.watch s
      (eff_stage (if d then deploy_commit D opts ev h r else eff_ret (Go t)) (check_commit D ev h key r)) (done_by c h)"
    if "\<not> d \<longrightarrow> is_applied c h r" for d t
  proof (rule summing.watch_stage, rule summing.watch_if)
    show "summing.watch s (deploy_commit D opts ev h r) (\<lambda>x s'. case x of Done \<Rightarrow> done_by c h () s'
        | Go y \<Rightarrow> summing.watch s' (check_commit D ev h key r y) (done_by c h))"
      by (rule summing.watch_mono [OF deploy])
        (auto split: flow.splits intro!: check_summary simp: assms(4))
    show "summing.watch s (eff_ret (Go t)) (\<lambda>x s'. case x of Done \<Rightarrow> done_by c h () s'
        | Go y \<Rightarrow> summing.watch s' (check_commit D ev h key r y) (done_by c h))" if "\<not> d"
      by (rule summing.watch_ret)
        (use that \<open>\<not> d \<longrightarrow> _\<close> in \<open>auto intro!: check_summary simp: assms\<close>)
  qed
  show ?thesis
    unfolding deploy_release_def assms(4)
    by (rule summing.watch_bind, rule summing.watch_mono [OF diff])
      (clarify, intro summing.watch_if summing.watch_ret stage, simp_all add: assms)
qed

lemma handler_summary:
  assumes "deploy_handler D opts current key [] = (Ok (), t)" and "sum_called (summary t)"
  shows "\<exists>r. sum_release (summary t) = Some r \<and>
    completed_by current (hash_string_map (dv_sha256 D) (do_parameters opts)) r (sum_patches (summary t))"
proof -
  have "summing.watch \<lparr>sum_release = None, sum_patches = [], sum_called = False\<rparr> (deploy_handler D opts current key)
      (done_by current (hash_string_map (dv_sha256 D) (do_parameters opts)))"
    unfolding deploy_handler_def deploy_call_defs
    by (intro watch_intros) (auto intro!: release_summary watch_intros)
  then show ?thesis
    using assms unfolding summing.watch_def holds_def summary_def by (metis append_Nil fst_conv snd_conv)
qed

lemma apply_patches:
  assumes "completed_by c h r ps" and "rst_conditions (rl_status r) \<noteq> []"
  shows "\<exists>st. apply_patch ps (rl_status r) = Some st \<and> is_applied c h (r\<lparr>rl_status := st\<rparr>) \<and>
    rst_conditions st \<noteq> [] \<and> condition_succeeded (last (rst_conditions st)) \<and>
    rst_phase st = rst_phase (rl_status r) \<and> rst_deployer_status st = rst_deployer_status (rl_status r) \<and>
    rst_observed_generation st = rst_observed_generation (rl_status r)"
  using assms
  by (auto simp: completed_by_def deployed_patch_def checked_patch_def is_applied_def condition_succeeded_def)

text \<open>
  C20. When a run of the worker has called its callback, the status that its patches leave gives the
  release the phase Succeeded, whatever phase it had, and once that phase is stored the commit
  counts as applied and ready, and the release controller scales the worker down exactly when
  reconciling is off and the commit is the revision that the spec asks for.
\<close>

theorem deployed_release_succeeds:
  assumes "deploy_handler D opts current key [] = (Ok (), t)" and "sum_called (summary t)"
    and "sum_release (summary t) = Some r" and "may_start r" and "\<not> rs_disabled (rl_spec r)"
    and "rst_deployer_status (rl_status r) = Some ds" and "ds_phase ds = DeployerPhaseRunning"
    and "rl_conditions r \<noteq> []" and "rst_observed_generation (rl_status r) = rl_generation r"
    and "gm_ok (do_parameters opts)" and "gm_ok (rd_parameters (rs_deployer (rl_spec r)))"
    and "gm_eq (do_parameters opts) (rd_parameters (rs_deployer (rl_spec r)))"
  shows "\<exists>st. apply_patch (sum_patches (summary t)) (rl_status r) = Some st \<and>
    release_phase_of (r\<lparr>rl_status := st\<rparr>) = ReleaseSucceeded \<and>
    is_applied current (hash_string_map (dv_sha256 D) (do_parameters opts)) (r\<lparr>rl_status := st\<rparr>) \<and>
    should_scale_zero (dv_sha256 D) (r\<lparr>rl_status := st\<lparr>rst_phase := ReleaseSucceeded\<rparr>\<rparr>) =
      (\<not> rd_reconcile (rs_deployer (rl_spec r)) \<and> rs_revision (rl_spec r) = current)"
proof -
  let ?h = "hash_string_map (dv_sha256 D) (do_parameters opts)"
  have "completed_by current ?h r (sum_patches (summary t))"
    using handler_summary [OF assms(1,2)] assms(3) by simp
  from apply_patches [OF this assms(8)] obtain st where
    st: "apply_patch (sum_patches (summary t)) (rl_status r) = Some st"
    "is_applied current ?h (r\<lparr>rl_status := st\<rparr>)" "rst_conditions st \<noteq> []"
    "condition_succeeded (last (rst_conditions st))" "rst_phase st = rst_phase (rl_status r)"
    "rst_deployer_status st = rst_deployer_status (rl_status r)"
    "rst_observed_generation st = rst_observed_generation (rl_status r)" by blast
  have "\<not> condition_failed (last (rst_conditions st))"
    using st(4) by (auto simp: condition_failed_def condition_succeeded_def)
  then have "release_phase_of (r\<lparr>rl_status := st\<rparr>) = ReleaseSucceeded"
    using st(3-7) assms(4-7,9) by (auto simp: release_phase_of_def may_start_def)
  moreover have "hash_string_map (dv_sha256 D) (rd_parameters (rs_deployer (rl_spec r))) = ?h"
    using hash_input_eq [OF assms(10-12)] by (simp add: hash_string_map_def)
  then have "should_scale_zero (dv_sha256 D) (r\<lparr>rl_status := st\<lparr>rst_phase := ReleaseSucceeded\<rparr>\<rparr>) =
      (\<not> rd_reconcile (rs_deployer (rl_spec r)) \<and> rs_revision (rl_spec r) = current)"
    using st(2,7) assms(9) by (auto simp: should_scale_zero_def is_applied_def)
  ultimately show ?thesis using st(1,2) by blast
qed

text \<open>A worker for the commit \<open>c1\<close> of a release that runs; every call succeeds.\<close>

definition sample_options :: deploy_options where
  "sample_options =
     \<lparr>do_namespace = ''ns'', do_name = ''app'', do_reconcile = False, do_dry_run = False,
      do_parameters = [(''a'', ''1'')]\<rparr>"

definition sample_release :: release where
  "sample_release = empty_release
     \<lparr>rl_spec := empty_spec\<lparr>rs_revision := ''c1'', rs_deployer := empty_deployer\<lparr>rd_parameters := [(''a'', ''1'')]\<rparr>\<rparr>,
      rl_status := empty_status
        \<lparr>rst_phase := ReleaseRunning,
         rst_deployer_status := Some (empty_deployer_status\<lparr>ds_phase := DeployerPhaseRunning\<rparr>),
         rst_conditions := [running_marker empty_deployer_status 0]\<rparr>\<rparr>"

definition sample_worker :: deploy_env where
  "sample_worker =
     \<lparr>dv_init = (\<lambda>_ _ _ _. Inr ()), dv_diff = (\<lambda>_. Inr True), dv_run = (\<lambda>_ _. Inr ()), dv_test = (\<lambda>_ _. Inr ()),
      dv_fetch = (\<lambda>_ _ _. Inr sample_release), dv_patch = (\<lambda>_ _ _ _. Inr ()), dv_now = (\<lambda>_. 0),
      dv_decode = (\<lambda>key. Inr \<lparr>de_commit = key, de_tag = [], de_version = ''v1'', de_path = [], de_message = []\<rparr>),
      dv_sha256 = (\<lambda>s. s)\<rparr>"

lemma sample_run:
  "\<exists>t. deploy_handler sample_worker sample_options ''c1'' ''c1'' [] = (Ok (), t) \<and> sum_called (summary t) \<and>
     sum_release (summary t) = Some sample_release"
  by (simp add: deploy_handler_def deploy_release_def detect_diff_def deploy_commit_def check_commit_def
      eff_bind_def eff_wrap_def eff_ret_def eff_of_res_def eff_stage_def perform_def observe_def notify_def
      deploy_call_defs sample_worker_def sample_options_def summary_def is_applied_def)
    (simp add: sample_release_def empty_release_def empty_status_def)

lemma deployed_release_succeeds_witness:
  "\<exists>t st. deploy_handler sample_worker sample_options ''c1'' ''c1'' [] = (Ok (), t) \<and>
     apply_patch (sum_patches (summary t)) (rl_status sample_release) = Some st \<and>
     release_phase_of (sample_release\<lparr>rl_status := st\<rparr>) = ReleaseSucceeded \<and>
     should_scale_zero (dv_sha256 sample_worker) (sample_release\<lparr>rl_status := st\<lparr>rst_phase := ReleaseSucceeded\<rparr>\<rparr>)"
proof -
  obtain t where run: "deploy_handler sample_worker sample_options ''c1'' ''c1'' [] = (Ok (), t)"
    "sum_called (summary t)" "sum_release (summary t) = Some sample_release" using sample_run by blast
  have ok: "may_start sample_release" "\<not> rs_disabled (rl_spec sample_release)"
    "rst_deployer_status (rl_status sample_release) = Some (empty_deployer_status\<lparr>ds_phase := DeployerPhaseRunning\<rparr>)"
    "ds_phase (empty_deployer_status\<lparr>ds_phase := DeployerPhaseRunning\<rparr>) = DeployerPhaseRunning"
    "rl_conditions sample_release \<noteq> []"
    "rst_observed_generation (rl_status sample_release) = rl_generation sample_release"
    "gm_ok (do_parameters sample_options)" "gm_ok (rd_parameters (rs_deployer (rl_spec sample_release)))"
    "gm_eq (do_parameters sample_options) (rd_parameters (rs_deployer (rl_spec sample_release)))"
    "\<not> rd_reconcile (rs_deployer (rl_spec sample_release))" "rs_revision (rl_spec sample_release) = ''c1''"
    by (simp_all add: may_start_def sample_release_def sample_options_def empty_release_def empty_spec_def
        empty_status_def empty_meta_def empty_deployer_def gm_ok_def gm_eq_def)
  from deployed_release_succeeds [OF run ok(1-9)] ok(10,11) run(1) show ?thesis by blast
qed

text \<open>A commit that is applied to a release that is ready is left alone, unless reconciling is on.\<close>

lemma applied_commit_rests:
  assumes "dv_decode D key = Inr ev" and "de_commit ev = current"
    and "dv_init D [] current (de_tag ev) (de_version ev) = Inr ()"
    and "dv_fetch D [PluginInit current (de_tag ev) (de_version ev) (Inr ())] (do_namespace opts) (do_name opts) = Inr r"
    and "is_ready r" and "is_applied current (hash_string_map (dv_sha256 D) (do_parameters opts)) r"
    and "\<not> do_reconcile opts"
  shows "deploy_handler D opts current key [] =
    (Ok (), [PluginInit current (de_tag ev) (de_version ev) (Inr ()),
             FetchRelease (do_namespace opts) (do_name opts) (Inr r)])"
  using assms
  by (simp add: deploy_handler_def deploy_release_def detect_diff_def eff_bind_def eff_wrap_def eff_ret_def
      eff_of_res_def perform_def deploy_call_defs)

section \<open>Parameters\<close>

text \<open>The values of the flag \<open>--parameters\<close> on the command line of the worker.\<close>

definition parameter_flags :: "string list \<Rightarrow> string list" where
  "parameter_flags args =
     map (\<lambda>a. trim_prefix a ''--parameters='') (filter (\<lambda>a. has_prefix a ''--parameters='') args)"

lemma parse_parameters_map:
  assumes "list_all (\<lambda>k. CHR ''='' \<notin> set k) ks"
  shows "map_of (fold (\<lambda>p m. case index_of (CHR ''='') p of
         None \<Rightarrow> m | Some i \<Rightarrow> gm_set (take i p) (drop (i + 1) p) m) (map (\<lambda>k. k @ CHR ''='' # f k) ks) m) k
    = (if k \<in> set ks then Some (f k) else map_of m k)"
  using assms
proof (induction ks arbitrary: m)
  case (Cons l ks)
  then show ?case by (auto simp: index_of_append)
qed simp



end
