(* ===== verification/Kubectl.thy ===== *)
theory Kubectl
  imports GoStrings
begin

text \<open>
  The wrapper of the command line tool (src/pkg/kubectl/kubectl.go): the command line of a call, and
  the objects that \<open>get\<close> prints with the templates of the source.
\<close>

record kubectl =
  kc_config :: string
  kc_dry_run :: bool
  kc_use_tess :: bool

text \<open>What running a command gives: its output and how it ended.\<close>

datatype exec_status = Exited nat | NotStarted

definition succeeded :: "exec_status \<Rightarrow> bool" where
  "succeeded s \<longleftrightarrow> s = Exited 0"

record kube_object =
  ko_key :: string
  ko_namespace :: string
  ko_name :: string
  ko_deleting :: bool

definition dry_runnable :: "string list" where
  "dry_runnable = [''apply'', ''replace'']"

definition kubectl_argv :: "kubectl \<Rightarrow> string list \<Rightarrow> string list" where
  "kubectl_argv k params =
     (let params = (if kc_dry_run k \<and> params \<noteq> [] \<and> hd params \<in> set dry_runnable
                    then params @ [''--dry-run''] else params);
          params = (if kc_config k \<noteq> [] then [''--kubeconfig'', kc_config k] @ params else params)
      in (if kc_use_tess k then [''tess'', ''kubectl''] else [''kubectl'']) @ params)"

text \<open>\<open>Run\<close>: \<open>None\<close> is a deletion that a dry run skips.\<close>

definition run_argv :: "kubectl \<Rightarrow> string list \<Rightarrow> string list option" where
  "run_argv k params = (if kc_dry_run k \<and> ''delete'' \<in> set params then None else Some (kubectl_argv k params))"

section \<open>Printed objects\<close>

definition key_aliases :: "(string \<times> string) list" where
  "key_aliases =
     [(''PodSecurityPolicy.extensions'', ''PodSecurityPolicy.policy''), (''Deployment.extensions'', ''Deployment.apps'')]"

text \<open>The group and version of an API version.\<close>

definition split_version :: "string \<Rightarrow> string \<times> string" where
  "split_version api =
     (case index_of (CHR ''/'') api of
        None \<Rightarrow> ([], api)
      | Some i \<Rightarrow> (take i api, drop (i + 1) api))"

definition object_key :: "bool \<Rightarrow> string \<Rightarrow> string \<Rightarrow> string" where
  "object_key with_version kind api =
     (case split_version api of (g, version) \<Rightarrow>
        let key = (if g = [] then kind
                   else if with_version then kind @ ''.'' @ version @ ''.'' @ g
                   else kind @ ''.'' @ g)
        in (case map_of key_aliases key of None \<Rightarrow> key | Some a \<Rightarrow> a))"

text \<open>
  One line: an empty line and a line without four fields are skipped (\<open>Ok None\<close>); \<open>names[1]\<close> is out
  of range when the third field has no slash.
\<close>

definition parse_entry :: "bool \<Rightarrow> string \<Rightarrow> kube_object option res" where
  "parse_entry with_version line =
     (if line = [] then Ok None
      else let fields = split_on (CHR '' '') line in
        if length fields \<noteq> 4 then Ok None
        else let names = split_on (CHR ''/'') (fields ! 2) in
          if length names < 2 then Panic
          else Ok (Some \<lparr>ko_key = object_key with_version (fields ! 0) (fields ! 1), ko_namespace = names ! 0,
                         ko_name = names ! 1, ko_deleting = (fields ! 3 \<noteq> ''-'')\<rparr>))"

fun parse_lines :: "bool \<Rightarrow> string list \<Rightarrow> kube_object list res" where
  "parse_lines with_version [] = Ok []"
| "parse_lines with_version (l # ls) =
     bind_res (parse_entry with_version l) (\<lambda>x.
     bind_res (parse_lines with_version ls) (\<lambda>xs. Ok (case x of None \<Rightarrow> xs | Some y \<Rightarrow> y # xs)))"

definition newline :: char where "newline = CHR 0x0A"

definition parse_objects :: "bool \<Rightarrow> string \<Rightarrow> kube_object list res" where
  "parse_objects with_version output = parse_lines with_version (split_on newline output)"

section \<open>Round trip\<close>

text \<open>An object as the API server knows it, and the line that the template prints for it.\<close>

record api_object =
  ao_kind :: string
  ao_api_version :: string
  ao_namespace :: string
  ao_name :: string
  ao_deleted_at :: string

definition print_object :: "api_object \<Rightarrow> string" where
  "print_object a =
     ao_kind a @ '' '' @ ao_api_version a @ '' '' @ ao_namespace a @ ''/'' @ ao_name a @ '' -'' @ ao_deleted_at a"

definition clean :: "string \<Rightarrow> bool" where
  "clean s \<longleftrightarrow> CHR '' '' \<notin> set s \<and> newline \<notin> set s"

definition well_named :: "api_object \<Rightarrow> bool" where
  "well_named a \<longleftrightarrow>
     list_all clean [ao_kind a, ao_api_version a, ao_namespace a, ao_name a, ao_deleted_at a] \<and>
     CHR ''/'' \<notin> set (ao_namespace a) \<and> CHR ''/'' \<notin> set (ao_name a)"

definition seen_object :: "bool \<Rightarrow> api_object \<Rightarrow> kube_object" where
  "seen_object with_version a =
     \<lparr>ko_key = object_key with_version (ao_kind a) (ao_api_version a), ko_namespace = ao_namespace a,
      ko_name = ao_name a, ko_deleting = (ao_deleted_at a \<noteq> [])\<rparr>"

lemma parse_print_object:
  assumes "well_named a"
  shows "parse_entry with_version (print_object a) = Ok (Some (seen_object with_version a))"
proof -
  have "split_on (CHR '' '') (print_object a) =
      [ao_kind a, ao_api_version a, ao_namespace a @ CHR ''/'' # ao_name a, CHR ''-'' # ao_deleted_at a]"
    using assms split_on_append [of "CHR '' ''" "ao_namespace a @ CHR ''/'' # ao_name a"]
    by (simp add: print_object_def well_named_def clean_def split_on_append split_on_no_sep)
  moreover have "split_on (CHR ''/'') (ao_namespace a @ CHR ''/'' # ao_name a) = [ao_namespace a, ao_name a]"
    using assms by (simp add: well_named_def split_on_append split_on_no_sep)
  moreover have "print_object a \<noteq> []" by (simp add: print_object_def)
  ultimately show ?thesis by (simp add: parse_entry_def seen_object_def)
qed

lemma print_object_one_line: "well_named a \<Longrightarrow> newline \<notin> set (print_object a)"
  by (auto simp: print_object_def well_named_def clean_def newline_def)

text \<open>
  C39. What \<open>get\<close> prints for a list of objects, a line for each, is read back as these objects, in
  their order, with the key that the group, the version and the aliases give.
\<close>

theorem parse_printed_objects:
  assumes "list_all well_named objects"
  shows "parse_objects with_version (concat (map (\<lambda>a. print_object a @ [newline]) objects)) =
    Ok (map (seen_object with_version) objects)"
  using assms
proof (induction objects)
  case Nil
  show ?case by (simp add: parse_objects_def parse_entry_def)
next
  case (Cons a objects)
  then show ?case
    using parse_print_object [of a with_version] print_object_one_line [of a]
    by (simp add: parse_objects_def split_on_append)
qed

lemma parse_printed_objects_witness:
  "parse_objects True
     (''Deployment apps/v1 ns/web -'' @ [newline] @ ''Node v1 /n1 -2020-01-01T00:00:00Z'' @ [newline]) =
   Ok [\<lparr>ko_key = ''Deployment.v1.apps'', ko_namespace = ''ns'', ko_name = ''web'', ko_deleting = False\<rparr>,
       \<lparr>ko_key = ''Node'', ko_namespace = [], ko_name = ''n1'', ko_deleting = True\<rparr>]"
proof -
  let ?objects = "[\<lparr>ao_kind = ''Deployment'', ao_api_version = ''apps/v1'', ao_namespace = ''ns'', ao_name = ''web'',
      ao_deleted_at = []\<rparr>, \<lparr>ao_kind = ''Node'', ao_api_version = ''v1'', ao_namespace = [], ao_name = ''n1'',
      ao_deleted_at = ''2020-01-01T00:00:00Z''\<rparr>]"
  have "list_all well_named ?objects" by code_simp
  from parse_printed_objects [OF this, of True] show ?thesis
    by (simp add: print_object_def seen_object_def object_key_def split_version_def key_aliases_def)
qed

end
