(* ===== verification/Checkers.thy ===== *)
theory Checkers
  imports KubeObjects ReleaseApi
begin

text \<open>
  The checkers of the worker (src/pkg/checker): an object that \<open>kubectl get\<close> printed is decoded and
  has to have reached the state that its spec asks for. The decoder is a parameter; the registry
  is filled by the packages that the worker links.
\<close>

record stateful_set =
  ss_meta :: object_meta
  ss_replicas :: "int option"
  ss_observed_generation :: "int option"
  ss_status_replicas :: int
  ss_ready_replicas :: int

datatype checked_object =
    CheckedDeployment deployment
  | CheckedStatefulSet stateful_set
  | CheckedRelease release
  | OtherKind

datatype checker = DeploymentChecker | StatefulSetChecker bool | ReleaseChecker

text \<open>\<open>Register\<close>: a key is taken once; the package initialisers ignore the error.\<close>

definition register :: "string \<Rightarrow> checker \<Rightarrow> (string \<times> checker) list \<Rightarrow> (string \<times> checker) list" where
  "register key impl checks = (if map_of checks key \<noteq> None then checks else checks @ [(key, impl)])"

text \<open>
  The status of the old StatefulSet version holds its observed generation as a pointer (\<open>True\<close>).
\<close>

definition registry :: "(string \<times> checker) list" where
  "registry =
     fold (\<lambda>(k, c). register k c)
       [(''Deployment.v1.apps'', DeploymentChecker), (''Deployment.v1beta2.apps'', DeploymentChecker),
        (''Deployment.v1beta1.apps'', DeploymentChecker), (''StatefulSet.v1.apps'', StatefulSetChecker False),
        (''StatefulSet.v1beta1.apps'', StatefulSetChecker True), (''StatefulSet.v1beta2.apps'', StatefulSetChecker False),
        (''Release.v1alpha1.fleet.crd.tess.io'', ReleaseChecker)] []"

definition has_check :: "string \<Rightarrow> bool" where
  "has_check key \<longleftrightarrow> map_of registry key \<noteq> None"

definition get_check :: "string \<Rightarrow> checker res" where
  "get_check key = (case map_of registry key of None \<Rightarrow> Err (Errorf ''no check factory registered'') | Some c \<Rightarrow> Ok c)"

text \<open>\<open>Ok ()\<close> is the nil error. \<open>*(deploy.Spec.Replicas)\<close> panics on nil.\<close>

definition check_deployment :: "deployment \<Rightarrow> unit res" where
  "check_deployment d =
     (if dst_observed_generation (dp_status d) < om_generation (dp_meta d) then Err (Errorf ''stale status'')
      else bind_res (deref (dsp_replicas (dp_spec d))) (\<lambda>n.
        if dst_updated_replicas (dp_status d) = n \<and> dst_replicas (dp_status d) = n \<and>
           dst_available_replicas (dp_status d) = n
        then Ok () else Err (Errorf ''not the desired replicas'')))"

definition check_stateful_set :: "bool \<Rightarrow> stateful_set \<Rightarrow> unit res" where
  "check_stateful_set pointer ss =
     bind_res (if pointer then deref (ss_observed_generation ss)
               else Ok (case ss_observed_generation ss of None \<Rightarrow> 0 | Some g \<Rightarrow> g)) (\<lambda>observed.
       if observed < om_generation (ss_meta ss) then Err (Errorf ''stale status'')
       else bind_res (deref (ss_replicas ss)) (\<lambda>n.
         if ss_status_replicas ss = n
         then bind_res (deref (ss_replicas ss)) (\<lambda>n.
           if ss_ready_replicas ss = n then Ok () else Err (Errorf ''not the desired replicas''))
         else Err (Errorf ''not the desired replicas'')))"

definition check_release :: "release \<Rightarrow> unit res" where
  "check_release r =
     (if rst_observed_generation (rl_status r) < rl_generation r then Err (Errorf ''stale status'')
      else if rs_disabled (rl_spec r) then Ok ()
      else if rst_phase (rl_status r) \<noteq> ReleaseSucceeded then Err (Errorf ''in another phase'')
      else Ok ())"

fun run_check :: "checker \<Rightarrow> go_error + checked_object \<Rightarrow> unit res" where
  "run_check _ (Inl e) = Err (Errorf ''failed to decode'')"
| "run_check DeploymentChecker (Inr (CheckedDeployment d)) = check_deployment d"
| "run_check (StatefulSetChecker pointer) (Inr (CheckedStatefulSet ss)) = check_stateful_set pointer ss"
| "run_check ReleaseChecker (Inr (CheckedRelease r)) = check_release r"
| "run_check _ (Inr _) = Err (Errorf ''unexpected object kind'')"

fun_cases run_check_OkE: "run_check c x = Ok ()"

section \<open>What a passed check means\<close>

lemma check_deployment_Ok_iff:
  "check_deployment d = Ok () \<longleftrightarrow>
   om_generation (dp_meta d) \<le> dst_observed_generation (dp_status d) \<and>
   dsp_replicas (dp_spec d) = Some (dst_replicas (dp_status d)) \<and>
   dst_updated_replicas (dp_status d) = dst_replicas (dp_status d) \<and>
   dst_available_replicas (dp_status d) = dst_replicas (dp_status d)"
  by (auto simp: check_deployment_def)

lemma check_release_Ok_iff:
  "check_release r = Ok () \<longleftrightarrow>
   rl_generation r \<le> rst_observed_generation (rl_status r) \<and>
   (rs_disabled (rl_spec r) \<or> rst_phase (rl_status r) = ReleaseSucceeded)"
  by (auto simp: check_release_def)

text \<open>A StatefulSet of the old version without an observed generation makes the worker panic.\<close>

lemma stateful_set_without_status_panics:
  "ss_observed_generation ss = None \<Longrightarrow> check_stateful_set True ss = Panic"
  by (simp add: check_stateful_set_def)

end
