(* ===== verification/KubectlPlugin.thy ===== *)
theory KubectlPlugin
  imports Kubectl Checkers Values
begin

text \<open>
  The kubectl plugin of the worker (src/pkg/deployer/plugins/kubectl/kubectl.go): the repository is
  templated, applied, pruned and checked with command lines. Every command is an interaction; its
  output and its end come from the environment, as do the configuration and the templated file.
\<close>

section \<open>Configuration\<close>

datatype value_type = ValueTypeRaw | ValueTypeStr | ValueTypeOther string

record template_options =
  to_values :: "string list"
  to_config_maps :: "object_ref list"
  to_secrets :: "object_ref list"
  to_value_type :: value_type

record prune_options =
  po_labels :: "string gomap"
  po_skip_list :: "string list"

record kubectl_configuration =
  kcf_command :: string
  kcf_paths :: "string list"
  kcf_template :: "template_options option"
  kcf_ytt :: "template_options option"
  kcf_overlay :: string
  kcf_prune :: "prune_options option"
  kcf_cluster_size :: bool
  kcf_follow_symlink :: bool

text \<open>\<open>ValueType.Func\<close>\<close>

definition value_parser :: "nat \<Rightarrow> value_type \<Rightarrow> string \<Rightarrow> json gomap \<Rightarrow> parse_error option \<times> json gomap" where
  "value_parser limit vt = (if vt = ValueTypeStr then parse_into_string limit else parse_into limit)"

section \<open>Interactions\<close>

datatype plugin_call =
    Exec "string list" "exec_status \<times> string"
  | ChangeDir string "go_error + unit"
  | LoadConfig "go_error + kubectl_configuration"
  | ListNodes "go_error + nat"
  | RenderSpecs "provider option" "provider option" "json gomap" "go_error + string"

type_synonym 'a plug_eff = "(plugin_call, 'a) eff"

record plugin_env =
  pe_kubectl :: kubectl
  pe_exec :: "plugin_call list \<Rightarrow> string list \<Rightarrow> exec_status \<times> string"
  pe_chdir :: "plugin_call list \<Rightarrow> string \<Rightarrow> go_error + unit"
  pe_config :: "plugin_call list \<Rightarrow> go_error + kubectl_configuration"
  pe_nodes :: "plugin_call list \<Rightarrow> go_error + nat"
  pe_render :: "plugin_call list \<Rightarrow> provider option \<Rightarrow> provider option \<Rightarrow> json gomap \<Rightarrow> go_error + string"
  pe_decode :: "string \<Rightarrow> go_error + checked_object"

definition exec :: "plugin_env \<Rightarrow> string list \<Rightarrow> (exec_status \<times> string) plug_eff" where
  "exec E argv = observe (\<lambda>h. pe_exec E h argv) (Exec argv)"

text \<open>\<open>Cmd(...).Output()\<close>: the output of a command that ended well.\<close>

definition output_of :: "plugin_env \<Rightarrow> string \<Rightarrow> string list \<Rightarrow> string plug_eff" where
  "output_of E msg params =
     eff_bind (exec E (kubectl_argv (pe_kubectl E) params)) (\<lambda>(s, out).
       if succeeded s then eff_ret out else eff_fail (Errorf msg))"

text \<open>\<open>Run\<close>: how the command ended; a deletion is not run at all in a dry run.\<close>

definition run_command :: "plugin_env \<Rightarrow> string list \<Rightarrow> exec_status plug_eff" where
  "run_command E params =
     (case run_argv (pe_kubectl E) params of
        None \<Rightarrow> eff_ret (Exited 0)
      | Some argv \<Rightarrow> eff_bind (exec E argv) (\<lambda>(s, _). eff_ret s))"

definition jsonpath_list :: string where
  "jsonpath_list =
     ''{range .items[*]}{@.kind} {@.apiVersion} {@.metadata.namespace}/{@.metadata.name} -{@.metadata.deletionTimestamp}{'' @
     [CHR 0x27, backslash, CHR ''n'', CHR 0x27] @ ''}{end}''"

definition jsonpath_single :: string where
  "jsonpath_single =
     ''{.kind} {.apiVersion} {.metadata.namespace}/{.metadata.name} -{@.metadata.deletionTimestamp}''"

text \<open>\<open>Kubectl.Get\<close>: a target that is a single object prints nothing as a list.\<close>

definition get_objects :: "plugin_env \<Rightarrow> string \<Rightarrow> bool \<Rightarrow> kube_object list plug_eff" where
  "get_objects E target with_version =
     eff_bind (output_of E ''failed to check apiserver resources''
       [''get'', ''-R'', ''-f'', target, ''-o'', ''jsonpath='' @ jsonpath_list]) (\<lambda>out.
     eff_bind (if out = [] then output_of E ''failed to check apiserver resources''
                 [''get'', ''-R'', ''-f'', target, ''-o'', ''jsonpath='' @ jsonpath_single] else eff_ret out) (\<lambda>out.
     eff_of_res (parse_objects with_version out)))"

section \<open>Pruning\<close>

text \<open>\<open>labels.FormatLabels\<close>\<close>

definition format_labels :: "string gomap \<Rightarrow> string" where
  "format_labels m =
     (if m = [] then ''<none>'' else join_with (CHR '','') (sort (map (\<lambda>(k, v). k @ ''='' @ v) m)))"

definition in_skip_list :: "string list \<Rightarrow> string \<Rightarrow> string \<Rightarrow> string \<Rightarrow> bool" where
  "in_skip_list skip key ns name \<longleftrightarrow>
     (if ns \<noteq> [] then key @ ''/'' @ ns @ ''/'' @ name \<in> set skip else key @ ''/'' @ name \<in> set skip)"

definition delete_params :: "string \<Rightarrow> string \<Rightarrow> string \<Rightarrow> string list" where
  "delete_params key ns name = [''delete'', key, ''-n='' @ ns, name]"

definition list_params :: "string \<Rightarrow> string \<Rightarrow> string \<Rightarrow> string list" where
  "list_params key ns label =
     [''get'', key, ''-n='' @ ns, ''-l='' @ label, ''-o'', ''jsonpath={.items[*].metadata.name}'']"

text \<open>One name that the API server has: it is deleted unless it is in git or in the skip list.\<close>

definition prune_name :: "plugin_env \<Rightarrow> string list \<Rightarrow> string \<Rightarrow> string \<Rightarrow> string list \<Rightarrow> string \<Rightarrow> unit plug_eff" where
  "prune_name E skip key ns in_git name =
     (if name = [] \<or> name \<in> set in_git \<or> in_skip_list skip key ns name then eff_ret ()
      else eff_bind (run_command E (delete_params key ns name)) (\<lambda>s.
             if succeeded s then eff_ret () else eff_fail (Errorf ''failed to delete'')))"

definition prune :: "plugin_env \<Rightarrow> prune_options \<Rightarrow> string \<Rightarrow> string \<Rightarrow> string list \<Rightarrow> unit plug_eff" where
  "prune E po key ns in_git =
     (let skip = po_skip_list po in
      if key \<in> set skip \<or> ns \<noteq> [] \<and> key @ ''/'' @ ns \<in> set skip then eff_ret ()
      else eff_bind (output_of E ''failed to get apiserver resources''
             (list_params key ns (format_labels (po_labels po)))) (\<lambda>out.
           eff_each (prune_name E skip key ns in_git) (remdups (split_on (CHR '' '') out))))"

text \<open>The names of the objects in git by key and namespace.\<close>

definition names_in_git :: "kube_object list \<Rightarrow> string \<Rightarrow> string \<Rightarrow> string list" where
  "names_in_git objects key ns =
     map ko_name (filter (\<lambda>o'. ko_key o' = key \<and> ko_namespace o' = ns) objects)"

definition keys_in_git :: "kube_object list \<Rightarrow> (string \<times> string) list" where
  "keys_in_git objects = remdups (map (\<lambda>o'. (ko_key o', ko_namespace o')) objects)"

text \<open>All keys are pruned, whatever fails; the result says whether anything failed.\<close>

fun prune_all :: "plugin_env \<Rightarrow> prune_options \<Rightarrow> kube_object list \<Rightarrow> (string \<times> string) list \<Rightarrow> bool plug_eff" where
  "prune_all E po objects [] = eff_ret False"
| "prune_all E po objects ((key, ns) # rest) =
     eff_bind (eff_try (prune E po key ns (names_in_git objects key ns))) (\<lambda>a.
     eff_bind (prune_all E po objects rest) (\<lambda>failed.
     eff_ret (failed \<or> isl a)))"

section \<open>The plugin interface\<close>

definition kubectl_run :: "plugin_env \<Rightarrow> kubectl_configuration \<Rightarrow> string \<Rightarrow> unit plug_eff" where
  "kubectl_run E cf path =
     eff_bind (run_command E [kcf_command cf, ''-R'', ''-f'', path]) (\<lambda>s.
       if \<not> succeeded s then eff_fail (Errorf ''failed to run kubectl'')
       else case kcf_prune cf of
           None \<Rightarrow> eff_ret ()
         | Some po \<Rightarrow>
             if po_labels po = [] then eff_ret ()
             else eff_bind (eff_wrap ''failed to list resources in git'' (get_objects E path False)) (\<lambda>objects.
                  eff_bind (prune_all E po objects (keys_in_git objects)) (\<lambda>failed.
                  if failed then eff_fail (Errorf ''pruning failed'') else eff_ret ())))"

text \<open>Any end of \<open>kubectl diff\<close> other than 0 counts as a difference.\<close>

definition kubectl_diff :: "plugin_env \<Rightarrow> string \<Rightarrow> bool plug_eff" where
  "kubectl_diff E path =
     eff_bind (run_command E [''diff'', ''-R'', ''-f'', path]) (\<lambda>s. eff_ret (\<not> succeeded s))"

definition do_check :: "plugin_env \<Rightarrow> kube_object \<Rightarrow> unit plug_eff" where
  "do_check E x =
     (if \<not> has_check (ko_key x) then eff_ret ()
      else eff_bind (output_of E ''failed to get'' [''get'', ko_key x, ''-n='' @ ko_namespace x, ko_name x, ''-o'', ''json'']) (\<lambda>out.
           eff_bind (eff_wrap ''failed to get checker'' (eff_of_res (get_check (ko_key x)))) (\<lambda>c.
           eff_of_res (run_check c (pe_decode E out)))))"

text \<open>The number of objects that are not ready.\<close>

fun count_unready :: "plugin_env \<Rightarrow> kube_object list \<Rightarrow> nat plug_eff" where
  "count_unready E [] = eff_ret 0"
| "count_unready E (x # xs) =
     eff_bind (if ko_deleting x then eff_ret (1::nat)
               else eff_bind (eff_try (do_check E x)) (\<lambda>a. eff_ret (if isl a then 1 else 0))) (\<lambda>n.
     eff_bind (count_unready E xs) (\<lambda>m. eff_ret (n + m)))"

definition kubectl_test :: "plugin_env \<Rightarrow> string \<Rightarrow> unit plug_eff" where
  "kubectl_test E path =
     eff_bind (eff_wrap ''failed to list resources in git'' (get_objects E path True)) (\<lambda>objects.
     eff_bind (count_unready E objects) (\<lambda>n.
       if n = 0 then eff_ret () else eff_fail (Errorf ''not ready'')))"

text \<open>
  \<open>Init\<close>: the values of the templates are the parameters of the plugin; the extra values name the
  commit, the release and, when asked for, the number of nodes.
\<close>

definition template_provider ::
  "nat \<Rightarrow> string gomap \<Rightarrow> string \<Rightarrow> template_options option \<Rightarrow> provider option" where
  "template_provider limit parameters ns t =
     map_option (\<lambda>t. new_provider2 parameters (to_values t) (to_config_maps t) (to_secrets t) ns
       (value_parser limit (to_value_type t))) t"

definition extra_values :: "string \<Rightarrow> string \<Rightarrow> string \<Rightarrow> string \<Rightarrow> string \<Rightarrow> nat option \<Rightarrow> json gomap" where
  "extra_values commit tag version ns name nodes =
     [(''__commit'', JStr commit), (''__tag'', JStr tag), (''__version'', JStr version),
      (''__namespace'', JStr ns), (''__name'', JStr name)] @
     (case nodes of None \<Rightarrow> [] | Some n \<Rightarrow> [(''__cluster_size'', JNumber (nat_digits n))])"

definition kubectl_init ::
  "plugin_env \<Rightarrow> nat \<Rightarrow> string \<Rightarrow> string gomap \<Rightarrow> string \<Rightarrow> string \<Rightarrow> string \<Rightarrow> string \<Rightarrow> string \<Rightarrow>
   (kubectl_configuration \<times> string) plug_eff" where
  "kubectl_init E limit workspace parameters ns name commit tag version =
     eff_bind (eff_wrap ''failed to chdir'' (perform (\<lambda>h. pe_chdir E h workspace) (ChangeDir workspace))) (\<lambda>_.
     eff_bind (eff_wrap ''failed to parse config'' (perform (pe_config E) LoadConfig)) (\<lambda>cf.
     eff_bind (if kcf_cluster_size cf
               then eff_bind (eff_wrap ''failed to list nodes'' (perform (pe_nodes E) ListNodes)) (\<lambda>n. eff_ret (Some n))
               else eff_ret None) (\<lambda>nodes.
     let tpl = template_provider limit parameters ns (kcf_template cf);
         ytt = template_provider limit parameters ns (kcf_ytt cf);
         extra = extra_values commit tag version ns name nodes
     in eff_bind (eff_wrap ''failed to templatize'' (perform (\<lambda>h. pe_render E h tpl ytt extra) (RenderSpecs tpl ytt extra)))
          (\<lambda>path. eff_ret (cf, path)))))"

lemmas plugin_defs = exec_def output_of_def run_command_def

end
