(* ===== verification/KubectlOutcome.thy ===== *)
theory KubectlOutcome
  imports KubectlPlugin TraceMonitor
begin

text \<open>
  What the kubectl plugin promises: it deletes only what the API server lists under the labels and
  git does not have, and it reports a release as tested only when every object is ready.
\<close>

section \<open>Pruning\<close>

text \<open>
  A command of the plugin that is not a deletion, and a deletion that pruning may ask for: its name
  was listed, is not in git and is not to be skipped.
\<close>

definition deletes :: "plugin_env \<Rightarrow> string \<Rightarrow> string \<Rightarrow> string \<Rightarrow> plugin_call \<Rightarrow> bool" where
  "deletes E key ns name c \<longleftrightarrow> (\<exists>a. c = Exec (kubectl_argv (pe_kubectl E) (delete_params key ns name)) a)"

definition may_delete :: "plugin_env \<Rightarrow> prune_options \<Rightarrow> kube_object list \<Rightarrow> string \<Rightarrow> string \<Rightarrow> string \<Rightarrow> bool" where
  "may_delete E po objects key ns name \<longleftrightarrow>
     \<not> kc_dry_run (pe_kubectl E) \<and> name \<noteq> [] \<and> name \<notin> set (names_in_git objects key ns) \<and>
     (key, ns) \<in> set (keys_in_git objects) \<and>
     key \<notin> set (po_skip_list po) \<and> (ns = [] \<or> key @ ''/'' @ ns \<notin> set (po_skip_list po)) \<and>
     \<not> in_skip_list (po_skip_list po) key ns name"

definition listed :: "plugin_env \<Rightarrow> prune_options \<Rightarrow> string \<Rightarrow> string \<Rightarrow> string \<Rightarrow> plugin_call list \<Rightarrow> bool" where
  "listed E po key ns name s \<longleftrightarrow>
     (\<exists>out. Exec (kubectl_argv (pe_kubectl E) (list_params key ns (format_labels (po_labels po)))) (Exited 0, out) \<in> set s \<and>
            name \<in> set (split_on (CHR '' '') out))"

definition prune_ok :: "plugin_env \<Rightarrow> prune_options \<Rightarrow> kube_object list \<Rightarrow> plugin_call \<Rightarrow> plugin_call list \<Rightarrow> bool" where
  "prune_ok E po objects c s \<longleftrightarrow>
     (\<forall>key ns name. deletes E key ns name c \<longrightarrow> may_delete E po objects key ns name \<and> listed E po key ns name s)"

text \<open>The monitor of pruning remembers all interactions.\<close>

interpretation pruning: trace_monitor "prune_ok E po objects" "\<lambda>c s. s @ [c]"
  for E po objects .

lemma history [simp]: "fold (\<lambda>c s. s @ [c]) t s = s @ t"
  by (induction t arbitrary: s) auto

lemma argv_inj:
  assumes "kubectl_argv k ps = kubectl_argv k qs" and "hd ps \<notin> set dry_runnable" and "hd qs \<notin> set dry_runnable"
  shows "ps = qs"
  using assms by (auto simp: kubectl_argv_def split: if_splits)

lemma not_deletes:
  "ps \<noteq> [] \<Longrightarrow> hd ps \<noteq> ''delete'' \<Longrightarrow> \<not> deletes E key ns name (Exec (kubectl_argv (pe_kubectl E) ps) a)"
  by (auto simp: deletes_def kubectl_argv_def delete_params_def split: if_splits)

lemma deletes_same:
  "deletes E key ns name (Exec (kubectl_argv (pe_kubectl E) (delete_params k n m)) a) \<longleftrightarrow> key = k \<and> ns = n \<and> name = m"
  using argv_inj [of "pe_kubectl E" "delete_params key ns name" "delete_params k n m"]
  by (auto simp: deletes_def delete_params_def dry_runnable_def)

lemma prune_ok_other [simp]:
  "ps \<noteq> [] \<Longrightarrow> hd ps \<noteq> ''delete'' \<Longrightarrow> prune_ok E po objects (Exec (kubectl_argv (pe_kubectl E) ps) a) s"
  by (simp add: prune_ok_def not_deletes)

lemma watch_output:
  assumes "ps \<noteq> []" and "hd ps \<noteq> ''delete''"
    and "\<And>out. K out (s @ [Exec (kubectl_argv (pe_kubectl E) ps) (Exited 0, out)])"
  shows "pruning.watch E po objects s (output_of E msg ps) K"
  unfolding output_of_def exec_def
  by (intro watch_intros) (auto simp: assms succeeded_def intro!: watch_intros)

lemma watch_prune_name:
  assumes "(key, ns) \<in> set (keys_in_git objects)" and "key \<notin> set (po_skip_list po)"
    and "ns = [] \<or> key @ ''/'' @ ns \<notin> set (po_skip_list po)" and "listed E po key ns name s"
    and "\<And>s'. set s \<subseteq> set s' \<Longrightarrow> K () s'"
  shows "pruning.watch E po objects s (prune_name E (po_skip_list po) key ns (names_in_git objects key ns) name) K"
proof (cases "name = [] \<or> name \<in> set (names_in_git objects key ns) \<or> in_skip_list (po_skip_list po) key ns name")
  case True
  with assms(5) show ?thesis by (auto simp: prune_name_def intro: watch_intros)
next
  case False
  have ok: "prune_ok E po objects (Exec (kubectl_argv (pe_kubectl E) (delete_params key ns name)) a) s"
    if "\<not> kc_dry_run (pe_kubectl E)" for a
    using assms False that by (auto simp: prune_ok_def deletes_same may_delete_def)
  have "''delete'' \<in> set (delete_params key ns name)" by (simp add: delete_params_def)
  with ok have run: "pruning.watch E po objects s (run_command E (delete_params key ns name)) (\<lambda>_ s'. set s \<subseteq> set s')"
    unfolding run_command_def run_argv_def exec_def by (auto intro!: watch_intros split: prod.splits)
  have "pruning.watch E po objects s (eff_bind (run_command E (delete_params key ns name)) (\<lambda>x.
      if succeeded x then eff_ret () else eff_fail (Errorf ''failed to delete''))) K"
    by (rule pruning.watch_bind, rule pruning.watch_mono [OF run]) (intro watch_intros assms(5))
  with False show ?thesis by (simp add: prune_name_def)
qed

lemma watch_prune:
  assumes "(key, ns) \<in> set (keys_in_git objects)"
  shows "pruning.watch E po objects s (prune E po key ns (names_in_git objects key ns)) (\<lambda>_ _. True)"
proof (cases "key \<in> set (po_skip_list po) \<or> ns \<noteq> [] \<and> key @ ''/'' @ ns \<in> set (po_skip_list po)")
  case True
  then show ?thesis by (auto simp: prune_def intro!: watch_intros)
next
  case False
  let ?list = "Exec (kubectl_argv (pe_kubectl E) (list_params key ns (format_labels (po_labels po))))"
  have each: "pruning.watch E po objects s'
      (eff_each (prune_name E (po_skip_list po) key ns (names_in_git objects key ns)) (remdups (split_on (CHR '' '') out)))
      (\<lambda>_ _. True)" if "?list (Exited 0, out) \<in> set s'" for out s'
  proof (rule pruning.watch_each [where I = "\<lambda>s. ?list (Exited 0, out) \<in> set s"])
    fix name s''
    assume name: "name \<in> set (remdups (split_on (CHR '' '') out))" and s'': "?list (Exited 0, out) \<in> set s''"
    show "pruning.watch E po objects s'' (prune_name E (po_skip_list po) key ns (names_in_git objects key ns) name)
        (\<lambda>_ s. ?list (Exited 0, out) \<in> set s)"
    proof (rule watch_prune_name [OF assms])
      show "listed E po key ns name s''" using name s'' unfolding listed_def by auto
    qed (use False s'' in auto)
  qed (use that in simp_all)
  have "pruning.watch E po objects s (output_of E ''failed to get apiserver resources''
        (list_params key ns (format_labels (po_labels po))))
      (\<lambda>out s'. pruning.watch E po objects s'
        (eff_each (prune_name E (po_skip_list po) key ns (names_in_git objects key ns)) (remdups (split_on (CHR '' '') out)))
        (\<lambda>_ _. True))"
    by (rule watch_output) (simp_all add: list_params_def each [unfolded list_params_def])
  with False show ?thesis by (auto simp: prune_def Let_def intro: pruning.watch_bind)
qed

lemma watch_prune_all:
  "set keys \<subseteq> set (keys_in_git objects) \<Longrightarrow>
   pruning.watch E po objects s (prune_all E po objects keys) (\<lambda>_ _. True)"
proof (induction keys arbitrary: s)
  case Nil
  then show ?case by (auto intro: watch_intros)
next
  case (Cons k keys)
  obtain key ns where k: "k = (key, ns)" by fastforce
  have rest: "pruning.watch E po objects s' (eff_bind (prune_all E po objects keys) (\<lambda>failed. eff_ret (failed \<or> isl a)))
      (\<lambda>_ _. True)" for s' and a :: "go_error + unit"
    by (rule pruning.watch_bind, rule pruning.watch_mono [OF Cons.IH]) (use Cons.prems in \<open>auto intro: watch_intros\<close>)
  have "pruning.watch E po objects s (prune E po key ns (names_in_git objects key ns)) (\<lambda>_ _. True)"
    by (rule watch_prune) (use Cons.prems k in simp)
  then have "pruning.watch E po objects s (eff_try (prune E po key ns (names_in_git objects key ns)))
      (\<lambda>a s'. pruning.watch E po objects s' (eff_bind (prune_all E po objects keys) (\<lambda>failed. eff_ret (failed \<or> isl a)))
        (\<lambda>_ _. True))"
    by (intro pruning.watch_try rest) (rule pruning.watch_mono, assumption, rule rest)
  then show ?case by (simp add: k pruning.watch_bind)
qed

text \<open>The commands before pruning delete nothing.\<close>

definition no_deletion :: "plugin_env \<Rightarrow> plugin_call \<Rightarrow> bool" where
  "no_deletion E c \<longleftrightarrow> (\<forall>key ns name. \<not> deletes E key ns name c)"

lemma no_deletion_output [intro]:
  "ps \<noteq> [] \<Longrightarrow> hd ps \<noteq> ''delete'' \<Longrightarrow> emits (no_deletion E) (output_of E msg ps)"
  unfolding output_of_def exec_def
  by (auto simp: no_deletion_def not_deletes split: prod.splits)

lemma no_deletion_run:
  assumes "ps \<noteq> []" and "hd ps \<noteq> ''delete''"
  shows "emits (no_deletion E) (run_command E ps)"
proof (cases "run_argv (pe_kubectl E) ps")
  case None
  then show ?thesis by (auto simp: run_command_def)
next
  case (Some argv)
  then have "argv = kubectl_argv (pe_kubectl E) ps" by (simp add: run_argv_def split: if_splits)
  with Some assms show ?thesis
    by (auto simp: run_command_def exec_def no_deletion_def not_deletes split: prod.splits)
qed

lemma no_deletion_get: "emits (no_deletion E) (get_objects E target with_version)"
  unfolding get_objects_def by (intro emits_bind emits_if emits_ret emits_of_res no_deletion_output) simp_all

lemma run_command_Ok: "\<exists>s. fst (run_command E ps h) = Ok s"
  by (cases "run_argv (pe_kubectl E) ps")
    (auto simp: run_command_def exec_def eff_bind_def observe_def eff_ret_def split: prod.splits)


text \<open>A repository with one deployment; the API server also has an older one under the labels.\<close>

definition sample_prune :: prune_options where
  "sample_prune = \<lparr>po_labels = [(''app'', ''web'')], po_skip_list = [''Node'']\<rparr>"

definition sample_configuration :: kubectl_configuration where
  "sample_configuration =
     \<lparr>kcf_command = ''apply'', kcf_paths = [], kcf_template = None, kcf_ytt = None, kcf_overlay = [],
      kcf_prune = Some sample_prune, kcf_cluster_size = False, kcf_follow_symlink = False\<rparr>"

definition sample_plugin :: plugin_env where
  "sample_plugin =
     \<lparr>pe_kubectl = \<lparr>kc_config = [], kc_dry_run = False, kc_use_tess = False\<rparr>,
      pe_exec = (\<lambda>_ argv. (Exited 0,
        if argv ! 1 \<noteq> ''get'' then []
        else if argv ! 2 = ''-R'' then ''Deployment apps/v1 ns/web -'' @ [newline]
        else ''old web'')),
      pe_chdir = (\<lambda>_ _. Inr ()), pe_config = (\<lambda>_. Inr sample_configuration), pe_nodes = (\<lambda>_. Inr 1),
      pe_render = (\<lambda>_ _ _ _. Inr ''target.yaml''), pe_decode = (\<lambda>_. Inl NotFound)\<rparr>"

text \<open>The command lines of a log with their answers.\<close>

fun executed :: "plugin_call \<Rightarrow> string list \<times> exec_status \<times> string" where
  "executed (Exec argv a) = (argv, a)"
| "executed _ = ([], NotStarted, [])"

lemma executed_Exec: "executed c = (x # xs, a) \<Longrightarrow> c = Exec (x # xs) a"
  by (cases c) auto

lemma sample_prune_log:
  "map executed (snd (kubectl_run sample_plugin sample_configuration ''target.yaml'' [])) =
     [([''kubectl'', ''apply'', ''-R'', ''-f'', ''target.yaml''], Exited 0, []),
      ([''kubectl'', ''get'', ''-R'', ''-f'', ''target.yaml'', ''-o'', ''jsonpath='' @ jsonpath_list], Exited 0,
       ''Deployment apps/v1 ns/web -'' @ [newline]),
      ([''kubectl'', ''get'', ''Deployment.apps'', ''-n=ns'', ''-l=app=web'', ''-o'', ''jsonpath={.items[*].metadata.name}''],
       Exited 0, ''old web''),
      ([''kubectl'', ''delete'', ''Deployment.apps'', ''-n=ns'', ''old''], Exited 0, [])]"
  by code_simp

lemma sample_prune_run:
  "\<exists>t. snd (kubectl_run sample_plugin sample_configuration ''target.yaml'' []) =
     t @ Exec (kubectl_argv (pe_kubectl sample_plugin) (delete_params ''Deployment.apps'' ''ns'' ''old'')) (Exited 0, []) # []"
  using sample_prune_log
  by (auto simp: map_eq_append_conv map_eq_Cons_conv sample_plugin_def kubectl_argv_def delete_params_def dest!: executed_Exec)


section \<open>Testing\<close>

definition object_ready :: "plugin_env \<Rightarrow> plugin_call list \<Rightarrow> kube_object \<Rightarrow> bool" where
  "object_ready E t x \<longleftrightarrow>
     \<not> ko_deleting x \<and>
     (\<not> has_check (ko_key x) \<or>
      (\<exists>out c. Exec (kubectl_argv (pe_kubectl E) [''get'', ko_key x, ''-n='' @ ko_namespace x, ko_name x, ''-o'', ''json''])
                 (Exited 0, out) \<in> set t \<and>
               map_of registry (ko_key x) = Some c \<and> run_check c (pe_decode E out) = Ok ()))"

lemma object_ready_mono: "object_ready E t x \<Longrightarrow> set t \<subseteq> set u \<Longrightarrow> object_ready E u x"
  unfolding object_ready_def by blast

lemma object_ready_append: "object_ready E t x \<or> object_ready E u x \<Longrightarrow> object_ready E (t @ u) x"
  by (auto intro: object_ready_mono)

lemma holds_do_check:
  "\<not> ko_deleting x \<Longrightarrow> holds (do_check E x) (\<lambda>t r. r = Ok () \<longrightarrow> object_ready E t x)"
  unfolding do_check_def output_of_def exec_def
  by (auto simp: object_ready_def succeeded_def get_check_def intro!: holds_intros split: option.splits res.splits)

lemma isl_unit_cases: "a \<noteq> Inr () \<Longrightarrow> isl a"
  by (cases a) auto

lemma holds_count_unready:
  "holds (count_unready E xs) (\<lambda>t r. r = Ok 0 \<longrightarrow> (\<forall>x\<in>set xs. object_ready E t x))"
proof (induction xs)
  case Nil
  then show ?case by (auto intro: holds_intros)
next
  case (Cons x xs)
  have first: "holds (if ko_deleting x then eff_ret (1::nat)
        else eff_bind (eff_try (do_check E x)) (\<lambda>a. eff_ret (if isl a then 1 else 0)))
      (\<lambda>t r. r = Ok 0 \<longrightarrow> object_ready E t x)"
  proof (cases "ko_deleting x")
    case True
    then show ?thesis by (auto intro: holds_intros)
  next
    case False
    have "holds (eff_try (do_check E x)) (\<lambda>t a. a = Ok (Inr ()) \<longrightarrow> object_ready E t x)"
      by (rule holds_try, rule holds_mono [OF holds_do_check [OF False]]) (auto split: res.split)
    then have "holds (eff_bind (eff_try (do_check E x)) (\<lambda>a. eff_ret (if isl a then (1::nat) else 0)))
        (\<lambda>t r. r = Ok 0 \<longrightarrow> object_ready E t x)"
      by (intro holds_bind) (erule holds_mono, auto split: res.split sum.splits intro!: holds_intros dest!: isl_unit_cases)
    with False show ?thesis by simp
  qed
  show ?case
    unfolding count_unready.simps
  proof (rule holds_bind, rule holds_mono [OF first])
    fix t and r :: "nat res"
    assume r: "r = Ok 0 \<longrightarrow> object_ready E t x"
    have rest: "holds (eff_bind (count_unready E xs) (\<lambda>m. eff_ret (n + m)))
        (\<lambda>t' r'. r' = Ok 0 \<longrightarrow> (\<forall>y\<in>set (x # xs). object_ready E (t @ t') y))"
      if "r = Ok n" for n
      by (rule holds_bind, rule holds_mono [OF Cons.IH])
        (use r that in \<open>auto split: res.split intro!: holds_intros intro: object_ready_append\<close>)
    then show "case r of
        Ok n \<Rightarrow> holds (eff_bind (count_unready E xs) (\<lambda>m. eff_ret (n + m)))
          (\<lambda>t' r'. r' = Ok 0 \<longrightarrow> (\<forall>y\<in>set (x # xs). object_ready E (t @ t') y))
      | Err e \<Rightarrow> Err e = Ok (0::nat) \<longrightarrow> (\<forall>y\<in>set (x # xs). object_ready E t y)
      | Panic \<Rightarrow> Panic = Ok (0::nat) \<longrightarrow> (\<forall>y\<in>set (x # xs). object_ready E t y)"
      by (cases r) auto
  qed
qed

text \<open>
  C38. The plugin reports success only when no object of the repository is being deleted and every
  object with a checker was read in this run and passed it: a Deployment has all its replicas
  updated and available, a Release is disabled or has succeeded.
\<close>

theorem kubectl_test_sound:
  assumes "kubectl_test E path [] = (Ok (), t)"
  shows "\<exists>objects. fst (get_objects E path True []) = Ok objects \<and> (\<forall>x\<in>set objects. object_ready E t x)"
proof -
  obtain r h where get: "get_objects E path True [] = (r, h)" by fastforce
  with assms obtain objects where objects: "r = Ok objects"
    by (auto simp: kubectl_test_def eff_bind_def eff_wrap_def split: res.splits)
  obtain v where v: "snd (count_unready E objects h) = h @ v"
    "fst (count_unready E objects h) = Ok 0 \<longrightarrow> (\<forall>x\<in>set objects. object_ready E v x)"
    using holds_count_unready [of E objects] unfolding holds_def by blast
  obtain q w where run: "count_unready E objects h = (q, w)" by fastforce
  with assms get objects have "q = Ok 0" "t = w"
    by (auto simp: kubectl_test_def eff_bind_def eff_wrap_def eff_ret_def eff_fail_def split: res.splits if_splits)
  with v run get objects show ?thesis by (auto elim!: object_ready_mono)
qed

text \<open>The same repository, tested: the deployment has its one replica.\<close>

definition ready_deployment :: deployment where
  "ready_deployment = empty_deployment\<lparr>
     dp_spec := (dp_spec empty_deployment)\<lparr>dsp_replicas := Some 1\<rparr>,
     dp_status := (dp_status empty_deployment)\<lparr>dst_replicas := 1, dst_updated_replicas := 1, dst_available_replicas := 1\<rparr>\<rparr>"

definition sample_test :: plugin_env where
  "sample_test = sample_plugin\<lparr>pe_decode := (\<lambda>_. Inr (CheckedDeployment ready_deployment))\<rparr>"

lemma kubectl_test_sound_witness:
  "\<exists>objects. fst (get_objects sample_test ''target.yaml'' True []) = Ok objects \<and>
     list_all (object_ready sample_test (snd (kubectl_test sample_test ''target.yaml'' []))) objects"
proof -
  have "fst (kubectl_test sample_test ''target.yaml'' []) = Ok ()" by code_simp
  then have "kubectl_test sample_test ''target.yaml'' [] = (Ok (), snd (kubectl_test sample_test ''target.yaml'' []))"
    by (simp add: prod_eq_iff)
  from kubectl_test_sound [OF this] show ?thesis by (auto simp: list_all_iff)
qed

end
