(* ===== verification/Admission.thy ===== *)
theory Admission
  imports ReleaseWorker CalendarUtil
begin

text \<open>
  The admission server: the generic hook that turns a request into attributes, runs the mutating
  or validating hooks and answers (src/cmd/admission/admission.go), the hook that guards the user
  namespace mode of releases (src/pkg/admission/userns/userns.go) and the hook that labels events
  (src/pkg/admission/eventlabels/eventlabels.go). Decoding an object and comparing two objects into
  a JSON patch are parameters.
\<close>

section \<open>Requests and attributes\<close>

datatype admitted_object = AdmittedRelease release | AdmittedEvent event | AdmittedOther string

record user_info =
  ui_name :: string
  ui_uid :: string
  ui_groups :: "string list"
  ui_extra :: "string list gomap"

type_synonym gvk = "string \<times> string \<times> string"

record admission_request =
  aq_uid :: string
  aq_kind :: gvk
  aq_resource :: gvk
  aq_sub_resource :: string
  aq_name :: string
  aq_namespace :: string
  aq_operation :: string
  aq_user :: user_info
  aq_object :: string
  aq_old_object :: string
  aq_dry_run :: "bool option"
  aq_options :: string

record attributes =
  at_object :: "admitted_object option"
  at_old_object :: "admitted_object option"
  at_kind :: gvk
  at_namespace :: string
  at_name :: string
  at_resource :: gvk
  at_sub_resource :: string
  at_operation :: string
  at_options :: "string option"
  at_dry_run :: bool
  at_user :: user_info

text \<open>The decoders: of an object of a kind, and of the options of the operation.\<close>

record decoders =
  dec_object :: "gvk \<Rightarrow> string \<Rightarrow> go_error + admitted_object"
  dec_options :: "string \<Rightarrow> go_error + string"

text \<open>
  One of the three decodings of \<open>NewAttributes\<close>: nothing is decoded from an empty text, and then the
  error variable keeps its value; otherwise it is overwritten, by nil as well.
\<close>

definition decode_raw ::
  "(string \<Rightarrow> go_error + 'a) \<Rightarrow> string \<Rightarrow> go_error option \<Rightarrow> 'a option \<times> go_error option" where
  "decode_raw decode raw err =
     (if raw = [] then (None, err)
      else case decode raw of Inl e \<Rightarrow> (None, Some e) | Inr x \<Rightarrow> (Some x, None))"

definition new_attributes :: "decoders \<Rightarrow> admission_request \<Rightarrow> go_error + attributes" where
  "new_attributes dec req =
     (let (obj, err) = decode_raw (dec_object dec (aq_kind req)) (aq_object req) None;
          (old, err) = decode_raw (dec_object dec (aq_kind req)) (aq_old_object req) err;
          (options, err) = decode_raw (dec_options dec) (aq_options req) err
      in case err of
           Some _ \<Rightarrow> Inl (Errorf ''failed to decode request'')
         | None \<Rightarrow> Inr
             \<lparr>at_object = obj, at_old_object = old, at_kind = aq_kind req, at_namespace = aq_namespace req,
              at_name = aq_name req, at_resource = aq_resource req, at_sub_resource = aq_sub_resource req,
              at_operation = aq_operation req, at_options = options,
              at_dry_run = (case aq_dry_run req of None \<Rightarrow> False | Some b \<Rightarrow> b), at_user = aq_user req\<rparr>)"

section \<open>The hooks\<close>

definition kind_release :: gvk where
  "kind_release = (''fleet.crd.tess.io'', ''v1alpha1'', ''Release'')"

definition kind_release_event :: gvk where
  "kind_release_event = (''fleet.crd.tess.io'', ''v1alpha2'', ''ReleaseEvent'')"

text \<open>\<open>Handles\<close> of both hooks.\<close>

definition handles_writes :: "string \<Rightarrow> bool" where
  "handles_writes operation \<longleftrightarrow> operation = ''CREATE'' \<or> operation = ''UPDATE''"

text \<open>The hook of the user namespace mode; \<open>userns\<close> and \<open>managed\<close> are its configuration.\<close>

definition check_release_userns :: "bool \<Rightarrow> string list \<Rightarrow> release \<Rightarrow> go_error option" where
  "check_release_userns userns managed r =
     (let annotation = map_of (om_annotations (rl_meta r)) annotation_user_namespace;
          labelled = map_of (om_labels (rl_meta r)) label_application_instance \<noteq> None;
          mode = (case annotation of None \<Rightarrow> ''false'' | Some v \<Rightarrow> v)
      in if annotation \<noteq> None \<and> \<not> userns \<and> mode \<noteq> ''false''
         then Some (Errorf ''annotation can not be set since user namespace mode is disabled'')
         else if annotation \<noteq> None \<and> mode \<noteq> ''true'' \<and> mode \<noteq> ''false''
         then Some (Errorf ''annotation can only be true or false'')
         else if \<not> userns \<or> rl_namespace r \<in> set managed
         then if labelled then Some (Errorf ''label can only be set when user namespace is enabled'') else None
         else if mode = ''true'' \<and> rs_secret_ref (rl_spec r) = None
         then Some (Errorf ''spec.secretRef is required'')
         else if mode = ''false'' \<and> labelled
         then Some (Errorf ''label can not be set when annotation is false'')
         else None)"

definition admit_userns :: "bool \<Rightarrow> string list \<Rightarrow> attributes \<Rightarrow> go_error + attributes" where
  "admit_userns userns managed a =
     (if at_sub_resource a \<noteq> [] \<or> at_kind a \<noteq> kind_release then Inr a
      else case at_object a of
          Some (AdmittedRelease r) \<Rightarrow>
            (case check_release_userns userns managed r of Some e \<Rightarrow> Inl e | None \<Rightarrow> Inr a)
        | _ \<Rightarrow> Inl (Errorf ''unexpected object''))"

definition event_name_label :: "event \<Rightarrow> string" where
  "event_name_label e =
     (if om_generate_name (ev_meta e) \<noteq> [] then trim_both (CHR ''-'') (om_generate_name (ev_meta e))
      else if has_prefix (ev_object_name e) (es_calendar (ev_spec e))
      then trim_both (CHR ''-'') (trim_prefix (ev_object_name e) (es_calendar (ev_spec e)))
      else ev_object_name e)"

definition with_event_labels :: "event \<Rightarrow> event" where
  "with_event_labels e =
     e\<lparr>ev_meta := (ev_meta e)\<lparr>om_labels :=
         gm_set ''name'' (event_name_label e) (gm_set ''calendar'' (es_calendar (ev_spec e)) (om_labels (ev_meta e)))\<rparr>\<rparr>"

definition admit_event_labels :: "attributes \<Rightarrow> go_error + attributes" where
  "admit_event_labels a =
     (if at_sub_resource a \<noteq> [] \<or> at_kind a \<noteq> kind_release_event then Inr a
      else case at_object a of
          Some (AdmittedEvent e) \<Rightarrow> Inr (a\<lparr>at_object := Some (AdmittedEvent (with_event_labels e))\<rparr>)
        | _ \<Rightarrow> Inl (Errorf ''unexpected object''))"

section \<open>The generic hook\<close>

record hook =
  hk_handles :: "string \<Rightarrow> bool"
  hk_admit :: "attributes \<Rightarrow> go_error + attributes"

record validator =
  va_handles :: "string \<Rightarrow> bool"
  va_validate :: "attributes \<Rightarrow> go_error + unit"

text \<open>\<open>Initialize\<close> fills the mutating hooks and leaves the validating ones empty.\<close>

definition mutators :: "bool \<Rightarrow> string list \<Rightarrow> hook list" where
  "mutators userns managed =
     [\<lparr>hk_handles = handles_writes, hk_admit = admit_userns userns managed\<rparr>,
      \<lparr>hk_handles = handles_writes, hk_admit = admit_event_labels\<rparr>]"

definition validators :: "validator list" where
  "validators = []"

fun run_hooks :: "hook list \<Rightarrow> attributes \<Rightarrow> go_error + attributes" where
  "run_hooks [] a = Inr a"
| "run_hooks (h # hs) a =
     (if hk_handles h (at_operation a)
      then case hk_admit h a of Inl e \<Rightarrow> Inl e | Inr a' \<Rightarrow> run_hooks hs a'
      else run_hooks hs a)"

fun run_validators :: "validator list \<Rightarrow> attributes \<Rightarrow> go_error option" where
  "run_validators [] a = None"
| "run_validators (v # vs) a =
     (if va_handles v (at_operation a)
      then case va_validate v a of Inl e \<Rightarrow> Some e | Inr _ \<Rightarrow> run_validators vs a
      else run_validators vs a)"

text \<open>
  The answer: \<open>rsp_code\<close> is the status code of a refusal, 400 for a request that cannot be decoded and
  403 otherwise.
\<close>

record response =
  rsp_uid :: string
  rsp_allowed :: bool
  rsp_code :: "nat option"
  rsp_error :: "go_error option"
  rsp_patch :: "string option"

definition refused :: "admission_request \<Rightarrow> nat \<Rightarrow> go_error option \<Rightarrow> response" where
  "refused req code e =
     \<lparr>rsp_uid = aq_uid req, rsp_allowed = False, rsp_code = Some code, rsp_error = e, rsp_patch = None\<rparr>"

definition accepted :: "admission_request \<Rightarrow> string option \<Rightarrow> response" where
  "accepted req patch =
     \<lparr>rsp_uid = aq_uid req, rsp_allowed = True, rsp_code = None, rsp_error = None, rsp_patch = patch\<rparr>"

definition admit ::
  "decoders \<Rightarrow> (admitted_object \<Rightarrow> admitted_object \<Rightarrow> go_error + string) \<Rightarrow> hook list \<Rightarrow> admission_request \<Rightarrow> response" where
  "admit dec json_patch hooks req =
     (case new_attributes dec req of
        Inl _ \<Rightarrow> refused req 400 None
      | Inr a \<Rightarrow>
          (case at_object a of
             None \<Rightarrow> accepted req None
           | Some original \<Rightarrow>
               (case run_hooks hooks a of
                  Inl e \<Rightarrow> refused req 403 (Some e)
                | Inr a' \<Rightarrow>
                    (case json_patch original (case at_object a' of None \<Rightarrow> original | Some x \<Rightarrow> x) of
                       Inl _ \<Rightarrow> refused req 403 None
                     | Inr patch \<Rightarrow> accepted req (Some patch)))))"

definition validate :: "decoders \<Rightarrow> validator list \<Rightarrow> admission_request \<Rightarrow> response" where
  "validate dec vs req =
     (case new_attributes dec req of
        Inl _ \<Rightarrow> refused req 400 None
      | Inr a \<Rightarrow>
          (case at_object a of
             None \<Rightarrow> accepted req None
           | Some _ \<Rightarrow>
               (case run_validators vs a of
                  Some _ \<Rightarrow> refused req 403 None
                | None \<Rightarrow> accepted req None)))"

end
