(* ===== verification/AdmissionOutcome.thy ===== *)
theory AdmissionOutcome
  imports Admission ReleaseSync
begin

text \<open>
  What the admission server guarantees to the two controllers. The contract of a hook is a locale:
  it changes nothing but the object, and what it has let pass it lets pass again, unchanged. Two hooks
  of which the second keeps what the first accepts are a chain that is a projection.
\<close>

section \<open>The contract of a hook\<close>

definition same_request :: "attributes \<Rightarrow> attributes \<Rightarrow> bool" where
  "same_request a b \<longleftrightarrow> b = a\<lparr>at_object := at_object b\<rparr>"

lemma same_request_refl [simp]: "same_request a a"
  by (simp add: same_request_def)

lemma same_request_trans: "same_request a b \<Longrightarrow> same_request b c \<Longrightarrow> same_request a c"
  unfolding same_request_def by (metis attributes.update_convs(1) attributes.surjective attributes.select_convs(1))

lemma same_request_operation: "same_request a b \<Longrightarrow> at_operation b = at_operation a"
  unfolding same_request_def by (metis attributes.surjective attributes.update_convs(1) attributes.select_convs(8))

locale admission_hook =
  fixes admits :: "attributes \<Rightarrow> go_error + attributes"
  assumes frame: "admits a = Inr b \<Longrightarrow> same_request a b"
    and settled: "admits a = Inr b \<Longrightarrow> admits b = Inr b"
begin

definition step :: hook where
  "step = \<lparr>hk_handles = handles_writes, hk_admit = admits\<rparr>"

lemma run_step: "run_hooks (step # hs) a = Inr b \<Longrightarrow>
  \<exists>c. run_hooks [step] a = Inr c \<and> run_hooks hs c = Inr b"
  by (auto simp: step_def split: if_splits sum.splits)

lemma step_frame: "run_hooks [step] a = Inr b \<Longrightarrow> same_request a b"
  by (auto simp: step_def dest: frame split: if_splits sum.splits)

lemma step_settled: "run_hooks [step] a = Inr b \<Longrightarrow> run_hooks [step] b = Inr b"
  using step_frame [of a b]
  by (auto simp: step_def dest: settled same_request_operation split: if_splits sum.splits)

end

text \<open>A chain of two: the second keeps the verdict of the first.\<close>

locale admission_chain = guard: admission_hook check + last_hook: admission_hook admits
  for check :: "attributes \<Rightarrow> go_error + attributes" and admits :: "attributes \<Rightarrow> go_error + attributes" +
  assumes keeps: "admits a = Inr b \<Longrightarrow> check a = Inr a \<Longrightarrow> check b = Inr b"
    and guards: "check a = Inr b \<Longrightarrow> b = a"
begin

lemma chain_settled:
  assumes "run_hooks [guard.step, last_hook.step] a = Inr b"
  shows "run_hooks [guard.step, last_hook.step] b = Inr b"
proof -
  from guard.run_step [OF assms] have 1: "run_hooks [guard.step] a = Inr a" and 2: "run_hooks [last_hook.step] a = Inr b"
    by (auto simp: guard.step_def dest: guards split: if_splits sum.splits)
  have "at_operation b = at_operation a"
    using last_hook.step_frame [OF 2] by (rule same_request_operation)
  with 1 2 have "run_hooks [guard.step] b = Inr b"
    by (auto simp: guard.step_def last_hook.step_def dest: keeps guards split: if_splits sum.splits)
  moreover have "run_hooks [last_hook.step] b = Inr b" by (rule last_hook.step_settled [OF 2])
  ultimately show ?thesis
    by (auto simp: guard.step_def last_hook.step_def split: if_splits sum.splits)
qed

lemma chain_frame:
  assumes "run_hooks [guard.step, last_hook.step] a = Inr b"
  shows "same_request a b"
  using guard.run_step [OF assms] guard.step_frame last_hook.step_frame same_request_trans by blast

end

section \<open>The two hooks\<close>

lemma admit_userns_guards: "admit_userns userns managed a = Inr b \<Longrightarrow> b = a"
  by (auto simp: admit_userns_def split: if_splits option.splits admitted_object.splits)

lemma with_event_labels_settled [simp]: "with_event_labels (with_event_labels e) = with_event_labels e"
  by (simp add: with_event_labels_def event_name_label_def gm_set_same)

interpretation event_hook: admission_hook admit_event_labels
  by unfold_locales
    (auto simp: admit_event_labels_def same_request_def split: if_splits option.splits admitted_object.splits)

interpretation userns_hook: admission_hook "admit_userns userns managed" for userns managed
  by unfold_locales (auto dest: admit_userns_guards)

interpretation hooks: admission_chain "admit_userns userns managed" admit_event_labels for userns managed
proof unfold_locales
  show "admit_userns userns managed b = Inr b"
    if "admit_event_labels a = Inr b" and "admit_userns userns managed a = Inr a" for a b
    using that
    by (auto simp: admit_event_labels_def admit_userns_def kind_release_def kind_release_event_def
        split: if_splits option.splits admitted_object.splits)
qed (rule admit_userns_guards)

lemma mutators_chain: "mutators userns managed = [userns_hook.step userns managed, event_hook.step]"
  by (simp add: mutators_def userns_hook.step_def event_hook.step_def)

section \<open>What has been admitted\<close>

text \<open>
  C37. Reviewing is a projection: the hooks change nothing of a request but its object, and a request
  whose object they have changed passes them again without another change.
\<close>

theorem admitted_object_settled:
  assumes "run_hooks (mutators userns managed) a = Inr b"
  shows "b = a\<lparr>at_object := at_object b\<rparr> \<and> run_hooks (mutators userns managed) b = Inr b"
  using hooks.chain_frame hooks.chain_settled assms unfolding mutators_chain same_request_def by blast

definition new_event :: event where
  "new_event = empty_event\<lparr>ev_meta := empty_meta\<lparr>om_name := ''eu-daily''\<rparr>,
     ev_spec := empty_event_spec\<lparr>es_calendar := ''eu''\<rparr>\<rparr>"

definition new_event_request :: attributes where
  "new_event_request =
     \<lparr>at_object = Some (AdmittedEvent new_event), at_old_object = None, at_kind = kind_release_event,
      at_namespace = ''ns'', at_name = ''eu-daily'', at_resource = (''fleet.crd.tess.io'', ''v1alpha2'', ''releaseevents''),
      at_sub_resource = [], at_operation = ''CREATE'', at_options = None, at_dry_run = False,
      at_user = \<lparr>ui_name = [], ui_uid = [], ui_groups = [], ui_extra = []\<rparr>\<rparr>"

definition labelled_event :: event where
  "labelled_event = new_event\<lparr>ev_meta := (ev_meta new_event)\<lparr>om_labels := [(''calendar'', ''eu''), (''name'', ''daily'')]\<rparr>\<rparr>"

lemma review_new_event:
  "run_hooks (mutators True []) new_event_request =
   Inr (new_event_request\<lparr>at_object := Some (AdmittedEvent labelled_event)\<rparr>)"
  by code_simp

lemma admitted_object_settled_witness:
  "run_hooks (mutators True []) (new_event_request\<lparr>at_object := Some (AdmittedEvent labelled_event)\<rparr>) =
   Inr (new_event_request\<lparr>at_object := Some (AdmittedEvent labelled_event)\<rparr>)"
  using admitted_object_settled [OF review_new_event] by simp

lemma run_mutators:
  assumes "run_hooks (mutators userns managed) a = Inr b" and "handles_writes (at_operation a)"
  shows "admit_userns userns managed a = Inr a \<and> admit_event_labels a = Inr b"
  using assms by (auto simp: mutators_def dest: admit_userns_guards split: if_splits sum.splits)


definition user_release :: release where
  "user_release = empty_release\<lparr>rl_meta := empty_meta\<lparr>om_namespace := ''team'', om_name := ''app'',
       om_annotations := [(annotation_user_namespace, ''true'')]\<rparr>,
     rl_spec := (rl_spec empty_release)\<lparr>rs_secret_ref := Some ''credentials''\<rparr>\<rparr>"

definition release_request :: "release \<Rightarrow> attributes" where
  "release_request r = new_event_request\<lparr>at_object := Some (AdmittedRelease r), at_kind := kind_release\<rparr>"


text \<open>
  In a managed namespace, whose releases \<open>still run in system namespace\<close> by the description of the
  flag, the annotation is admitted, and the controller follows it.
\<close>

lemma managed_namespace_not_enforced:
  assumes "map_of (om_annotations (rl_meta r)) annotation_user_namespace = Some ''true''"
    and "map_of (om_labels (rl_meta r)) label_application_instance = None" and "rl_namespace r \<in> set managed"
    and "\<not> cf_remote cf"
  shows "run_hooks (mutators True managed) (release_request r) = Inr (release_request r)"
    and "user_namespace_mode cf r = eff_ret (rl_namespace r, True)"
  using assms
  by (simp_all add: mutators_def release_request_def new_event_request_def admit_userns_def check_release_userns_def
      admit_event_labels_def handles_writes_def kind_release_def kind_release_event_def user_namespace_mode_def)

text \<open>
  C36. An event that has been admitted carries the label of its calendar and, as its name label, the
  name by which the calendar controller knows it; for an event that had no name label this is the
  name it would have had without the label. Nothing but the labels has changed.
\<close>

theorem admitted_event_named:
  assumes "run_hooks (mutators userns managed) a = Inr b" and "handles_writes (at_operation a)"
    and "at_sub_resource a = []" and "at_kind a = kind_release_event"
  shows "\<exists>e e'. at_object a = Some (AdmittedEvent e) \<and> at_object b = Some (AdmittedEvent e') \<and>
    ev_spec e' = ev_spec e \<and> ev_status e' = ev_status e \<and>
    map_of (om_labels (ev_meta e')) =
      (map_of (om_labels (ev_meta e)))(''calendar'' \<mapsto> es_calendar (ev_spec e), ''name'' \<mapsto> name_of_event e') \<and>
    (map_of (om_labels (ev_meta e)) ''name'' = None \<longrightarrow> name_of_event e' = name_of_event e)"
proof -
  from run_mutators [OF assms(1,2)] assms(3,4) obtain e where
    "at_object a = Some (AdmittedEvent e)" "at_object b = Some (AdmittedEvent (with_event_labels e))"
    by (auto simp: admit_event_labels_def split: option.splits admitted_object.splits)
  then show ?thesis
    by (auto simp: with_event_labels_def event_name_label_def name_of_event_def)
qed

lemma admitted_event_named_witness:
  "name_of_event labelled_event = name_of_event new_event \<and>
   map_of (om_labels (ev_meta labelled_event)) ''name'' = Some (name_of_event new_event)"
proof -
  have "handles_writes (at_operation new_event_request)" "at_sub_resource new_event_request = []"
    "at_kind new_event_request = kind_release_event" "map_of (om_labels (ev_meta new_event)) ''name'' = None"
    by code_simp+
  with admitted_event_named [OF review_new_event] show ?thesis by (auto simp: new_event_request_def)
qed

text \<open>
  An update whose new object cannot be decoded is let through unreviewed when the old object can
  be: the error of the first decoding is overwritten by the second.
\<close>

lemma undecodable_update_admitted:
  assumes "dec_object dec (aq_kind req) (aq_object req) = Inl e"
    and "dec_object dec (aq_kind req) (aq_old_object req) = Inr old" and "aq_old_object req \<noteq> []"
    and "aq_options req = []"
  shows "admit dec json_patch hooks req = accepted req None"
  using assms by (simp add: admit_def new_attributes_def decode_raw_def)

end
