(* ===== verification/GoPath.thy ===== *)
theory GoPath
  imports GoStrings
begin

text \<open>
  Go's \<open>path/filepath\<close> on Unix: paths are cleaned lexically, element by element, and \<open>Join\<close> cleans
  what it has put together. \<open>TrimSpace\<close> trims the ASCII white space.
\<close>

text \<open>One element of a path that is being cleaned; the elements so far are in reverse order.\<close>

definition clean_element :: "bool \<Rightarrow> string \<Rightarrow> string list \<Rightarrow> string list" where
  "clean_element rooted c out =
     (if c = [] \<or> c = ''.'' then out
      else if c = ''..''
      then (if out \<noteq> [] \<and> hd out \<noteq> ''..'' then tl out else if rooted then out else ''..'' # out)
      else c # out)"

definition is_abs_path :: "string \<Rightarrow> bool" where
  "is_abs_path p \<longleftrightarrow> has_prefix p ''/''"

definition path_elements :: "string \<Rightarrow> string list" where
  "path_elements p = rev (fold (clean_element (is_abs_path p)) (split_on (CHR ''/'') p) [])"

definition path_of :: "bool \<Rightarrow> string list \<Rightarrow> string" where
  "path_of rooted es =
     (if rooted then CHR ''/'' # join_with (CHR ''/'') es
      else if es = [] then ''.'' else join_with (CHR ''/'') es)"

definition clean_path :: "string \<Rightarrow> string" where
  "clean_path p = path_of (is_abs_path p) (path_elements p)"

definition join_path :: "string list \<Rightarrow> string" where
  "join_path es =
     (case dropWhile (\<lambda>e. e = []) es of [] \<Rightarrow> [] | es' \<Rightarrow> clean_path (join_with (CHR ''/'') es'))"

text \<open>\<open>Ext\<close>: from the last dot of the last element on.\<close>

definition path_ext :: "string \<Rightarrow> string" where
  "path_ext p =
     (let base = after_last (CHR ''/'') p in
      if CHR ''.'' \<in> set base then CHR ''.'' # after_last (CHR ''.'') base else [])"

text \<open>
  \<open>Rel\<close> on the elements of two paths that are both rooted or both not; a base of one dot has no
  elements, a target of one dot is an element.
\<close>

fun rel_elements :: "string list \<Rightarrow> string list \<Rightarrow> string list option" where
  "rel_elements [] ts = Some ts"
| "rel_elements bs [] = Some (replicate (length bs) ''..'')"
| "rel_elements (b # bs) (t # ts) =
     (if b = t then rel_elements bs ts
      else if b = ''..'' then None
      else Some (replicate (length (b # bs)) ''..'' @ t # ts))"

definition rel_path :: "string \<Rightarrow> string \<Rightarrow> string option" where
  "rel_path base target =
     (if clean_path target = clean_path base then Some ''.''
      else if is_abs_path base \<noteq> is_abs_path target then None
      else map_option (join_with (CHR ''/''))
        (rel_elements (path_elements base)
          (if clean_path target = ''.'' then [''.''] else path_elements target)))"

text \<open>\<open>Abs\<close> in a working directory.\<close>

definition abs_path :: "string \<Rightarrow> string \<Rightarrow> string" where
  "abs_path cwd p = (if is_abs_path p then clean_path p else join_path [cwd, p])"

definition is_white :: "char \<Rightarrow> bool" where
  "is_white c \<longleftrightarrow> c \<in> {CHR '' '', CHR 0x09, CHR 0x0A, CHR 0x0B, CHR 0x0C, CHR 0x0D}"

definition trim_space :: "string \<Rightarrow> string" where
  "trim_space s = rev (dropWhile is_white (rev (dropWhile is_white s)))"

section \<open>The last element of a path\<close>

lemma split_on_append_sep: "split_on c (a @ c # b) = split_on c a @ split_on c b"
proof (induction a)
  case (Cons x a)
  then show ?case
    by (cases "split_on c a") (auto simp: split_on_nonempty split: list.splits)
qed simp

lemma join_with_snoc: "es \<noteq> [] \<Longrightarrow> join_with c (es @ [e]) = join_with c es @ c # e"
proof (induction es)
  case (Cons x es)
  then show ?case by (cases es) auto
qed simp

text \<open>An element that is no dot directory stays the last one.\<close>

lemma clean_path_last:
  assumes "CHR ''/'' \<notin> set e" and "e \<notin> {[], ''.'', ''..''}"
  shows "has_suffix (clean_path (p @ CHR ''/'' # e)) e"
proof -
  have last: "split_on (CHR ''/'') (p @ CHR ''/'' # e) = split_on (CHR ''/'') p @ [e]"
    using assms(1) by (simp add: split_on_append_sep split_on_no_sep)
  obtain es where es: "path_elements (p @ CHR ''/'' # e) = es @ [e]"
    using assms(2) by (simp add: path_elements_def last clean_element_def)
  have "has_suffix (join_with (CHR ''/'') (es @ [e])) e"
    by (cases "es = []") (auto simp: join_with_snoc has_suffix_iff)
  then show ?thesis by (auto simp: clean_path_def path_of_def es has_suffix_iff)
qed

lemma clean_path_single:
  assumes "CHR ''/'' \<notin> set e" and "e \<notin> {[], ''.'', ''..''}"
  shows "clean_path e = e"
proof -
  have "\<not> is_abs_path e" using assms by (cases e) (auto simp: is_abs_path_def)
  with assms show ?thesis
    by (simp add: clean_path_def path_elements_def split_on_no_sep clean_element_def path_of_def)
qed

lemma join_path_last:
  assumes "CHR ''/'' \<notin> set e" and "e \<notin> {[], ''.'', ''..''}"
  shows "has_suffix (join_path [p, e]) e"
  using assms clean_path_last [OF assms, of p] clean_path_single [OF assms]
  by (auto simp: join_path_def has_suffix_iff)

end
