(* ===== verification/GitSync.thy ===== *)
theory GitSync
  imports Prelude GoPath
begin

text \<open>
  The side car that pulls the git repository (src/cmd/git-sync/git-sync.go): a clone in
  \<open>.git-sync\<close> under the root, one work tree per commit beside it, and a symbolic link, named like the
  repository, to the work tree that is served. \<open>log.Fatalf\<close> ends the process: an error of the model.
  Commands, files and the environment answer through the environment record.
\<close>

section \<open>Flags\<close>

record sync_flags =
  gf_branch :: string
  gf_repo :: string
  gf_root :: string
  gf_rev :: string
  gf_includes :: "string list"
  gf_excludes :: "string list"
  gf_gpg_key :: string
  gf_username :: string
  gf_password_file :: string
  gf_ssh :: bool
  gf_ssh_key_file :: string
  gf_ssh_known_hosts :: string
  gf_webhook_url :: string
  gf_wait :: nat
  gf_one_time :: bool

section \<open>Interactions\<close>

datatype sync_call =
    GitRun "string list" "go_error + unit"
  | GitOutput "string list" "go_error + string"
  | Command "string list" "go_error + unit"
  | ChangeDirectory string "go_error + unit"
  | EvalLink string "go_error + string"
  | ReadDirectory string "go_error + (string \<times> bool) list"
  | RemoveTree string "go_error + unit"
  | ReadText string "go_error + string"
  | StatPath string "go_error + bool"
  | MakeDirectories string "go_error + unit"
  | CreateFile string "go_error + unit"
  | WriteLine string string "go_error + unit"
  | GetVariable string string
  | SetVariable string string
  | Reported string string string
  | Alarmed string
  | Slept nat

type_synonym 'a sync_eff = "(sync_call, 'a) eff"

record sync_env =
  sy_git :: "sync_call list \<Rightarrow> string list \<Rightarrow> go_error + unit"
  sy_git_output :: "sync_call list \<Rightarrow> string list \<Rightarrow> go_error + string"
  sy_command :: "sync_call list \<Rightarrow> string list \<Rightarrow> go_error + unit"
  sy_chdir :: "sync_call list \<Rightarrow> string \<Rightarrow> go_error + unit"
  sy_eval_link :: "sync_call list \<Rightarrow> string \<Rightarrow> go_error + string"
  sy_read_dir :: "sync_call list \<Rightarrow> string \<Rightarrow> go_error + (string \<times> bool) list"
  sy_remove :: "sync_call list \<Rightarrow> string \<Rightarrow> go_error + unit"
  sy_read :: "sync_call list \<Rightarrow> string \<Rightarrow> go_error + string"
  sy_stat :: "sync_call list \<Rightarrow> string \<Rightarrow> go_error + bool"
  sy_mkdir :: "sync_call list \<Rightarrow> string \<Rightarrow> go_error + unit"
  sy_create :: "sync_call list \<Rightarrow> string \<Rightarrow> go_error + unit"
  sy_write :: "sync_call list \<Rightarrow> string \<Rightarrow> string \<Rightarrow> go_error + unit"
  sy_variable :: "sync_call list \<Rightarrow> string \<Rightarrow> string"
  sy_expand :: "string \<Rightarrow> string"
  sy_url :: "string \<Rightarrow> (string \<times> string) option \<Rightarrow> go_error + string"

definition git_run :: "sync_env \<Rightarrow> string list \<Rightarrow> unit sync_eff" where
  "git_run E args = perform (\<lambda>h. sy_git E h args) (GitRun args)"

definition git_output :: "sync_env \<Rightarrow> string list \<Rightarrow> (go_error + string) sync_eff" where
  "git_output E args = observe (\<lambda>h. sy_git_output E h args) (GitOutput args)"

definition command :: "sync_env \<Rightarrow> string list \<Rightarrow> unit sync_eff" where
  "command E args = perform (\<lambda>h. sy_command E h args) (Command args)"

definition change_directory :: "sync_env \<Rightarrow> string \<Rightarrow> unit sync_eff" where
  "change_directory E d = perform (\<lambda>h. sy_chdir E h d) (ChangeDirectory d)"

definition eval_link :: "sync_env \<Rightarrow> string \<Rightarrow> (go_error + string) sync_eff" where
  "eval_link E p = observe (\<lambda>h. sy_eval_link E h p) (EvalLink p)"

definition read_directory :: "sync_env \<Rightarrow> string \<Rightarrow> (string \<times> bool) list sync_eff" where
  "read_directory E p = perform (\<lambda>h. sy_read_dir E h p) (ReadDirectory p)"

definition remove_tree :: "sync_env \<Rightarrow> string \<Rightarrow> unit sync_eff" where
  "remove_tree E p = perform (\<lambda>h. sy_remove E h p) (RemoveTree p)"

definition read_text :: "sync_env \<Rightarrow> string \<Rightarrow> (go_error + string) sync_eff" where
  "read_text E p = observe (\<lambda>h. sy_read E h p) (ReadText p)"

definition stat_path :: "sync_env \<Rightarrow> string \<Rightarrow> (go_error + bool) sync_eff" where
  "stat_path E p = observe (\<lambda>h. sy_stat E h p) (StatPath p)"

definition make_directories :: "sync_env \<Rightarrow> string \<Rightarrow> unit sync_eff" where
  "make_directories E p = perform (\<lambda>h. sy_mkdir E h p) (MakeDirectories p)"

definition create_file :: "sync_env \<Rightarrow> string \<Rightarrow> unit sync_eff" where
  "create_file E p = perform (\<lambda>h. sy_create E h p) (CreateFile p)"

definition write_line :: "sync_env \<Rightarrow> string \<Rightarrow> string \<Rightarrow> unit sync_eff" where
  "write_line E p l = perform (\<lambda>h. sy_write E h p l) (WriteLine p l)"

definition get_variable :: "sync_env \<Rightarrow> string \<Rightarrow> string sync_eff" where
  "get_variable E v = observe (\<lambda>h. sy_variable E h v) (GetVariable v)"

lemmas sync_call_defs = git_run_def git_output_def command_def change_directory_def eval_link_def read_directory_def
  remove_tree_def read_text_def stat_path_def make_directories_def create_file_def write_line_def get_variable_def

text \<open>A Go error value as the end of the process.\<close>

definition fatal_on :: "string \<Rightarrow> (go_error + 'a) \<Rightarrow> 'a sync_eff" where
  "fatal_on msg a = (case a of Inl _ \<Rightarrow> eff_fail (Errorf msg) | Inr x \<Rightarrow> eff_ret x)"

section \<open>One round\<close>

definition commit_dir :: "string \<Rightarrow> string \<Rightarrow> string" where
  "commit_dir root commit = join_path [root, CHR ''.'' # commit]"

definition unlock :: "sync_env \<Rightarrow> sync_flags \<Rightarrow> bool \<Rightarrow> unit sync_eff" where
  "unlock E fl imported =
     eff_bind (stat_path E ''.git-crypt'') (\<lambda>info.
       case info of
         Inl e \<Rightarrow> if e = NotFound then eff_ret () else eff_fail (Errorf ''failed to check .git-crypt existence'')
       | Inr is_dir \<Rightarrow>
           if is_dir then eff_wrap ''failed to run git-crypt unlock''
             (command E ([''git-crypt'', ''unlock''] @ (if imported then [] else [gf_gpg_key fl])))
           else eff_ret ())"

text \<open>The lines of the sparse checkout.\<close>

definition sparse_lines :: "sync_env \<Rightarrow> sync_flags \<Rightarrow> string list" where
  "sparse_lines E fl = map (sy_expand E) (gf_includes fl) @ map (\<lambda>p. CHR ''!'' # sy_expand E p) (gf_excludes fl)"

text \<open>\<open>dotgit[8:]\<close> is out of range in a file that is shorter than \<open>gitdir: \<close>.\<close>

definition git_directory :: "string \<Rightarrow> string res" where
  "git_directory dotgit = (if length dotgit < 8 then Panic else Ok (trim_space (drop 8 dotgit)))"

definition checkout :: "sync_env \<Rightarrow> sync_flags \<Rightarrow> bool \<Rightarrow> string \<Rightarrow> unit sync_eff" where
  "checkout E fl imported commitdir =
     eff_bind (eff_wrap ''failed to change dir'' (change_directory E commitdir)) (\<lambda>_.
     eff_bind (unlock E fl imported) (\<lambda>_.
     eff_bind (eff_wrap ''failed to enable sparse-checkout''
       (git_run E [''config'', ''--worktree'', ''core.sparseCheckout'', ''true''])) (\<lambda>_.
     eff_bind (eff_bind (read_text E ''.git'') (fatal_on ''failed to read .git'')) (\<lambda>dotgit.
     eff_bind (eff_of_res (git_directory dotgit)) (\<lambda>gitdir.
     eff_bind (eff_wrap ''failed to create info directory'' (make_directories E (join_path [gitdir, ''info'']))) (\<lambda>_.
     let sparse = join_path [gitdir, ''info'', ''sparse-checkout''] in
     eff_bind (eff_wrap ''failed to create sparse-checkout file'' (create_file E sparse)) (\<lambda>_.
     eff_bind (eff_wrap ''failed to configure sparse-checkout''
       (eff_each (write_line E sparse) (sparse_lines E fl))) (\<lambda>_.
     eff_wrap ''failed to checkout'' (git_run E [''checkout''])))))))))"

text \<open>
  \<open>updateLink\<close>: the new link is put beside the old one and moved over it. Without an old link
  \<open>predir\<close> is empty, and \<open>RemoveAll\<close> of the empty path does nothing.
\<close>

definition update_link :: "sync_env \<Rightarrow> sync_flags \<Rightarrow> string \<Rightarrow> string \<Rightarrow> unit sync_eff" where
  "update_link E fl commitdir repodir =
     eff_bind (eval_link E repodir) (\<lambda>old.
     eff_bind (case old of
         Inl e \<Rightarrow> if e = NotFound then eff_ret [] else eff_fail (Errorf ''failed to eval symbol link'')
       | Inr d \<Rightarrow> eff_ret d) (\<lambda>predir.
     let tmplink = join_path [gf_root fl, ''.tmp''] in
     eff_bind (eff_wrap ''failed to create link'' (command E [''ln'', ''-snf'', commitdir, tmplink])) (\<lambda>_.
     eff_bind (eff_wrap ''failed to mv'' (command E [''mv'', ''-T'', tmplink, repodir])) (\<lambda>_.
     eff_wrap ''failed to remove'' (remove_tree E predir)))))"

definition add_worktree ::
  "sync_env \<Rightarrow> sync_flags \<Rightarrow> bool \<Rightarrow> string \<Rightarrow> string \<Rightarrow> unit sync_eff" where
  "add_worktree E fl imported repodir commit =
     (let dir = commit_dir (gf_root fl) commit in
      eff_bind (eff_wrap ''failed to add worktree'' (git_run E [''worktree'', ''add'', ''-f'', dir, commit])) (\<lambda>_.
      eff_bind (eff_wrap ''failed to checkout'' (checkout E fl imported dir)) (\<lambda>_.
      eff_wrap ''failed to update link'' (update_link E fl dir repodir))))"

definition fetch :: "sync_env \<Rightarrow> sync_flags \<Rightarrow> unit sync_eff" where
  "fetch E fl =
     eff_bind (eff_wrap ''failed to config extensions.worktreeConfig''
       (git_run E [''config'', ''extensions.worktreeConfig'', ''true''])) (\<lambda>_.
     eff_bind (eff_wrap ''failed to run pull''
       (git_run E [''fetch'', ''--force'', ''--tags'', ''origin'', gf_branch fl])) (\<lambda>_.
     eff_bind (eff_wrap ''failed to reset branch''
       (git_run E [''reset'', ''--hard'', ''origin/'' @ gf_branch fl])) (\<lambda>_.
     if has_prefix (gf_rev fl) ''refs/remotes/origin/pr/''
     then eff_wrap ''failed to fetch pull requests''
       (git_run E [''fetch'', ''--force'', ''origin'', ''refs/pull/*:refs/remotes/origin/pr/*''])
     else eff_ret ())))"

definition read_version :: "sync_env \<Rightarrow> string \<Rightarrow> string sync_eff" where
  "read_version E dir =
     eff_bind (read_text E (join_path [dir, ''VERSION''])) (\<lambda>data.
       case data of
         Inl e \<Rightarrow> if e = NotFound then eff_ret [] else eff_fail (Errorf ''failed to read VERSION'')
       | Inr text \<Rightarrow> eff_ret (trim_space text))"

definition sync ::
  "sync_env \<Rightarrow> sync_flags \<Rightarrow> bool \<Rightarrow> string \<Rightarrow> string \<Rightarrow> string \<Rightarrow> (string \<times> string \<times> string) sync_eff" where
  "sync E fl imported repodir workdir head =
     eff_bind (eff_wrap ''failed to change dir'' (change_directory E workdir)) (\<lambda>_.
     eff_bind (fetch E fl) (\<lambda>_.
     eff_bind (eff_bind (git_output E [''rev-parse'', gf_rev fl @ ''^{}'']) (fatal_on ''failed to run rev-parse'')) (\<lambda>output.
     let commit = trim_space output in
     eff_bind (git_output E [''describe'', ''--tags'', ''--abbrev=0'', commit]) (\<lambda>described.
     let tag = (case described of Inl _ \<Rightarrow> [] | Inr t \<Rightarrow> trim_space t) in
     eff_bind (eff_wrap ''failed to prune worktree'' (git_run E [''worktree'', ''prune''])) (\<lambda>_.
     eff_bind (if head \<noteq> commit then add_worktree E fl imported repodir commit else eff_ret ()) (\<lambda>_.
     eff_bind (read_version E (commit_dir (gf_root fl) commit)) (\<lambda>version.
     eff_ret (commit, tag, version))))))))"

text \<open>The loop, for a number of rounds: it only ends with the process.\<close>

fun sync_rounds ::
  "nat \<Rightarrow> sync_env \<Rightarrow> sync_flags \<Rightarrow> bool \<Rightarrow> string \<Rightarrow> string \<Rightarrow> string \<Rightarrow> unit sync_eff" where
  "sync_rounds 0 E fl imported repodir workdir head = eff_ret ()"
| "sync_rounds (Suc n) E fl imported repodir workdir head =
     eff_bind (sync E fl imported repodir workdir head) (\<lambda>(commit, tag, version).
     eff_bind (if gf_webhook_url fl \<noteq> [] then notify (Reported commit tag (trim_space version)) else eff_ret ()) (\<lambda>_.
     if gf_one_time fl then eff_ret ()
     else eff_bind (notify (Slept (gf_wait fl))) (\<lambda>_. sync_rounds n E fl imported repodir workdir commit)))"

section \<open>The start\<close>

text \<open>The names that \<open>^\.[0-9a-f]{40}$\<close> matches.\<close>

definition hex_digits :: string where
  "hex_digits = ''0123456789abcdef''"

definition is_worktree_name :: "string \<Rightarrow> bool" where
  "is_worktree_name name \<longleftrightarrow>
     length name = 41 \<and> take 1 name = ''.'' \<and> list_all (\<lambda>c. c \<in> set hex_digits) (drop 1 name)"

text \<open>The directories of work trees that are not linked are what an earlier process left.\<close>

definition remove_leftover :: "sync_env \<Rightarrow> string \<Rightarrow> string \<Rightarrow> string \<times> bool \<Rightarrow> unit sync_eff" where
  "remove_leftover E root worktree file =
     (case file of (name, is_dir) \<Rightarrow>
        if \<not> is_dir \<or> \<not> is_worktree_name name \<or> has_suffix worktree name then eff_ret ()
        else eff_wrap ''failed to remove'' (remove_tree E (join_path [root, name])))"

definition import_gpg_key :: "sync_env \<Rightarrow> sync_flags \<Rightarrow> bool sync_eff" where
  "import_gpg_key E fl =
     (if gf_gpg_key fl = [] then eff_ret False
      else eff_bind (eff_try (command E [''gpg'', ''--import'', gf_gpg_key fl])) (\<lambda>a. eff_ret (\<not> isl a)))"

definition trim_suffix :: "string \<Rightarrow> string \<Rightarrow> string" where
  "trim_suffix s p = (if has_suffix s p then take (length s - length p) s else s)"

definition get_password :: "sync_env \<Rightarrow> sync_flags \<Rightarrow> string sync_eff" where
  "get_password E fl =
     (if gf_password_file fl \<noteq> []
      then eff_bind (read_text E (gf_password_file fl)) (\<lambda>data.
           eff_bind (fatal_on ''failed to read'' data) (\<lambda>text. eff_ret (trim_suffix text [CHR 0x0A])))
      else if \<not> gf_ssh fl
      then eff_bind (get_variable E ''GIT_SYNC_PASSWORD'') (\<lambda>password.
           if password = [] then eff_fail (Errorf ''GIT_SYNC_PASSWORD is not set'') else eff_ret password)
      else eff_ret [])"

text \<open>The SSH form of a repository: \<open>strings.Replace(repo, ":", "/", 1)\<close> behind the scheme.\<close>

definition replace_first :: "char \<Rightarrow> char \<Rightarrow> string \<Rightarrow> string" where
  "replace_first c d s = (case index_of c s of None \<Rightarrow> s | Some i \<Rightarrow> s[i := d])"

definition repository_url :: "string \<Rightarrow> string" where
  "repository_url repo =
     (if has_prefix repo ''git@'' then ''ssh://'' @ replace_first (CHR '':'') (CHR ''/'') repo else repo)"

definition configure_ssh :: "sync_env \<Rightarrow> sync_flags \<Rightarrow> unit sync_eff" where
  "configure_ssh E fl =
     (if \<not> gf_ssh fl then eff_ret ()
      else eff_bind (notify (SetVariable ''HOME'' (gf_root fl))) (\<lambda>_.
           eff_bind (eff_bind (read_text E (gf_ssh_key_file fl)) (fatal_on ''failed to read the key file'')) (\<lambda>_.
           eff_wrap ''error configuring ssh private key/host key checking''
             (git_run E [''config'', ''--global'', ''core.sshCommand'',
               ''ssh -i '' @ gf_ssh_key_file fl @
                 (if gf_ssh_known_hosts fl \<noteq> [] then '' -o UserKnownHostsFile='' @ gf_ssh_known_hosts fl
                  else '' -o StrictHostKeyChecking=accept-new'')]))))"

text \<open>\<open>fatal\<close>: the web hook learns of the failure before the process ends.\<close>

definition alarm :: "sync_flags \<Rightarrow> string \<Rightarrow> 'a sync_eff" where
  "alarm fl message =
     eff_bind (if gf_webhook_url fl \<noteq> [] then notify (Alarmed (''failed to run git-sync: '' @ message)) else eff_ret ())
       (\<lambda>_. eff_fail (Errorf message))"

definition or_alarm :: "sync_flags \<Rightarrow> string \<Rightarrow> unit sync_eff \<Rightarrow> unit sync_eff" where
  "or_alarm fl message m =
     eff_bind (eff_try m) (\<lambda>a. case a of Inl _ \<Rightarrow> alarm fl message | Inr _ \<Rightarrow> eff_ret ())"

text \<open>The head of a linked work tree: \<open>worktree[len(worktree)-40:]\<close>, out of range in a shorter path.\<close>

definition linked_head :: "string \<Rightarrow> string res" where
  "linked_head worktree = (if length worktree < 40 then Panic else Ok (drop (length worktree - 40) worktree))"

definition prepare_clone :: "sync_env \<Rightarrow> sync_flags \<Rightarrow> string \<Rightarrow> string \<Rightarrow> string \<Rightarrow> string sync_eff" where
  "prepare_clone E fl url workdir worktree =
     (if worktree = []
      then eff_bind (or_alarm fl ''failed to remove'' (remove_tree E workdir)) (\<lambda>_.
           eff_bind (or_alarm fl ''failed to clone repo'' (git_run E [''clone'', url, ''--branch='' @ gf_branch fl, workdir]))
             (\<lambda>_. eff_ret []))
      else eff_of_res (linked_head worktree))"

definition repo_dir :: "sync_flags \<Rightarrow> string" where
  "repo_dir fl = join_path [gf_root fl, after_last (CHR ''/'') (repository_url (gf_repo fl))]"

definition work_dir :: "sync_flags \<Rightarrow> string" where
  "work_dir fl = join_path [gf_root fl, ''.git-sync'']"

definition find_worktree :: "sync_env \<Rightarrow> sync_flags \<Rightarrow> string sync_eff" where
  "find_worktree E fl =
     eff_bind (eval_link E (repo_dir fl)) (\<lambda>a.
       case a of
         Inl e \<Rightarrow> if e = NotFound then eff_ret [] else eff_fail (Errorf ''failed to eval symbol link'')
       | Inr d \<Rightarrow> eff_ret d)"

definition git_sync :: "sync_env \<Rightarrow> sync_flags \<Rightarrow> nat \<Rightarrow> unit sync_eff" where
  "git_sync E fl n =
     eff_bind (notify (SetVariable ''GNUPGHOME'' (join_path [gf_root fl, ''.gnupg'']))) (\<lambda>_.
     eff_bind (import_gpg_key E fl) (\<lambda>imported.
     eff_bind (get_password E fl) (\<lambda>password.
     eff_bind (fatal_on ''failed to parse repo''
       (sy_url E (repository_url (gf_repo fl)) (if gf_ssh fl then None else Some (gf_username fl, password)))) (\<lambda>url.
     eff_bind (configure_ssh E fl) (\<lambda>_.
     eff_bind (find_worktree E fl) (\<lambda>worktree.
     eff_bind (eff_wrap ''failed to read dir'' (read_directory E (gf_root fl))) (\<lambda>files.
     eff_bind (eff_each (remove_leftover E (gf_root fl) worktree) files) (\<lambda>_.
     eff_bind (prepare_clone E fl url (work_dir fl) worktree) (\<lambda>head.
     sync_rounds n E fl imported (repo_dir fl) (work_dir fl) head)))))))))"

end
