(* ===== verification/GitSyncSafety.thy ===== *)
theory GitSyncSafety
  imports GitSync TraceMonitor
begin

text \<open>
  What git-sync promises to the containers beside it: whenever it is killed, the link names a work
  tree that was checked out to the end, and a commit is reported when its work tree is linked. A
  monitor follows what the commands do to the link and the work trees; it is trusted as long as the
  answers agree with it: the link resolves to what was moved there, and a revision is a commit id.
\<close>

section \<open>Commits and their directories\<close>

definition is_commit :: "string \<Rightarrow> bool" where
  "is_commit c \<longleftrightarrow> length c = 40 \<and> list_all (\<lambda>d. d \<in> set hex_digits) c"

lemma is_worktree_name_iff: "is_worktree_name name \<longleftrightarrow> (\<exists>c. name = CHR ''.'' # c \<and> is_commit c)"
  by (cases name) (auto simp: is_worktree_name_def is_commit_def)

lemma commit_not_hex: "is_commit c \<Longrightarrow> d \<notin> set hex_digits \<Longrightarrow> d \<notin> set c"
  by (auto simp: is_commit_def list_all_iff)

lemma commit_element:
  assumes "is_commit c"
  shows "CHR ''/'' \<notin> set (CHR ''.'' # c)" "CHR ''.'' # c \<notin> {[], ''.'', ''..''}"
proof -
  show "CHR ''/'' \<notin> set (CHR ''.'' # c)"
    using commit_not_hex [OF assms, of "CHR ''/''"] by (simp add: hex_digits_def)
  have "length (CHR ''.'' # c) = 41" using assms by (simp add: is_commit_def)
  moreover have "\<forall>e \<in> {[], ''.'', ''..''}. length e < 41" by simp
  ultimately show "CHR ''.'' # c \<notin> {[], ''.'', ''..''}" by fastforce
qed

lemma commit_dir_suffix: "is_commit c \<Longrightarrow> has_suffix (commit_dir root c) (CHR ''.'' # c)"
  unfolding commit_dir_def by (rule join_path_last) (use commit_element in blast)+

lemma suffixes_eq: "has_suffix s a \<Longrightarrow> has_suffix s b \<Longrightarrow> length a = length b \<Longrightarrow> a = b"
  by (auto simp: has_suffix_iff)

lemma commit_dir_inject: "is_commit c \<Longrightarrow> is_commit d \<Longrightarrow> commit_dir root c = commit_dir root' d \<Longrightarrow> c = d"
  using suffixes_eq [OF commit_dir_suffix [of c root] , of "CHR ''.'' # d"] commit_dir_suffix [of d root']
  by (auto simp: is_commit_def)

lemma linked_head_commit_dir: "is_commit c \<Longrightarrow> linked_head (commit_dir root c) = Ok c"
  using commit_dir_suffix [of c root] by (auto simp: linked_head_def has_suffix_iff is_commit_def)

lemma commit_dir_not_work_dir:
  assumes "is_commit c"
  shows "commit_dir root c \<noteq> work_dir fl"
proof
  assume eq: "commit_dir root c = work_dir fl"
  have "has_suffix (work_dir fl) ''.git-sync''"
    unfolding work_dir_def by (rule join_path_last) simp_all
  then obtain p where "commit_dir root c = p @ ''.git-sync''" using eq unfolding has_suffix_iff by metis
  then have p: "commit_dir root c = (p @ ''.git-'') @ ''sync''" by simp
  obtain q where q: "commit_dir root c = q @ c"
    using commit_dir_suffix [OF assms, of root] by (auto simp: has_suffix_iff)
  have "(p @ ''.git-'') @ ''sync'' = (q @ take 36 c) @ drop 36 c" using p q by simp
  moreover have "length ''sync'' = length (drop 36 c)" using assms by (simp add: is_commit_def)
  ultimately have "drop 36 c = ''sync''" by (metis append_eq_append_conv)
  then have "CHR ''s'' \<in> set c" using in_set_dropD [of "CHR ''s''" 36 c] by simp
  with commit_not_hex [OF assms, of "CHR ''s''"] show False by (simp add: hex_digits_def)
qed

definition is_commit_dir :: "sync_flags \<Rightarrow> string \<Rightarrow> bool" where
  "is_commit_dir fl d \<longleftrightarrow>
     (case linked_head d of Ok c \<Rightarrow> is_commit c \<and> d = commit_dir (gf_root fl) c | _ \<Rightarrow> False)"

lemma is_commit_dirI: "is_commit c \<Longrightarrow> is_commit_dir fl (commit_dir (gf_root fl) c)"
  by (simp add: is_commit_dir_def linked_head_commit_dir)

lemma is_commit_dirE:
  assumes "is_commit_dir fl d"
  obtains c where "is_commit c" "d = commit_dir (gf_root fl) c"
  using assms by (auto simp: is_commit_dir_def split: res.splits)

section \<open>The monitor\<close>

record tree_state =
  ts_link :: "string option"
  ts_temp :: "string option"
  ts_ready :: "string list"
  ts_cwd :: string
  ts_trusted :: bool

text \<open>The directory that \<open>git worktree add\<close> is about, and the arguments of \<open>ln\<close> and \<open>mv\<close>.\<close>

fun added_tree :: "string list \<Rightarrow> string option" where
  "added_tree [a, b, f, d, c] = (if a = ''worktree'' \<and> b = ''add'' \<and> f = ''-f'' then Some d else None)"
| "added_tree _ = None"

fun moved :: "string list \<Rightarrow> (string \<times> string \<times> string) option" where
  "moved [cmd, f, a, b] = (if cmd = ''ln'' \<or> cmd = ''mv'' then Some (cmd, a, b) else None)"
| "moved _ = None"

definition temp_link :: "sync_flags \<Rightarrow> string" where
  "temp_link fl = join_path [gf_root fl, ''.tmp'']"

fun advance_tree :: "sync_flags \<Rightarrow> sync_call \<Rightarrow> tree_state \<Rightarrow> tree_state" where
  "advance_tree fl (EvalLink p a) s =
     (if p = repo_dir fl
      then s\<lparr>ts_trusted := ts_trusted s \<and>
        (case a of Inl e \<Rightarrow> e = NotFound \<longrightarrow> ts_link s = None | Inr d \<Rightarrow> ts_link s = Some d)\<rparr>
      else s)"
| "advance_tree fl (GitOutput args (Inr out)) s =
     (if take 1 args = [''rev-parse''] then s\<lparr>ts_trusted := ts_trusted s \<and> is_commit (trim_space out)\<rparr> else s)"
| "advance_tree fl (ChangeDirectory d (Inr _)) s = s\<lparr>ts_cwd := d\<rparr>"
| "advance_tree fl (GitRun args a) s =
     (case added_tree args of
        Some d \<Rightarrow> s\<lparr>ts_ready := removeAll d (ts_ready s)\<rparr>
      | None \<Rightarrow> if args = [''checkout''] \<and> \<not> isl a then s\<lparr>ts_ready := ts_cwd s # ts_ready s\<rparr> else s)"
| "advance_tree fl (Command args (Inr _)) s =
     (case moved args of
        Some (cmd, a, b) \<Rightarrow>
          if cmd = ''ln'' then if b = temp_link fl then s\<lparr>ts_temp := Some a\<rparr> else s
          else if a = temp_link fl \<and> b = repo_dir fl then s\<lparr>ts_link := ts_temp s, ts_temp := None\<rparr> else s
      | None \<Rightarrow> s)"
| "advance_tree fl (RemoveTree d _) s = s\<lparr>ts_ready := removeAll d (ts_ready s)\<rparr>"
| "advance_tree fl _ s = s"

text \<open>
  What must not happen: the linked work tree is never removed or set up again, the clone is removed
  only when nothing is linked, only a complete work tree is moved into place, and a commit is
  reported only when its work tree is linked.
\<close>

fun tree_allows :: "sync_flags \<Rightarrow> sync_call \<Rightarrow> tree_state \<Rightarrow> bool" where
  "tree_allows fl (RemoveTree d _) s \<longleftrightarrow>
     (ts_trusted s \<longrightarrow> ts_link s \<noteq> Some d \<and> (d = work_dir fl \<longrightarrow> ts_link s = None))"
| "tree_allows fl (GitRun args _) s \<longleftrightarrow>
     (ts_trusted s \<longrightarrow> added_tree args = None \<or> added_tree args \<noteq> ts_link s)"
| "tree_allows fl (Command args _) s \<longleftrightarrow>
     (ts_trusted s \<longrightarrow> (case moved args of
        Some (cmd, a, b) \<Rightarrow> cmd = ''mv'' \<and> b = repo_dir fl \<longrightarrow>
          a = temp_link fl \<and>
            (case ts_temp s of None \<Rightarrow> False | Some d \<Rightarrow> d \<in> set (ts_ready s) \<and> is_commit_dir fl d)
      | None \<Rightarrow> True))"
| "tree_allows fl (Reported commit _ _) s \<longleftrightarrow>
     (ts_trusted s \<longrightarrow> is_commit commit \<and> ts_link s = Some (commit_dir (gf_root fl) commit))"
| "tree_allows fl _ s \<longleftrightarrow> True"

interpretation tree: trace_monitor "tree_allows fl" "advance_tree fl" for fl .


lemmas idle_simps = tree.idle_def

lemma idle_git_run: "added_tree args = None \<Longrightarrow> args \<noteq> [''checkout''] \<Longrightarrow> emits (tree.idle fl) (git_run E args)"
  by (auto simp: git_run_def idle_simps)

lemma idle_output: "take 1 args \<noteq> [''rev-parse''] \<Longrightarrow> emits (tree.idle fl) (git_output E args)"
proof -
  assume args: "take 1 args \<noteq> [''rev-parse'']"
  have "tree.idle fl (GitOutput args a)" for a using args by (cases a) (auto simp: idle_simps)
  then show ?thesis by (auto simp: git_output_def)
qed

lemma idle_command:
  assumes "moved args = None"
  shows "emits (tree.idle fl) (command E args)"
proof -
  have "tree.idle fl (Command args a)" for a using assms by (cases a) (auto simp: idle_simps)
  then show ?thesis by (auto simp: command_def)
qed

lemma idle_files:
  "emits (tree.idle fl) (read_text E p)" "emits (tree.idle fl) (stat_path E p)" "emits (tree.idle fl) (make_directories E p)"
  "emits (tree.idle fl) (create_file E p)" "emits (tree.idle fl) (write_line E p l)"
  "emits (tree.idle fl) (get_variable E v)" "emits (tree.idle fl) (read_directory E p)"
  by (auto simp: sync_call_defs idle_simps)

lemma idle_notes:
  "tree.idle fl (SetVariable v x)" "tree.idle fl (Alarmed m)" "tree.idle fl (Slept n)"
  by (simp_all add: idle_simps)

lemma idle_fatal_on: "emits (tree.idle fl) (fatal_on msg a)"
  by (cases a) (auto simp: fatal_on_def)

lemmas idle_intros = emits_bind emits_wrap emits_try emits_if emits_ret emits_fail emits_of_res emits_each
  idle_git_run idle_output idle_command idle_files idle_notes idle_fatal_on emits_notify

lemma idle_unlock: "emits (tree.idle fl) (unlock E fl' imported)"
  unfolding unlock_def by (rule idle_intros | simp split: sum.splits | auto intro!: idle_intros)+

lemma idle_fetch: "emits (tree.idle fl) (fetch E fl')"
  unfolding fetch_def by (intro idle_intros) simp_all

lemma idle_read_version: "emits (tree.idle fl) (read_version E d)"
  unfolding read_version_def by (intro idle_intros) (auto split: sum.splits intro!: idle_intros)

lemma idle_start:
  "emits (tree.idle fl) (import_gpg_key E fl')" "emits (tree.idle fl) (get_password E fl')"
  "emits (tree.idle fl) (configure_ssh E fl')"
  unfolding import_gpg_key_def get_password_def configure_ssh_def Let_def
  by ((intro idle_intros; simp)+)

lemma idle_alarm: "emits (tree.idle fl) (alarm fl' m)"
  unfolding alarm_def by (intro idle_intros)

section \<open>Stepping through a round\<close>

definition serves :: "sync_flags \<Rightarrow> string \<Rightarrow> tree_state \<Rightarrow> bool" where
  "serves fl head s \<longleftrightarrow>
     (ts_trusted s \<longrightarrow> (case ts_link s of
        None \<Rightarrow> head = []
      | Some w \<Rightarrow> is_commit head \<and> w = commit_dir (gf_root fl) head))"

lemma commit_dir_nonempty: "is_commit c \<Longrightarrow> commit_dir root c \<noteq> []"
  using commit_dir_suffix [of c root] by (auto simp: has_suffix_iff)

lemma work_dir_nonempty: "work_dir fl \<noteq> []"
proof -
  have "has_suffix (work_dir fl) ''.git-sync''" unfolding work_dir_def by (rule join_path_last) simp_all
  then show ?thesis by (auto simp: has_suffix_iff)
qed

lemma watch_checkout:
  "tree.watch fl s (checkout E fl imported dir) (\<lambda>_ s'. s' = s\<lparr>ts_cwd := dir, ts_ready := dir # ts_ready s\<rparr>)"
proof -
  let ?s = "s\<lparr>ts_cwd := dir\<rparr>"
  have last: "tree.watch fl ?s (git_run E [''checkout'']) (\<lambda>_ s'. s' = s\<lparr>ts_cwd := dir, ts_ready := dir # ts_ready s\<rparr>)"
    by (auto simp: git_run_def intro!: tree.watch_perform)
  have step: "tree.watch fl s (eff_wrap msg (perform (\<lambda>h. sy_chdir E h dir) (ChangeDirectory dir))) (\<lambda>_ s'. s' = ?s)" for msg
    by (intro tree.watch_wrap tree.watch_perform) simp_all
  show ?thesis
    unfolding checkout_def Let_def change_directory_def
    by (rule tree.watch_then [OF step], hypsubst)
      (intro tree.watch_idle_bind tree.watch_wrap last emits_wrap emits_bind emits_each emits_of_res
         idle_unlock idle_git_run idle_files idle_fatal_on; simp)
qed

lemma watch_update_link:
  assumes "serves fl head s" and "dir \<in> set (ts_ready s)"
    and "ts_trusted s \<Longrightarrow> is_commit_dir fl dir" and "ts_trusted s \<Longrightarrow> ts_link s \<noteq> Some dir"
  shows "tree.watch fl s (update_link E fl dir (repo_dir fl))
    (\<lambda>_ s'. ts_trusted s' \<longrightarrow> ts_trusted s \<and> ts_link s' = Some dir \<and> dir \<in> set (ts_ready s'))"
    (is "tree.watch fl s _ ?K")
proof -
  have not_clone: "predir \<noteq> work_dir fl"
    if "predir = [] \<or> ts_trusted s \<and> ts_link s = Some predir" for predir
    using that assms(1) work_dir_nonempty [of fl] commit_dir_not_work_dir [symmetric] by (auto simp: serves_def)
  have move: "tree.watch fl s1 (eff_bind (eff_wrap ''failed to create link'' (command E [''ln'', ''-snf'', dir, temp_link fl])) (\<lambda>_.
      eff_bind (eff_wrap ''failed to mv'' (command E [''mv'', ''-T'', temp_link fl, repo_dir fl])) (\<lambda>_.
      eff_wrap ''failed to remove'' (remove_tree E predir)))) ?K"
    if "s1 = s\<lparr>ts_trusted := b\<rparr>" "b \<Longrightarrow> ts_trusted s \<and> is_commit_dir fl dir \<and> predir \<noteq> dir \<and> predir \<noteq> work_dir fl" for s1 b predir
    unfolding command_def remove_tree_def
    by (intro tree.watch_bind tree.watch_wrap tree.watch_perform) (use that assms(2) in auto)
  have next_step: "tree.watch fl (advance_tree fl (EvalLink (repo_dir fl) old) s)
      (eff_bind (case old of
         Inl e \<Rightarrow> if e = NotFound then eff_ret [] else eff_fail (Errorf ''failed to eval symbol link'')
       | Inr d \<Rightarrow> eff_ret d) (\<lambda>predir.
       eff_bind (eff_wrap ''failed to create link'' (command E [''ln'', ''-snf'', dir, temp_link fl])) (\<lambda>_.
       eff_bind (eff_wrap ''failed to mv'' (command E [''mv'', ''-T'', temp_link fl, repo_dir fl])) (\<lambda>_.
       eff_wrap ''failed to remove'' (remove_tree E predir))))) ?K" for old
  proof (cases old)
    case (Inl e)
    show ?thesis
      unfolding Inl sum.case
      by (rule tree.watch_bind, intro tree.watch_if tree.watch_ret tree.watch_fail,
          rule move [where b = "ts_trusted s \<and> (e = NotFound \<longrightarrow> ts_link s = None)"])
        (use assms(3) not_clone [of "[]"] in
          \<open>auto elim!: is_commit_dirE simp: commit_dir_nonempty commit_dir_nonempty [symmetric]\<close>)
  next
    case (Inr d)
    show ?thesis
      unfolding Inr sum.case
      by (rule tree.watch_bind, rule tree.watch_ret, rule move [where b = "ts_trusted s \<and> ts_link s = Some d"])
        (use assms(3,4) not_clone [of d] in auto)
  qed
  show ?thesis
    unfolding update_link_def Let_def temp_link_def [symmetric] eval_link_def
    by (rule tree.watch_bind, rule tree.watch_observe) (simp, rule next_step)
qed

lemma watch_add_worktree:
  assumes "serves fl head s" and "head \<noteq> commit" and "ts_trusted s \<Longrightarrow> is_commit commit"
  shows "tree.watch fl s (add_worktree E fl imported (repo_dir fl) commit)
    (\<lambda>_ s'. ts_trusted s' \<longrightarrow> ts_trusted s \<and> ts_link s' = Some (commit_dir (gf_root fl) commit) \<and>
       commit_dir (gf_root fl) commit \<in> set (ts_ready s'))"
    (is "tree.watch fl s _ ?K")
proof -
  let ?dir = "commit_dir (gf_root fl) commit"
  let ?s = "s\<lparr>ts_ready := removeAll ?dir (ts_ready s)\<rparr>"
  have other: "ts_link s \<noteq> Some ?dir" if "ts_trusted s"
    using assms that commit_dir_inject by (auto simp: serves_def split: option.splits)
  have add: "tree.watch fl s (eff_wrap msg (git_run E [''worktree'', ''add'', ''-f'', ?dir, commit])) (\<lambda>_ s'. s' = ?s)" for msg
    unfolding git_run_def by (intro tree.watch_wrap tree.watch_perform) (use other in auto)
  let ?t = "?s\<lparr>ts_cwd := ?dir, ts_ready := ?dir # ts_ready ?s\<rparr>"
  have link: "tree.watch fl ?t (update_link E fl ?dir (repo_dir fl)) ?K"
  proof -
    have "tree.watch fl ?t (update_link E fl ?dir (repo_dir fl))
        (\<lambda>_ s'. ts_trusted s' \<longrightarrow> ts_trusted ?t \<and> ts_link s' = Some ?dir \<and> ?dir \<in> set (ts_ready s'))"
      by (rule watch_update_link [where head = head])
        (use assms(1,3) other is_commit_dirI in \<open>auto simp: serves_def\<close>)
    then show ?thesis by (rule tree.watch_mono) auto
  qed
  show ?thesis
    unfolding add_worktree_def Let_def
    by (rule tree.watch_then [OF add], hypsubst,
        rule tree.watch_then [OF tree.watch_wrap [OF watch_checkout]], hypsubst, rule tree.watch_wrap [OF link])
qed

lemma watch_version:
  "K s \<Longrightarrow> tree.watch fl s (read_version E d) (\<lambda>_. K)"
  by (rule tree.watch_idle [OF idle_read_version])

lemma watch_sync:
  assumes "serves fl head s" and "\<And>w. ts_trusted s \<Longrightarrow> ts_link s = Some w \<Longrightarrow> w \<in> set (ts_ready s)"
  shows "tree.watch fl s (sync E fl imported (repo_dir fl) workdir head)
    (\<lambda>(commit, tag, version) s'. ts_trusted s' \<longrightarrow>
       is_commit commit \<and> ts_link s' = Some (commit_dir (gf_root fl) commit) \<and>
       commit_dir (gf_root fl) commit \<in> set (ts_ready s'))"
    (is "tree.watch fl s _ ?K")
proof -
  let ?s = "\<lambda>d. s\<lparr>ts_cwd := d\<rparr>"
  have cd: "tree.watch fl s (eff_wrap msg (change_directory E workdir)) (\<lambda>_ s'. s' = ?s workdir)" for msg
    unfolding change_directory_def by (intro tree.watch_wrap tree.watch_perform) simp_all
  have tree: "tree.watch fl s1 (if head \<noteq> commit then add_worktree E fl imported (repo_dir fl) commit else eff_ret ())
      (\<lambda>_ s'. ts_trusted s' \<longrightarrow>
         is_commit commit \<and> ts_link s' = Some (commit_dir (gf_root fl) commit) \<and>
         commit_dir (gf_root fl) commit \<in> set (ts_ready s'))"
    if s1: "s1 = (?s workdir)\<lparr>ts_trusted := b\<rparr>" "b \<Longrightarrow> ts_trusted s \<and> is_commit commit" for s1 b commit
  proof (intro tree.watch_if tree.watch_ret)
    assume "head \<noteq> commit"
    show "tree.watch fl s1 (add_worktree E fl imported (repo_dir fl) commit)
      (\<lambda>_ s'. ts_trusted s' \<longrightarrow>
         is_commit commit \<and> ts_link s' = Some (commit_dir (gf_root fl) commit) \<and>
         commit_dir (gf_root fl) commit \<in> set (ts_ready s'))"
      by (rule tree.watch_mono [OF watch_add_worktree [where head = head and commit = commit]])
        (use s1 assms(1) \<open>head \<noteq> commit\<close> in \<open>auto simp: serves_def\<close>)
  next
    assume "\<not> head \<noteq> commit"
    with s1 assms show "ts_trusted s1 \<longrightarrow>
         is_commit commit \<and> ts_link s1 = Some (commit_dir (gf_root fl) commit) \<and>
         commit_dir (gf_root fl) commit \<in> set (ts_ready s1)"
      by (auto simp: serves_def is_commit_def split: option.splits)
  qed
  have parsed: "tree.watch fl (?s workdir)
      (eff_bind (git_output E [''rev-parse'', gf_rev fl @ ''^{}'']) (fatal_on msg))
      (\<lambda>out s'. \<exists>b. s' = (?s workdir)\<lparr>ts_trusted := b\<rparr> \<and> (b \<longrightarrow> ts_trusted s \<and> is_commit (trim_space out)))" for msg
  proof (unfold git_output_def, rule tree.watch_bind, rule tree.watch_observe)
    fix x
    show "tree.watch fl (advance_tree fl (GitOutput [''rev-parse'', gf_rev fl @ ''^{}''] x) (?s workdir)) (fatal_on msg x)
      (\<lambda>out s'. \<exists>b. s' = (?s workdir)\<lparr>ts_trusted := b\<rparr> \<and> (b \<longrightarrow> ts_trusted s \<and> is_commit (trim_space out)))"
      by (cases x) (auto simp: fatal_on_def intro!: watch_intros)
  qed simp
  have rest: "tree.watch fl s1
     (eff_bind (git_output E [''describe'', ''--tags'', ''--abbrev=0'', commit]) (\<lambda>described.
     let tag = (case described of Inl _ \<Rightarrow> [] | Inr t \<Rightarrow> trim_space t) in
     eff_bind (eff_wrap ''failed to prune worktree'' (git_run E [''worktree'', ''prune''])) (\<lambda>_.
     eff_bind (if head \<noteq> commit then add_worktree E fl imported (repo_dir fl) commit else eff_ret ()) (\<lambda>_.
     eff_bind (read_version E (commit_dir (gf_root fl) commit)) (\<lambda>version.
     eff_ret (commit, tag, version)))))) ?K"
    if "s1 = (?s workdir)\<lparr>ts_trusted := b\<rparr>" "b \<Longrightarrow> ts_trusted s \<and> is_commit commit" for s1 b commit
    unfolding Let_def
    by (rule tree.watch_idle_bind, rule idle_output, simp, rule tree.watch_idle_bind, rule emits_wrap,
        rule idle_git_run, simp, simp, rule tree.watch_then [OF tree [OF that]], assumption,
        rule tree.watch_idle_bind [OF idle_read_version], rule tree.watch_ret, simp)
  show ?thesis
    unfolding sync_def Let_def
    by (rule tree.watch_then [OF cd], hypsubst, rule tree.watch_idle_bind [OF idle_fetch],
        rule tree.watch_then [OF parsed], elim exE conjE, rule rest [unfolded Let_def], assumption, blast)
qed

text \<open>The state between two rounds.\<close>

definition settled :: "sync_flags \<Rightarrow> string \<Rightarrow> tree_state \<Rightarrow> bool" where
  "settled fl head s \<longleftrightarrow> serves fl head s \<and> (\<forall>w. ts_trusted s \<longrightarrow> ts_link s = Some w \<longrightarrow> w \<in> set (ts_ready s))"

lemma watch_rounds:
  "settled fl head s \<Longrightarrow>
   tree.watch fl s (sync_rounds n E fl imported (repo_dir fl) (work_dir fl) head) (\<lambda>_ _. True)"
proof (induction n arbitrary: head s)
  case 0
  then show ?case by (simp add: tree.watch_ret)
next
  case (Suc n)
  note one = watch_sync [where workdir = "work_dir fl" and E = E and imported = imported]
  show ?case
    unfolding sync_rounds.simps
  proof (rule tree.watch_then [OF one])
    show "serves fl head s" "\<And>w. ts_trusted s \<Longrightarrow> ts_link s = Some w \<Longrightarrow> w \<in> set (ts_ready s)"
      using Suc.prems by (auto simp: settled_def)
    fix x :: "string \<times> string \<times> string" and s' :: tree_state
    assume post: "(case x of (commit, tag, version) \<Rightarrow> \<lambda>s'. ts_trusted s' \<longrightarrow>
       is_commit commit \<and> ts_link s' = Some (commit_dir (gf_root fl) commit) \<and>
       commit_dir (gf_root fl) commit \<in> set (ts_ready s')) s'"
    obtain commit tag version where x: "x = (commit, tag, version)" by (cases x) blast
    have told: "tree.watch fl s'
        (if gf_webhook_url fl \<noteq> [] then notify (Reported commit tag (trim_space version)) else eff_ret ())
        (\<lambda>_ s''. s'' = s')"
      by (intro tree.watch_if tree.watch_notify tree.watch_ret) (use post x in auto)
    have slept: "tree.watch fl s' (notify (Slept d)) (\<lambda>_ s''. s'' = s')" for d
      by (rule tree.watch_notify) simp_all
    have "settled fl commit s'" using post x by (auto simp: settled_def serves_def)
    then show "tree.watch fl s' (case x of (commit, tag, version) \<Rightarrow>
        eff_bind (if gf_webhook_url fl \<noteq> [] then notify (Reported commit tag (trim_space version)) else eff_ret ()) (\<lambda>_.
        if gf_one_time fl then eff_ret ()
        else eff_bind (notify (Slept (gf_wait fl))) (\<lambda>_.
          sync_rounds n E fl imported (repo_dir fl) (work_dir fl) commit))) (\<lambda>_ _. True)"
      unfolding x prod.case
      by (intro tree.watch_then [OF told], hypsubst, intro tree.watch_if tree.watch_ret tree.watch_then [OF slept])
        (auto intro: Suc.IH)
  qed
qed

section \<open>The start of the process\<close>

lemma watch_remove_leftover:
  assumes "serves fl c s" and "ts_trusted s \<Longrightarrow> (case ts_link s of None \<Rightarrow> worktree = [] | Some w \<Rightarrow> worktree = w)"
    and "settled fl c s"
  shows "tree.watch fl s (remove_leftover E (gf_root fl) worktree entry)
    (\<lambda>_ s'. settled fl c s' \<and> ts_link s' = ts_link s \<and> ts_trusted s' = ts_trusted s)"
proof -
  obtain name is_dir where entry: "entry = (name, is_dir)" by fastforce
  have other: "ts_link s \<noteq> Some (join_path [gf_root fl, name]) \<and> join_path [gf_root fl, name] \<noteq> work_dir fl"
    if "is_worktree_name name" "\<not> has_suffix worktree name" "ts_trusted s"
  proof -
    from that(1) obtain d where d: "name = CHR ''.'' # d" "is_commit d" by (auto simp: is_worktree_name_iff)
    then have "has_suffix (join_path [gf_root fl, name]) name" "join_path [gf_root fl, name] \<noteq> work_dir fl"
      using commit_dir_suffix [OF d(2), of "gf_root fl"] commit_dir_not_work_dir [OF d(2)]
      by (simp_all add: commit_dir_def)
    with that assms(2) show ?thesis by (auto split: option.splits)
  qed
  show ?thesis
    unfolding remove_leftover_def entry prod.case remove_tree_def
    by (intro tree.watch_if tree.watch_ret tree.watch_wrap tree.watch_perform)
      (use other assms in \<open>auto simp: settled_def serves_def\<close>)
qed

lemma watch_or_alarm: "tree.watch fl s m K \<Longrightarrow> tree.watch fl s (or_alarm fl' msg m) K"
  unfolding or_alarm_def
  by (rule tree.watch_bind, rule tree.watch_try, erule tree.watch_mono)
    (auto simp: alarm_def intro!: tree.watch_ret tree.watch_bind tree.watch_if tree.watch_notify tree.watch_fail)

definition found :: "sync_flags \<Rightarrow> string \<Rightarrow> string \<Rightarrow> tree_state \<Rightarrow> bool" where
  "found fl c worktree s \<longleftrightarrow>
     settled fl c s \<and> (ts_trusted s \<longrightarrow> (case ts_link s of None \<Rightarrow> worktree = [] | Some w \<Rightarrow> worktree = w))"

lemma watch_find_worktree:
  assumes "settled fl c s"
  shows "tree.watch fl s (find_worktree E fl) (\<lambda>worktree s'. found fl c worktree s')"
  unfolding find_worktree_def eval_link_def
proof (rule tree.watch_bind, rule tree.watch_observe)
  fix a
  show "tree.watch fl (advance_tree fl (EvalLink (repo_dir fl) a) s)
      (case a of Inl e \<Rightarrow> if e = NotFound then eff_ret [] else eff_fail (Errorf ''failed to eval symbol link'')
       | Inr d \<Rightarrow> eff_ret d) (\<lambda>worktree s'. found fl c worktree s')"
    using assms
    by (cases a) (auto simp: found_def settled_def serves_def intro!: tree.watch_ret tree.watch_fail split: option.splits)
qed simp

lemma watch_prepare_clone:
  assumes "found fl c worktree s"
  shows "tree.watch fl s (prepare_clone E fl url (work_dir fl) worktree) (\<lambda>head s'. settled fl head s')"
proof (cases "worktree = []")
  case True
  have none: "ts_trusted s \<Longrightarrow> ts_link s = None"
    using assms True by (auto simp: found_def settled_def serves_def commit_dir_nonempty [symmetric] split: option.splits)
  have remove: "tree.watch fl s (or_alarm fl msg (remove_tree E (work_dir fl)))
      (\<lambda>_ s'. settled fl [] s')" for msg
    unfolding remove_tree_def
    by (rule watch_or_alarm, rule tree.watch_perform) (use none in \<open>auto simp: settled_def serves_def\<close>)
  have clone: "settled fl [] s' \<Longrightarrow>
      tree.watch fl s' (or_alarm fl msg (git_run E [''clone'', url, b, work_dir fl])) (\<lambda>_ s''. settled fl [] s'')" for msg s' b
    by (rule watch_or_alarm, rule tree.watch_idle [OF idle_git_run]) simp_all
  show ?thesis
    unfolding prepare_clone_def
    by (simp add: True, rule tree.watch_then [OF remove], rule tree.watch_then [OF clone], assumption, rule tree.watch_ret)
next
  case False
  have "settled fl head s" if "linked_head worktree = Ok head" for head
    using assms that linked_head_commit_dir False
    by (auto simp: found_def settled_def serves_def split: option.splits)
  with False show ?thesis by (auto simp: prepare_clone_def intro!: tree.watch_of_res)
qed

lemma watch_git_sync:
  assumes "settled fl c s"
  shows "tree.watch fl s (git_sync E fl n) (\<lambda>_ _. True)"
proof -
  have files: "tree.watch fl s1 (eff_each (remove_leftover E (gf_root fl) worktree) xs) (\<lambda>_ s'. found fl c worktree s')"
    if "found fl c worktree s1" for s1 worktree xs
    by (rule tree.watch_each [where I = "found fl c worktree"], rule tree.watch_mono, rule watch_remove_leftover)
      (use that in \<open>auto simp: found_def settled_def\<close>)
  have clone: "tree.watch fl s1 (eff_bind (prepare_clone E fl url (work_dir fl) worktree) (\<lambda>head.
      sync_rounds n E fl imported (repo_dir fl) (work_dir fl) head)) (\<lambda>_ _. True)"
    if "found fl c worktree s1" for s1 worktree imported url
    by (rule tree.watch_then [OF watch_prepare_clone [OF that]], rule watch_rounds)
  have start: "tree.watch fl s (eff_bind (find_worktree E fl) (\<lambda>worktree.
      eff_bind (eff_wrap ''failed to read dir'' (read_directory E (gf_root fl))) (\<lambda>xs.
      eff_bind (eff_each (remove_leftover E (gf_root fl) worktree) xs) (\<lambda>_.
      eff_bind (prepare_clone E fl url (work_dir fl) worktree) (\<lambda>head.
      sync_rounds n E fl imported (repo_dir fl) (work_dir fl) head))))) (\<lambda>_ _. True)" for imported url
    by (rule tree.watch_then [OF watch_find_worktree [OF assms]],
        rule tree.watch_idle_bind [OF emits_wrap [OF idle_files(7)]],
        rule tree.watch_then [OF files], assumption, rule clone)
  show ?thesis
    unfolding git_sync_def
    by (rule tree.watch_idle_bind, rule emits_notify, rule idle_notes(1), rule tree.watch_idle_bind [OF idle_start(1)],
        rule tree.watch_idle_bind [OF idle_start(2)], rule tree.watch_idle_bind [OF idle_fatal_on],
        rule tree.watch_idle_bind [OF idle_start(3)], rule start)
qed

section \<open>Processes that are killed\<close>

text \<open>
  A process can be killed between any two interactions; the next one starts with what the file
  system holds then. Of the work trees it may count only on the linked one: the removal of another
  may have been interrupted.
\<close>

definition restarted :: "tree_state \<Rightarrow> tree_state" where
  "restarted s = s\<lparr>ts_ready := (case ts_link s of None \<Rightarrow> [] | Some w \<Rightarrow> [w]), ts_cwd := []\<rparr>"

definition no_tree :: tree_state where
  "no_tree = \<lparr>ts_link = None, ts_temp = None, ts_ready = [], ts_cwd = [], ts_trusted = True\<rparr>"

inductive reachable_tree :: "sync_flags \<Rightarrow> tree_state \<Rightarrow> bool" for fl where
  empty: "reachable_tree fl no_tree"
| killed: "reachable_tree fl s \<Longrightarrow> snd (git_sync E fl n []) = t @ u \<Longrightarrow>
    ts_trusted (fold (advance_tree fl) t (restarted s)) \<Longrightarrow>
    reachable_tree fl (fold (advance_tree fl) t (restarted s))"

definition tree_ok :: "sync_flags \<Rightarrow> tree_state \<Rightarrow> bool" where
  "tree_ok fl s \<longleftrightarrow>
     (ts_trusted s \<longrightarrow> (case ts_link s of None \<Rightarrow> True | Some w \<Rightarrow> is_commit_dir fl w \<and> w \<in> set (ts_ready s)))"

lemma moved_cmd: "moved args = Some (cmd, a, b) \<Longrightarrow> cmd = ''ln'' \<or> cmd = ''mv''"
  by (cases args rule: moved.cases) (auto split: if_splits)

lemma advance_ok:
  assumes "tree_allows fl c s" and "tree_ok fl s"
  shows "tree_ok fl (advance_tree fl c s)"
  using assms
  by (cases "(fl, c, s)" rule: advance_tree.cases)
    (auto simp: tree_ok_def split: option.splits if_splits sum.splits dest: moved_cmd)

lemma fold_ok: "monitored (tree_allows fl) (advance_tree fl) s t \<Longrightarrow> tree_ok fl s \<Longrightarrow>
  tree_ok fl (fold (advance_tree fl) t s)"
  by (induction t arbitrary: s) (auto intro: advance_ok)

lemma restarted_settled:
  assumes "tree_ok fl s"
  shows "\<exists>c. settled fl c (restarted s)"
  using assms
  by (cases "ts_link s") (auto simp: tree_ok_def settled_def serves_def restarted_def elim: is_commit_dirE)

lemma restarted_ok: "tree_ok fl s \<Longrightarrow> tree_ok fl (restarted s)"
  by (auto simp: tree_ok_def restarted_def split: option.splits)

lemma run_monitored:
  assumes "tree_ok fl s"
  shows "monitored (tree_allows fl) (advance_tree fl) (restarted s) (snd (git_sync E fl n []))"
  using restarted_settled [OF assms] watch_git_sync tree.watch_run by blast

lemma reachable_ok: "reachable_tree fl s \<Longrightarrow> tree_ok fl s"
proof (induction rule: reachable_tree.induct)
  case (killed s E n t u)
  have "monitored (tree_allows fl) (advance_tree fl) (restarted s) t"
    using run_monitored [OF killed.IH, of E n] killed.hyps(2) by (simp add: monitored_append)
  then show ?case using fold_ok restarted_ok killed.IH by blast
qed (simp add: tree_ok_def no_tree_def)

lemma run_allowed:
  assumes "reachable_tree fl s" and "snd (git_sync E fl n []) = t @ c # u"
  shows "tree_allows fl c (fold (advance_tree fl) t (restarted s))"
    and "tree_ok fl (fold (advance_tree fl) t (restarted s))"
proof -
  have run: "monitored (tree_allows fl) (advance_tree fl) (restarted s) (t @ c # u)"
    using run_monitored [OF reachable_ok [OF assms(1)], of E n] assms(2) by simp
  then show "tree_allows fl c (fold (advance_tree fl) t (restarted s))" by (rule monitoredD)
  from run show "tree_ok fl (fold (advance_tree fl) t (restarted s))"
    using fold_ok restarted_ok reachable_ok [OF assms(1)] by (auto simp: monitored_append)
qed

text \<open>
  C8. However often git-sync is started, and at whatever point every one of these processes is killed,
  the link either does not exist or names the directory of a commit whose work tree was checked
  out to the end and has not been removed.
\<close>

theorem served_tree_complete:
  assumes "reachable_tree fl s"
  shows "ts_link s = None \<or>
    (\<exists>commit. is_commit commit \<and> ts_link s = Some (commit_dir (gf_root fl) commit) \<and>
      commit_dir (gf_root fl) commit \<in> set (ts_ready s))"
proof -
  have "ts_trusted s" using assms by cases (simp_all add: no_tree_def)
  with reachable_ok [OF assms] show ?thesis
    by (cases "ts_link s") (auto simp: tree_ok_def elim: is_commit_dirE)
qed


text \<open>A pull of a branch whose head is one commit; the process exits after the first round.\<close>

definition sample_flags :: sync_flags where
  "sample_flags =
     \<lparr>gf_branch = ''main'', gf_repo = ''https://git/app'', gf_root = ''/git'', gf_rev = ''HEAD'', gf_includes = [''/*''],
      gf_excludes = [], gf_gpg_key = [], gf_username = ''u'', gf_password_file = [], gf_ssh = False, gf_ssh_key_file = [],
      gf_ssh_known_hosts = [], gf_webhook_url = ''http://localhost'', gf_wait = 1, gf_one_time = True\<rparr>"

definition sample_commit :: string where
  "sample_commit = replicate 40 (CHR ''a'')"

definition sample_sync :: sync_env where
  "sample_sync =
     \<lparr>sy_git = (\<lambda>_ _. Inr ()), sy_git_output = (\<lambda>_ _. Inr sample_commit), sy_command = (\<lambda>_ _. Inr ()),
      sy_chdir = (\<lambda>_ _. Inr ()), sy_eval_link = (\<lambda>_ _. Inl NotFound), sy_read_dir = (\<lambda>_ _. Inr []),
      sy_remove = (\<lambda>_ _. Inr ()), sy_read = (\<lambda>_ p. if p = ''.git'' then Inr ''gitdir: /git/.git-sync/x'' else Inl NotFound),
      sy_stat = (\<lambda>_ _. Inl NotFound), sy_mkdir = (\<lambda>_ _. Inr ()), sy_create = (\<lambda>_ _. Inr ()), sy_write = (\<lambda>_ _ _. Inr ()),
      sy_variable = (\<lambda>_ _. ''secret''), sy_expand = (\<lambda>p. p), sy_url = (\<lambda>u _. Inr u)\<rparr>"

definition sample_log :: "sync_call list" where
  "sample_log = snd (git_sync sample_sync sample_flags 1 [])"

lemma sample_log_report:
  "sample_log = butlast sample_log @ [Reported sample_commit sample_commit []]"
  "ts_trusted (fold (advance_tree sample_flags) (butlast sample_log) (restarted no_tree))"
  "fold (advance_tree sample_flags) sample_log (restarted no_tree) =
     \<lparr>ts_link = Some (''/git/.'' @ sample_commit), ts_temp = None, ts_ready = [''/git/.'' @ sample_commit],
      ts_cwd = ''/git/.'' @ sample_commit, ts_trusted = True\<rparr>"
  by code_simp+

lemma served_tree_complete_witness:
  "\<exists>s :: tree_state. ts_link s = Some (''/git/.'' @ sample_commit) \<and>
     (\<exists>commit. is_commit commit \<and> ts_link s = Some (commit_dir (gf_root sample_flags) commit) \<and>
       commit_dir (gf_root sample_flags) commit \<in> set (ts_ready s))"
proof -
  let ?s = "fold (advance_tree sample_flags) sample_log (restarted no_tree)"
  have "reachable_tree sample_flags ?s"
  proof (rule reachable_tree.killed [OF reachable_tree.empty])
    show "snd (git_sync sample_sync sample_flags 1 []) = sample_log @ []" by (simp only: sample_log_def append_Nil2)
    show "ts_trusted ?s" by (simp only: sample_log_report(3) tree_state.simps)
  qed
  from served_tree_complete [OF this] show ?thesis
    by (intro exI [of _ ?s]) (simp add: sample_log_report(3))
qed


end
