(* ===== verification/Webhook.thy ===== *)
theory Webhook
  imports Deployer
begin

text \<open>
  The web hook between git-sync and the worker: the client with its retries
  (src/pkg/webhook/webhook.go), the handler of the request (src/pkg/handler/handler.go) and the
  informer with its listeners (src/pkg/webhook/informer.go). A call starts a goroutine that posts until
  it succeeds or its channel is closed; every interleaving of the goroutines is a sequence of steps.
\<close>

section \<open>Requests\<close>

definition commit_header :: string where "commit_header = ''X-RELEASER-COMMIT''"
definition tag_header :: string where "tag_header = ''X-RELEASER-TAG''"
definition version_header :: string where "version_header = ''X-RELEASER-VERSION''"
definition message_header :: string where "message_header = ''X-RELEASER-MESSAGE''"

lemmas header_defs = commit_header_def tag_header_def version_header_def message_header_def

definition call_headers :: "string \<Rightarrow> string \<Rightarrow> string \<Rightarrow> string gomap" where
  "call_headers commit tag version =
     gm_set version_header version (gm_set tag_header tag (gm_set commit_header commit []))"

definition error_headers :: "string \<Rightarrow> string gomap" where
  "error_headers message = gm_set message_header message []"

text \<open>The handler hands the four headers on; a header that is not there reads as empty.\<close>

definition handle_request ::
  "(string \<Rightarrow> string \<Rightarrow> string \<Rightarrow> string \<Rightarrow> 's \<Rightarrow> 's) \<Rightarrow> string gomap \<Rightarrow> 's \<Rightarrow> 's" where
  "handle_request on_request headers =
     on_request (gm_get [] headers commit_header) (gm_get [] headers tag_header)
       (gm_get [] headers version_header) (gm_get [] headers message_header)"

section \<open>The informer\<close>

record 's informer =
  in_listeners :: "(string \<Rightarrow> string \<Rightarrow> string \<Rightarrow> string \<Rightarrow> 's \<Rightarrow> 's) list"
  in_started :: bool

definition new_informer :: "'s informer" where
  "new_informer = \<lparr>in_listeners = [], in_started = False\<rparr>"

definition add_listener ::
  "(string \<Rightarrow> string \<Rightarrow> string \<Rightarrow> string \<Rightarrow> 's \<Rightarrow> 's) \<Rightarrow> 's informer \<Rightarrow> 's informer" where
  "add_listener l i = (if in_started i then i else i\<lparr>in_listeners := in_listeners i @ [l]\<rparr>)"

definition start_informer :: "'s informer \<Rightarrow> 's informer" where
  "start_informer i = i\<lparr>in_started := True\<rparr>"

definition dispatch :: "'s informer \<Rightarrow> string gomap \<Rightarrow> 's \<Rightarrow> 's" where
  "dispatch i = handle_request (\<lambda>c t v m s. fold (\<lambda>l. l c t v m) (in_listeners i) s)"

section \<open>The client\<close>

text \<open>
  A goroutine: it posts, decides about its deferred function with the retry flag, or sleeps before it
  starts its successor, which takes over its channel and headers.
\<close>

datatype attempt_phase = Posting | Deciding bool | Sleeping

record attempt =
  ap_channel :: nat
  ap_headers :: "string gomap"
  ap_phase :: attempt_phase

datatype webhook_event = Called nat "string gomap" | Posted nat "string gomap" bool

text \<open>Channels are numbered in the order in which they are made; \<open>wc_stop\<close> is the field \<open>stopCh\<close>.\<close>

record webhook_client =
  wc_stop :: "nat option"
  wc_made :: nat
  wc_closed :: "nat list"
  wc_attempts :: "attempt list"
  wc_log :: "webhook_event list"

definition new_client :: webhook_client where
  "new_client = \<lparr>wc_stop = None, wc_made = 0, wc_closed = [], wc_attempts = [], wc_log = []\<rparr>"

text \<open>\<open>Call\<close> and \<open>CallWithErrorMessage\<close> up to the start of \<open>doCall\<close>.\<close>

definition start_call :: "string gomap \<Rightarrow> webhook_client \<Rightarrow> webhook_client" where
  "start_call headers s =
     s\<lparr>wc_closed := (case wc_stop s of None \<Rightarrow> wc_closed s | Some c \<Rightarrow> c # wc_closed s),
       wc_stop := Some (wc_made s), wc_made := Suc (wc_made s),
       wc_attempts := wc_attempts s @ [\<lparr>ap_channel = wc_made s, ap_headers = headers, ap_phase = Posting\<rparr>],
       wc_log := wc_log s @ [Called (wc_made s) headers]\<rparr>"

text \<open>The request; it is to be repeated unless the answer has status 200.\<close>

definition post_attempt :: "nat \<Rightarrow> bool \<Rightarrow> webhook_client \<Rightarrow> webhook_client" where
  "post_attempt j ok s =
     (let a = wc_attempts s ! j in
      s\<lparr>wc_attempts := (wc_attempts s)[j := a\<lparr>ap_phase := Deciding (\<not> ok)\<rparr>],
        wc_log := wc_log s @ [Posted (ap_channel a) (ap_headers a) ok]\<rparr>)"

definition remove_at :: "nat \<Rightarrow> 'a list \<Rightarrow> 'a list" where
  "remove_at j xs = take j xs @ drop (Suc j) xs"

text \<open>The deferred function: it ends the goroutine when the channel is closed or nothing is to be done.\<close>

definition decide_attempt :: "nat \<Rightarrow> bool \<Rightarrow> webhook_client \<Rightarrow> webhook_client" where
  "decide_attempt j retry s =
     (let a = wc_attempts s ! j in
      if ap_channel a \<in> set (wc_closed s) \<or> \<not> retry
      then s\<lparr>wc_attempts := remove_at j (wc_attempts s)\<rparr>
      else s\<lparr>wc_attempts := (wc_attempts s)[j := a\<lparr>ap_phase := Sleeping\<rparr>]\<rparr>)"

definition wake_attempt :: "nat \<Rightarrow> webhook_client \<Rightarrow> webhook_client" where
  "wake_attempt j s = s\<lparr>wc_attempts := (wc_attempts s)[j := (wc_attempts s ! j)\<lparr>ap_phase := Posting\<rparr>]\<rparr>"

inductive webhook_step :: "webhook_client \<Rightarrow> webhook_client \<Rightarrow> bool" where
  call: "webhook_step s (start_call headers s)"
| post: "j < length (wc_attempts s) \<Longrightarrow> ap_phase (wc_attempts s ! j) = Posting \<Longrightarrow>
    webhook_step s (post_attempt j ok s)"
| decide: "j < length (wc_attempts s) \<Longrightarrow> ap_phase (wc_attempts s ! j) = Deciding retry \<Longrightarrow>
    webhook_step s (decide_attempt j retry s)"
| wake: "j < length (wc_attempts s) \<Longrightarrow> ap_phase (wc_attempts s ! j) = Sleeping \<Longrightarrow>
    webhook_step s (wake_attempt j s)"

inductive webhook_reachable :: "webhook_client \<Rightarrow> bool" where
  start: "webhook_reachable new_client"
| step: "webhook_reachable s \<Longrightarrow> webhook_step s s' \<Longrightarrow> webhook_reachable s'"

inductive_cases webhook_stepE: "webhook_step s s'"

section \<open>Invariants\<close>

lemmas client_defs = start_call_def post_attempt_def decide_attempt_def wake_attempt_def Let_def

definition channels_ok :: "webhook_client \<Rightarrow> bool" where
  "channels_ok s \<longleftrightarrow>
     distinct (map ap_channel (wc_attempts s)) \<and> (\<forall>a\<in>set (wc_attempts s). ap_channel a < wc_made s) \<and>
     wc_stop s = (if wc_made s = 0 then None else Some (wc_made s - 1)) \<and>
     set (wc_closed s) = {c. Suc c < wc_made s}"

lemma remove_at_subset: "set (remove_at j xs) \<subseteq> set xs"
  by (auto simp: remove_at_def dest: in_set_takeD in_set_dropD)

lemma map_remove_at: "map f (remove_at j xs) = remove_at j (map f xs)"
  by (simp add: remove_at_def take_map drop_map)

lemma distinct_remove_at: "distinct xs \<Longrightarrow> distinct (remove_at j xs)"
  by (auto simp: remove_at_def set_take_disj_set_drop_if_distinct dest: distinct_take distinct_drop)

lemma map_update_same: "j < length xs \<Longrightarrow> f x = f (xs ! j) \<Longrightarrow> map f (xs[j := x]) = map f xs"
  by (metis list_update_id map_update)

lemma channels_step: "webhook_step s s' \<Longrightarrow> channels_ok s \<Longrightarrow> channels_ok s'"
proof (induction rule: webhook_step.induct)
  case (call s headers)
  then show ?case by (auto simp: channels_ok_def start_call_def split: if_splits)
next
  case (decide j s retry)
  then show ?case
    by (auto simp: channels_ok_def decide_attempt_def Let_def map_remove_at distinct_remove_at map_update_same
        dest!: subsetD [OF remove_at_subset] subsetD [OF set_update_subset_insert])
qed (auto simp: channels_ok_def client_defs map_update_same dest!: subsetD [OF set_update_subset_insert])

lemma reachable_channels: "webhook_reachable s \<Longrightarrow> channels_ok s"
proof (induction rule: webhook_reachable.induct)
  case start
  show ?case by (simp add: channels_ok_def new_client_def)
qed (rule channels_step)

end
