(* ===== verification/WebhookOutcome.thy ===== *)
theory WebhookOutcome
  imports Webhook
begin

text \<open>
  What the web hook promises: the newest report is delivered or still being tried, and a report that
  a newer one has replaced is posted at most once more. That once is one too many: it can arrive
  after the newer report, and the worker then takes the old commit for the current one.
\<close>

section \<open>Posts of a report that was replaced\<close>

fun is_call :: "nat \<Rightarrow> webhook_event \<Rightarrow> bool" where
  "is_call k (Called c _) \<longleftrightarrow> c = k"
| "is_call k (Posted _ _ _) \<longleftrightarrow> False"

fun is_post :: "nat \<Rightarrow> webhook_event \<Rightarrow> bool" where
  "is_post k (Posted c _ _) \<longleftrightarrow> c = k"
| "is_post k (Called _ _) \<longleftrightarrow> False"

text \<open>The posts of a report after the call that followed its own.\<close>

definition late_posts :: "nat \<Rightarrow> webhook_event list \<Rightarrow> nat" where
  "late_posts c log = length (filter (is_post c) (dropWhile (\<lambda>e. \<not> is_call (Suc c) e) log))"

definition called :: "nat \<Rightarrow> webhook_event list \<Rightarrow> bool" where
  "called k log \<longleftrightarrow> list_ex (is_call k) log"

definition delivered :: "nat \<Rightarrow> webhook_event list \<Rightarrow> bool" where
  "delivered k log \<longleftrightarrow> list_ex (\<lambda>e. case e of Posted c _ ok \<Rightarrow> c = k \<and> ok | Called _ _ \<Rightarrow> False) log"

lemma late_posts_call [simp]: "late_posts c (log @ [Called k h]) = late_posts c log"
proof (cases "\<exists>e\<in>set log. is_call (Suc c) e")
  case True
  then show ?thesis by (auto simp: late_posts_def dropWhile_append)
next
  case False
  then have "dropWhile (\<lambda>e. \<not> is_call (Suc c) e) log = []" by (simp add: dropWhile_eq_Nil_conv)
  with False show ?thesis by (simp add: late_posts_def dropWhile_append del: dropWhile_eq_Nil_conv)
qed

lemma late_posts_post [simp]:
  "late_posts c (log @ [Posted k h ok]) = late_posts c log + (if k = c \<and> called (Suc c) log then 1 else 0)"
proof (cases "called (Suc c) log")
  case True
  then obtain e where "e \<in> set log" "is_call (Suc c) e" by (auto simp: called_def list_ex_iff)
  then have "dropWhile (\<lambda>e. \<not> is_call (Suc c) e) (log @ [Posted k h ok]) =
      dropWhile (\<lambda>e. \<not> is_call (Suc c) e) log @ [Posted k h ok]"
    by (simp add: dropWhile_append1)
  with True show ?thesis by (simp add: late_posts_def)
next
  case False
  then have "dropWhile (\<lambda>e. \<not> is_call (Suc c) e) log = []"
    "dropWhile (\<lambda>e. \<not> is_call (Suc c) e) (log @ [Posted k h ok]) = []"
    by (auto simp: called_def list_ex_iff)
  with False show ?thesis by (simp add: late_posts_def del: dropWhile_eq_Nil_conv)
qed

lemma called_append [simp]: "called k (log @ [e]) \<longleftrightarrow> called k log \<or> is_call k e"
  by (auto simp: called_def)

lemma delivered_append [simp]:
  "delivered k (log @ [Called c h]) \<longleftrightarrow> delivered k log"
  "delivered k (log @ [Posted c h ok]) \<longleftrightarrow> delivered k log \<or> c = k \<and> ok"
  by (auto simp: delivered_def)

definition reports_ok :: "webhook_client \<Rightarrow> bool" where
  "reports_ok s \<longleftrightarrow>
     (\<forall>k. called k (wc_log s) \<longleftrightarrow> k < wc_made s) \<and>
     (\<forall>c. late_posts c (wc_log s) \<le> 1) \<and> (\<forall>c. \<not> Suc c < wc_made s \<longrightarrow> late_posts c (wc_log s) = 0) \<and>
     (\<forall>a\<in>set (wc_attempts s). (\<forall>b. ap_phase a \<noteq> Deciding b) \<longrightarrow> late_posts (ap_channel a) (wc_log s) = 0) \<and>
     (\<forall>a\<in>set (wc_attempts s). ap_phase a = Deciding False \<longrightarrow> delivered (ap_channel a) (wc_log s)) \<and>
     (\<forall>n. wc_stop s = Some n \<longrightarrow> delivered n (wc_log s) \<or> n \<in> ap_channel ` set (wc_attempts s))"

lemma attempt_unique:
  assumes "channels_ok s" and "a \<in> set ((wc_attempts s)[j := x])" and "j < length (wc_attempts s)"
    and "ap_channel x = ap_channel (wc_attempts s ! j)"
  shows "a = x \<or> a \<in> set (wc_attempts s) \<and> ap_channel a \<noteq> ap_channel x"
proof -
  obtain i where i: "i < length (wc_attempts s)" "a = (wc_attempts s)[j := x] ! i"
    using assms(2) by (auto simp: in_set_conv_nth)
  show ?thesis
  proof (cases "i = j")
    case False
    with i assms(1,3,4) show ?thesis
      using nth_eq_iff_index_eq [of "map ap_channel (wc_attempts s)" i j] by (auto simp: channels_ok_def)
  qed (use i assms(3) in simp)
qed

lemma channels_update:
  "j < length as \<Longrightarrow> ap_channel x = ap_channel (as ! j) \<Longrightarrow>
   ap_channel ` set (as[j := x]) = ap_channel ` set as"
  by (metis list.set_map map_update_same)

lemma set_remove_at:
  assumes "distinct xs" and "j < length xs"
  shows "set (remove_at j xs) = set xs - {xs ! j}"
proof -
  have xs: "xs = take j xs @ xs ! j # drop (Suc j) xs" by (rule id_take_nth_drop [OF assms(2)])
  have "distinct (take j xs @ xs ! j # drop (Suc j) xs)" using assms(1) by (simp only: xs [symmetric])
  then have "xs ! j \<notin> set (remove_at j xs)" by (auto simp: remove_at_def)
  moreover have "set xs = insert (xs ! j) (set (remove_at j xs))"
    by (subst xs) (simp add: remove_at_def)
  ultimately show ?thesis by blast
qed

lemma channels_removed:
  assumes "channels_ok s" and "j < length (wc_attempts s)"
  shows "ap_channel ` set (remove_at j (wc_attempts s)) = ap_channel ` set (wc_attempts s) - {ap_channel (wc_attempts s ! j)}"
proof -
  have "ap_channel ` set (remove_at j (wc_attempts s)) = set (remove_at j (map ap_channel (wc_attempts s)))"
    by (simp only: list.set_map [symmetric] map_remove_at)
  also have "\<dots> = ap_channel ` set (wc_attempts s) - {ap_channel (wc_attempts s ! j)}"
    using assms by (simp add: set_remove_at channels_ok_def)
  finally show ?thesis .
qed

lemma reports_step:
  assumes "webhook_step s s'" and "channels_ok s" and "reports_ok s"
  shows "reports_ok s'"
  using assms
proof (induction rule: webhook_step.induct)
  case (call s headers)
  then show ?case
    by (auto simp: reports_ok_def start_call_def channels_ok_def less_Suc_eq)
next
  case (post j s ok)
  let ?a = "wc_attempts s ! j"
  have a: "?a \<in> set (wc_attempts s)" using post.hyps by simp
  note unique = attempt_unique [OF post.prems(1) _ post.hyps(1)]
  from post a show ?case
    unfolding reports_ok_def post_attempt_def Let_def
    by (auto simp: channels_update dest!: unique)
next
  case (decide j s retry)
  let ?a = "wc_attempts s ! j"
  have a: "?a \<in> set (wc_attempts s)" using decide.hyps by simp
  note unique = attempt_unique [OF decide.prems(1) _ decide.hyps(1)]
  from decide a show ?case
    unfolding reports_ok_def decide_attempt_def Let_def
    by (auto simp: channels_update channels_removed channels_ok_def dest!: unique subsetD [OF remove_at_subset])
next
  case (wake j s)
  let ?a = "wc_attempts s ! j"
  have a: "?a \<in> set (wc_attempts s)" using wake.hyps by simp
  note unique = attempt_unique [OF wake.prems(1) _ wake.hyps(1)]
  from wake a show ?case
    unfolding reports_ok_def wake_attempt_def Let_def
    by (auto simp: channels_update dest!: unique)
qed

lemma reachable_reports: "webhook_reachable s \<Longrightarrow> reports_ok s"
proof (induction rule: webhook_reachable.induct)
  case start
  show ?case by (simp add: reports_ok_def new_client_def late_posts_def called_def)
next
  case (step s s')
  then show ?case by (blast intro: reports_step reachable_channels)
qed

text \<open>
  C18. Whatever the interleaving of calls, requests and retries: every report has at most one
  goroutine, the newest report has been delivered or one is still trying, and a report that has
  been replaced by a newer call is posted at most once after that call.
\<close>

theorem webhook_newest_pursued:
  assumes "webhook_reachable s"
  shows "distinct (map ap_channel (wc_attempts s)) \<and>
    (\<forall>n. wc_stop s = Some n \<longrightarrow> delivered n (wc_log s) \<or> n \<in> ap_channel ` set (wc_attempts s)) \<and>
    (\<forall>c. late_posts c (wc_log s) \<le> 1)"
  using reachable_channels [OF assms] reachable_reports [OF assms] by (auto simp: channels_ok_def reports_ok_def)

section \<open>A late report\<close>

definition first_report :: "string gomap" where "first_report = call_headers ''c1'' [] []"
definition second_report :: "string gomap" where "second_report = call_headers ''c2'' [] []"

text \<open>The first report fails and sleeps; the second one is called and delivered; the first wakes up.\<close>

definition late_client :: webhook_client where
  "late_client =
     post_attempt 0 True (wake_attempt 0 (decide_attempt 1 False (post_attempt 1 True (start_call second_report
       (decide_attempt 0 True (post_attempt 0 False (start_call first_report new_client)))))))"

lemma late_client_reachable: "webhook_reachable late_client"
proof -
  note next_step = webhook_reachable.step
  let ?s1 = "start_call first_report new_client"
  let ?s2 = "post_attempt 0 False ?s1"
  let ?s3 = "decide_attempt 0 True ?s2"
  let ?s4 = "start_call second_report ?s3"
  let ?s5 = "post_attempt 1 True ?s4"
  let ?s6 = "decide_attempt 1 False ?s5"
  let ?s7 = "wake_attempt 0 ?s6"
  have 1: "webhook_reachable ?s1" by (rule next_step [OF webhook_reachable.start webhook_step.call])
  have 2: "webhook_reachable ?s2" by (rule next_step [OF 1], rule webhook_step.post) code_simp+
  have 3: "webhook_reachable ?s3" by (rule next_step [OF 2], rule webhook_step.decide) code_simp+
  have 4: "webhook_reachable ?s4" by (rule next_step [OF 3 webhook_step.call])
  have 5: "webhook_reachable ?s5" by (rule next_step [OF 4], rule webhook_step.post) code_simp+
  have 6: "webhook_reachable ?s6" by (rule next_step [OF 5], rule webhook_step.decide) code_simp+
  have 7: "webhook_reachable ?s7" by (rule next_step [OF 6], rule webhook_step.wake) code_simp+
  show ?thesis unfolding late_client_def by (rule next_step [OF 7], rule webhook_step.post) code_simp+
qed

lemma webhook_newest_pursued_witness:
  "wc_stop late_client = Some 1 \<and> (delivered 1 (wc_log late_client) \<or> 1 \<in> ap_channel ` set (wc_attempts late_client)) \<and>
   late_posts 0 (wc_log late_client) = 1"
proof -
  have "wc_stop late_client = Some 1" "late_posts 0 (wc_log late_client) \<noteq> 0" by code_simp+
  with webhook_newest_pursued [OF late_client_reachable] show ?thesis
    by (metis One_nat_def le_0_eq le_SucE)
qed

section \<open>What the worker receives\<close>

text \<open>The worker behind the informer: its listener receives the requests that reach the server.\<close>

definition worker_informer :: "(deploy_event \<Rightarrow> string) \<Rightarrow> worker_state informer" where
  "worker_informer encode =
     start_informer (add_listener (\<lambda>c t v m. on_commit encode c t v m) new_informer)"

definition received :: "webhook_event list \<Rightarrow> string gomap list" where
  "received log = concat (map (\<lambda>e. case e of Posted _ h ok \<Rightarrow> if ok then [h] else [] | Called _ _ \<Rightarrow> []) log)"

text \<open>
  A call of the web hook reaches the listener of the worker with the commit, the tag and the
  version it was given: the commit is stored, exported and queued; an error message, which comes
  without a commit, changes nothing.
\<close>

lemma call_reaches_listener:
  "dispatch (worker_informer encode) (call_headers commit tag version) w = on_commit encode commit tag version [] w \<and>
   dispatch (worker_informer encode) (error_headers message) w = w"
  by (simp add: dispatch_def worker_informer_def handle_request_def call_headers_def error_headers_def gm_get_def
      start_informer_def add_listener_def new_informer_def header_defs on_commit_def)

text \<open>
  The last call was for the second commit, and the worker has received it; but the late post of the
  first report makes the worker take the first commit for the current one, and the key of the
  second is then skipped as not being the latest.
\<close>

theorem stale_report_overtakes:
  "webhook_reachable late_client \<and> wc_stop late_client = Some 1 \<and> delivered 1 (wc_log late_client) \<and>
   ws_commit (fold (dispatch (worker_informer encode)) (received (wc_log late_client)) (new_worker opts)) = ''c1''"
proof -
  have "wc_stop late_client = Some 1" "delivered 1 (wc_log late_client)"
    "received (wc_log late_client) = [second_report, first_report]"
    by code_simp+
  then show ?thesis
    by (simp add: late_client_reachable first_report_def second_report_def call_reaches_listener on_commit_def)
qed

end
