(* ===== verification/HelmPlugin.thy ===== *)
theory HelmPlugin
  imports Kubectl GoPath Values
begin

text \<open>
  The helm plugin of the worker (src/pkg/deployer/plugins/helm/helm.go) and its command lines
  (src/pkg/deployer/plugins/helm/cli.go), with the configuration it reads
  (src/pkg/deployer/plugins/helm/apis/config). Running a command, reading the file and looking for the
  post renderer are interactions.
\<close>

section \<open>Configuration\<close>

record helm_repository =
  hr_name :: string
  hr_url :: string

record helm_configuration =
  hc_repository :: "helm_repository option"
  hc_chart :: string
  hc_values :: "string list"
  hc_post_renderer :: string

definition set_helm_defaults :: "helm_configuration \<Rightarrow> helm_configuration" where
  "set_helm_defaults c = c\<lparr>hc_chart := if hc_chart c = [] then ''.'' else hc_chart c\<rparr>"

definition empty_helm_configuration :: helm_configuration where
  "empty_helm_configuration =
     \<lparr>hc_repository = None, hc_chart = [], hc_values = [], hc_post_renderer = []\<rparr>"

section \<open>Command lines\<close>

record helm_cli =
  hl_kubeconfig :: string
  hl_timeout :: string

definition helm_argv :: "helm_cli \<Rightarrow> string list \<Rightarrow> string list" where
  "helm_argv cli params =
     ''helm'' # (if hl_kubeconfig cli \<noteq> [] then [''--kubeconfig'', hl_kubeconfig cli] @ params else params)"

definition set_flags :: "string gomap \<Rightarrow> string list" where
  "set_flags values = concat (map (\<lambda>(k, v). [''--set'', k @ ''='' @ v]) values)"

definition file_flags :: "string list \<Rightarrow> string list" where
  "file_flags files = concat (map (\<lambda>f. [''-f'', f]) files)"

definition upgrade_params ::
  "helm_cli \<Rightarrow> string \<Rightarrow> string \<Rightarrow> string gomap \<Rightarrow> string list \<Rightarrow> string \<Rightarrow> string list" where
  "upgrade_params cli release chart values files post_renderer =
     [''upgrade'', ''--install'', ''--timeout'', hl_timeout cli, release, chart] @ set_flags values @ file_flags files @
     (if post_renderer \<noteq> [] then [''--post-renderer'', post_renderer] else [])"

definition diff_params :: "string \<Rightarrow> string \<Rightarrow> string gomap \<Rightarrow> string list \<Rightarrow> string list" where
  "diff_params release chart values files =
     [''diff'', ''upgrade'', release, chart] @ set_flags values @ file_flags files"

section \<open>Interactions\<close>

datatype helm_call =
    HelmExec "string list" "exec_status \<times> string"
  | HelmChangeDir string "go_error + unit"
  | HelmReadConfig string "go_error + helm_configuration"
  | HelmStat string bool

type_synonym 'a helm_eff = "(helm_call, 'a) eff"

record helm_env =
  he_exec :: "helm_call list \<Rightarrow> string list \<Rightarrow> exec_status \<times> string"
  he_chdir :: "helm_call list \<Rightarrow> string \<Rightarrow> go_error + unit"
  he_config :: "helm_call list \<Rightarrow> string \<Rightarrow> go_error + helm_configuration"
  he_stat :: "helm_call list \<Rightarrow> string \<Rightarrow> bool"
  he_getenv :: "string \<Rightarrow> string"
  he_releases :: "string \<Rightarrow> go_error + string list"

definition helm_run_command :: "helm_env \<Rightarrow> helm_cli \<Rightarrow> string list \<Rightarrow> unit helm_eff" where
  "helm_run_command E cli params =
     eff_bind (observe (\<lambda>h. he_exec E h (helm_argv cli params)) (HelmExec (helm_argv cli params))) (\<lambda>(s, _).
       if succeeded s then eff_ret () else eff_fail (Errorf ''exit status''))"

definition helm_output :: "helm_env \<Rightarrow> helm_cli \<Rightarrow> string \<Rightarrow> string list \<Rightarrow> string helm_eff" where
  "helm_output E cli msg params =
     eff_bind (observe (\<lambda>h. he_exec E h (helm_argv cli params)) (HelmExec (helm_argv cli params))) (\<lambda>(s, out).
       if succeeded s then eff_ret out else eff_fail (Errorf msg))"

text \<open>\<open>Cli.Exist\<close>; the decoded list of release names comes from the environment.\<close>

definition helm_exist :: "helm_env \<Rightarrow> helm_cli \<Rightarrow> string \<Rightarrow> bool helm_eff" where
  "helm_exist E cli release =
     eff_bind (helm_output E cli ''failed to list helm releases'' [''ls'', ''-o'', ''json'']) (\<lambda>out.
     eff_bind (eff_wrap ''failed to unmarshal helm releases'' (eff_of_res (lift_res (he_releases E out)))) (\<lambda>names.
     eff_ret (release \<in> set names)))"

section \<open>The plugin interface\<close>

record helm_options =
  ho_config :: string
  ho_workspace :: string
  ho_name :: string
  ho_parameters :: "string gomap"

text \<open>
  \<open>Duration.String\<close> of whole seconds. The timeout is given in nanoseconds and truncated towards zero.
\<close>

definition seconds_string :: "nat \<Rightarrow> string" where
  "seconds_string n =
     (let s = nat_digits (n mod 60) @ ''s''; m = n div 60 in
      if m = 0 then s
      else if m div 60 = 0 then nat_digits m @ ''m'' @ s
      else nat_digits (m div 60) @ ''h'' @ nat_digits (m mod 60) @ ''m'' @ s)"

definition timeout_string :: "int \<Rightarrow> string" where
  "timeout_string t =
     (let n = nat (\<bar>t\<bar> div 1000000000) in (if t < 0 \<and> n \<noteq> 0 then ''-'' else []) @ seconds_string n)"

definition new_helm_cli :: "string \<Rightarrow> int \<Rightarrow> helm_cli" where
  "new_helm_cli kubeconfig timeout = \<lparr>hl_kubeconfig = kubeconfig, hl_timeout = timeout_string timeout\<rparr>"

definition helm_parse_config :: "helm_env \<Rightarrow> helm_options \<Rightarrow> helm_configuration helm_eff" where
  "helm_parse_config E opts =
     (if ho_config opts = [] then eff_ret (set_helm_defaults empty_helm_configuration)
      else let p = (if is_abs_path (ho_config opts) then ho_config opts
                    else clean_path (join_path [ho_workspace opts, ho_config opts]))
           in eff_bind (perform (\<lambda>h. he_config E h p) (HelmReadConfig p)) (\<lambda>c. eff_ret (set_helm_defaults c)))"

definition post_renderer_path :: "helm_env \<Rightarrow> helm_options \<Rightarrow> helm_configuration \<Rightarrow> string helm_eff" where
  "post_renderer_path E opts c =
     (let p = expand (he_getenv E) (hc_post_renderer c) in
      if p = [] then eff_ret (hc_post_renderer c)
      else eff_bind (observe (\<lambda>h. he_stat E h p) (HelmStat p)) (\<lambda>found.
           eff_ret (if found then join_path [ho_workspace opts, p] else p)))"

definition helm_init :: "helm_env \<Rightarrow> helm_cli \<Rightarrow> helm_options \<Rightarrow> helm_configuration helm_eff" where
  "helm_init E cli opts =
     eff_bind (eff_wrap ''failed to chdir'' (perform (\<lambda>h. he_chdir E h (ho_workspace opts)) (HelmChangeDir (ho_workspace opts)))) (\<lambda>_.
     eff_bind (eff_wrap ''failed to parse config'' (helm_parse_config E opts)) (\<lambda>c.
     eff_bind (case hc_repository c of
         None \<Rightarrow> eff_ret ()
       | Some r \<Rightarrow> eff_wrap ''failed to ensure helm repo'' (helm_run_command E cli [''repo'', ''add'', hr_name r, hr_url r])) (\<lambda>_.
     eff_bind (post_renderer_path E opts c) (\<lambda>p. eff_ret (c\<lparr>hc_post_renderer := p\<rparr>)))))"

definition helm_diff :: "helm_env \<Rightarrow> helm_cli \<Rightarrow> helm_options \<Rightarrow> helm_configuration \<Rightarrow> bool helm_eff" where
  "helm_diff E cli opts c =
     eff_bind (helm_output E cli ''failed to run helm diff''
       (diff_params (ho_name opts) (hc_chart c) (ho_parameters opts) (hc_values c))) (\<lambda>out. eff_ret (out \<noteq> []))"

text \<open>\<open>Run\<close> does not look at its flag for a dry run.\<close>

definition helm_run :: "helm_env \<Rightarrow> helm_cli \<Rightarrow> helm_options \<Rightarrow> helm_configuration \<Rightarrow> bool \<Rightarrow> unit helm_eff" where
  "helm_run E cli opts c dry_run =
     eff_bind (eff_wrap ''failed to build dependency'' (helm_run_command E cli [''dependency'', ''build'', hc_chart c])) (\<lambda>_.
     helm_run_command E cli
       (upgrade_params cli (ho_name opts) (hc_chart c) (ho_parameters opts) (hc_values c) (hc_post_renderer c)))"

definition helm_test :: "helm_env \<Rightarrow> helm_cli \<Rightarrow> helm_options \<Rightarrow> unit helm_eff" where
  "helm_test E cli opts = helm_run_command E cli [''test'', ho_name opts]"

section \<open>What the plugin does\<close>

definition helm_commands :: "helm_call list \<Rightarrow> string list list" where
  "helm_commands t = concat (map (\<lambda>c. case c of HelmExec argv _ \<Rightarrow> [argv] | _ \<Rightarrow> []) t)"

lemma helm_commands_simps [simp]:
  "helm_commands [] = []" "helm_commands (t @ u) = helm_commands t @ helm_commands u"
  "helm_commands [HelmExec argv a] = [argv]"
  by (simp_all add: helm_commands_def)

text \<open>
  A run that succeeds has built the dependencies and then upgraded the release with every parameter
  and every file of values, as a dry run as well.
\<close>

lemma helm_run_commands:
  assumes "helm_run E cli opts c dry_run [] = (Ok (), t)"
  shows "helm_commands t =
    [helm_argv cli [''dependency'', ''build'', hc_chart c],
     helm_argv cli (upgrade_params cli (ho_name opts) (hc_chart c) (ho_parameters opts) (hc_values c) (hc_post_renderer c))]"
  using assms
  by (auto simp: helm_run_def helm_run_command_def eff_bind_def eff_wrap_def observe_def eff_ret_def eff_fail_def
      helm_commands_def split: if_splits prod.splits)

lemma helm_dry_run_deploys: "helm_run E cli opts c True = helm_run E cli opts c False"
  by (simp add: helm_run_def)

text \<open>
  The parameters go to \<open>--set\<close> as they are, so a comma starts another assignment, as in the parser
  that the repository has taken over from helm; the kubectl plugin escapes it (\<open>assignment\<close>).
\<close>

lemma helm_comma_sets_other_key:
  "concat (map (\<lambda>f. if f = ''--set'' then [] else snd (parse_into_string 100 f [])) (set_flags [(''a'', ''1,b=2'')])) =
     [(''a'', JStr ''1''), (''b'', JStr ''2'')]"
  "snd (parse_into_string 100 (assignment ''a'' ''1,b=2'') []) = [(''a'', JStr ''1,b=2'')]"
  by code_simp+

end
