(* ===== verification/ClusterProxy.thy ===== *)
theory ClusterProxy
  imports Prelude GoStrings
begin

text \<open>
  The reverse proxy in front of clusters whose API server speaks plain HTTP
  (src/pkg/k8sutils/client.go): every such cluster is to get a loop back address of its own, at which
  a backend passes the requests on to its host.
\<close>

record proxy =
  px_backends :: "string gomap"
  px_indexes :: "nat gomap"
  px_index :: nat

definition new_proxy :: proxy where
  "new_proxy = \<lparr>px_backends = [], px_indexes = [], px_index = 0\<rparr>"

definition proxy_address :: "nat \<Rightarrow> string" where
  "proxy_address i = ''127.0.0.'' @ nat_digits i @ '':6443''"

text \<open>A backend is represented by the host it passes requests on to.\<close>

definition add_if_not_exist :: "string \<Rightarrow> string \<Rightarrow> proxy \<Rightarrow> nat \<times> proxy" where
  "add_if_not_exist target handler p =
     (case map_of (px_indexes p) target of
        Some i \<Rightarrow> (i, p)
      | None \<Rightarrow>
          let i = px_index p + 1 in
          (i, p\<lparr>px_backends := gm_set (proxy_address i) handler (px_backends p),
                px_indexes := gm_set target i (px_indexes p)\<rparr>))"

text \<open>\<open>None\<close> is the answer 404.\<close>

definition serve_http :: "proxy \<Rightarrow> string \<Rightarrow> string option" where
  "serve_http p host = map_of (px_backends p) host"

text \<open>\<open>ConfigFrom\<close>: the address to talk to and the proxy after the call; \<open>host_of\<close> is the host of the URL.\<close>

definition config_host :: "(string \<Rightarrow> string) \<Rightarrow> string \<Rightarrow> proxy \<Rightarrow> string \<times> proxy" where
  "config_host host_of host p =
     (if \<not> has_prefix host ''http://'' then (host, p)
      else case add_if_not_exist host (host_of host) p of
          (i, p') \<Rightarrow> (''https://'' @ proxy_address i, p'))"

text \<open>A request for a cluster reaches it right after its configuration was made.\<close>

lemma added_cluster_reached:
  assumes "map_of (px_indexes p) target = None" and "add_if_not_exist target handler p = (i, p')"
  shows "serve_http p' (proxy_address i) = Some handler"
  using assms by (auto simp: add_if_not_exist_def serve_http_def Let_def)

text \<open>
  But the counter is never advanced: every cluster gets the same address, and the requests for an
  earlier cluster go to the one that was added last.
\<close>

lemma index_never_advances: "add_if_not_exist target handler p = (i, p') \<Longrightarrow> px_index p' = px_index p"
  by (auto simp: add_if_not_exist_def Let_def split: option.splits)

theorem proxy_clusters_collide:
  assumes "add_if_not_exist a handler_a new_proxy = (i, p)" and "add_if_not_exist b handler_b p = (j, q)" and "a \<noteq> b"
  shows "j = i" and "serve_http q (proxy_address i) = Some handler_b"
  using assms by (auto simp: add_if_not_exist_def serve_http_def new_proxy_def Let_def)

end
