(* ===== verification/KubectlConfig.thy ===== *)
theory KubectlConfig
  imports KubectlPlugin GoPath
begin

text \<open>
  The configuration file of the kubectl plugin: the two versions of its format
  (src/pkg/deployer/plugins/kubectl/apis/config/v1alpha1 and v1alpha2) with their defaults, their
  conversions to and from the internal type, and \<open>parseConfig\<close>
  (src/pkg/deployer/plugins/kubectl/kubectl.go). The options of the templates have the same fields in
  every version, so their conversion is a cast. Decoding the file is a parameter.
\<close>

section \<open>The versions\<close>

record prune_v1alpha1 =
  p1_labels :: "string gomap"
  p1_whitelist :: "string list"

record config_v1alpha1 =
  k1_command :: string
  k1_path :: string
  k1_template :: "template_options option"
  k1_ytt :: "template_options option"
  k1_overlay :: string
  k1_prune :: "prune_v1alpha1 option"
  k1_cluster_size :: bool
  k1_follow_symlink :: bool

record config_v1alpha2 =
  k2_command :: string
  k2_paths :: "string list"
  k2_template :: "template_options option"
  k2_ytt :: "template_options option"
  k2_overlay :: string
  k2_prune :: "prune_options option"
  k2_cluster_size :: bool
  k2_follow_symlink :: bool

section \<open>Defaults\<close>

definition default_value_type :: "value_type \<Rightarrow> template_options option \<Rightarrow> template_options option" where
  "default_value_type vt =
     map_option (\<lambda>t. if to_value_type t = ValueTypeOther [] then t\<lparr>to_value_type := vt\<rparr> else t)"

definition set_defaults_v1alpha1 :: "config_v1alpha1 \<Rightarrow> config_v1alpha1" where
  "set_defaults_v1alpha1 c =
     c\<lparr>k1_command := if k1_command c = [] then ''apply'' else k1_command c,
       k1_path := if k1_path c = [] then ''.'' else k1_path c,
       k1_template := default_value_type ValueTypeStr (k1_template c),
       k1_ytt := default_value_type ValueTypeRaw (k1_ytt c)\<rparr>"

definition set_defaults_v1alpha2 :: "config_v1alpha2 \<Rightarrow> config_v1alpha2" where
  "set_defaults_v1alpha2 c =
     c\<lparr>k2_command := if k2_command c = [] then ''apply'' else k2_command c,
       k2_paths := if k2_paths c = [] then [''.''] else k2_paths c,
       k2_template := default_value_type ValueTypeStr (k2_template c),
       k2_ytt := default_value_type ValueTypeRaw (k2_ytt c)\<rparr>"

section \<open>Conversions\<close>

definition prune_from_v1alpha1 :: "prune_v1alpha1 \<Rightarrow> prune_options" where
  "prune_from_v1alpha1 p = \<lparr>po_labels = gm_copy_into (p1_labels p) [], po_skip_list = p1_whitelist p\<rparr>"

definition prune_to_v1alpha1 :: "prune_options \<Rightarrow> prune_v1alpha1" where
  "prune_to_v1alpha1 p = \<lparr>p1_labels = gm_copy_into (po_labels p) [], p1_whitelist = po_skip_list p\<rparr>"

definition from_v1alpha1 :: "config_v1alpha1 \<Rightarrow> kubectl_configuration" where
  "from_v1alpha1 c =
     \<lparr>kcf_command = k1_command c, kcf_paths = split_on (CHR '','') (k1_path c), kcf_template = k1_template c,
      kcf_ytt = k1_ytt c, kcf_overlay = k1_overlay c, kcf_prune = map_option prune_from_v1alpha1 (k1_prune c),
      kcf_cluster_size = k1_cluster_size c, kcf_follow_symlink = k1_follow_symlink c\<rparr>"

definition to_v1alpha1 :: "kubectl_configuration \<Rightarrow> config_v1alpha1" where
  "to_v1alpha1 c =
     \<lparr>k1_command = kcf_command c, k1_path = join_with (CHR '','') (kcf_paths c), k1_template = kcf_template c,
      k1_ytt = kcf_ytt c, k1_overlay = kcf_overlay c, k1_prune = map_option prune_to_v1alpha1 (kcf_prune c),
      k1_cluster_size = kcf_cluster_size c, k1_follow_symlink = kcf_follow_symlink c\<rparr>"

definition from_v1alpha2 :: "config_v1alpha2 \<Rightarrow> kubectl_configuration" where
  "from_v1alpha2 c =
     \<lparr>kcf_command = k2_command c, kcf_paths = k2_paths c, kcf_template = k2_template c, kcf_ytt = k2_ytt c,
      kcf_overlay = k2_overlay c, kcf_prune = k2_prune c, kcf_cluster_size = k2_cluster_size c,
      kcf_follow_symlink = k2_follow_symlink c\<rparr>"

definition to_v1alpha2 :: "kubectl_configuration \<Rightarrow> config_v1alpha2" where
  "to_v1alpha2 c =
     \<lparr>k2_command = kcf_command c, k2_paths = kcf_paths c, k2_template = kcf_template c, k2_ytt = kcf_ytt c,
      k2_overlay = kcf_overlay c, k2_prune = kcf_prune c, k2_cluster_size = kcf_cluster_size c,
      k2_follow_symlink = kcf_follow_symlink c\<rparr>"

section \<open>\<open>parseConfig\<close>\<close>

text \<open>What a decoded file can be; the decoder sets the defaults of the version and converts.\<close>

datatype config_document = V1alpha1 config_v1alpha1 | V1alpha2 config_v1alpha2 | OtherDocument

definition empty_v1alpha1 :: config_v1alpha1 where
  "empty_v1alpha1 =
     \<lparr>k1_command = [], k1_path = [], k1_template = None, k1_ytt = None, k1_overlay = [], k1_prune = None,
      k1_cluster_size = False, k1_follow_symlink = False\<rparr>"

definition config_path :: "string \<Rightarrow> string \<Rightarrow> string" where
  "config_path workspace p = (if is_abs_path p then p else clean_path (join_path [workspace, p]))"

fun internal_config :: "config_document \<Rightarrow> go_error + kubectl_configuration" where
  "internal_config (V1alpha1 c) = Inr (from_v1alpha1 (set_defaults_v1alpha1 c))"
| "internal_config (V1alpha2 c) = Inr (from_v1alpha2 (set_defaults_v1alpha2 c))"
| "internal_config OtherDocument = Inl (Errorf ''failed to cast object to KubectlConfiguration'')"

definition parse_config ::
  "(string \<Rightarrow> go_error + string) \<Rightarrow> (string \<Rightarrow> go_error + config_document) \<Rightarrow> string \<Rightarrow> string \<Rightarrow>
   go_error + kubectl_configuration" where
  "parse_config read decode workspace p =
     (if p = [] then Inr (from_v1alpha1 (set_defaults_v1alpha1 empty_v1alpha1))
      else case read (config_path workspace p) of
          Inl e \<Rightarrow> Inl (Errorf ''failed to read'')
        | Inr text \<Rightarrow>
            (case decode text of
               Inl e \<Rightarrow> Inl (Errorf ''failed to decode'')
             | Inr document \<Rightarrow> internal_config document))"

section \<open>Properties\<close>

text \<open>What the rest of the plugin relies on.\<close>

fun typed_options :: "template_options option \<Rightarrow> bool" where
  "typed_options None \<longleftrightarrow> True"
| "typed_options (Some t) \<longleftrightarrow> to_value_type t \<noteq> ValueTypeOther []"

definition complete_config :: "kubectl_configuration \<Rightarrow> bool" where
  "complete_config c \<longleftrightarrow>
     kcf_command c \<noteq> [] \<and> kcf_paths c \<noteq> [] \<and> typed_options (kcf_template c) \<and> typed_options (kcf_ytt c)"

lemma typed_default: "vt \<noteq> ValueTypeOther [] \<Longrightarrow> typed_options (default_value_type vt t)"
  by (cases t) (auto simp: default_value_type_def)

text \<open>
  A configuration that has been read names a command and a path and has typed values, whatever the
  file leaves out; without a file it applies the workspace itself.
\<close>

lemma parse_config_complete:
  "parse_config read decode workspace p = Inr c \<Longrightarrow>
   complete_config c \<and> (p = [] \<longrightarrow> kcf_command c = ''apply'' \<and> kcf_paths c = [''.''])"
  by (auto simp: parse_config_def complete_config_def from_v1alpha1_def from_v1alpha2_def set_defaults_v1alpha1_def
      set_defaults_v1alpha2_def empty_v1alpha1_def typed_default split: if_splits sum.splits elim!: internal_config.elims)

lemma split_join_paths:
  "ps \<noteq> [] \<Longrightarrow> \<forall>p\<in>set ps. CHR '','' \<notin> set p \<Longrightarrow> split_on (CHR '','') (join_with (CHR '','') ps) = ps"
  by (rule split_join) auto

lemma gm_copy_into_ok: "gm_ok dst \<Longrightarrow> gm_ok (gm_copy_into src dst)"
  unfolding gm_copy_into_def by (induction src arbitrary: dst) auto

lemma gm_ok_Nil: "gm_ok []"
  by (simp add: gm_ok_def)

lemma gm_copy_self: "gm_ok m \<Longrightarrow> map_of (gm_copy_into m []) = map_of m"
  by (simp add: map_of_gm_copy_into)

text \<open>Equal up to the order of the labels.\<close>

definition same_config :: "kubectl_configuration \<Rightarrow> kubectl_configuration \<Rightarrow> bool" where
  "same_config c d \<longleftrightarrow>
     c\<lparr>kcf_prune := None\<rparr> = d\<lparr>kcf_prune := None\<rparr> \<and>
     (case (kcf_prune c, kcf_prune d) of
        (None, None) \<Rightarrow> True
      | (Some p, Some q) \<Rightarrow> gm_eq (po_labels p) (po_labels q) \<and> po_skip_list p = po_skip_list q
      | _ \<Rightarrow> False)"

text \<open>
  A configuration survives being written in either version and read again: the version with a
  single path joins the paths with commas and splits them again, which loses nothing as long as
  there is a path and no path has a comma.
\<close>

theorem configuration_round_trip:
  assumes "kcf_paths c \<noteq> []" and "\<forall>p\<in>set (kcf_paths c). CHR '','' \<notin> set p"
    and "\<forall>p. kcf_prune c = Some p \<longrightarrow> gm_ok (po_labels p)"
  shows "same_config (from_v1alpha1 (to_v1alpha1 c)) c \<and> from_v1alpha2 (to_v1alpha2 c) = c"
  using assms
  by (cases "kcf_prune c")
    (simp_all add: same_config_def from_v1alpha1_def to_v1alpha1_def from_v1alpha2_def to_v1alpha2_def
      split_join_paths prune_from_v1alpha1_def prune_to_v1alpha1_def gm_eq_iff gm_copy_into_ok gm_ok_Nil gm_copy_self)

lemma configuration_round_trip_witness:
  "from_v1alpha1 (to_v1alpha1 (from_v1alpha1 empty_v1alpha1\<lparr>kcf_paths := [''a'', ''b/c'']\<rparr>)) =
     from_v1alpha1 empty_v1alpha1\<lparr>kcf_paths := [''a'', ''b/c'']\<rparr>"
proof -
  let ?c = "from_v1alpha1 empty_v1alpha1\<lparr>kcf_paths := [''a'', ''b/c'']\<rparr>"
  have "same_config (from_v1alpha1 (to_v1alpha1 ?c)) ?c \<and> from_v1alpha2 (to_v1alpha2 ?c) = ?c"
    by (rule configuration_round_trip) (simp_all add: from_v1alpha1_def empty_v1alpha1_def)
  then show ?thesis by (simp add: same_config_def from_v1alpha1_def to_v1alpha1_def empty_v1alpha1_def)
qed

end
