(* ===== verification/Template.thy ===== *)
theory Template
  imports Values GoPath
begin

text \<open>
  Rendering the specs of a release (src/pkg/template): walking the configured paths, with or without
  following symbolic links (symwalk.go), putting the rendered files together and running ytt over
  them (template.go). The files are arguments; the Go template engine and the YAML encoder are
  parameters; the walk recurses on a bound for the depth of directories and one for nested links.
\<close>

section \<open>Files\<close>

datatype file_kind = Regular | Directory | Symlink

record file_tree =
  ft_lstat :: "string \<Rightarrow> go_error + file_kind"
  ft_names :: "string \<Rightarrow> go_error + string list"
  ft_eval :: "string \<Rightarrow> go_error + string"
  ft_read :: "string \<Rightarrow> go_error + string"
  ft_cwd :: string

text \<open>
  A walk function with its state: it gets the path, the kind unless it could not be had, and the
  error, and returns an error or nil. \<open>None\<close> is a walk that is deeper than its bound.
\<close>

type_synonym 's visit = "string \<Rightarrow> file_kind option \<Rightarrow> go_error option \<Rightarrow> 's \<Rightarrow> (go_error option \<times> 's) option"

section \<open>\<open>filepath.Walk\<close>\<close>

function walk_tree :: "nat \<Rightarrow> file_tree \<Rightarrow> 's visit \<Rightarrow> string \<Rightarrow> file_kind \<Rightarrow> 's \<Rightarrow> (go_error option \<times> 's) option"
  and walk_names :: "nat \<Rightarrow> file_tree \<Rightarrow> 's visit \<Rightarrow> string \<Rightarrow> string list \<Rightarrow> 's \<Rightarrow> (go_error option \<times> 's) option"
where
  "walk_tree 0 T visit path kind s = None"
| "walk_tree (Suc d) T visit path kind s =
     (if kind \<noteq> Directory then visit path (Some kind) None s
      else case ft_names T path of
          Inl e \<Rightarrow> visit path (Some kind) (Some e) s
        | Inr names \<Rightarrow>
            (case visit path (Some kind) None s of
               None \<Rightarrow> None
             | Some (Some e, s') \<Rightarrow> Some (Some e, s')
             | Some (None, s') \<Rightarrow> walk_names d T visit path names s'))"
| "walk_names d T visit path [] s = Some (None, s)"
| "walk_names d T visit path (n # ns) s =
     (let p = join_path [path, n] in
      case (case ft_lstat T p of Inl e \<Rightarrow> visit p None (Some e) s | Inr k \<Rightarrow> walk_tree d T visit p k s) of
        None \<Rightarrow> None
      | Some (Some e, s') \<Rightarrow> Some (Some e, s')
      | Some (None, s') \<Rightarrow> walk_names d T visit path ns s')"
  by pat_completeness auto

termination
  by (relation "measures [\<lambda>x. case x of Inl (d, _) \<Rightarrow> d | Inr (d, _) \<Rightarrow> d,
      \<lambda>x. case x of Inl _ \<Rightarrow> 0 | Inr (_, _, _, _, ns, _) \<Rightarrow> Suc (length ns)]") auto

definition walk_root :: "nat \<Rightarrow> file_tree \<Rightarrow> 's visit \<Rightarrow> string \<Rightarrow> 's \<Rightarrow> (go_error option \<times> 's) option" where
  "walk_root d T visit root s =
     (case ft_lstat T root of Inl e \<Rightarrow> visit root None (Some e) s | Inr k \<Rightarrow> walk_tree d T visit root k s)"

section \<open>Following links\<close>

definition within_boundary :: "file_tree \<Rightarrow> string \<Rightarrow> string \<Rightarrow> go_error + bool" where
  "within_boundary T path boundary =
     (case rel_path boundary (abs_path (ft_cwd T) path) of
        None \<Rightarrow> Inl (Errorf ''failed to check boundary'')
      | Some rel \<Rightarrow> Inr (\<not> has_prefix rel ''..''))"

text \<open>
  \<open>followSymlinkWalkFunc\<close>: a path below \<open>filename\<close> is shown as one below \<open>link_dir\<close>. A link that leaves
  the boundary is skipped; a link to a directory is walked, its entries shown below the link.
\<close>

fun follow ::
  "nat \<Rightarrow> nat \<Rightarrow> file_tree \<Rightarrow> 's visit \<Rightarrow> string \<Rightarrow> string \<Rightarrow> string \<Rightarrow> 's visit" where
  "follow 0 d T visit filename link_dir boundary path kind err s = None"
| "follow (Suc n) d T visit filename link_dir boundary path kind err s =
     (case err of
        Some e \<Rightarrow> Some (Some e, s)
      | None \<Rightarrow>
          (case rel_path filename path of
             None \<Rightarrow> Some (Some (Errorf ''Rel''), s)
           | Some rel \<Rightarrow>
               let shown = join_path [link_dir, rel] in
               if kind \<noteq> Some Symlink then visit shown kind None s
               else case ft_eval T shown of
                   Inl e \<Rightarrow> Some (Some e, s)
                 | Inr final \<Rightarrow>
                     (case ft_eval T boundary of
                        Inl e \<Rightarrow> Some (Some e, s)
                      | Inr bound \<Rightarrow>
                          (case within_boundary T final bound of
                             Inl e \<Rightarrow> Some (Some e, s)
                           | Inr False \<Rightarrow> Some (None, s)
                           | Inr True \<Rightarrow>
                               (case ft_lstat T final of
                                  Inl e \<Rightarrow> visit shown None (Some e) s
                                | Inr k \<Rightarrow>
                                    if k = Directory
                                    then walk_root d T (follow n d T visit final shown boundary) final s
                                    else visit shown kind None s)))))"

definition walk_links :: "nat \<Rightarrow> nat \<Rightarrow> file_tree \<Rightarrow> 's visit \<Rightarrow> string \<Rightarrow> string \<Rightarrow> bool \<Rightarrow> 's \<Rightarrow> (go_error option \<times> 's) option" where
  "walk_links n d T visit path boundary follow_links s =
     (if follow_links
      then walk_root d T (follow n d T visit path path (abs_path (ft_cwd T) boundary)) path s
      else walk_root d T visit path s)"

section \<open>Putting the files together\<close>

definition file_extensions :: "string list" where
  "file_extensions = [''.yaml'', ''.yml'']"

definition ignore_file :: "string \<Rightarrow> string list \<Rightarrow> bool" where
  "ignore_file path extensions \<longleftrightarrow> extensions \<noteq> [] \<and> path_ext path \<notin> set extensions"

definition document_start :: string where
  "document_start = ''---'' @ [CHR 0x0A]"

definition document :: "string \<Rightarrow> string" where
  "document data =
     (let content = trim_space data in
      (if has_prefix content document_start then [] else document_start) @ content @ [CHR 0x0A])"

text \<open>The text of a file, after the template engine if there is one; \<open>engine\<close> gets text and values.\<close>

definition file_text ::
  "file_tree \<Rightarrow> (string \<Rightarrow> go_error + string) option \<Rightarrow> string \<Rightarrow> go_error + string" where
  "file_text T engine path =
     (case ft_read T path of
        Inl e \<Rightarrow> Inl (Errorf ''failed to read'')
      | Inr data \<Rightarrow>
          (case engine of
             None \<Rightarrow> Inr data
           | Some f \<Rightarrow> (case f data of Inl e \<Rightarrow> Inl (Errorf ''failed to execute template'') | Inr x \<Rightarrow> Inr x)))"

definition render_file :: "file_tree \<Rightarrow> (string \<Rightarrow> go_error + string) option \<Rightarrow> string visit" where
  "render_file T engine path kind err combined =
     (if kind = None \<or> kind = Some Directory then Some (err, combined)
      else if ignore_file path file_extensions then Some (None, combined)
      else case file_text T engine path of
          Inl e \<Rightarrow> Some (Some e, combined)
        | Inr data \<Rightarrow> Some (None, combined @ document data))"

fun combine_files ::
  "nat \<Rightarrow> nat \<Rightarrow> file_tree \<Rightarrow> (string \<Rightarrow> go_error + string) option \<Rightarrow> string \<Rightarrow> bool \<Rightarrow> string list \<Rightarrow> string \<Rightarrow>
   (go_error + string) option" where
  "combine_files n d T engine boundary follow_links [] combined = Some (Inr combined)"
| "combine_files n d T engine boundary follow_links (p # ps) combined =
     (case walk_links n d T (render_file T engine) p boundary follow_links combined of
        None \<Rightarrow> None
      | Some (Some e, _) \<Rightarrow> Some (Inl (Errorf ''failed to walk''))
      | Some (None, combined') \<Rightarrow> combine_files n d T engine boundary follow_links ps combined')"

section \<open>Rendering\<close>

datatype template_call =
    WriteSpecs string string "go_error + unit"
  | RunYtt "string list" "go_error + string"

type_synonym 'a template_eff = "(template_call, 'a) eff"

record template_env =
  te_write :: "template_call list \<Rightarrow> string \<Rightarrow> string \<Rightarrow> go_error + unit"
  te_ytt :: "template_call list \<Rightarrow> string list \<Rightarrow> go_error + string"
  te_engine :: "json gomap \<Rightarrow> string \<Rightarrow> go_error + string"
  te_yaml :: "json gomap \<Rightarrow> go_error + string"
  te_getenv :: "string \<Rightarrow> string"

text \<open>The fields of \<open>template\<close>; a provider that is not there is \<open>values.Empty\<close>.\<close>

record template_spec =
  tp_paths :: "string list"
  tp_overlay :: string
  tp_template :: bool
  tp_values :: "provider option"
  tp_ytt :: bool
  tp_ytt_values :: "provider option"
  tp_follow :: bool
  tp_boundary :: string

definition optional_values :: "values_env \<Rightarrow> provider option \<Rightarrow> values_result" where
  "optional_values V p = (case p of None \<Rightarrow> Tree [] | Some p \<Rightarrow> provider_values V p)"

text \<open>A call of \<open>klog.Fatalf\<close> while the values are read ends the process; here it is an error.\<close>

definition values_of :: "string \<Rightarrow> values_result \<Rightarrow> go_error + json gomap" where
  "values_of msg r = (case r of Tree m \<Rightarrow> Inr m | Failure e \<Rightarrow> Inl (Errorf msg) | Fatal m \<Rightarrow> Inl (Errorf m))"

definition write_specs :: "template_env \<Rightarrow> string \<Rightarrow> string \<Rightarrow> unit template_eff" where
  "write_specs E p text = perform (\<lambda>h. te_write E h p text) (WriteSpecs p text)"

definition values_header :: string where
  "values_header = ''#@data/values'' @ [CHR 0x0A] @ ''---'' @ [CHR 0x0A]"

text \<open>The arguments for ytt; the values are written beside the specs.\<close>

definition ytt_args :: "template_env \<Rightarrow> template_spec \<Rightarrow> string \<Rightarrow> json gomap \<Rightarrow> string list template_eff" where
  "ytt_args E t dest m =
     (let args = [''-f'', dest] @ (if tp_ytt t \<and> tp_overlay t \<noteq> [] then [''-f'', tp_overlay t] else []) in
      if tp_ytt t \<and> m \<noteq> []
      then eff_bind (eff_wrap ''failed to marshal ytt values as yaml'' (eff_of_res (lift_res (te_yaml E m)))) (\<lambda>text.
           eff_bind (eff_wrap ''failed to write values'' (write_specs E (dest @ ''.values.yaml'') (values_header @ text))) (\<lambda>_.
           eff_ret (args @ [''-f'', dest @ ''.values.yaml''])))
      else eff_ret args)"

definition run_template :: "template_env \<Rightarrow> template_spec \<Rightarrow> string \<Rightarrow> json gomap \<Rightarrow> string \<Rightarrow> string template_eff" where
  "run_template E t dest m combined =
     eff_bind (eff_wrap ''failed to write template output'' (write_specs E dest combined)) (\<lambda>_.
     eff_bind (ytt_args E t dest m) (\<lambda>args.
       if length args = 2 then eff_ret dest
       else eff_bind (eff_wrap ''failed to run ytt'' (perform (\<lambda>h. te_ytt E h args) (RunYtt args))) (\<lambda>out.
            eff_bind (eff_wrap ''failed to write ytt output'' (write_specs E dest out)) (\<lambda>_. eff_ret dest))))"

text \<open>\<open>Template\<close>; \<open>None\<close> when the walk exceeds its bounds.\<close>

definition template ::
  "nat \<Rightarrow> nat \<Rightarrow> template_env \<Rightarrow> values_env \<Rightarrow> file_tree \<Rightarrow> template_spec \<Rightarrow> string \<Rightarrow> json gomap \<Rightarrow> string template_eff option" where
  "template n d E V T t dest extra =
     (case values_of ''failed to generate template values'' (optional_values V (tp_values t)) of
        Inl e \<Rightarrow> Some (eff_fail e)
      | Inr tpl \<Rightarrow>
          (case values_of ''failed to generate ytt values'' (optional_values V (tp_ytt_values t)) of
             Inl e \<Rightarrow> Some (eff_fail e)
           | Inr ytt \<Rightarrow>
               let tpl = merge_maps tpl extra; ytt = merge_maps ytt extra;
                   engine = (if tp_template t then Some (te_engine E tpl) else None)
               in case combine_files n d T engine (tp_boundary t) (tp_follow t) (map (expand (te_getenv E)) (tp_paths t)) [] of
                    None \<Rightarrow> None
                  | Some (Inl e) \<Rightarrow> Some (eff_fail e)
                  | Some (Inr combined) \<Rightarrow> Some (run_template E t dest ytt combined)))"

end
