(* ===== verification/TemplateOutcome.thy ===== *)
theory TemplateOutcome
  imports Template
begin

text \<open>
  What the walk over the specs promises: without following links the specs are put together from the
  right files in the right order, as a reference function on the tree says, and a link that is
  followed stays within the boundary. The last section shows what it does not promise.
\<close>

section \<open>Trees\<close>

datatype spec_tree = File | Link | Node "(string \<times> spec_tree) list"

fun represents :: "file_tree \<Rightarrow> string \<Rightarrow> spec_tree \<Rightarrow> bool" where
  "represents T p File \<longleftrightarrow> ft_lstat T p = Inr Regular"
| "represents T p Link \<longleftrightarrow> ft_lstat T p = Inr Symlink"
| "represents T p (Node es) \<longleftrightarrow>
     ft_lstat T p = Inr Directory \<and> ft_names T p = Inr (map fst es) \<and>
     (\<forall>nt\<in>set es. represents T (join_path [p, fst nt]) (snd nt))"

fun tree_files :: "string \<Rightarrow> spec_tree \<Rightarrow> string list" where
  "tree_files p File = [p]"
| "tree_files p Link = [p]"
| "tree_files p (Node es) = concat (map (\<lambda>nt. tree_files (join_path [p, fst nt]) (snd nt)) es)"

fun height :: "spec_tree \<Rightarrow> nat" where
  "height File = 1"
| "height Link = 1"
| "height (Node es) = Suc (fold max (map (\<lambda>nt. height (snd nt)) es) 0)"

definition spec_files :: "string \<Rightarrow> spec_tree \<Rightarrow> string list" where
  "spec_files p t = filter (\<lambda>f. \<not> ignore_file f file_extensions) (tree_files p t)"

lemma fold_max_ge: "(a::nat) \<le> fold max xs a"
proof (induction xs arbitrary: a)
  case (Cons x xs)
  have "a \<le> max x a" by simp
  also have "\<dots> \<le> fold max xs (max x a)" by (rule Cons)
  finally show ?case by simp
qed simp

lemma fold_max_member: "x \<in> set xs \<Longrightarrow> (x::nat) \<le> fold max xs a"
proof (induction xs arbitrary: a)
  case (Cons y xs)
  have "max y a \<le> fold max xs (max y a)" by (rule fold_max_ge)
  with Cons show ?case by auto
qed simp

lemma height_entry: "nt \<in> set es \<Longrightarrow> height (snd nt) \<le> fold max (map (\<lambda>nt. height (snd nt)) es) 0"
  by (intro fold_max_member) simp

lemma concat_map_concat: "concat (map f (concat (map g xs))) = concat (map (\<lambda>x. concat (map f (g x))) xs)"
  by (induction xs) auto

section \<open>Putting specs together\<close>

text \<open>The reference: the files one after the other until one of them cannot be read.\<close>

fun read_specs ::
  "file_tree \<Rightarrow> (string \<Rightarrow> go_error + string) option \<Rightarrow> string list \<Rightarrow> string \<Rightarrow> go_error option \<times> string" where
  "read_specs T engine [] s = (None, s)"
| "read_specs T engine (f # fs) s =
     (case file_text T engine f of Inl e \<Rightarrow> (Some e, s) | Inr x \<Rightarrow> read_specs T engine fs (s @ document x))"

lemma read_specs_append:
  "read_specs T engine (xs @ ys) s =
    (case read_specs T engine xs s of (Some e, s') \<Rightarrow> (Some e, s') | (None, s') \<Rightarrow> read_specs T engine ys s')"
  by (induction xs arbitrary: s) (auto split: sum.splits)

definition kind_of :: "spec_tree \<Rightarrow> file_kind" where
  "kind_of t = (case t of File \<Rightarrow> Regular | Link \<Rightarrow> Symlink | Node _ \<Rightarrow> Directory)"

lemma represents_kind: "represents T p t \<Longrightarrow> ft_lstat T p = Inr (kind_of t)"
  by (cases t) (auto simp: kind_of_def)

lemma walk_represented:
  assumes "represents T p t" and "height t \<le> d"
  shows "walk_tree d T (render_file T engine) p (kind_of t) s = Some (read_specs T engine (spec_files p t) s)"
  using assms
proof (induction t arbitrary: p d s)
  case File
  then obtain d' where "d = Suc d'" by (cases d) auto
  with File show ?case by (auto simp: render_file_def spec_files_def kind_of_def split: sum.splits)
next
  case Link
  then obtain d' where "d = Suc d'" by (cases d) auto
  with Link show ?case by (auto simp: render_file_def spec_files_def kind_of_def split: sum.splits)
next
  case (Node es)
  from Node.prems(2) obtain d' where d: "d = Suc d'" "fold max (map (\<lambda>nt. height (snd nt)) es) 0 \<le> d'"
    by (cases d) auto
  have names: "set es' \<subseteq> set es \<Longrightarrow>
      walk_names d' T (render_file T engine) p (map fst es') s =
      Some (read_specs T engine (concat (map (\<lambda>nt. spec_files (join_path [p, fst nt]) (snd nt)) es')) s)"
    for es' s
  proof (induction es' arbitrary: s)
    case (Cons nt es')
    then have nt: "nt \<in> set es" by simp
    let ?p = "join_path [p, fst nt]"
    have sub: "represents T ?p (snd nt)" using Node.prems(1) nt by simp
    have "height (snd nt) \<le> d'" using height_entry [OF nt] d(2) by (rule order_trans)
    then have "walk_tree d' T (render_file T engine) ?p (kind_of (snd nt)) s =
        Some (read_specs T engine (spec_files ?p (snd nt)) s)" for s
      by (intro Node.IH [OF nt _ sub]) (simp_all add: snds.intros)
    with represents_kind [OF sub] Cons show ?case
      by (auto simp: read_specs_append split: option.splits prod.splits)
  qed simp
  have visit: "render_file T engine p (Some Directory) None s = Some (None, s)" by (simp add: render_file_def)
  have files: "spec_files p (Node es) = concat (map (\<lambda>nt. spec_files (join_path [p, fst nt]) (snd nt)) es)"
    by (simp add: spec_files_def filter_concat comp_def)
  from Node.prems visit names [of es] show ?case by (simp add: d(1) files kind_of_def)
qed

lemma combine_represented:
  assumes "list_all2 (represents T) ps ts" and "\<forall>t\<in>set ts. height t \<le> d"
  shows "combine_files n d T engine boundary False ps s =
    Some (case read_specs T engine (concat (map2 spec_files ps ts)) s of
        (None, s') \<Rightarrow> Inr s'
      | (Some e, _) \<Rightarrow> Inl (Errorf ''failed to walk''))"
  using assms
proof (induction arbitrary: s rule: list_all2_induct)
  case (Cons p ps t ts)
  then have "walk_links n d T (render_file T engine) p boundary False s =
      Some (read_specs T engine (spec_files p t) s)"
    by (simp add: walk_links_def walk_root_def represents_kind walk_represented)
  with Cons show ?case
    by (auto simp: read_specs_append split: option.splits prod.splits)
qed simp

text \<open>
  C17. Without following links, the specs of a release are exactly the files with extension .yaml or
  .yml below the configured paths, symbolic links among them, path by path and in the order of the directories, each of them one
  document, and rendering fails as soon as a file cannot be read or its template not be executed.
  The depth suffices for every tree that is not higher.
\<close>
theorem template_combines_files:
  assumes "list_all2 (represents T) ps ts" and "\<forall>t\<in>set ts. height t \<le> d"
  shows "combine_files n d T engine boundary False ps s =
    Some (case read_specs T engine (concat (map2 spec_files ps ts)) s of
        (None, s') \<Rightarrow> Inr s'
      | (Some e, _) \<Rightarrow> Inl (Errorf ''failed to walk''))"
  using assms by (rule combine_represented)

definition witness_files :: file_tree where
  "witness_files =
     \<lparr> ft_lstat = (\<lambda>p. if p \<in> {''specs'', ''specs/db''} then Inr Directory else Inr Regular),
       ft_names = (\<lambda>p. if p = ''specs'' then Inr [''README'', ''db'', ''web.yml''] else Inr [''db.yaml'']),
       ft_eval = Inr, ft_read = (\<lambda>p. Inr ('' '' @ p)), ft_cwd = ''/work'' \<rparr>"

lemma template_combines_files_witness:
  "combine_files 0 4 witness_files None ''.'' False [''specs''] [] =
    Some (Inr (document ''specs/db/db.yaml'' @ document ''specs/web.yml''))"
proof -
  let ?ts = "[Node [(''README'', File), (''db'', Node [(''db.yaml'', File)]), (''web.yml'', File)]]"
  have "list_all2 (represents witness_files) [''specs''] ?ts" by code_simp
  moreover have "\<forall>t\<in>set ?ts. height t \<le> 4" by code_simp
  moreover have "read_specs witness_files None (concat (map2 spec_files [''specs''] ?ts)) [] =
      (None, document ''specs/db/db.yaml'' @ document ''specs/web.yml'')" by code_simp
  ultimately show ?thesis
    by (simp only: template_combines_files [of witness_files "[''specs'']" ?ts 4 0 None "''.''" "[]"] option.case prod.case)
qed

section \<open>Following links\<close>

text \<open>Every visit is written down: the path as it is shown, and its kind.\<close>

definition recording ::
  "(string \<Rightarrow> file_kind option \<Rightarrow> go_error option \<Rightarrow> go_error option) \<Rightarrow>
   (string \<times> file_kind option) list visit" where
  "recording f p k e s = Some (f p k e, s @ [(p, k)])"

definition resolves_within :: "file_tree \<Rightarrow> string \<Rightarrow> string \<Rightarrow> bool" where
  "resolves_within T boundary p \<longleftrightarrow>
     (case (ft_eval T p, ft_eval T boundary) of
        (Inr final, Inr bound) \<Rightarrow> within_boundary T final bound = Inr True
      | _ \<Rightarrow> False)"

definition links_within :: "file_tree \<Rightarrow> string \<Rightarrow> (string \<times> file_kind option) list \<Rightarrow> bool" where
  "links_within T boundary s \<longleftrightarrow> (\<forall>pk\<in>set s. snd pk = Some Symlink \<longrightarrow> resolves_within T boundary (fst pk))"

text \<open>What every visit keeps, the walk keeps.\<close>

definition keeps :: "('s \<Rightarrow> bool) \<Rightarrow> 's visit \<Rightarrow> bool" where
  "keeps I visit \<longleftrightarrow> (\<forall>p k e s r s'. visit p k e s = Some (r, s') \<longrightarrow> I s \<longrightarrow> I s')"

lemma keepsD: "keeps I visit \<Longrightarrow> visit p k e s = Some (r, s') \<Longrightarrow> I s \<Longrightarrow> I s'"
  by (auto simp: keeps_def)

lemma walk_keeps:
  shows "keeps I visit \<Longrightarrow> walk_tree d T visit path kind s = Some (r, s') \<Longrightarrow> I s \<Longrightarrow> I s'"
    and "keeps I visit \<Longrightarrow> walk_names d T visit path names s = Some (r, s') \<Longrightarrow> I s \<Longrightarrow> I s'"
proof (induction d T visit path kind s and d T visit path names s
    arbitrary: r s' and r s' rule: walk_tree_walk_names.induct)
  case (2 d T visit path kind s)
  then show ?case by (auto split: if_splits sum.splits option.splits dest: keepsD)
next
  case (4 d T visit path n ns s)
  then show ?case by (auto simp: Let_def split: sum.splits option.splits dest: keepsD)
qed auto

lemma walk_root_keeps: "keeps I visit \<Longrightarrow> keeps I (\<lambda>path k e s. walk_root d T visit path s)"
  by (auto simp: keeps_def walk_root_def split: sum.splits)
    (metis keepsD keeps_def walk_keeps(1))+

text \<open>Following shows a link to the visitor only when it resolves within the boundary.\<close>

definition keeps_within :: "file_tree \<Rightarrow> string \<Rightarrow> ('s \<Rightarrow> bool) \<Rightarrow> 's visit \<Rightarrow> bool" where
  "keeps_within T boundary I visit \<longleftrightarrow>
     (\<forall>p k e s r s'. visit p k e s = Some (r, s') \<longrightarrow> I s \<longrightarrow>
        (k = Some Symlink \<longrightarrow> resolves_within T boundary p) \<longrightarrow> I s')"

lemma keeps_withinD:
  "keeps_within T boundary I visit \<Longrightarrow> visit p k e s = Some (r, s') \<Longrightarrow> I s \<Longrightarrow>
    (k = Some Symlink \<Longrightarrow> resolves_within T boundary p) \<Longrightarrow> I s'"
  by (auto simp: keeps_within_def)

lemma follow_keeps:
  assumes "keeps_within T boundary I visit"
  shows "keeps I (follow n d T visit filename link_dir boundary)"
proof (induction n arbitrary: filename link_dir)
  case (Suc n)
  have "I s'" if run: "follow (Suc n) d T visit filename link_dir boundary p k e s = Some (r, s')" and I: "I s"
    for p k e s r s'
    using run I keepsD [OF walk_root_keeps [OF Suc.IH]]
    by (auto simp: Let_def resolves_within_def split: option.splits if_splits sum.splits bool.splits
        dest: keeps_withinD [OF assms])
  then show ?case by (simp add: keeps_def)
qed (simp add: keeps_def)

lemma recording_keeps_within: "keeps_within T boundary (links_within T boundary) (recording f)"
  by (auto simp: keeps_within_def recording_def links_within_def)


definition witness_links :: file_tree where
  "witness_links =
     \<lparr> ft_lstat = (\<lambda>p. if p \<in> {''specs'', ''/work/more''} then Inr Directory
         else if p \<in> {''specs/in'', ''specs/out'', ''specs/dir''} then Inr Symlink else Inr Regular),
       ft_names = (\<lambda>p. if p = ''specs'' then Inr [''dir'', ''in'', ''out''] else Inr [''x.yaml'']),
       ft_eval = (\<lambda>p. Inr (if p = ''specs/in'' then ''/work/in'' else if p = ''specs/out'' then ''/etc/out''
         else if p = ''specs/dir'' then ''/work/more'' else p)),
       ft_read = Inr, ft_cwd = ''/work'' \<rparr>"


section \<open>What the walk does not promise\<close>

text \<open>
  The configuration says that without \<open>FollowSymlink\<close> the rendered specs do not follow symbolic
  links; a link to a file is read all the same.
\<close>

lemma link_read_without_following:
  assumes "ft_lstat T p = Inr Symlink" and "\<not> ignore_file p file_extensions" and "ft_read T p = Inr x"
  shows "combine_files n (Suc d) T None boundary False [p] s = Some (Inr (s @ document x))"
  using assms by (simp add: walk_links_def walk_root_def render_file_def file_text_def)

text \<open>A path within the boundary whose first name starts with two dots is taken for one outside.\<close>

lemma dotted_name_outside:
  "within_boundary witness_links ''/work/..data'' ''/work'' = Inr False \<and>
   within_boundary witness_links ''/etc'' ''/work'' = Inr False \<and>
   within_boundary witness_links ''/work/.data'' ''/work'' = Inr True"
  by code_simp

end
