(* ===== verification/KubectlTemplate.thy ===== *)
theory KubectlTemplate
  imports KubectlConfig TemplateOutcome
begin

text \<open>
  How the kubectl plugin sets up the rendering (\<open>newTemplater\<close> in
  src/pkg/deployer/plugins/kubectl/kubectl.go), and what becomes of a configuration without options
  for templates.
\<close>

definition new_templater ::
  "nat \<Rightarrow> (string \<Rightarrow> string) \<Rightarrow> kubectl_configuration \<Rightarrow> string gomap \<Rightarrow> string \<Rightarrow> string \<Rightarrow> template_spec" where
  "new_templater limit getenv c parameters ns workspace =
     \<lparr> tp_paths = kcf_paths c,
       tp_overlay = expand getenv (if kcf_ytt c = None then [] else kcf_overlay c),
       tp_template = kcf_template c \<noteq> None,
       tp_values = template_provider limit parameters ns (kcf_template c),
       tp_ytt = kcf_ytt c \<noteq> None,
       tp_ytt_values = template_provider limit parameters ns (kcf_ytt c),
       tp_follow = kcf_follow_symlink c,
       tp_boundary = workspace \<rparr>"

lemma bind_ret_left: "eff_bind (eff_ret x) k = k x"
  by (rule ext) (simp add: eff_bind_def eff_ret_def)

text \<open>Without options for ytt, ytt is not run: the specs that were put together are the result.\<close>

lemma specs_without_ytt:
  "\<not> tp_ytt t \<Longrightarrow> run_template E t dest m combined =
    eff_bind (eff_wrap ''failed to write template output'' (write_specs E dest combined)) (\<lambda>_. eff_ret dest)"
  by (simp add: run_template_def ytt_args_def bind_ret_left)

text \<open>
  So a release with the default configuration applies the files below its workspace as they are:
  the environment, the parameters and the commit do not matter.
\<close>

theorem plain_specs_rendered:
  assumes "kcf_template c = None" and "kcf_ytt c = None" and "\<not> kcf_follow_symlink c"
    and "list_all2 (represents T) (map (expand (te_getenv E)) (kcf_paths c)) ts" and "\<forall>t\<in>set ts. height t \<le> d"
    and "read_specs T None (concat (map2 spec_files (map (expand (te_getenv E)) (kcf_paths c)) ts)) [] = (None, specs)"
  shows "template n d E V T (new_templater limit getenv c parameters ns workspace) dest extra =
    Some (eff_bind (eff_wrap ''failed to write template output'' (write_specs E dest specs)) (\<lambda>_. eff_ret dest))"
  using assms
  by (simp add: template_def new_templater_def template_provider_def optional_values_def values_of_def
      combine_represented specs_without_ytt)

end
