(* ===== verification/Informers.thy ===== *)
theory Informers
  imports ReleaseSync CalendarSync
begin

text \<open>
  What the constructors of the controllers register with the informers
  (\<open>NewController\<close> in src/pkg/controller/release/controller.go and \<open>NewEventController\<close> in
  src/pkg/controller/calendar/event_controller.go): the callbacks that are there, and the updates that
  they let through. An informer calls them again for every object every thirty seconds.
\<close>

datatype ('a, 'b) notice = Added 'a | Updated 'a 'a | Removed 'b

section \<open>Release controller\<close>

definition on_release :: "(release, 'b) notice \<Rightarrow> string option" where
  "on_release n =
     (case n of
        Added r \<Rightarrow> Some (enqueue_release r)
      | Updated old new \<Rightarrow> if update_is_news (rl_meta old) (rl_meta new) then Some (enqueue_release new) else None
      | Removed _ \<Rightarrow> None)"

definition on_controller_revision :: "rel_env \<Rightarrow> (object_meta, informer_object) notice \<Rightarrow> string option rel_eff" where
  "on_controller_revision E n =
     (case n of
        Added m \<Rightarrow> handle_controller_revision E (LiveObject m)
      | Updated old new \<Rightarrow>
          if update_is_news old new then handle_controller_revision E (LiveObject new) else eff_ret None
      | Removed x \<Rightarrow> handle_controller_revision E x)"

text \<open>Deployments and secrets of workers.\<close>

definition on_dependant :: "rel_config \<Rightarrow> (object_meta, informer_object) notice \<Rightarrow> string option" where
  "on_dependant cf n =
     (case n of
        Added m \<Rightarrow> handle_dependant cf (LiveObject m)
      | Updated old new \<Rightarrow> if update_is_news old new then handle_dependant cf (LiveObject new) else None
      | Removed x \<Rightarrow> handle_dependant cf x)"

section \<open>Calendar controller\<close>

definition on_calendar :: "cal_env \<Rightarrow> (calendar, 'b) notice \<Rightarrow> unit cal_eff" where
  "on_calendar E n =
     (case n of
        Added c \<Rightarrow> handle_calendar E c
      | Updated old new \<Rightarrow>
          if update_is_news (cal_meta old) (cal_meta new) then handle_calendar E new else eff_ret ()
      | Removed _ \<Rightarrow> eff_ret ())"

definition on_event :: "cal_env \<Rightarrow> (event, 'b) notice \<Rightarrow> unit cal_eff" where
  "on_event E n =
     (case n of
        Added e \<Rightarrow> enqueue_event E e
      | Updated old new \<Rightarrow>
          if update_is_news (ev_meta old) (ev_meta new) then enqueue_event E new else eff_ret ()
      | Removed _ \<Rightarrow> eff_ret ())"

definition get_resource_version :: "unstructured \<Rightarrow> string" where
  "get_resource_version u =
     (case nested_string (JObj u) [''metadata'', ''resourceVersion''] of Inr (Some s) \<Rightarrow> s | _ \<Rightarrow> [])"

definition on_pipeline_run :: "(unstructured, run_notice) notice \<Rightarrow> string option" where
  "on_pipeline_run n =
     (case n of
        Added u \<Rightarrow> handle_pipeline_run (RunNotice u)
      | Updated old new \<Rightarrow>
          if get_resource_version old \<noteq> get_resource_version new then handle_pipeline_run (RunNotice new) else None
      | Removed x \<Rightarrow> handle_pipeline_run x)"

section \<open>Properties\<close>

text \<open>The repeated notices of unchanged objects put nothing into a queue.\<close>

lemma resync_ignored:
  "on_release (Updated r r) = None" "on_dependant cf (Updated m m) = None"
  "on_controller_revision E (Updated m m) = eff_ret None" "on_calendar EC (Updated c c) = eff_ret ()"
  "on_event EC (Updated e e) = eff_ret ()" "on_pipeline_run (Updated u u) = None"
  by (simp_all add: on_release_def on_dependant_def on_controller_revision_def on_calendar_def on_event_def
      on_pipeline_run_def update_is_news_def)

text \<open>
  Every way in which a worker deployment or secret can appear, change or go brings its release back
  into the queue: the key is the one its labels name, whatever the notice.
\<close>

lemma dependant_always_noticed:
  assumes "dependant_key cf m = Some key"
  shows "on_dependant cf (Added m) = Some key" "on_dependant cf (Removed (LiveObject m)) = Some key"
    "on_dependant cf (Removed (Tombstone (Some m))) = Some key"
    "update_is_news old m \<Longrightarrow> on_dependant cf (Updated old m) = Some key"
  using assms by (simp_all add: on_dependant_def handle_dependant_def)

end
