(* ===== verification/ReleaserMain.thy ===== *)
theory ReleaserMain
  imports ReleaseWorker
begin

text \<open>
  How the release controller is configured (\<open>main\<close> in src/cmd/releaser/main.go and \<open>ParseTokenFile\<close> in
  src/pkg/git/tokens.go): the assignments among the flags become the maps from which the workers are
  made. Reading a file and decoding it are arguments.
\<close>

text \<open>An item without an equals sign is left out; the value keeps further ones.\<close>

definition add_assignment :: "string \<Rightarrow> string gomap \<Rightarrow> string gomap" where
  "add_assignment item m =
     (case index_of (CHR ''='') item of None \<Rightarrow> m | Some i \<Rightarrow> gm_set (take i item) (drop (Suc i) item) m)"

definition assignments :: "string list \<Rightarrow> string gomap \<Rightarrow> string gomap" where
  "assignments items m = fold add_assignment items m"

definition env_map_of :: "string \<Rightarrow> string \<Rightarrow> string list \<Rightarrow> string gomap" where
  "env_map_of cluster ns vars = assignments vars [(''CLUSTER'', cluster), (''NAMESPACE'', ns)]"

definition image_map_of :: "string list \<Rightarrow> string gomap" where
  "image_map_of image_maps = assignments image_maps []"

definition effective_namespace :: "(string \<Rightarrow> string) \<Rightarrow> string \<Rightarrow> string" where
  "effective_namespace getenv ns = (if ns = [] then getenv ''POD_NAMESPACE'' else ns)"

definition parse_token_file ::
  "(string \<Rightarrow> go_error + string) \<Rightarrow> (string \<Rightarrow> go_error + string gomap) \<Rightarrow> string \<Rightarrow> go_error + string gomap" where
  "parse_token_file read decode p =
     (if p = [] then Inr []
      else case read p of
          Inl _ \<Rightarrow> Inl (Errorf ''failed to read'')
        | Inr text \<Rightarrow> (case decode text of Inl _ \<Rightarrow> Inl (Errorf ''failed to unmarshal'') | Inr m \<Rightarrow> Inr m))"

text \<open>The assignments survive being written as flags, the last one of a key counts.\<close>

lemma add_assignment_written:
  "CHR ''='' \<notin> set k \<Longrightarrow> add_assignment (k @ CHR ''='' # v) m = gm_set k v m"
  by (simp add: add_assignment_def index_of_append)

lemma assignments_written:
  assumes "\<forall>kv\<in>set kvs. CHR ''='' \<notin> set (fst kv)"
  shows "assignments (map (\<lambda>(k, v). k @ CHR ''='' # v) kvs) m = fold (\<lambda>(k, v). gm_set k v) kvs m"
  using assms unfolding assignments_def
  by (induction kvs arbitrary: m) (auto simp: add_assignment_written)

lemma env_map_ok: "gm_ok (env_map_of cluster ns vars)"
proof -
  have "gm_ok m \<Longrightarrow> gm_ok (fold add_assignment items m)" for items m
    by (induction items arbitrary: m) (auto simp: add_assignment_def split: option.splits)
  then show ?thesis by (simp add: env_map_of_def assignments_def gm_ok_def)
qed

end
