(* ===== verification/ReleaseSystem.thy ===== *)
theory ReleaseSystem
  imports ReleaseSafety DeployerSafety WebhookOutcome GitSyncSafety
begin

text \<open>
  One release and the programs that work on it: git-sync and the worker in the pod, the release
  controller, and the user. Every process takes its steps one interaction at a time and can be
  killed between any two; the API server gives reads the stored object and refuses a status that was
  computed from another one. The pod exists once (its deployment has the strategy Recreate) and the
  worker has one goroutine.
\<close>

section \<open>What is known of a commit\<close>

datatype stage = Untouched | Executed | Verified

instantiation stage :: linorder
begin

fun less_eq_stage :: "stage \<Rightarrow> stage \<Rightarrow> bool" where
  "Untouched \<le> s \<longleftrightarrow> True"
| "Executed \<le> s \<longleftrightarrow> s \<noteq> Untouched"
| "Verified \<le> s \<longleftrightarrow> s = Verified"

definition less_stage :: "stage \<Rightarrow> stage \<Rightarrow> bool" where
  "less_stage s t \<longleftrightarrow> s \<le> t \<and> s \<noteq> t"

instance
proof
  fix s t u :: stage
  show "s < t \<longleftrightarrow> s \<le> t \<and> \<not> t \<le> s" by (cases s; cases t) (simp_all add: less_stage_def)
  show "s \<le> s" by (cases s) simp_all
  show "s \<le> t \<Longrightarrow> t \<le> u \<Longrightarrow> s \<le> u" by (cases s; cases t; cases u) simp_all
  show "s \<le> t \<Longrightarrow> t \<le> s \<Longrightarrow> s = t" by (cases s; cases t) simp_all
  show "s \<le> t \<or> t \<le> s" by (cases s; cases t) simp_all
qed

end

lemma stage_bounds [simp]: "s \<le> Verified" "Verified \<le> s \<longleftrightarrow> s = Verified" "Executed \<le> s \<longleftrightarrow> s \<noteq> Untouched"
  by (cases s; simp)+

text \<open>What the plugin has done without an error: a run that was not dry, a test.\<close>

datatype work = Ran string | Tested string

fun work_commit :: "work \<Rightarrow> string" where
  "work_commit (Ran c) = c"
| "work_commit (Tested c) = c"

fun next_stage :: "string \<Rightarrow> work \<Rightarrow> stage \<Rightarrow> stage" where
  "next_stage c (Ran d) s = (if d = c then max s Executed else s)"
| "next_stage c (Tested d) s = (if d = c \<and> Executed \<le> s then Verified else s)"

definition stage_of :: "work list \<Rightarrow> string \<Rightarrow> stage" where
  "stage_of ws c = fold (next_stage c) ws Untouched"

lemma next_stage_increases: "s \<le> next_stage c w s"
  by (cases w) (auto simp: max_def)

lemma stage_of_append: "stage_of ws c \<le> stage_of (ws @ us) c"
proof (induction us arbitrary: ws)
  case (Cons u us)
  have "stage_of ws c \<le> stage_of (ws @ [u]) c" by (simp add: stage_of_def next_stage_increases)
  also have "\<dots> \<le> stage_of ((ws @ [u]) @ us) c" by (rule Cons)
  finally show ?case by simp
qed simp

lemma stage_of_Ran: "stage_of (ws @ [Ran c]) c \<noteq> Untouched"
  by (cases "stage_of ws c") (simp_all add: stage_of_def max_def)

lemma stage_of_Tested: "stage_of ws c \<noteq> Untouched \<Longrightarrow> stage_of (ws @ [Tested c]) c = Verified"
  by (simp add: stage_of_def)

lemma stage_touched: "stage_of ws c \<noteq> Untouched \<Longrightarrow> c \<in> work_commit ` set ws"
proof (induction ws rule: rev_induct)
  case (snoc w ws)
  then show ?case by (cases w) (auto simp: stage_of_def split: if_splits)
qed (simp add: stage_of_def)

lemma stage_keeps: "stage_of ws c \<noteq> Untouched \<Longrightarrow> stage_of (ws @ us) c \<noteq> Untouched"
  and stage_keeps_Verified: "stage_of ws c = Verified \<Longrightarrow> stage_of (ws @ us) c = Verified"
  using stage_of_append [of ws c us] stage_bounds order_trans by metis+

section \<open>The system\<close>

text \<open>
  The state: the stored release; the worker with its queue, the run it is in (the commit that was
  current when it started and the calls it still makes); the link and the work trees, and the calls
  that git-sync still makes. The rest is written down for the properties: the monitor of the run,
  what the plugin has done, and every report of git-sync with the tree it was made in.
\<close>

record system =
  sy_release :: release
  sy_worker :: worker_state
  sy_commit :: string
  sy_todo :: "deploy_call list"
  sy_tree :: tree_state
  sy_sync :: "sync_call list"
  sy_monitor :: deploy_monitor
  sy_work :: "work list"
  sy_reported :: "(string \<times> tree_state) list"

text \<open>
  The releases that a call of the worker can leave. A read gives the stored release; a patch that
  failed may have been applied all the same.
\<close>

definition patched :: "patch_op list \<Rightarrow> release \<Rightarrow> release list" where
  "patched p r = (case apply_patch p (rl_status r) of None \<Rightarrow> [] | Some st \<Rightarrow> [r\<lparr>rl_status := st\<rparr>])"

fun outcomes :: "deploy_call \<Rightarrow> release \<Rightarrow> release list" where
  "outcomes (FetchRelease ns n (Inr r')) r = (if r' = r then [r] else [])"
| "outcomes (PatchStatus ns n p (Inr x)) r = patched p r"
| "outcomes (PatchStatus ns n p (Inl e)) r = r # patched p r"
| "outcomes c r = [r]"

fun work_of :: "string \<Rightarrow> deploy_call \<Rightarrow> work list" where
  "work_of commit (PluginRun False (Inr x)) = [Ran commit]"
| "work_of commit (PluginTest t (Inr x)) = [Tested commit]"
| "work_of commit c = []"

fun reports_of :: "sync_call \<Rightarrow> tree_state \<Rightarrow> (string \<times> tree_state) list" where
  "reports_of (Reported commit tag version) ts = [(commit, ts)]"
| "reports_of c ts = []"

definition run_hash :: "(string \<Rightarrow> string) \<Rightarrow> deploy_options \<Rightarrow> string" where
  "run_hash sha opts = hash_string_map sha (do_parameters opts)"

definition sync_call_done :: "sync_flags \<Rightarrow> sync_call \<Rightarrow> sync_call list \<Rightarrow> system \<Rightarrow> system" where
  "sync_call_done fl c cs s =
     s\<lparr>sy_tree := advance_tree fl c (sy_tree s), sy_sync := cs,
       sy_reported := reports_of c (sy_tree s) @ sy_reported s\<rparr>"

definition worker_call_done ::
  "(string \<Rightarrow> string) \<Rightarrow> deploy_options \<Rightarrow> deploy_call \<Rightarrow> deploy_call list \<Rightarrow> release \<Rightarrow> system \<Rightarrow> system" where
  "worker_call_done sha opts c cs r s =
     s\<lparr>sy_release := r, sy_todo := cs, sy_monitor := monitor_next (sy_commit s) (run_hash sha opts) c (sy_monitor s),
       sy_work := sy_work s @ work_of (sy_commit s) c\<rparr>"

definition run_started :: "deploy_call list \<Rightarrow> system \<Rightarrow> system" where
  "run_started calls s =
     s\<lparr>sy_commit := ws_commit (sy_worker s), sy_todo := calls, sy_monitor := monitor_start\<rparr>"

inductive system_step ::
  "sync_flags \<Rightarrow> deploy_options \<Rightarrow> (string \<Rightarrow> string) \<Rightarrow> (deploy_event \<Rightarrow> string) \<Rightarrow> system \<Rightarrow> system \<Rightarrow> bool"
  for fl opts sha encode
where
  edit: "system_step fl opts sha encode s
    (s\<lparr>sy_release := (sy_release s)\<lparr>rl_spec := sp, rl_meta := m\<rparr>\<rparr>)"
| control: "(\<And>ns n r. GetRelease ns n (Inr r) \<in> set (snd (sync_handler E cf key [])) \<Longrightarrow> r = sy_release s) \<Longrightarrow>
    UpdateReleaseStatus ns copy a \<in> set (snd (sync_handler E cf key [])) \<Longrightarrow>
    system_step fl opts sha encode s (s\<lparr>sy_release := (sy_release s)\<lparr>rl_status := rl_status copy\<rparr>\<rparr>)"
| sync_start: "system_step fl opts sha encode s
    (s\<lparr>sy_tree := restarted (sy_tree s), sy_sync := snd (git_sync G fl n [])\<rparr>)"
| sync_call: "sy_sync s = c # cs \<Longrightarrow> ts_trusted (advance_tree fl c (sy_tree s)) \<Longrightarrow>
    system_step fl opts sha encode s (sync_call_done fl c cs s)"
| receive: "(commit, ts) \<in> set (sy_reported s) \<Longrightarrow>
    system_step fl opts sha encode s
      (s\<lparr>sy_worker := dispatch (worker_informer encode) (call_headers commit tag version) (sy_worker s)\<rparr>)"
| worker_start: "system_step fl opts sha encode s (s\<lparr>sy_worker := new_worker opts, sy_todo := []\<rparr>)"
| run: "sy_todo s = [] \<Longrightarrow> key \<in> set (ws_queued (sy_worker s)) \<Longrightarrow> dv_sha256 D = sha \<Longrightarrow>
    system_step fl opts sha encode s
      (run_started (snd (deploy_handler D opts (ws_commit (sy_worker s)) key [])) s)"
| call: "sy_todo s = c # cs \<Longrightarrow> r \<in> set (outcomes c (sy_release s)) \<Longrightarrow>
    system_step fl opts sha encode s (worker_call_done sha opts c cs r s)"

text \<open>At the start the worker has reported nothing, and there is no work tree.\<close>

definition fresh_release :: "release \<Rightarrow> bool" where
  "fresh_release r \<longleftrightarrow> rst_commit (rl_status r) = [] \<and>
     (rl_conditions r \<noteq> [] \<longrightarrow> \<not> condition_succeeded (last (rl_conditions r)))"

definition system_start :: "deploy_options \<Rightarrow> release \<Rightarrow> system" where
  "system_start opts r =
     \<lparr>sy_release = r, sy_worker = new_worker opts, sy_commit = [], sy_todo = [], sy_tree = no_tree, sy_sync = [],
      sy_monitor = monitor_start, sy_work = [], sy_reported = []\<rparr>"

inductive system_reachable ::
  "sync_flags \<Rightarrow> deploy_options \<Rightarrow> (string \<Rightarrow> string) \<Rightarrow> (deploy_event \<Rightarrow> string) \<Rightarrow> system \<Rightarrow> bool"
  for fl opts sha encode
where
  start: "fresh_release r \<Longrightarrow> system_reachable fl opts sha encode (system_start opts r)"
| step: "system_reachable fl opts sha encode s \<Longrightarrow> system_step fl opts sha encode s s' \<Longrightarrow>
    system_reachable fl opts sha encode s'"

section \<open>git-sync\<close>

definition sync_ok :: "sync_flags \<Rightarrow> tree_state \<Rightarrow> sync_call list \<Rightarrow> bool" where
  "sync_ok fl ts cs \<longleftrightarrow>
     reachable_tree fl ts \<and>
     (cs = [] \<or> (\<exists>t0 E n t. reachable_tree fl t0 \<and> snd (git_sync E fl n []) = t @ cs \<and>
        ts = fold (advance_tree fl) t (restarted t0)))"

lemma sync_okI:
  "reachable_tree fl t0 \<Longrightarrow> snd (git_sync E fl n []) = t @ cs \<Longrightarrow> ts = fold (advance_tree fl) t (restarted t0) \<Longrightarrow>
   ts_trusted ts \<Longrightarrow> sync_ok fl ts cs"
  unfolding sync_ok_def using reachable_tree.killed by blast

definition served :: "sync_flags \<Rightarrow> string \<times> tree_state \<Rightarrow> bool" where
  "served fl x \<longleftrightarrow> is_commit (fst x) \<and> ts_link (snd x) = Some (commit_dir (gf_root fl) (fst x)) \<and>
     commit_dir (gf_root fl) (fst x) \<in> set (ts_ready (snd x))"

lemma reachable_trusted: "reachable_tree fl s \<Longrightarrow> ts_trusted s"
  by (cases rule: reachable_tree.cases) (auto simp: no_tree_def)

lemma sync_ok_call:
  assumes ok: "sync_ok fl ts (c # cs)" and trusted: "ts_trusted (advance_tree fl c ts)"
  shows "sync_ok fl (advance_tree fl c ts) cs" and "\<forall>x\<in>set (reports_of c ts). served fl x"
proof -
  from ok obtain t0 E n t where run: "reachable_tree fl t0" "snd (git_sync E fl n []) = t @ c # cs"
    "ts = fold (advance_tree fl) t (restarted t0)"
    unfolding sync_ok_def by auto
  show "sync_ok fl (advance_tree fl c ts) cs"
    by (rule sync_okI [OF run(1), of E n "t @ [c]"]) (use run trusted in simp_all)
  have "ts_trusted ts" using ok reachable_trusted [of fl ts] by (simp add: sync_ok_def)
  then show "\<forall>x\<in>set (reports_of c ts). served fl x"
    using run_allowed [OF run(1,2)] by (cases c) (auto simp: served_def run(3) tree_ok_def)
qed

lemma sync_ok_start: "sync_ok fl ts cs \<Longrightarrow> sync_ok fl (restarted ts) (snd (git_sync G fl n []))"
  by (rule sync_okI [of fl ts G n "[]"])
    (auto simp: sync_ok_def restarted_def dest: reachable_trusted)

section \<open>The worker\<close>

text \<open>What the run has done so far agrees with what is known of its commit and with the stored status.\<close>

definition run_ok :: "string \<Rightarrow> deploy_monitor \<Rightarrow> work list \<Rightarrow> string \<Rightarrow> bool" where
  "run_ok c m ws stored \<longleftrightarrow>
     (mon_ran m \<longrightarrow> stage_of ws c \<noteq> Untouched) \<and>
     (mon_deployed m \<longrightarrow> stored = c \<and> stage_of ws c \<noteq> Untouched) \<and>
     (mon_tested m \<longrightarrow> stored = c \<and> stage_of ws c = Verified)"

text \<open>The status shows a commit that was executed, and a commit as realised that was verified.\<close>

definition status_ok :: "release_status \<Rightarrow> work list \<Rightarrow> bool" where
  "status_ok st ws \<longleftrightarrow>
     (rst_commit st \<noteq> [] \<longrightarrow> stage_of ws (rst_commit st) \<noteq> Untouched) \<and>
     (rst_conditions st \<noteq> [] \<longrightarrow> condition_succeeded (last (rst_conditions st)) \<longrightarrow>
        stage_of ws (rst_commit st) = Verified)"

lemma run_ok_start: "run_ok c monitor_start ws stored"
  by (simp add: run_ok_def monitor_start_def)

lemma status_ok_kept: "reports_kept st st' \<Longrightarrow> status_ok st ws \<Longrightarrow> status_ok st' ws"
  by (auto simp: reports_kept_def status_ok_def)

lemma status_ok_append: "status_ok st ws \<Longrightarrow> status_ok st (ws @ us)"
  by (auto simp: status_ok_def stage_keeps stage_keeps_Verified)

text \<open>A patch that the monitor allows.\<close>

lemma patch_keeps:
  assumes "patch_allowed c h p m" and "apply_patch p st = Some st'" and "c \<noteq> []"
    and "run_ok c m ws (rst_commit st)" and "status_ok st ws"
  shows "run_ok c m ws (rst_commit st') \<and> status_ok st' ws \<and>
    (reports ReleaseDeployed p \<longrightarrow> rst_commit st' = c \<and> stage_of ws c \<noteq> Untouched)"
proof (cases "(c, h, p, m)" rule: patch_allowed.cases)
  case (1 commit hash c' h' v d m)
  with assms show ?thesis
    by (auto simp: run_ok_def status_ok_def condition_succeeded_def split: if_splits)
next
  case (2 commit hash d m)
  with assms show ?thesis
    by (auto simp: run_ok_def status_ok_def reports_def split: if_splits)
qed (use assms in auto)

lemma call_keeps:
  assumes allowed: "monitor_allows c h x m" and r: "r' \<in> set (outcomes x r)" and c: "c \<noteq> []"
    and run: "run_ok c m ws (rst_commit (rl_status r))" and status: "status_ok (rl_status r) ws"
  shows "run_ok c (monitor_next c h x m) (ws @ work_of c x) (rst_commit (rl_status r')) \<and>
    status_ok (rl_status r') (ws @ work_of c x)"
proof (cases "(c, h, x, m)" rule: monitor_next.cases)
  case (1 c h ns n r m)
  with assms show ?thesis by (auto simp: run_ok_def status_ok_def is_applied_def split: if_splits)
next
  case (2 c h y m)
  with assms show ?thesis
    by (auto simp: run_ok_def stage_of_Ran intro: status_ok_append)
next
  case (3 c h t y m)
  with assms show ?thesis
    by (auto simp: run_ok_def stage_of_Tested intro: status_ok_append)
next
  case (4 c' h' ns n p y m')
  with r obtain st where st: "apply_patch p (rl_status r) = Some st" "r' = r\<lparr>rl_status := st\<rparr>"
    by (cases "apply_patch p (rl_status r)") (auto simp: patched_def)
  have "patch_allowed c h p m" using 4 allowed by simp
  from patch_keeps [OF this st(1) c run status] 4 st(2) show ?thesis by (auto simp: run_ok_def)
qed (use assms in \<open>auto simp: patched_def split: option.splits dest: patch_keeps [OF _ sym]\<close>)

section \<open>The invariant\<close>

definition worker_ok :: "(string \<Rightarrow> string) \<Rightarrow> deploy_options \<Rightarrow> system \<Rightarrow> bool" where
  "worker_ok sha opts s \<longleftrightarrow>
     monitored (monitor_allows (sy_commit s) (run_hash sha opts)) (monitor_next (sy_commit s) (run_hash sha opts))
       (sy_monitor s) (sy_todo s) \<and>
     run_ok (sy_commit s) (sy_monitor s) (sy_work s) (rst_commit (rl_status (sy_release s))) \<and>
     status_ok (rl_status (sy_release s)) (sy_work s)"

text \<open>Every commit that the worker knows was reported by git-sync.\<close>

definition known_ok :: "sync_flags \<Rightarrow> system \<Rightarrow> bool" where
  "known_ok fl s \<longleftrightarrow>
     (\<forall>x\<in>set (sy_reported s). served fl x) \<and>
     (ws_queued (sy_worker s) \<noteq> [] \<longrightarrow> ws_commit (sy_worker s) \<in> fst ` set (sy_reported s)) \<and>
     (sy_todo s \<noteq> [] \<longrightarrow> sy_commit s \<in> fst ` set (sy_reported s)) \<and>
     work_commit ` set (sy_work s) \<subseteq> fst ` set (sy_reported s)"

definition system_ok :: "sync_flags \<Rightarrow> deploy_options \<Rightarrow> (string \<Rightarrow> string) \<Rightarrow> system \<Rightarrow> bool" where
  "system_ok fl opts sha s \<longleftrightarrow> sync_ok fl (sy_tree s) (sy_sync s) \<and> worker_ok sha opts s \<and> known_ok fl s"

lemma reported_nonempty: "known_ok fl s \<Longrightarrow> c \<in> fst ` set (sy_reported s) \<Longrightarrow> c \<noteq> []"
  by (auto simp: known_ok_def served_def is_commit_def dest!: bspec)

lemma work_of_commit: "work_commit ` set (work_of c x) \<subseteq> {c}"
  by (cases "(c, x)" rule: work_of.cases) auto

lemma control_keeps_reports:
  assumes "\<And>ns n r. GetRelease ns n (Inr r) \<in> set (snd (sync_handler E cf key [])) \<Longrightarrow> r = stored"
    and "UpdateReleaseStatus ns copy a \<in> set (snd (sync_handler E cf key []))"
  shows "reports_kept (rl_status stored) (rl_status copy)"
proof -
  from handler_writes_only_status [OF assms(2)] assms(1) have "status_copy stored copy" by fastforce
  then show ?thesis by (auto simp: status_copy_def)
qed

lemma worker_call_done_sels [simp]:
  "sy_release (worker_call_done sha opts c cs r s) = r" "sy_worker (worker_call_done sha opts c cs r s) = sy_worker s"
  "sy_commit (worker_call_done sha opts c cs r s) = sy_commit s" "sy_todo (worker_call_done sha opts c cs r s) = cs"
  "sy_tree (worker_call_done sha opts c cs r s) = sy_tree s" "sy_sync (worker_call_done sha opts c cs r s) = sy_sync s"
  "sy_monitor (worker_call_done sha opts c cs r s) = monitor_next (sy_commit s) (run_hash sha opts) c (sy_monitor s)"
  "sy_work (worker_call_done sha opts c cs r s) = sy_work s @ work_of (sy_commit s) c"
  "sy_reported (worker_call_done sha opts c cs r s) = sy_reported s"
  by (simp_all add: worker_call_done_def)

lemma worker_ok_call:
  assumes "worker_ok sha opts s" and todo: "sy_todo s = c # cs" and r: "r \<in> set (outcomes c (sy_release s))"
    and nonempty: "sy_commit s \<noteq> []"
  shows "worker_ok sha opts (worker_call_done sha opts c cs r s)"
proof -
  from assms(1) [unfolded worker_ok_def todo monitored.simps]
  have ok: "monitor_allows (sy_commit s) (run_hash sha opts) c (sy_monitor s)"
    "monitored (monitor_allows (sy_commit s) (run_hash sha opts)) (monitor_next (sy_commit s) (run_hash sha opts))
       (monitor_next (sy_commit s) (run_hash sha opts) c (sy_monitor s)) cs"
    "run_ok (sy_commit s) (sy_monitor s) (sy_work s) (rst_commit (rl_status (sy_release s)))"
    "status_ok (rl_status (sy_release s)) (sy_work s)" by blast+
  from call_keeps [OF ok(1) r nonempty ok(3,4)] ok(2) show ?thesis by (simp add: worker_ok_def)
qed

lemma system_ok_step:
  assumes "system_ok fl opts sha s" and "system_step fl opts sha encode s s'"
  shows "system_ok fl opts sha s'"
  using assms(2,1)
proof (cases rule: system_step.cases)
  case (edit sp m)
  with assms(1) show ?thesis by (simp add: system_ok_def worker_ok_def known_ok_def)
next
  case (control E cf key ns copy a)
  have kept: "reports_kept (rl_status (sy_release s)) (rl_status copy)"
    by (rule control_keeps_reports [of E cf key _ ns copy a]) (use control in blast)+
  then have "rst_commit (rl_status copy) = rst_commit (rl_status (sy_release s))" by (simp add: reports_kept_def)
  with kept assms(1) show ?thesis
    by (auto simp: control(1) system_ok_def worker_ok_def known_ok_def intro: status_ok_kept)
next
  case (sync_start G n)
  with assms(1) show ?thesis by (auto simp: system_ok_def worker_ok_def known_ok_def intro: sync_ok_start)
next
  case (sync_call c cs)
  with assms(1) sync_ok_call [of fl "sy_tree s" c cs] show ?thesis
    by (auto simp: system_ok_def worker_ok_def known_ok_def sync_call_done_def)
next
  case (receive commit ts tag version)
  with assms(1) show ?thesis
    by (auto simp: system_ok_def worker_ok_def known_ok_def call_reaches_listener on_commit_def rev_image_eqI)
next
  case worker_start
  with assms(1) show ?thesis by (auto simp: system_ok_def worker_ok_def known_ok_def new_worker_def)
next
  case (run key D)
  have "ws_queued (sy_worker s) \<noteq> []" using run(3) by auto
  then show ?thesis
    using assms(1) handler_in_order [where D = D and opts = opts and key = key]
    by (simp add: run system_ok_def worker_ok_def known_ok_def run_started_def run_ok_start run_hash_def)
next
  case (call c cs r)
  have ok: "known_ok fl s" "worker_ok sha opts s" "sync_ok fl (sy_tree s) (sy_sync s)"
    using assms(1) by (simp_all add: system_ok_def)
  have known: "sy_commit s \<in> fst ` set (sy_reported s)" using ok(1) call(2) by (simp add: known_ok_def)
  have "worker_ok sha opts s'"
    unfolding call(1) by (rule worker_ok_call [OF ok(2) call(2,3) reported_nonempty [OF ok(1) known]])
  moreover have "work_commit ` set (sy_work s @ work_of (sy_commit s) c) \<subseteq> fst ` set (sy_reported s)"
  proof -
    have "work_commit ` set (sy_work s) \<subseteq> fst ` set (sy_reported s)" using ok(1) by (simp only: known_ok_def)
    moreover have "work_commit ` set (work_of (sy_commit s) c) \<subseteq> fst ` set (sy_reported s)"
      using work_of_commit [of "sy_commit s" c] known by (rule order_trans [OF _ insert_subsetI]) simp
    ultimately show ?thesis unfolding set_append image_Un by (rule Un_least)
  qed
  then have "known_ok fl s'"
    using ok(1) known unfolding known_ok_def call(1) worker_call_done_sels by blast
  moreover have "sync_ok fl (sy_tree s') (sy_sync s')" using ok(3) by (simp add: call(1))
  ultimately show ?thesis unfolding system_ok_def by blast
qed

lemma reachable_system_ok: "system_reachable fl opts sha encode s \<Longrightarrow> system_ok fl opts sha s"
proof (induction rule: system_reachable.induct)
  case (start r)
  then show ?case
    by (auto simp: system_ok_def sync_ok_def worker_ok_def known_ok_def system_start_def fresh_release_def status_ok_def
        run_ok_start new_worker_def reachable_tree.empty)
qed (rule system_ok_step)


section \<open>A run of the system\<close>

text \<open>The calls of git-sync, and a number of calls of the worker, with the first outcome of each.\<close>

fun replay_sync :: "sync_flags \<Rightarrow> sync_call list \<Rightarrow> system \<Rightarrow> system" where
  "replay_sync fl [] s = s"
| "replay_sync fl (c # cs) s =
     (if ts_trusted (advance_tree fl c (sy_tree s)) then replay_sync fl cs (sync_call_done fl c cs s) else s)"

fun replay_worker :: "(string \<Rightarrow> string) \<Rightarrow> deploy_options \<Rightarrow> nat \<Rightarrow> system \<Rightarrow> system" where
  "replay_worker sha opts 0 s = s"
| "replay_worker sha opts (Suc n) s =
     (case sy_todo s of [] \<Rightarrow> s
      | c # cs \<Rightarrow> (case outcomes c (sy_release s) of [] \<Rightarrow> s
                  | r # _ \<Rightarrow> replay_worker sha opts n (worker_call_done sha opts c cs r s)))"

lemma replay_sync_reachable:
  "system_reachable fl opts sha encode s \<Longrightarrow> sy_sync s = cs \<Longrightarrow>
   system_reachable fl opts sha encode (replay_sync fl cs s)"
proof (induction cs arbitrary: s)
  case (Cons c cs)
  show ?case
  proof (cases "ts_trusted (advance_tree fl c (sy_tree s))")
    case True
    have "system_reachable fl opts sha encode (sync_call_done fl c cs s)"
      by (rule system_reachable.step [OF Cons.prems(1) system_step.sync_call [OF Cons.prems(2) True]])
    with True show ?thesis by (simp add: Cons.IH sync_call_done_def)
  qed (use Cons.prems in simp)
qed simp

lemma replay_worker_reachable:
  "system_reachable fl opts sha encode s \<Longrightarrow> system_reachable fl opts sha encode (replay_worker sha opts n s)"
proof (induction n arbitrary: s)
  case (Suc n)
  show ?case
    by (auto split: list.split
        intro!: Suc.IH Suc.prems system_reachable.step [OF Suc.prems system_step.call])
qed simp

abbreviation sample_reachable :: "system \<Rightarrow> bool" where
  "sample_reachable \<equiv> system_reachable sample_flags sample_options (\<lambda>x. x) de_commit"

text \<open>A run of git-sync, the report of a commit to the worker, and the worker with a release to read.\<close>

definition synced_system :: "sync_env \<Rightarrow> system \<Rightarrow> system" where
  "synced_system G s =
     (let calls = snd (git_sync G sample_flags 1 [])
      in replay_sync sample_flags calls (s\<lparr>sy_tree := restarted (sy_tree s), sy_sync := calls\<rparr>))"

definition notified_system :: "string \<Rightarrow> system \<Rightarrow> system" where
  "notified_system c s =
     s\<lparr>sy_worker := dispatch (worker_informer de_commit) (call_headers c c []) (sy_worker s)\<rparr>"

definition worker_for :: "release \<Rightarrow> deploy_env" where
  "worker_for r = sample_worker\<lparr>dv_fetch := (\<lambda>_ _ _. Inr r)\<rparr>"

text \<open>The worker runs for the commit it takes for the current one, for a number of calls.\<close>

definition worked_system :: "nat \<Rightarrow> system \<Rightarrow> system" where
  "worked_system n s =
     replay_worker (\<lambda>x. x) sample_options n
       (run_started (snd (deploy_handler (worker_for (sy_release s)) sample_options (ws_commit (sy_worker s))
         (ws_commit (sy_worker s)) [])) s)"

definition finished_system :: system where
  "finished_system = worked_system 100 (notified_system sample_commit
     (synced_system sample_sync (system_start sample_options sample_release)))"

lemma finished_system_phase:
  "release_phase_of (sy_release finished_system) = ReleaseSucceeded"
  "rst_commit (rl_status (sy_release finished_system)) = sample_commit"
  by code_simp+

lemma synced_reachable: "sample_reachable s \<Longrightarrow> sample_reachable (synced_system G s)"
  unfolding synced_system_def Let_def
  by (rule replay_sync_reachable, rule system_reachable.step, assumption, rule system_step.sync_start) simp

lemma notified_reachable:
  assumes "sample_reachable s" and "c \<in> fst ` set (sy_reported s)"
  shows "sample_reachable (notified_system c s)"
proof -
  from assms(2) obtain ts where "(c, ts) \<in> set (sy_reported s)" by auto
  then show ?thesis unfolding notified_system_def
    by (rule system_reachable.step [OF assms(1) system_step.receive])
qed

lemma worked_reachable:
  assumes "sample_reachable s" and "sy_todo s = []" and "ws_commit (sy_worker s) \<in> set (ws_queued (sy_worker s))"
  shows "sample_reachable (worked_system n s)"
  unfolding worked_system_def
  by (rule replay_worker_reachable, rule system_reachable.step [OF assms(1)], rule system_step.run [OF assms(2,3)])
    (simp add: worker_for_def sample_worker_def)

lemma start_reachable: "sample_reachable (system_start sample_options sample_release)"
  by (rule system_reachable.start) code_simp

lemma notified_idle:
  "sy_todo (notified_system c s) = sy_todo s"
  "c \<noteq> [] \<Longrightarrow> ws_commit (sy_worker (notified_system c s)) \<in> set (ws_queued (sy_worker (notified_system c s)))"
  by (simp_all add: notified_system_def call_reaches_listener on_commit_def)

lemma finished_reachable: "sample_reachable finished_system"
proof -
  have "sample_commit \<in> fst ` set (sy_reported (synced_system sample_sync (system_start sample_options sample_release)))"
    "sy_todo (synced_system sample_sync (system_start sample_options sample_release)) = []" by code_simp+
  then show ?thesis unfolding finished_system_def
    by (intro worked_reachable notified_reachable synced_reachable start_reachable)
      (simp_all add: notified_idle sample_commit_def)
qed


section \<open>What the phase does not promise\<close>

text \<open>
  A second commit is served and the plugin runs for it, but the worker is killed before it has
  reported that; then the first commit is served again. The status still names the first commit, so
  the worker does not run the plugin: it tests what the second commit has left, and the release is
  Succeeded with the first commit.
\<close>

definition other_commit :: string where "other_commit = replicate 40 (CHR ''b'')"

definition sync_from :: "string \<Rightarrow> string \<Rightarrow> sync_env" where
  "sync_from old new = sample_sync
     \<lparr>sy_git_output := (\<lambda>_ _. Inr new), sy_eval_link := (\<lambda>_ _. Inr (commit_dir ''/git'' old))\<rparr>"

definition killed_system :: system where
  "killed_system =
     (worked_system 3 (notified_system other_commit (synced_system (sync_from sample_commit other_commit) finished_system)))
       \<lparr>sy_worker := new_worker sample_options, sy_todo := []\<rparr>"

definition reverted_system :: system where
  "reverted_system =
     worked_system 100 (notified_system sample_commit (synced_system (sync_from other_commit sample_commit) killed_system))"

definition outline :: "system \<Rightarrow> release_phase \<times> string \<times> deploy_call list \<times> work list \<times> string list" where
  "outline s =
     (release_phase_of (sy_release s), rst_commit (rl_status (sy_release s)), sy_todo s, sy_work s,
      map fst (sy_reported s))"

lemma reverted_system_outline:
  "outline reverted_system =
     (ReleaseSucceeded, sample_commit, [],
      [Ran sample_commit, Tested sample_commit, Ran other_commit, Tested sample_commit],
      [sample_commit, other_commit, sample_commit])"
  by code_simp

lemma killed_outlines:
  "(\<lambda>(p, c, todo, ws, cs). (todo, cs)) (outline (synced_system (sync_from sample_commit other_commit) finished_system)) =
     ([], [other_commit, sample_commit])"
  "(\<lambda>(p, c, todo, ws, cs). (todo, cs)) (outline (synced_system (sync_from other_commit sample_commit) killed_system)) =
     ([], [sample_commit, other_commit, sample_commit])"
  by code_simp+

lemma commits_nonempty: "sample_commit \<noteq> []" "other_commit \<noteq> []"
  by (simp_all add: sample_commit_def other_commit_def)

lemma outline_todo: "(\<lambda>(p, c, todo, ws, cs). (todo, cs)) (outline s) = (todo, cs) \<Longrightarrow> sy_todo s = todo \<and> fst ` set (sy_reported s) = set cs"
  by (simp add: outline_def) (metis list.set_map)

lemmas killed_values = killed_outlines [THEN outline_todo]

lemma killed_reachable: "sample_reachable killed_system"
  unfolding killed_system_def
  by (rule system_reachable.step [OF _ system_step.worker_start], intro worked_reachable notified_reachable
      synced_reachable finished_reachable) (simp_all add: notified_idle killed_values commits_nonempty)

theorem reverted_commit_not_rerun:
  "sample_reachable reverted_system \<and> sy_todo reverted_system = [] \<and>
   release_phase_of (sy_release reverted_system) = ReleaseSucceeded \<and>
   rst_commit (rl_status (sy_release reverted_system)) = sample_commit \<and>
   sy_work reverted_system = [Ran sample_commit, Tested sample_commit, Ran other_commit, Tested sample_commit]"
proof -
  have "sample_reachable reverted_system"
    unfolding reverted_system_def
    by (intro worked_reachable notified_reachable synced_reachable killed_reachable)
      (simp_all add: notified_idle killed_values commits_nonempty)
  with reverted_system_outline show ?thesis by (simp add: outline_def)
qed

end
