(* ===== verification/GoHeap.thy ===== *)
theory GoHeap
  imports Prelude
begin

text \<open>
  Go values with their sharing. Everywhere else a value of a Go type is a HOL value, so that copying it
  changes nothing. Here pointers, slices and maps are references into a heap, an assignment of a
  struct copies the references in it, and the generated functions \<open>DeepCopyInto\<close> have to make new
  ones. The theory has the values, their types, the building blocks of which the generated functions
  consist, and the contract of a deep copy with its rules.
\<close>

section \<open>Values, the heap and types\<close>

text \<open>
  \<open>Basic\<close> is a value without references: a string, a number, a flag or an instant. A reference leads to
  the target of a pointer, the elements of a slice or the entries of a map of strings.
\<close>

datatype gv = Basic string | Nil | Ref nat | Fields "(string \<times> gv) list"

datatype cell = Target gv | Elements "gv list" | Entries "(string \<times> string) list"

type_synonym heap = "cell list"

datatype ty = Plain | Pointer ty | Slice ty | Dict | Struct "(string \<times> ty) list"

definition cell_at :: "heap \<Rightarrow> nat \<Rightarrow> cell option" where
  "cell_at h a = (if a < length h then Some (h ! a) else None)"

fun is_basic :: "gv \<Rightarrow> bool" where
  "is_basic (Basic s) = True"
| "is_basic v = False"

definition target :: "heap \<Rightarrow> gv \<Rightarrow> gv option" where
  "target h v = (case v of Ref a \<Rightarrow> (case cell_at h a of Some (Target x) \<Rightarrow> Some x | _ \<Rightarrow> None) | _ \<Rightarrow> None)"

definition elements :: "heap \<Rightarrow> gv \<Rightarrow> gv list option" where
  "elements h v = (case v of Ref a \<Rightarrow> (case cell_at h a of Some (Elements xs) \<Rightarrow> Some xs | _ \<Rightarrow> None) | _ \<Rightarrow> None)"

definition entries_at :: "heap \<Rightarrow> gv \<Rightarrow> (string \<times> string) list option" where
  "entries_at h v = (case v of Ref a \<Rightarrow> (case cell_at h a of Some (Entries kvs) \<Rightarrow> Some kvs | _ \<Rightarrow> None) | _ \<Rightarrow> None)"

lemma read_Nil [simp]: "target h Nil = None" "elements h Nil = None" "entries_at h Nil = None"
  by (simp_all add: target_def elements_def entries_at_def)

fun address :: "gv \<Rightarrow> nat list" where
  "address (Ref a) = [a]"
| "address v = []"

text \<open>A field of a struct; the types of the program are not recursive.\<close>

definition field :: "(string \<times> gv) list \<Rightarrow> string \<Rightarrow> gv" where
  "field fs n = (case map_of fs n of Some v \<Rightarrow> v | None \<Rightarrow> Nil)"

fun fields_of :: "gv \<Rightarrow> (string \<times> gv) list" where
  "fields_of (Fields fs) = fs"
| "fields_of v = []"

text \<open>What the type checker ensures of a value, what the value shows, and what it reaches.\<close>

fun has_type :: "ty \<Rightarrow> heap \<Rightarrow> gv \<Rightarrow> bool"
  and have_types :: "(string \<times> ty) list \<Rightarrow> heap \<Rightarrow> (string \<times> gv) list \<Rightarrow> bool" where
  "has_type Plain h v = is_basic v"
| "has_type (Pointer t) h v = (v = Nil \<or> (case target h v of Some x \<Rightarrow> has_type t h x | None \<Rightarrow> False))"
| "has_type (Slice t) h v = (v = Nil \<or> (case elements h v of Some xs \<Rightarrow> list_all (has_type t h) xs | None \<Rightarrow> False))"
| "has_type Dict h v = (v = Nil \<or> entries_at h v \<noteq> None)"
| "has_type (Struct ts) h v = (v = Fields (fields_of v) \<and> have_types ts h (fields_of v))"
| "have_types [] h fs = True"
| "have_types ((n, t) # ts) h fs = (n \<in> set (map fst fs) \<and> has_type t h (field fs n) \<and> have_types ts h fs)"

datatype view = Value gv | NoValue | Pointee view | Items "view list" | Pairs "(string \<times> string) list"
  | Parts "(string \<times> view) list"

fun view_of :: "ty \<Rightarrow> heap \<Rightarrow> gv \<Rightarrow> view"
  and views_of :: "(string \<times> ty) list \<Rightarrow> heap \<Rightarrow> (string \<times> gv) list \<Rightarrow> (string \<times> view) list" where
  "view_of Plain h v = Value v"
| "view_of (Pointer t) h v = (case target h v of Some x \<Rightarrow> Pointee (view_of t h x) | None \<Rightarrow> NoValue)"
| "view_of (Slice t) h v = (case elements h v of Some xs \<Rightarrow> Items (map (view_of t h) xs) | None \<Rightarrow> NoValue)"
| "view_of Dict h v = (case entries_at h v of Some kvs \<Rightarrow> Pairs kvs | None \<Rightarrow> NoValue)"
| "view_of (Struct ts) h v = Parts (views_of ts h (fields_of v))"
| "views_of [] h fs = []"
| "views_of ((n, t) # ts) h fs = (n, view_of t h (field fs n)) # views_of ts h fs"

fun reach :: "ty \<Rightarrow> heap \<Rightarrow> gv \<Rightarrow> nat list"
  and reaches :: "(string \<times> ty) list \<Rightarrow> heap \<Rightarrow> (string \<times> gv) list \<Rightarrow> nat list" where
  "reach Plain h v = []"
| "reach (Pointer t) h v = address v @ (case target h v of Some x \<Rightarrow> reach t h x | None \<Rightarrow> [])"
| "reach (Slice t) h v = address v @ (case elements h v of Some xs \<Rightarrow> concat (map (reach t h) xs) | None \<Rightarrow> [])"
| "reach Dict h v = address v"
| "reach (Struct ts) h v = reaches ts h (fields_of v)"
| "reaches [] h fs = []"
| "reaches ((n, t) # ts) h fs = reach t h (field fs n) @ reaches ts h fs"

section \<open>What a value shows depends on what it reaches\<close>

definition same_on :: "nat list \<Rightarrow> heap \<Rightarrow> heap \<Rightarrow> bool" where
  "same_on as h h' \<longleftrightarrow> (\<forall>a\<in>set as. cell_at h' a = cell_at h a)"

lemma same_on_append [simp]: "same_on (as @ bs) h h' \<longleftrightarrow> same_on as h h' \<and> same_on bs h h'"
  by (auto simp: same_on_def)

lemma same_on_concat: "same_on (concat (map f xs)) h h' \<longleftrightarrow> (\<forall>x\<in>set xs. same_on (f x) h h')"
  by (auto simp: same_on_def)

lemma same_read:
  assumes "same_on (address v) h h'"
  shows "target h' v = target h v" and "elements h' v = elements h v" and "entries_at h' v = entries_at h v"
  using assms by (cases v; simp add: same_on_def target_def elements_def entries_at_def)+

lemma frame:
  "same_on (reach t h v) h h' \<Longrightarrow>
     has_type t h' v = has_type t h v \<and> view_of t h' v = view_of t h v \<and> reach t h' v = reach t h v"
  "same_on (reaches ts h fs) h h' \<Longrightarrow>
     have_types ts h' fs = have_types ts h fs \<and> views_of ts h' fs = views_of ts h fs \<and> reaches ts h' fs = reaches ts h fs"
proof (induction t h v and ts h fs rule: has_type_have_types.induct)
  case (2 t h v)
  then show ?case by (auto simp: same_read split: option.splits)
next
  case (3 t h v)
  then show ?case
    by (auto simp: same_read same_on_concat list_all_iff split: option.splits intro!: arg_cong [where f = concat])
qed (auto simp: same_read)

text \<open>A value of its type reaches only what is allocated; what is allocated later leaves it alone.\<close>

lemma read_allocated:
  "target h v \<noteq> None \<Longrightarrow> set (address v) \<subseteq> {..<length h}"
  "elements h v \<noteq> None \<Longrightarrow> set (address v) \<subseteq> {..<length h}"
  "entries_at h v \<noteq> None \<Longrightarrow> set (address v) \<subseteq> {..<length h}"
  by (cases v; auto simp: target_def elements_def entries_at_def cell_at_def split: if_splits)+

lemma reach_allocated:
  "has_type t h v \<Longrightarrow> set (reach t h v) \<subseteq> {..<length h}"
  "have_types ts h fs \<Longrightarrow> set (reaches ts h fs) \<subseteq> {..<length h}"
proof (induction t h v and ts h fs rule: has_type_have_types.induct)
  case (2 t h v)
  then show ?case using read_allocated(1) [of h v] by (auto split: option.splits)
next
  case (3 t h v)
  then show ?case using read_allocated(2) [of h v] by (auto simp: list_all_iff split: option.splits)
next
  case (4 h v)
  then show ?case using read_allocated(3) [of h v] by (auto simp: has_type.simps)
qed auto

lemma cell_at_append: "a < length h \<Longrightarrow> cell_at (h @ e) a = cell_at h a"
  by (simp add: cell_at_def nth_append)

lemma same_on_allocated: "set as \<subseteq> {..<length h} \<Longrightarrow> same_on as h (h @ e)"
  by (auto simp: same_on_def cell_at_append)

lemmas same_on_reach = same_on_allocated [OF reach_allocated(1)]
lemmas kept = frame(1) [OF same_on_reach]

lemma has_type_append: "has_type t h v \<Longrightarrow> has_type t (h @ e) v"
  using kept by simp

lemma view_of_append: "has_type t h v \<Longrightarrow> view_of t (h @ e) v = view_of t h v"
  using kept by simp

lemma reach_append: "has_type t h v \<Longrightarrow> reach t (h @ e) v = reach t h v"
  using kept by simp

section \<open>The parts of the generated functions\<close>

type_synonym copier = "heap \<Rightarrow> gv \<Rightarrow> heap \<times> gv"

text \<open>\<open>*out = *in\<close>: the references are those of the original.\<close>

definition assign :: copier where "assign h v = (h, v)"

text \<open>\<open>*out = new(T); (*in).DeepCopyInto( *out)\<close>, and \<open>DeepCopy\<close> itself; nil stays nil.\<close>

definition copy_pointer :: "copier \<Rightarrow> copier" where
  "copy_pointer c h v =
     (case target h v of None \<Rightarrow> (h, v)
      | Some x \<Rightarrow> (case c h x of (h', y) \<Rightarrow> (h' @ [Target y], Ref (length h'))))"

text \<open>\<open>*out = make([]T, len( *in))\<close> and a loop; the loop is \<open>copy\<close> for elements without references.\<close>

fun copy_each :: "copier \<Rightarrow> heap \<Rightarrow> gv list \<Rightarrow> heap \<times> gv list" where
  "copy_each c h [] = (h, [])"
| "copy_each c h (x # xs) =
     (case c h x of (h1, y) \<Rightarrow> (case copy_each c h1 xs of (h2, ys) \<Rightarrow> (h2, y # ys)))"

definition copy_slice :: "copier \<Rightarrow> copier" where
  "copy_slice c h v =
     (case elements h v of None \<Rightarrow> (h, v)
      | Some xs \<Rightarrow> (case copy_each c h xs of (h', ys) \<Rightarrow> (h' @ [Elements ys], Ref (length h'))))"

text \<open>\<open>*out = make(map[string]string, len( *in))\<close> and a loop over the entries.\<close>

definition copy_map :: copier where
  "copy_map h v =
     (case entries_at h v of None \<Rightarrow> (h, v)
      | Some kvs \<Rightarrow> (h @ [Entries kvs], Ref (length h)))"

text \<open>
  The body of a \<open>DeepCopyInto\<close>: the struct is assigned, and then the named fields are overwritten one
  after the other with copies of the fields of the original. A field that is not named keeps the
  reference of the original.
\<close>

fun copy_fields :: "(string \<times> copier) list \<Rightarrow> heap \<Rightarrow> (string \<times> gv) list \<Rightarrow> (string \<times> gv) list \<Rightarrow>
    heap \<times> (string \<times> gv) list" where
  "copy_fields [] h original out = (h, out)"
| "copy_fields ((n, c) # cs) h original out =
     (case c h (field original n) of (h', y) \<Rightarrow> copy_fields cs h' original (AList.update n y out))"

definition copy_struct :: "(string \<times> copier) list \<Rightarrow> copier" where
  "copy_struct cs h v =
     (case copy_fields cs h (fields_of v) (fields_of v) of (h', fs) \<Rightarrow> (h', Fields fs))"

section \<open>The contract\<close>

definition extends :: "heap \<Rightarrow> heap \<Rightarrow> bool" where
  "extends h h' \<longleftrightarrow> take (length h) h' = h"

lemma extends_append [simp]: "extends h (h @ e)"
  by (simp add: extends_def)

lemma extendsE [elim?]:
  assumes "extends h h'"
  obtains e where "h' = h @ e"
  using assms append_take_drop_id [of "length h" h'] by (metis extends_def)

lemma extends_refl [simp]: "extends h h"
  by (simp add: extends_def)

lemma extends_trans: "extends h h' \<Longrightarrow> extends h' h'' \<Longrightarrow> extends h h''"
  by (auto elim!: extendsE)

lemma extends_typed: "extends h h' \<Longrightarrow> has_type t h v \<Longrightarrow> has_type t h' v"
  and extends_view: "extends h h' \<Longrightarrow> has_type t h v \<Longrightarrow> view_of t h' v = view_of t h v"
  and extends_reach: "extends h h' \<Longrightarrow> has_type t h v \<Longrightarrow> reach t h' v = reach t h v"
  and extends_length: "extends h h' \<Longrightarrow> length h \<le> length h'"
  by (auto elim!: extendsE simp: has_type_append view_of_append reach_append)

text \<open>
  A deep copy shows what the original shows and reaches only what was allocated for it; what was
  there before is not touched.
\<close>

definition fresh_copy :: "ty \<Rightarrow> heap \<Rightarrow> gv \<Rightarrow> heap \<Rightarrow> gv \<Rightarrow> bool" where
  "fresh_copy t h v h' v' \<longleftrightarrow>
     extends h h' \<and> has_type t h' v' \<and> view_of t h' v' = view_of t h v \<and>
     set (reach t h' v') \<subseteq> {length h..<length h'}"

locale deep_copier =
  fixes t :: ty and c :: copier
  assumes copies: "has_type t h v \<Longrightarrow> c h v = (h', v') \<Longrightarrow> fresh_copy t h v h' v'"
begin

lemma copied: "has_type t h v \<Longrightarrow> fresh_copy t h v (fst (c h v)) (snd (c h v))"
  by (rule copies) simp_all

lemma extended: "has_type t h v \<Longrightarrow> c h v = (h', v') \<Longrightarrow> extends h h'"
  using copies [of h v h' v'] by (simp add: fresh_copy_def)

text \<open>
  Whatever is written later to what the copy reaches, and whatever is allocated, the original shows
  what it showed; and whatever is written to what the original reaches, the copy does.
\<close>

lemma original_unaffected:
  assumes "has_type t h v" and "c h v = (h', v')"
    and "\<And>a. a < length h' \<Longrightarrow> a \<notin> set (reach t h' v') \<Longrightarrow> cell_at k a = cell_at h' a"
  shows "view_of t k v = view_of t h v"
proof -
  obtain e where e: "h' = h @ e" using extended [OF assms(1,2)] by (rule extendsE)
  have fresh: "set (reach t h' v') \<subseteq> {length h..<length h'}" using copies [OF assms(1,2)] by (simp add: fresh_copy_def)
  have "same_on (reach t h v) h k"
    unfolding same_on_def
  proof
    fix a
    assume "a \<in> set (reach t h v)"
    then have "a < length h" using reach_allocated(1) [OF assms(1)] by auto
    moreover from this fresh have "a \<notin> set (reach t h' v')" by auto
    ultimately show "cell_at k a = cell_at h a" using assms(3) [of a] by (simp add: e cell_at_append)
  qed
  then show ?thesis using frame(1) by simp
qed

lemma copy_unaffected:
  assumes "has_type t h v" and "c h v = (h', v')"
    and "\<And>a. a < length h' \<Longrightarrow> a \<notin> set (reach t h v) \<Longrightarrow> cell_at k a = cell_at h' a"
  shows "view_of t k v' = view_of t h v"
proof -
  have fresh: "set (reach t h' v') \<subseteq> {length h..<length h'}" "view_of t h' v' = view_of t h v"
    using copies [OF assms(1,2)] by (simp_all add: fresh_copy_def)
  have "same_on (reach t h' v') h' k"
    unfolding same_on_def
  proof
    fix a
    assume "a \<in> set (reach t h' v')"
    then have "a \<in> {length h..<length h'}" using fresh(1) by blast
    moreover from this have "a \<notin> set (reach t h v)" using reach_allocated(1) [OF assms(1)] by auto
    ultimately show "cell_at k a = cell_at h' a" by (intro assms(3)) simp_all
  qed
  then show ?thesis using frame(1) fresh(2) by simp
qed

end

section \<open>Rules\<close>

lemma fresh_later:
  assumes "fresh_copy t h v h1 v'" and "extends h1 h2"
  shows "fresh_copy t h v h2 v'"
  using assms extends_length [OF assms(2)]
  by (auto simp: fresh_copy_def extends_typed extends_view extends_reach intro: extends_trans)

lemma fresh_earlier:
  assumes "fresh_copy t h1 v h2 v'" and "extends h h1" and "has_type t h v"
  shows "fresh_copy t h v h2 v'"
  using assms extends_length [OF assms(2)]
  by (auto simp: fresh_copy_def extends_view intro: extends_trans)

text \<open>An assignment copies what has no references.\<close>

fun ref_free :: "ty \<Rightarrow> bool"
  and ref_free_fields :: "(string \<times> ty) list \<Rightarrow> bool" where
  "ref_free Plain = True"
| "ref_free (Struct ts) = ref_free_fields ts"
| "ref_free t = False"
| "ref_free_fields [] = True"
| "ref_free_fields ((n, t) # ts) = (ref_free t \<and> ref_free_fields ts)"

lemma ref_free_reaches:
  "ref_free t \<Longrightarrow> reach t h v = []"
  "ref_free_fields ts \<Longrightarrow> reaches ts h fs = []"
  by (induction t h v and ts h fs rule: reach_reaches.induct) auto

lemma ref_free_fresh: "ref_free t \<Longrightarrow> has_type t h v \<Longrightarrow> fresh_copy t h v h v"
  by (simp add: fresh_copy_def ref_free_reaches)

lemma deep_assign: "ref_free t \<Longrightarrow> deep_copier t assign"
  by unfold_locales (auto simp: assign_def ref_free_fresh)

lemma target_new: "target (h @ [Target x]) (Ref (length h)) = Some x"
  and elements_new: "elements (h @ [Elements xs]) (Ref (length h)) = Some xs"
  and entries_new: "entries_at (h @ [Entries kvs]) (Ref (length h)) = Some kvs"
  by (simp_all add: target_def elements_def entries_at_def cell_at_def)

lemma fresh_Nil: "t = Pointer u \<or> t = Slice u \<or> t = Dict \<Longrightarrow> fresh_copy t h Nil h Nil"
  by (auto simp: fresh_copy_def)

lemma deep_pointer:
  assumes "deep_copier t c"
  shows "deep_copier (Pointer t) (copy_pointer c)"
proof
  fix h v h' v'
  assume typed: "has_type (Pointer t) h v" and run: "copy_pointer c h v = (h', v')"
  show "fresh_copy (Pointer t) h v h' v'"
  proof (cases "target h v")
    case None
    with typed run show ?thesis by (auto simp: copy_pointer_def fresh_Nil)
  next
    case (Some x)
    obtain k y where c: "c h x = (k, y)" by force
    have "has_type t h x" using typed Some by auto
    then have fresh: "fresh_copy t h x (k @ [Target y]) y"
      by (rule fresh_later [OF deep_copier.copies [OF assms _ c]]) simp
    moreover have "h' = k @ [Target y]" "v' = Ref (length k)" using run Some c by (simp_all add: copy_pointer_def)
    moreover have "length h \<le> length k"
      using deep_copier.extended [OF assms \<open>has_type t h x\<close> c] by (rule extends_length)
    ultimately show ?thesis using Some by (auto simp: fresh_copy_def target_new)
  qed
qed

lemma copy_each_fresh:
  assumes "deep_copier t c"
  shows "list_all (has_type t h) xs \<Longrightarrow> copy_each c h xs = (h', ys) \<Longrightarrow>
    extends h h' \<and> list_all2 (\<lambda>x y. fresh_copy t h x h' y) xs ys"
proof (induction xs arbitrary: h ys)
  case (Cons x xs)
  obtain h1 y where c: "c h x = (h1, y)" by force
  obtain zs where rest: "copy_each c h1 xs = (h', zs)" and ys: "ys = y # zs"
    using Cons.prems(2) by (auto simp: c split: prod.splits)
  have typed: "has_type t h x" "list_all (has_type t h) xs" using Cons.prems(1) by simp_all
  have ext: "extends h h1" using deep_copier.extended [OF assms typed(1) c] .
  have "list_all (has_type t h1) xs" using typed(2) ext by (auto simp: list_all_iff intro: extends_typed)
  note IH = Cons.IH [OF this rest]
  have "fresh_copy t h x h' y" using deep_copier.copies [OF assms typed(1) c] IH by (blast intro: fresh_later)
  moreover have "list_all2 (\<lambda>x y. fresh_copy t h x h' y) xs zs"
    using IH typed(2) by (auto simp: list_all2_conv_all_nth list_all_length intro!: fresh_earlier [OF _ ext])
  ultimately show ?case using IH ext ys by (auto intro: extends_trans)
qed simp

lemma fresh_elements:
  assumes "list_all2 (\<lambda>x y. fresh_copy t h x h' y) xs ys"
  shows "list_all (has_type t h') ys" and "map (view_of t h') ys = map (view_of t h) xs"
    and "set (concat (map (reach t h') ys)) \<subseteq> {length h..<length h'}"
  using assms by (induction rule: list_all2_induct) (auto simp: fresh_copy_def)

lemma deep_slice:
  assumes "deep_copier t c"
  shows "deep_copier (Slice t) (copy_slice c)"
proof
  fix h v h' v'
  assume typed: "has_type (Slice t) h v" and run: "copy_slice c h v = (h', v')"
  show "fresh_copy (Slice t) h v h' v'"
  proof (cases "elements h v")
    case None
    with typed run show ?thesis by (auto simp: copy_slice_def fresh_Nil)
  next
    case (Some xs)
    obtain k ys where c: "copy_each c h xs = (k, ys)" by force
    have "list_all (has_type t h) xs" using typed Some by auto
    note each = copy_each_fresh [OF assms this c]
    have h': "h' = k @ [Elements ys]" "v' = Ref (length k)" using run Some c by (simp_all add: copy_slice_def)
    have "list_all2 (\<lambda>x y. fresh_copy t h x h' y) xs ys"
      by (rule list_all2_mono [OF conjunct2 [OF each]]) (auto simp: h' intro: fresh_later)
    note fresh = fresh_elements [OF this]
    have "length h \<le> length k" using each by (simp add: extends_length)
    moreover have "extends h h'" using each by (auto simp: h' intro: extends_trans)
    ultimately show ?thesis
      using Some fresh by (auto simp: fresh_copy_def h' elements_new)
  qed
qed

lemma deep_map: "deep_copier Dict copy_map"
proof
  fix h v h' v'
  assume "has_type Dict h v" and "copy_map h v = (h', v')"
  then show "fresh_copy Dict h v h' v'"
    by (cases "entries_at h v") (auto simp: copy_map_def fresh_copy_def entries_new)
qed

text \<open>A struct: every field that has references has a copier of its own.\<close>

fun covered :: "(string \<times> ty) list \<Rightarrow> (string \<times> copier) list \<Rightarrow> bool" where
  "covered [] cs = True"
| "covered ((n, t) # ts) cs =
     ((case map_of cs n of Some c \<Rightarrow> deep_copier t c | None \<Rightarrow> ref_free t) \<and> covered ts cs)"

lemma field_update: "field (AList.update n y fs) m = (if m = n then y else field fs m)"
  by (simp add: field_def update_conv')

lemma have_types_iff: "have_types ts h fs \<longleftrightarrow> (\<forall>(n, t)\<in>set ts. n \<in> fst ` set fs \<and> has_type t h (field fs n))"
  by (induction ts) (auto simp: rev_image_eqI)

lemma views_of_map: "views_of ts h fs = map (\<lambda>(n, t). (n, view_of t h (field fs n))) ts"
  by (induction ts) auto

lemma reaches_concat: "reaches ts h fs = concat (map (\<lambda>(n, t). reach t h (field fs n)) ts)"
  by (induction ts) auto

lemma covered_iff:
  "covered ts cs \<longleftrightarrow> (\<forall>(n, t)\<in>set ts. case map_of cs n of Some c \<Rightarrow> deep_copier t c | None \<Rightarrow> ref_free t)"
  by (induction ts) auto

text \<open>
  What every copier of a field establishes, and what later allocations keep, holds of all fields in
  the end.
\<close>

lemma copy_fields_rule:
  assumes "distinct (map fst cs)"
    and "\<And>n c k k' y. (n, c) \<in> set cs \<Longrightarrow> extends h k \<Longrightarrow> c k (field fs n) = (k', y) \<Longrightarrow> extends k k' \<and> Q n k' y"
    and stable: "\<And>n k k' y. Q n k y \<Longrightarrow> extends k k' \<Longrightarrow> Q n k' y"
    and "copy_fields cs h fs out = (h', out')"
  shows "extends h h' \<and> (\<forall>n\<in>fst ` set cs. Q n h' (field out' n)) \<and>
    (\<forall>n. n \<notin> fst ` set cs \<longrightarrow> field out' n = field out n) \<and> fst ` set out \<subseteq> fst ` set out'"
  using assms(1,2,4)
proof (induction cs arbitrary: h out)
  case (Cons p cs)
  obtain n c where p: "p = (n, c)" by force
  obtain k y where c: "c h (field fs n) = (k, y)" by force
  have new: "extends h k" "Q n k y" using Cons.prems(2) [of n c h k y] c by (simp_all add: p)
  have rest: "copy_fields cs k fs (AList.update n y out) = (h', out')" using Cons.prems(3) by (simp add: p c)
  have "extends k' k'' \<and> Q m k'' z" if "(m, d) \<in> set cs" "extends k k'" "d k' (field fs m) = (k'', z)" for m d k' k'' z
    using Cons.prems(2) [of m d k' k'' z] that new(1) by (auto intro: extends_trans)
  from Cons.IH [OF _ this rest] Cons.prems(1)
  have IH: "extends k h'" "\<forall>m\<in>fst ` set cs. Q m h' (field out' m)"
    "\<And>m. m \<notin> fst ` set cs \<Longrightarrow> field out' m = field (AList.update n y out) m"
    "fst ` set (AList.update n y out) \<subseteq> fst ` set out'"
    by auto
  have "Q n h' (field out' n)" using IH(1,3) Cons.prems(1) new(2) by (auto simp: p field_update intro: stable)
  then show ?case using IH Cons.prems(1) new(1) by (auto simp: p field_update dom_update intro: extends_trans)
qed simp

lemma copy_fields_fresh:
  assumes "distinct (map fst cs)"
    and "\<And>n c. (n, c) \<in> set cs \<Longrightarrow> deep_copier (ty_of n) c \<and> has_type (ty_of n) h (field fs n)"
    and "copy_fields cs h fs out = (h', out')"
  shows "extends h h' \<and> (\<forall>n\<in>fst ` set cs. fresh_copy (ty_of n) h (field fs n) h' (field out' n)) \<and>
    (\<forall>n. n \<notin> fst ` set cs \<longrightarrow> field out' n = field out n) \<and> fst ` set out \<subseteq> fst ` set out'"
proof (rule copy_fields_rule [OF assms(1) _ _ assms(3)])
  fix n c k k' y
  assume c: "(n, c) \<in> set cs" and ext: "extends h k" and run: "c k (field fs n) = (k', y)"
  note deep = assms(2) [OF c]
  have "fresh_copy (ty_of n) k (field fs n) k' y"
    by (rule deep_copier.copies [OF conjunct1 [OF deep] _ run]) (use deep ext in \<open>blast intro: extends_typed\<close>)
  then show "extends k k' \<and> fresh_copy (ty_of n) h (field fs n) k' y"
    using fresh_earlier [of "ty_of n" k "field fs n" k' y h] deep ext by (simp add: fresh_copy_def [of _ k])
qed (rule fresh_later)

lemma deep_struct:
  assumes "distinct (map fst cs)" and "distinct (map fst ts)" and "fst ` set cs \<subseteq> fst ` set ts" and "covered ts cs"
  shows "deep_copier (Struct ts) (copy_struct cs)"
proof
  fix h v h' v'
  assume typed: "has_type (Struct ts) h v" and run: "copy_struct cs h v = (h', v')"
  let ?fs = "fields_of v" and ?ty = "\<lambda>n. the (map_of ts n)"
  obtain fs' where fields: "copy_fields cs h ?fs ?fs = (h', fs')" and v': "v' = Fields fs'"
    using run by (auto simp: copy_struct_def split: prod.splits)
  have types: "\<And>n t. (n, t) \<in> set ts \<Longrightarrow> n \<in> fst ` set ?fs \<and> has_type t h (field ?fs n)"
    using typed by (auto simp: have_types_iff)
  have lookup: "\<And>n t. (n, t) \<in> set ts \<Longrightarrow> ?ty n = t" using assms(2) by (simp add: map_of_is_SomeI)
  have "deep_copier (?ty n) c \<and> has_type (?ty n) h (field ?fs n)" if "(n, c) \<in> set cs" for n c
  proof -
    from that assms(3) obtain t where t: "(n, t) \<in> set ts" by force
    moreover have "map_of cs n = Some c" using that assms(1) by simp
    ultimately show ?thesis using assms(4) types [OF t] lookup [OF t] by (auto simp: covered_iff)
  qed
  note copied = copy_fields_fresh [OF assms(1) this fields]
  have fresh: "fresh_copy t h (field ?fs n) h' (field fs' n)" if t: "(n, t) \<in> set ts" for n t
  proof (cases "n \<in> fst ` set cs")
    case True
    then show ?thesis using copied lookup [OF t] by auto
  next
    case False
    then have "ref_free t" using assms(4) t by (auto simp: covered_iff map_of_eq_None_iff [symmetric])
    then have "fresh_copy t h (field ?fs n) h (field fs' n)" using copied False types [OF t] by (simp add: ref_free_fresh)
    then show ?thesis using copied by (blast intro: fresh_later)
  qed
  have "extends h h'" and "fst ` set ?fs \<subseteq> fst ` set fs'" using copied by blast+
  then show "fresh_copy (Struct ts) h v h' v'"
    using fresh types
    by (fastforce simp: fresh_copy_def v' have_types_iff views_of_map reaches_concat)
qed

lemmas deep_rules = deep_assign deep_pointer deep_slice deep_map deep_struct

end
