(* ===== verification/DeepCopy.thy ===== *)
theory DeepCopy
  imports GoHeap
begin

text \<open>
  The generated functions \<open>DeepCopyInto\<close> and \<open>DeepCopy\<close> of the API types (src/pkg/apis/fleet/v1alpha1 and
  v1alpha2, zz_generated.deepcopy.go) and of the configurations of the plugins, with the Go types as
  types of GoHeap. The list of fields of a copier is the sequence of statements of the function, the
  list of fields of a type that of the struct.
\<close>

section \<open>API machinery\<close>

text \<open>
  An instant and its location are never written to: \<open>Time\<close> has a function of its own, which
  assigns.
\<close>

definition time_deep_copy_into :: copier where
  "time_deep_copy_into = assign"

definition time_deep_copy :: copier where
  "time_deep_copy = copy_pointer time_deep_copy_into"

definition type_meta_ty :: ty where
  "type_meta_ty = Struct [(''Kind'', Plain), (''APIVersion'', Plain)]"

definition local_object_reference_ty :: ty where
  "local_object_reference_ty = Struct [(''Name'', Plain)]"

definition duration_ty :: ty where
  "duration_ty = Struct [(''Duration'', Plain)]"

definition int_or_string_ty :: ty where
  "int_or_string_ty = Struct [(''Type'', Plain), (''IntVal'', Plain), (''StrVal'', Plain)]"

text \<open>\<open>DeepCopyObject\<close>: a nil pointer becomes a nil interface.\<close>

definition as_object :: "copier \<Rightarrow> heap \<Rightarrow> gv \<Rightarrow> heap \<times> gv option" where
  "as_object c h v = (case c h v of (h', v') \<Rightarrow> (h', if v' = Nil then None else Some v'))"

lemmas plain_copy_defs =
  time_deep_copy_into_def time_deep_copy_def type_meta_ty_def local_object_reference_ty_def duration_ty_def
  int_or_string_ty_def

definition fields_v1_ty :: ty where
  "fields_v1_ty = Struct
     [(''Raw'', Slice Plain)]"

definition fields_v1_deep_copy_into :: copier where
  "fields_v1_deep_copy_into = copy_struct
     [(''Raw'', copy_slice assign)]"

definition fields_v1_deep_copy :: copier where
  "fields_v1_deep_copy = copy_pointer fields_v1_deep_copy_into"

definition list_meta_ty :: ty where
  "list_meta_ty = Struct
     [(''SelfLink'', Plain), (''ResourceVersion'', Plain), (''Continue'', Plain),
      (''RemainingItemCount'', Pointer Plain)]"

definition list_meta_deep_copy_into :: copier where
  "list_meta_deep_copy_into = copy_struct
     [(''RemainingItemCount'', copy_pointer assign)]"

definition list_meta_deep_copy :: copier where
  "list_meta_deep_copy = copy_pointer list_meta_deep_copy_into"

definition managed_fields_entry_ty :: ty where
  "managed_fields_entry_ty = Struct
     [(''Manager'', Plain), (''Operation'', Plain), (''APIVersion'', Plain), (''Time'', Pointer Plain),
      (''FieldsType'', Plain), (''FieldsV1'', Pointer fields_v1_ty), (''Subresource'', Plain)]"

definition managed_fields_entry_deep_copy_into :: copier where
  "managed_fields_entry_deep_copy_into = copy_struct
     [(''Time'', time_deep_copy), (''FieldsV1'', copy_pointer fields_v1_deep_copy_into)]"

definition managed_fields_entry_deep_copy :: copier where
  "managed_fields_entry_deep_copy = copy_pointer managed_fields_entry_deep_copy_into"

definition owner_reference_ty :: ty where
  "owner_reference_ty = Struct
     [(''APIVersion'', Plain), (''Kind'', Plain), (''Name'', Plain), (''UID'', Plain),
      (''Controller'', Pointer Plain), (''BlockOwnerDeletion'', Pointer Plain)]"

definition owner_reference_deep_copy_into :: copier where
  "owner_reference_deep_copy_into = copy_struct
     [(''Controller'', copy_pointer assign), (''BlockOwnerDeletion'', copy_pointer assign)]"

definition owner_reference_deep_copy :: copier where
  "owner_reference_deep_copy = copy_pointer owner_reference_deep_copy_into"

definition object_meta_ty :: ty where
  "object_meta_ty = Struct
     [(''Name'', Plain), (''GenerateName'', Plain), (''Namespace'', Plain), (''SelfLink'', Plain),
      (''UID'', Plain), (''ResourceVersion'', Plain), (''Generation'', Plain),
      (''CreationTimestamp'', Plain), (''DeletionTimestamp'', Pointer Plain),
      (''DeletionGracePeriodSeconds'', Pointer Plain), (''Labels'', Dict), (''Annotations'', Dict),
      (''OwnerReferences'', Slice owner_reference_ty), (''Finalizers'', Slice Plain),
      (''ManagedFields'', Slice managed_fields_entry_ty)]"

definition object_meta_deep_copy_into :: copier where
  "object_meta_deep_copy_into = copy_struct
     [(''CreationTimestamp'', time_deep_copy_into), (''DeletionTimestamp'', time_deep_copy),
      (''DeletionGracePeriodSeconds'', copy_pointer assign), (''Labels'', copy_map),
      (''Annotations'', copy_map), (''OwnerReferences'', copy_slice owner_reference_deep_copy_into),
      (''Finalizers'', copy_slice assign),
      (''ManagedFields'', copy_slice managed_fields_entry_deep_copy_into)]"

definition object_meta_deep_copy :: copier where
  "object_meta_deep_copy = copy_pointer object_meta_deep_copy_into"

lemmas meta_copy_defs =
  fields_v1_ty_def fields_v1_deep_copy_into_def
  list_meta_ty_def list_meta_deep_copy_into_def
  managed_fields_entry_ty_def managed_fields_entry_deep_copy_into_def
  owner_reference_ty_def owner_reference_deep_copy_into_def
  object_meta_ty_def object_meta_deep_copy_into_def

lemma meta_copiers:
  "deep_copier fields_v1_ty fields_v1_deep_copy_into"
  "deep_copier list_meta_ty list_meta_deep_copy_into"
  "deep_copier managed_fields_entry_ty managed_fields_entry_deep_copy_into"
  "deep_copier owner_reference_ty owner_reference_deep_copy_into"
  "deep_copier object_meta_ty object_meta_deep_copy_into"
  by (simp_all add: meta_copy_defs plain_copy_defs deep_rules)

section \<open>Releases\<close>

definition deployer_status_ty :: ty where
  "deployer_status_ty = Struct
     [(''Cluster'', Plain), (''Namespace'', Plain), (''DeploymentName'', Plain),
      (''SecretName'', Plain), (''Phase'', Plain)]"

definition deployer_status_deep_copy_into :: copier where
  "deployer_status_deep_copy_into = assign"

definition deployer_status_deep_copy :: copier where
  "deployer_status_deep_copy = copy_pointer deployer_status_deep_copy_into"

definition release_deployer_ty :: ty where
  "release_deployer_ty = Struct
     [(''DryRun'', Plain), (''Reconcile'', Plain), (''Name'', Plain), (''Configuration'', Plain),
      (''Parameters'', Dict), (''Timeout'', Pointer duration_ty)]"

definition release_deployer_deep_copy_into :: copier where
  "release_deployer_deep_copy_into = copy_struct
     [(''Parameters'', copy_map), (''Timeout'', copy_pointer assign)]"

definition release_deployer_deep_copy :: copier where
  "release_deployer_deep_copy = copy_pointer release_deployer_deep_copy_into"

definition release_spec_ty :: ty where
  "release_spec_ty = Struct
     [(''Repository'', Plain), (''Branch'', Plain), (''Revision'', Plain), (''Includes'', Slice Plain),
      (''Excludes'', Slice Plain), (''SecretRef'', Pointer local_object_reference_ty),
      (''ServiceAccountName'', Plain), (''Deployer'', release_deployer_ty), (''Disabled'', Plain),
      (''RevisionHistoryLimit'', Pointer Plain)]"

definition release_spec_deep_copy_into :: copier where
  "release_spec_deep_copy_into = copy_struct
     [(''Includes'', copy_slice assign), (''Excludes'', copy_slice assign),
      (''SecretRef'', copy_pointer assign), (''Deployer'', release_deployer_deep_copy_into),
      (''RevisionHistoryLimit'', copy_pointer assign)]"

definition release_spec_deep_copy :: copier where
  "release_spec_deep_copy = copy_pointer release_spec_deep_copy_into"

definition release_condition_ty :: ty where
  "release_condition_ty = Struct
     [(''Type'', Plain), (''Status'', Plain), (''LastTransitionTime'', Plain), (''Reason'', Plain),
      (''Message'', Plain)]"

definition release_condition_deep_copy_into :: copier where
  "release_condition_deep_copy_into = copy_struct
     [(''LastTransitionTime'', time_deep_copy_into)]"

definition release_condition_deep_copy :: copier where
  "release_condition_deep_copy = copy_pointer release_condition_deep_copy_into"

definition release_status_ty :: ty where
  "release_status_ty = Struct
     [(''ObservedGeneration'', Plain), (''Phase'', Plain), (''Commit'', Plain),
      (''ParametersHash'', Plain), (''Version'', Plain),
      (''DeployerStatus'', Pointer deployer_status_ty), (''Conditions'', Slice release_condition_ty)]"

definition release_status_deep_copy_into :: copier where
  "release_status_deep_copy_into = copy_struct
     [(''DeployerStatus'', copy_pointer assign),
      (''Conditions'', copy_slice release_condition_deep_copy_into)]"

definition release_status_deep_copy :: copier where
  "release_status_deep_copy = copy_pointer release_status_deep_copy_into"

definition release_ty :: ty where
  "release_ty = Struct
     [(''TypeMeta'', type_meta_ty), (''ObjectMeta'', object_meta_ty), (''Spec'', release_spec_ty),
      (''Status'', release_status_ty)]"

definition release_deep_copy_into :: copier where
  "release_deep_copy_into = copy_struct
     [(''TypeMeta'', assign), (''ObjectMeta'', object_meta_deep_copy_into),
      (''Spec'', release_spec_deep_copy_into), (''Status'', release_status_deep_copy_into)]"

definition release_deep_copy :: copier where
  "release_deep_copy = copy_pointer release_deep_copy_into"

definition release_deep_copy_object :: "heap \<Rightarrow> gv \<Rightarrow> heap \<times> gv option" where
  "release_deep_copy_object = as_object release_deep_copy"

definition release_list_ty :: ty where
  "release_list_ty = Struct
     [(''TypeMeta'', type_meta_ty), (''ListMeta'', list_meta_ty), (''Items'', Slice release_ty)]"

definition release_list_deep_copy_into :: copier where
  "release_list_deep_copy_into = copy_struct
     [(''TypeMeta'', assign), (''ListMeta'', list_meta_deep_copy_into),
      (''Items'', copy_slice release_deep_copy_into)]"

definition release_list_deep_copy :: copier where
  "release_list_deep_copy = copy_pointer release_list_deep_copy_into"

definition release_list_deep_copy_object :: "heap \<Rightarrow> gv \<Rightarrow> heap \<times> gv option" where
  "release_list_deep_copy_object = as_object release_list_deep_copy"

lemmas release_copy_defs =
  deployer_status_ty_def deployer_status_deep_copy_into_def
  release_deployer_ty_def release_deployer_deep_copy_into_def
  release_spec_ty_def release_spec_deep_copy_into_def
  release_condition_ty_def release_condition_deep_copy_into_def
  release_status_ty_def release_status_deep_copy_into_def
  release_ty_def release_deep_copy_into_def
  release_list_ty_def release_list_deep_copy_into_def

lemma release_copiers:
  "deep_copier deployer_status_ty deployer_status_deep_copy_into"
  "deep_copier release_deployer_ty release_deployer_deep_copy_into"
  "deep_copier release_spec_ty release_spec_deep_copy_into"
  "deep_copier release_condition_ty release_condition_deep_copy_into"
  "deep_copier release_status_ty release_status_deep_copy_into"
  "deep_copier release_ty release_deep_copy_into"
  "deep_copier release_list_ty release_list_deep_copy_into"
  by (simp_all add: release_copy_defs plain_copy_defs deep_rules meta_copiers)

section \<open>Calendars and events\<close>

definition param_ty :: ty where
  "param_ty = Struct
     [(''Name'', Plain), (''Value'', Plain)]"

definition param_deep_copy_into :: copier where
  "param_deep_copy_into = assign"

definition param_deep_copy :: copier where
  "param_deep_copy = copy_pointer param_deep_copy_into"

definition template_ref_ty :: ty where
  "template_ref_ty = Struct
     [(''Name'', Plain), (''Namespace'', Plain), (''Kind'', Plain)]"

definition template_ref_deep_copy_into :: copier where
  "template_ref_deep_copy_into = assign"

definition template_ref_deep_copy :: copier where
  "template_ref_deep_copy = copy_pointer template_ref_deep_copy_into"

definition release_calendar_pipeline_ty :: ty where
  "release_calendar_pipeline_ty = Struct
     [(''Name'', Plain), (''TimeOffset'', Plain), (''RunPolicy'', Plain), (''AfterPolicy'', Plain),
      (''Rollback'', Plain), (''RollbackPolicy'', Plain)]"

definition release_calendar_pipeline_deep_copy_into :: copier where
  "release_calendar_pipeline_deep_copy_into = assign"

definition release_calendar_pipeline_deep_copy :: copier where
  "release_calendar_pipeline_deep_copy = copy_pointer release_calendar_pipeline_deep_copy_into"

definition release_calendar_day_ty :: ty where
  "release_calendar_day_ty = Struct
     [(''From'', Plain), (''To'', Plain)]"

definition release_calendar_day_deep_copy_into :: copier where
  "release_calendar_day_deep_copy_into = assign"

definition release_calendar_day_deep_copy :: copier where
  "release_calendar_day_deep_copy = copy_pointer release_calendar_day_deep_copy_into"

definition release_calendar_hour_ty :: ty where
  "release_calendar_hour_ty = Struct
     [(''From'', Plain), (''To'', Plain), (''Params'', Slice param_ty)]"

definition release_calendar_hour_deep_copy_into :: copier where
  "release_calendar_hour_deep_copy_into = copy_struct
     [(''Params'', copy_slice assign)]"

definition release_calendar_hour_deep_copy :: copier where
  "release_calendar_hour_deep_copy = copy_pointer release_calendar_hour_deep_copy_into"

definition release_calendar_spec_ty :: ty where
  "release_calendar_spec_ty = Struct
     [(''Paused'', Plain), (''TemplateRef'', template_ref_ty), (''Params'', Slice param_ty),
      (''Pipelines'', Slice release_calendar_pipeline_ty), (''SkipDays'', Slice Plain),
      (''Weekdays'', Slice release_calendar_day_ty), (''Hours'', Slice release_calendar_hour_ty),
      (''TimeZone'', int_or_string_ty), (''GroupPolicy'', Plain), (''ConcurrentPolicy'', Plain)]"

definition release_calendar_spec_deep_copy_into :: copier where
  "release_calendar_spec_deep_copy_into = copy_struct
     [(''TemplateRef'', assign), (''Params'', copy_slice assign), (''Pipelines'', copy_slice assign),
      (''SkipDays'', copy_slice assign), (''Weekdays'', copy_slice assign),
      (''Hours'', copy_slice release_calendar_hour_deep_copy_into), (''TimeZone'', assign)]"

definition release_calendar_spec_deep_copy :: copier where
  "release_calendar_spec_deep_copy = copy_pointer release_calendar_spec_deep_copy_into"

definition release_calendar_ty :: ty where
  "release_calendar_ty = Struct
     [(''TypeMeta'', type_meta_ty), (''ObjectMeta'', object_meta_ty),
      (''Spec'', release_calendar_spec_ty)]"

definition release_calendar_deep_copy_into :: copier where
  "release_calendar_deep_copy_into = copy_struct
     [(''TypeMeta'', assign), (''ObjectMeta'', object_meta_deep_copy_into),
      (''Spec'', release_calendar_spec_deep_copy_into)]"

definition release_calendar_deep_copy :: copier where
  "release_calendar_deep_copy = copy_pointer release_calendar_deep_copy_into"

definition release_calendar_deep_copy_object :: "heap \<Rightarrow> gv \<Rightarrow> heap \<times> gv option" where
  "release_calendar_deep_copy_object = as_object release_calendar_deep_copy"

definition release_calendar_list_ty :: ty where
  "release_calendar_list_ty = Struct
     [(''TypeMeta'', type_meta_ty), (''ListMeta'', list_meta_ty),
      (''Items'', Slice release_calendar_ty)]"

definition release_calendar_list_deep_copy_into :: copier where
  "release_calendar_list_deep_copy_into = copy_struct
     [(''TypeMeta'', assign), (''ListMeta'', list_meta_deep_copy_into),
      (''Items'', copy_slice release_calendar_deep_copy_into)]"

definition release_calendar_list_deep_copy :: copier where
  "release_calendar_list_deep_copy = copy_pointer release_calendar_list_deep_copy_into"

definition release_calendar_list_deep_copy_object :: "heap \<Rightarrow> gv \<Rightarrow> heap \<times> gv option" where
  "release_calendar_list_deep_copy_object = as_object release_calendar_list_deep_copy"

definition release_event_run_after_ty :: ty where
  "release_event_run_after_ty = Struct
     [(''Name'', Plain), (''Pipeline'', Plain), (''TimeOffset'', Plain)]"

definition release_event_run_after_deep_copy_into :: copier where
  "release_event_run_after_deep_copy_into = assign"

definition release_event_run_after_deep_copy :: copier where
  "release_event_run_after_deep_copy = copy_pointer release_event_run_after_deep_copy_into"

definition release_event_spec_ty :: ty where
  "release_event_spec_ty = Struct
     [(''Calendar'', Plain), (''Paused'', Plain), (''Time'', Pointer Plain),
      (''Params'', Slice param_ty), (''Note'', Plain), (''Group'', Plain),
      (''RunAfter'', Slice release_event_run_after_ty)]"

definition release_event_spec_deep_copy_into :: copier where
  "release_event_spec_deep_copy_into = copy_struct
     [(''Time'', time_deep_copy), (''Params'', copy_slice assign), (''RunAfter'', copy_slice assign)]"

definition release_event_spec_deep_copy :: copier where
  "release_event_spec_deep_copy = copy_pointer release_event_spec_deep_copy_into"

definition release_event_pipeline_run_ty :: ty where
  "release_event_pipeline_run_ty = Struct
     [(''Name'', Plain), (''Cluster'', Plain), (''Pipeline'', Plain), (''StartTime'', Pointer Plain),
      (''CompletionTime'', Pointer Plain), (''Status'', Plain), (''Results'', Dict)]"

definition release_event_pipeline_run_deep_copy_into :: copier where
  "release_event_pipeline_run_deep_copy_into = copy_struct
     [(''StartTime'', time_deep_copy), (''CompletionTime'', time_deep_copy), (''Results'', copy_map)]"

definition release_event_pipeline_run_deep_copy :: copier where
  "release_event_pipeline_run_deep_copy = copy_pointer release_event_pipeline_run_deep_copy_into"

definition release_event_status_ty :: ty where
  "release_event_status_ty = Struct
     [(''Phase'', Plain), (''Time'', Pointer Plain), (''Leader'', Plain),
      (''PipelineRuns'', Slice release_event_pipeline_run_ty)]"

definition release_event_status_deep_copy_into :: copier where
  "release_event_status_deep_copy_into = copy_struct
     [(''Time'', time_deep_copy),
      (''PipelineRuns'', copy_slice release_event_pipeline_run_deep_copy_into)]"

definition release_event_status_deep_copy :: copier where
  "release_event_status_deep_copy = copy_pointer release_event_status_deep_copy_into"

definition release_event_ty :: ty where
  "release_event_ty = Struct
     [(''TypeMeta'', type_meta_ty), (''ObjectMeta'', object_meta_ty), (''Spec'', release_event_spec_ty),
      (''Status'', release_event_status_ty)]"

definition release_event_deep_copy_into :: copier where
  "release_event_deep_copy_into = copy_struct
     [(''TypeMeta'', assign), (''ObjectMeta'', object_meta_deep_copy_into),
      (''Spec'', release_event_spec_deep_copy_into), (''Status'', release_event_status_deep_copy_into)]"

definition release_event_deep_copy :: copier where
  "release_event_deep_copy = copy_pointer release_event_deep_copy_into"

definition release_event_deep_copy_object :: "heap \<Rightarrow> gv \<Rightarrow> heap \<times> gv option" where
  "release_event_deep_copy_object = as_object release_event_deep_copy"

definition release_event_list_ty :: ty where
  "release_event_list_ty = Struct
     [(''TypeMeta'', type_meta_ty), (''ListMeta'', list_meta_ty), (''Items'', Slice release_event_ty)]"

definition release_event_list_deep_copy_into :: copier where
  "release_event_list_deep_copy_into = copy_struct
     [(''TypeMeta'', assign), (''ListMeta'', list_meta_deep_copy_into),
      (''Items'', copy_slice release_event_deep_copy_into)]"

definition release_event_list_deep_copy :: copier where
  "release_event_list_deep_copy = copy_pointer release_event_list_deep_copy_into"

definition release_event_list_deep_copy_object :: "heap \<Rightarrow> gv \<Rightarrow> heap \<times> gv option" where
  "release_event_list_deep_copy_object = as_object release_event_list_deep_copy"

lemmas calendar_copy_defs =
  param_ty_def param_deep_copy_into_def
  template_ref_ty_def template_ref_deep_copy_into_def
  release_calendar_pipeline_ty_def release_calendar_pipeline_deep_copy_into_def
  release_calendar_day_ty_def release_calendar_day_deep_copy_into_def
  release_calendar_hour_ty_def release_calendar_hour_deep_copy_into_def
  release_calendar_spec_ty_def release_calendar_spec_deep_copy_into_def
  release_calendar_ty_def release_calendar_deep_copy_into_def
  release_calendar_list_ty_def release_calendar_list_deep_copy_into_def
  release_event_run_after_ty_def release_event_run_after_deep_copy_into_def
  release_event_spec_ty_def release_event_spec_deep_copy_into_def
  release_event_pipeline_run_ty_def release_event_pipeline_run_deep_copy_into_def
  release_event_status_ty_def release_event_status_deep_copy_into_def
  release_event_ty_def release_event_deep_copy_into_def
  release_event_list_ty_def release_event_list_deep_copy_into_def

lemma calendar_copiers:
  "deep_copier param_ty param_deep_copy_into"
  "deep_copier template_ref_ty template_ref_deep_copy_into"
  "deep_copier release_calendar_pipeline_ty release_calendar_pipeline_deep_copy_into"
  "deep_copier release_calendar_day_ty release_calendar_day_deep_copy_into"
  "deep_copier release_calendar_hour_ty release_calendar_hour_deep_copy_into"
  "deep_copier release_calendar_spec_ty release_calendar_spec_deep_copy_into"
  "deep_copier release_calendar_ty release_calendar_deep_copy_into"
  "deep_copier release_calendar_list_ty release_calendar_list_deep_copy_into"
  "deep_copier release_event_run_after_ty release_event_run_after_deep_copy_into"
  "deep_copier release_event_spec_ty release_event_spec_deep_copy_into"
  "deep_copier release_event_pipeline_run_ty release_event_pipeline_run_deep_copy_into"
  "deep_copier release_event_status_ty release_event_status_deep_copy_into"
  "deep_copier release_event_ty release_event_deep_copy_into"
  "deep_copier release_event_list_ty release_event_list_deep_copy_into"
  by (simp_all add: calendar_copy_defs plain_copy_defs deep_rules meta_copiers)

section \<open>Configuration of the kubectl plugin\<close>

definition path_options_ty :: ty where
  "path_options_ty = Struct
     [(''Paths'', Slice Plain)]"

definition path_options_deep_copy_into :: copier where
  "path_options_deep_copy_into = copy_struct
     [(''Paths'', copy_slice assign)]"

definition path_options_deep_copy :: copier where
  "path_options_deep_copy = copy_pointer path_options_deep_copy_into"

definition object_reference_ty :: ty where
  "object_reference_ty = Struct
     [(''Namespace'', Plain), (''Name'', Plain)]"

definition object_reference_deep_copy_into :: copier where
  "object_reference_deep_copy_into = assign"

definition object_reference_deep_copy :: copier where
  "object_reference_deep_copy = copy_pointer object_reference_deep_copy_into"

definition template_options_ty :: ty where
  "template_options_ty = Struct
     [(''Values'', Slice Plain), (''ConfigMapRefs'', Slice object_reference_ty),
      (''SecretRefs'', Slice object_reference_ty), (''ValueType'', Plain)]"

definition template_options_deep_copy_into :: copier where
  "template_options_deep_copy_into = copy_struct
     [(''Values'', copy_slice assign), (''ConfigMapRefs'', copy_slice assign),
      (''SecretRefs'', copy_slice assign)]"

definition template_options_deep_copy :: copier where
  "template_options_deep_copy = copy_pointer template_options_deep_copy_into"

definition ytt_options_ty :: ty where
  "ytt_options_ty = Struct
     [(''Overlay'', Plain), (''Values'', Slice Plain), (''ConfigMapRefs'', Slice object_reference_ty),
      (''SecretRefs'', Slice object_reference_ty), (''ValueType'', Plain)]"

definition ytt_options_deep_copy_into :: copier where
  "ytt_options_deep_copy_into = copy_struct
     [(''Values'', copy_slice assign), (''ConfigMapRefs'', copy_slice assign),
      (''SecretRefs'', copy_slice assign)]"

definition ytt_options_deep_copy :: copier where
  "ytt_options_deep_copy = copy_pointer ytt_options_deep_copy_into"

definition prune_options_ty :: ty where
  "prune_options_ty = Struct
     [(''Labels'', Dict), (''SkipList'', Slice Plain)]"

definition prune_options_deep_copy_into :: copier where
  "prune_options_deep_copy_into = copy_struct
     [(''Labels'', copy_map), (''SkipList'', copy_slice assign)]"

definition prune_options_deep_copy :: copier where
  "prune_options_deep_copy = copy_pointer prune_options_deep_copy_into"

definition kubectl_configuration_ty :: ty where
  "kubectl_configuration_ty = Struct
     [(''TypeMeta'', type_meta_ty), (''Command'', Plain), (''PathOptions'', path_options_ty),
      (''Template'', Pointer template_options_ty), (''YTT'', Pointer ytt_options_ty),
      (''Prune'', Pointer prune_options_ty), (''ExperimentalEnableClusterSize'', Plain),
      (''FollowSymlink'', Plain)]"

definition kubectl_configuration_deep_copy_into :: copier where
  "kubectl_configuration_deep_copy_into = copy_struct
     [(''TypeMeta'', assign), (''PathOptions'', path_options_deep_copy_into),
      (''Template'', copy_pointer template_options_deep_copy_into),
      (''YTT'', copy_pointer ytt_options_deep_copy_into),
      (''Prune'', copy_pointer prune_options_deep_copy_into)]"

definition kubectl_configuration_deep_copy :: copier where
  "kubectl_configuration_deep_copy = copy_pointer kubectl_configuration_deep_copy_into"

definition kubectl_configuration_deep_copy_object :: "heap \<Rightarrow> gv \<Rightarrow> heap \<times> gv option" where
  "kubectl_configuration_deep_copy_object = as_object kubectl_configuration_deep_copy"

lemmas kubectl_configuration_copy_defs =
  path_options_ty_def path_options_deep_copy_into_def
  object_reference_ty_def object_reference_deep_copy_into_def
  template_options_ty_def template_options_deep_copy_into_def
  ytt_options_ty_def ytt_options_deep_copy_into_def
  prune_options_ty_def prune_options_deep_copy_into_def
  kubectl_configuration_ty_def kubectl_configuration_deep_copy_into_def

lemma kubectl_configuration_copiers:
  "deep_copier path_options_ty path_options_deep_copy_into"
  "deep_copier object_reference_ty object_reference_deep_copy_into"
  "deep_copier template_options_ty template_options_deep_copy_into"
  "deep_copier ytt_options_ty ytt_options_deep_copy_into"
  "deep_copier prune_options_ty prune_options_deep_copy_into"
  "deep_copier kubectl_configuration_ty kubectl_configuration_deep_copy_into"
  by (simp_all add: kubectl_configuration_copy_defs plain_copy_defs deep_rules meta_copiers)

section \<open>Its first version\<close>

definition v1alpha1_path_options_ty :: ty where
  "v1alpha1_path_options_ty = Struct
     [(''Path'', Plain)]"

definition v1alpha1_path_options_deep_copy_into :: copier where
  "v1alpha1_path_options_deep_copy_into = assign"

definition v1alpha1_path_options_deep_copy :: copier where
  "v1alpha1_path_options_deep_copy = copy_pointer v1alpha1_path_options_deep_copy_into"

definition v1alpha1_object_reference_ty :: ty where
  "v1alpha1_object_reference_ty = Struct
     [(''Namespace'', Plain), (''Name'', Plain)]"

definition v1alpha1_object_reference_deep_copy_into :: copier where
  "v1alpha1_object_reference_deep_copy_into = assign"

definition v1alpha1_object_reference_deep_copy :: copier where
  "v1alpha1_object_reference_deep_copy = copy_pointer v1alpha1_object_reference_deep_copy_into"

definition v1alpha1_template_options_ty :: ty where
  "v1alpha1_template_options_ty = Struct
     [(''Values'', Slice Plain), (''ConfigMapRefs'', Slice v1alpha1_object_reference_ty),
      (''SecretRefs'', Slice v1alpha1_object_reference_ty), (''ValueType'', Plain)]"

definition v1alpha1_template_options_deep_copy_into :: copier where
  "v1alpha1_template_options_deep_copy_into = copy_struct
     [(''Values'', copy_slice assign), (''ConfigMapRefs'', copy_slice assign),
      (''SecretRefs'', copy_slice assign)]"

definition v1alpha1_template_options_deep_copy :: copier where
  "v1alpha1_template_options_deep_copy = copy_pointer v1alpha1_template_options_deep_copy_into"

definition v1alpha1_ytt_options_ty :: ty where
  "v1alpha1_ytt_options_ty = Struct
     [(''Overlay'', Plain), (''Values'', Slice Plain),
      (''ConfigMapRefs'', Slice v1alpha1_object_reference_ty),
      (''SecretRefs'', Slice v1alpha1_object_reference_ty), (''ValueType'', Plain)]"

definition v1alpha1_ytt_options_deep_copy_into :: copier where
  "v1alpha1_ytt_options_deep_copy_into = copy_struct
     [(''Values'', copy_slice assign), (''ConfigMapRefs'', copy_slice assign),
      (''SecretRefs'', copy_slice assign)]"

definition v1alpha1_ytt_options_deep_copy :: copier where
  "v1alpha1_ytt_options_deep_copy = copy_pointer v1alpha1_ytt_options_deep_copy_into"

definition v1alpha1_prune_options_ty :: ty where
  "v1alpha1_prune_options_ty = Struct
     [(''Labels'', Dict), (''Whitelist'', Slice Plain)]"

definition v1alpha1_prune_options_deep_copy_into :: copier where
  "v1alpha1_prune_options_deep_copy_into = copy_struct
     [(''Labels'', copy_map), (''Whitelist'', copy_slice assign)]"

definition v1alpha1_prune_options_deep_copy :: copier where
  "v1alpha1_prune_options_deep_copy = copy_pointer v1alpha1_prune_options_deep_copy_into"

definition v1alpha1_kubectl_configuration_ty :: ty where
  "v1alpha1_kubectl_configuration_ty = Struct
     [(''TypeMeta'', type_meta_ty), (''Command'', Plain), (''PathOptions'', v1alpha1_path_options_ty),
      (''Template'', Pointer v1alpha1_template_options_ty), (''YTT'', Pointer v1alpha1_ytt_options_ty),
      (''Prune'', Pointer v1alpha1_prune_options_ty), (''ExperimentalEnableClusterSize'', Plain),
      (''FollowSymlink'', Plain)]"

definition v1alpha1_kubectl_configuration_deep_copy_into :: copier where
  "v1alpha1_kubectl_configuration_deep_copy_into = copy_struct
     [(''TypeMeta'', assign), (''PathOptions'', assign),
      (''Template'', copy_pointer v1alpha1_template_options_deep_copy_into),
      (''YTT'', copy_pointer v1alpha1_ytt_options_deep_copy_into),
      (''Prune'', copy_pointer v1alpha1_prune_options_deep_copy_into)]"

definition v1alpha1_kubectl_configuration_deep_copy :: copier where
  "v1alpha1_kubectl_configuration_deep_copy = copy_pointer v1alpha1_kubectl_configuration_deep_copy_into"

definition v1alpha1_kubectl_configuration_deep_copy_object :: "heap \<Rightarrow> gv \<Rightarrow> heap \<times> gv option" where
  "v1alpha1_kubectl_configuration_deep_copy_object = as_object v1alpha1_kubectl_configuration_deep_copy"

lemmas kubectl_v1alpha1_copy_defs =
  v1alpha1_path_options_ty_def v1alpha1_path_options_deep_copy_into_def
  v1alpha1_object_reference_ty_def v1alpha1_object_reference_deep_copy_into_def
  v1alpha1_template_options_ty_def v1alpha1_template_options_deep_copy_into_def
  v1alpha1_ytt_options_ty_def v1alpha1_ytt_options_deep_copy_into_def
  v1alpha1_prune_options_ty_def v1alpha1_prune_options_deep_copy_into_def
  v1alpha1_kubectl_configuration_ty_def v1alpha1_kubectl_configuration_deep_copy_into_def

lemma kubectl_v1alpha1_copiers:
  "deep_copier v1alpha1_path_options_ty v1alpha1_path_options_deep_copy_into"
  "deep_copier v1alpha1_object_reference_ty v1alpha1_object_reference_deep_copy_into"
  "deep_copier v1alpha1_template_options_ty v1alpha1_template_options_deep_copy_into"
  "deep_copier v1alpha1_ytt_options_ty v1alpha1_ytt_options_deep_copy_into"
  "deep_copier v1alpha1_prune_options_ty v1alpha1_prune_options_deep_copy_into"
  "deep_copier v1alpha1_kubectl_configuration_ty v1alpha1_kubectl_configuration_deep_copy_into"
  by (simp_all add: kubectl_v1alpha1_copy_defs plain_copy_defs deep_rules meta_copiers)

section \<open>Its second version\<close>

definition v1alpha2_path_options_ty :: ty where
  "v1alpha2_path_options_ty = Struct
     [(''Paths'', Slice Plain)]"

definition v1alpha2_path_options_deep_copy_into :: copier where
  "v1alpha2_path_options_deep_copy_into = copy_struct
     [(''Paths'', copy_slice assign)]"

definition v1alpha2_path_options_deep_copy :: copier where
  "v1alpha2_path_options_deep_copy = copy_pointer v1alpha2_path_options_deep_copy_into"

definition v1alpha2_object_reference_ty :: ty where
  "v1alpha2_object_reference_ty = Struct
     [(''Namespace'', Plain), (''Name'', Plain)]"

definition v1alpha2_object_reference_deep_copy_into :: copier where
  "v1alpha2_object_reference_deep_copy_into = assign"

definition v1alpha2_object_reference_deep_copy :: copier where
  "v1alpha2_object_reference_deep_copy = copy_pointer v1alpha2_object_reference_deep_copy_into"

definition v1alpha2_template_options_ty :: ty where
  "v1alpha2_template_options_ty = Struct
     [(''Values'', Slice Plain), (''ConfigMapRefs'', Slice v1alpha2_object_reference_ty),
      (''SecretRefs'', Slice v1alpha2_object_reference_ty), (''ValueType'', Plain)]"

definition v1alpha2_template_options_deep_copy_into :: copier where
  "v1alpha2_template_options_deep_copy_into = copy_struct
     [(''Values'', copy_slice assign), (''ConfigMapRefs'', copy_slice assign),
      (''SecretRefs'', copy_slice assign)]"

definition v1alpha2_template_options_deep_copy :: copier where
  "v1alpha2_template_options_deep_copy = copy_pointer v1alpha2_template_options_deep_copy_into"

definition v1alpha2_ytt_options_ty :: ty where
  "v1alpha2_ytt_options_ty = Struct
     [(''Overlay'', Plain), (''Values'', Slice Plain),
      (''ConfigMapRefs'', Slice v1alpha2_object_reference_ty),
      (''SecretRefs'', Slice v1alpha2_object_reference_ty), (''ValueType'', Plain)]"

definition v1alpha2_ytt_options_deep_copy_into :: copier where
  "v1alpha2_ytt_options_deep_copy_into = copy_struct
     [(''Values'', copy_slice assign), (''ConfigMapRefs'', copy_slice assign),
      (''SecretRefs'', copy_slice assign)]"

definition v1alpha2_ytt_options_deep_copy :: copier where
  "v1alpha2_ytt_options_deep_copy = copy_pointer v1alpha2_ytt_options_deep_copy_into"

definition v1alpha2_prune_options_ty :: ty where
  "v1alpha2_prune_options_ty = Struct
     [(''Labels'', Dict), (''SkipList'', Slice Plain)]"

definition v1alpha2_prune_options_deep_copy_into :: copier where
  "v1alpha2_prune_options_deep_copy_into = copy_struct
     [(''Labels'', copy_map), (''SkipList'', copy_slice assign)]"

definition v1alpha2_prune_options_deep_copy :: copier where
  "v1alpha2_prune_options_deep_copy = copy_pointer v1alpha2_prune_options_deep_copy_into"

definition v1alpha2_kubectl_configuration_ty :: ty where
  "v1alpha2_kubectl_configuration_ty = Struct
     [(''TypeMeta'', type_meta_ty), (''Command'', Plain), (''PathOptions'', v1alpha2_path_options_ty),
      (''Template'', Pointer v1alpha2_template_options_ty), (''YTT'', Pointer v1alpha2_ytt_options_ty),
      (''Prune'', Pointer v1alpha2_prune_options_ty), (''ExperimentalEnableClusterSize'', Plain),
      (''FollowSymlink'', Plain)]"

definition v1alpha2_kubectl_configuration_deep_copy_into :: copier where
  "v1alpha2_kubectl_configuration_deep_copy_into = copy_struct
     [(''TypeMeta'', assign), (''PathOptions'', v1alpha2_path_options_deep_copy_into),
      (''Template'', copy_pointer v1alpha2_template_options_deep_copy_into),
      (''YTT'', copy_pointer v1alpha2_ytt_options_deep_copy_into),
      (''Prune'', copy_pointer v1alpha2_prune_options_deep_copy_into)]"

definition v1alpha2_kubectl_configuration_deep_copy :: copier where
  "v1alpha2_kubectl_configuration_deep_copy = copy_pointer v1alpha2_kubectl_configuration_deep_copy_into"

definition v1alpha2_kubectl_configuration_deep_copy_object :: "heap \<Rightarrow> gv \<Rightarrow> heap \<times> gv option" where
  "v1alpha2_kubectl_configuration_deep_copy_object = as_object v1alpha2_kubectl_configuration_deep_copy"

lemmas kubectl_v1alpha2_copy_defs =
  v1alpha2_path_options_ty_def v1alpha2_path_options_deep_copy_into_def
  v1alpha2_object_reference_ty_def v1alpha2_object_reference_deep_copy_into_def
  v1alpha2_template_options_ty_def v1alpha2_template_options_deep_copy_into_def
  v1alpha2_ytt_options_ty_def v1alpha2_ytt_options_deep_copy_into_def
  v1alpha2_prune_options_ty_def v1alpha2_prune_options_deep_copy_into_def
  v1alpha2_kubectl_configuration_ty_def v1alpha2_kubectl_configuration_deep_copy_into_def

lemma kubectl_v1alpha2_copiers:
  "deep_copier v1alpha2_path_options_ty v1alpha2_path_options_deep_copy_into"
  "deep_copier v1alpha2_object_reference_ty v1alpha2_object_reference_deep_copy_into"
  "deep_copier v1alpha2_template_options_ty v1alpha2_template_options_deep_copy_into"
  "deep_copier v1alpha2_ytt_options_ty v1alpha2_ytt_options_deep_copy_into"
  "deep_copier v1alpha2_prune_options_ty v1alpha2_prune_options_deep_copy_into"
  "deep_copier v1alpha2_kubectl_configuration_ty v1alpha2_kubectl_configuration_deep_copy_into"
  by (simp_all add: kubectl_v1alpha2_copy_defs plain_copy_defs deep_rules meta_copiers)

section \<open>Configuration of the helm plugin\<close>

definition repository_ty :: ty where
  "repository_ty = Struct
     [(''Name'', Plain), (''URL'', Plain)]"

definition repository_deep_copy_into :: copier where
  "repository_deep_copy_into = assign"

definition repository_deep_copy :: copier where
  "repository_deep_copy = copy_pointer repository_deep_copy_into"

definition helm_configuration_ty :: ty where
  "helm_configuration_ty = Struct
     [(''TypeMeta'', type_meta_ty), (''Repository'', Pointer repository_ty), (''Chart'', Plain),
      (''Values'', Slice Plain), (''PostRenderer'', Plain)]"

definition helm_configuration_deep_copy_into :: copier where
  "helm_configuration_deep_copy_into = copy_struct
     [(''TypeMeta'', assign), (''Repository'', copy_pointer assign), (''Values'', copy_slice assign)]"

definition helm_configuration_deep_copy :: copier where
  "helm_configuration_deep_copy = copy_pointer helm_configuration_deep_copy_into"

definition helm_configuration_deep_copy_object :: "heap \<Rightarrow> gv \<Rightarrow> heap \<times> gv option" where
  "helm_configuration_deep_copy_object = as_object helm_configuration_deep_copy"

lemmas helm_configuration_copy_defs =
  repository_ty_def repository_deep_copy_into_def
  helm_configuration_ty_def helm_configuration_deep_copy_into_def

lemma helm_configuration_copiers:
  "deep_copier repository_ty repository_deep_copy_into"
  "deep_copier helm_configuration_ty helm_configuration_deep_copy_into"
  by (simp_all add: helm_configuration_copy_defs plain_copy_defs deep_rules meta_copiers)

section \<open>Its version\<close>

definition v1alpha1_repository_ty :: ty where
  "v1alpha1_repository_ty = Struct
     [(''Name'', Plain), (''URL'', Plain)]"

definition v1alpha1_repository_deep_copy_into :: copier where
  "v1alpha1_repository_deep_copy_into = assign"

definition v1alpha1_repository_deep_copy :: copier where
  "v1alpha1_repository_deep_copy = copy_pointer v1alpha1_repository_deep_copy_into"

definition v1alpha1_helm_configuration_ty :: ty where
  "v1alpha1_helm_configuration_ty = Struct
     [(''TypeMeta'', type_meta_ty), (''Repository'', Pointer v1alpha1_repository_ty),
      (''Chart'', Plain), (''Values'', Slice Plain), (''PostRenderer'', Plain)]"

definition v1alpha1_helm_configuration_deep_copy_into :: copier where
  "v1alpha1_helm_configuration_deep_copy_into = copy_struct
     [(''TypeMeta'', assign), (''Repository'', copy_pointer assign), (''Values'', copy_slice assign)]"

definition v1alpha1_helm_configuration_deep_copy :: copier where
  "v1alpha1_helm_configuration_deep_copy = copy_pointer v1alpha1_helm_configuration_deep_copy_into"

definition v1alpha1_helm_configuration_deep_copy_object :: "heap \<Rightarrow> gv \<Rightarrow> heap \<times> gv option" where
  "v1alpha1_helm_configuration_deep_copy_object = as_object v1alpha1_helm_configuration_deep_copy"

lemmas helm_v1alpha1_copy_defs =
  v1alpha1_repository_ty_def v1alpha1_repository_deep_copy_into_def
  v1alpha1_helm_configuration_ty_def v1alpha1_helm_configuration_deep_copy_into_def

lemma helm_v1alpha1_copiers:
  "deep_copier v1alpha1_repository_ty v1alpha1_repository_deep_copy_into"
  "deep_copier v1alpha1_helm_configuration_ty v1alpha1_helm_configuration_deep_copy_into"
  by (simp_all add: helm_v1alpha1_copy_defs plain_copy_defs deep_rules meta_copiers)

section \<open>Objects\<close>

text \<open>What the controllers copy before they edit it.\<close>

interpretation release: deep_copier release_ty release_deep_copy_into
  by (rule release_copiers)

interpretation release_calendar: deep_copier release_calendar_ty release_calendar_deep_copy_into
  by (rule calendar_copiers)

interpretation release_event: deep_copier release_event_ty release_event_deep_copy_into
  by (rule calendar_copiers)

interpretation kubectl_configuration: deep_copier kubectl_configuration_ty kubectl_configuration_deep_copy_into
  by (rule kubectl_configuration_copiers)

interpretation helm_configuration: deep_copier helm_configuration_ty helm_configuration_deep_copy_into
  by (rule helm_configuration_copiers)

end
