(* ===== verification/DeepCopySafety.thy ===== *)
theory DeepCopySafety
  imports DeepCopy
begin

text \<open>
  A deep copy shares nothing with its original: what the controllers may rely on when they edit a copy
  of an object that belongs to the cache of an informer, and why the rest of the development can
  treat objects as values.
\<close>

definition api_objects :: "(ty \<times> copier) list" where
  "api_objects =
     [(release_ty, release_deep_copy),
      (release_list_ty, release_list_deep_copy),
      (release_calendar_ty, release_calendar_deep_copy),
      (release_calendar_list_ty, release_calendar_list_deep_copy),
      (release_event_ty, release_event_deep_copy),
      (release_event_list_ty, release_event_list_deep_copy),
      (kubectl_configuration_ty, kubectl_configuration_deep_copy),
      (v1alpha1_kubectl_configuration_ty, v1alpha1_kubectl_configuration_deep_copy),
      (v1alpha2_kubectl_configuration_ty, v1alpha2_kubectl_configuration_deep_copy),
      (helm_configuration_ty, helm_configuration_deep_copy),
      (v1alpha1_helm_configuration_ty, v1alpha1_helm_configuration_deep_copy)]"

lemma object_copiers: "(t, c) \<in> set api_objects \<Longrightarrow> deep_copier (Pointer t) c"
  by (auto simp: api_objects_def release_deep_copy_def
    release_list_deep_copy_def
    release_calendar_deep_copy_def
    release_calendar_list_deep_copy_def
    release_event_deep_copy_def
    release_event_list_deep_copy_def
    kubectl_configuration_deep_copy_def
    v1alpha1_kubectl_configuration_deep_copy_def
    v1alpha2_kubectl_configuration_deep_copy_def
    helm_configuration_deep_copy_def
    v1alpha1_helm_configuration_deep_copy_def
      intro!: deep_pointer release_copiers calendar_copiers kubectl_configuration_copiers kubectl_v1alpha1_copiers
        kubectl_v1alpha2_copiers helm_configuration_copiers helm_v1alpha1_copiers)

text \<open>A later heap in which, of what was there, only the given addresses were written to.\<close>

definition changed_within :: "nat list \<Rightarrow> heap \<Rightarrow> heap \<Rightarrow> bool" where
  "changed_within as h k \<longleftrightarrow> (\<forall>a<length h. a \<notin> set as \<longrightarrow> cell_at k a = cell_at h a)"

lemma changed_within_update: "a \<in> set as \<Longrightarrow> changed_within as h (h[a := x])"
  by (auto simp: changed_within_def cell_at_def intro!: nth_list_update_neq)

text \<open>
  C7. The deep copy of every API object and of every configuration shows what the original shows, with
  nil and empty slices told apart, and shares nothing with it: whatever is written through the copy,
  the original shows what it showed, and whatever is written through the original, the copy does.
\<close>

theorem deep_copy_independent:
  assumes "(t, c) \<in> set api_objects" and "has_type (Pointer t) h p" and "c h p = (h', q)"
  shows "view_of (Pointer t) h' q = view_of (Pointer t) h p \<and>
    (changed_within (reach (Pointer t) h' q) h' k \<longrightarrow> view_of (Pointer t) k p = view_of (Pointer t) h p) \<and>
    (changed_within (reach (Pointer t) h p) h' k \<longrightarrow> view_of (Pointer t) k q = view_of (Pointer t) h p)"
proof -
  note deep = object_copiers [OF assms(1)]
  have "view_of (Pointer t) h' q = view_of (Pointer t) h p"
    using deep_copier.copies [OF deep assms(2,3)] unfolding fresh_copy_def by blast
  then show ?thesis
    using deep_copier.original_unaffected [OF deep assms(2,3), of k] deep_copier.copy_unaffected [OF deep assms(2,3), of k]
    unfolding changed_within_def by blast
qed

text \<open>The zero value of a type, and a struct with another value at a path.\<close>

fun zero :: "ty \<Rightarrow> gv"
  and zeros :: "(string \<times> ty) list \<Rightarrow> (string \<times> gv) list" where
  "zero Plain = Basic []"
| "zero (Struct ts) = Fields (zeros ts)"
| "zero t = Nil"
| "zeros [] = []"
| "zeros ((n, t) # ts) = (n, zero t) # zeros ts"

fun with_field :: "string list \<Rightarrow> gv \<Rightarrow> gv \<Rightarrow> gv" where
  "with_field [] x v = x"
| "with_field (n # ns) x v = Fields (AList.update n (with_field ns x (field (fields_of v) n)) (fields_of v))"

text \<open>A release with a parameter, its copy, and a write to the parameters of the copy.\<close>

definition sample_heap :: heap where
  "sample_heap =
     [Entries [(''replicas'', ''2'')],
      Target (with_field [''Spec'', ''Deployer'', ''Parameters''] (Ref 0) (zero release_ty))]"

definition edited_heap :: heap where
  "edited_heap = (fst (release_deep_copy sample_heap (Ref 1)))[2 := Entries [(''replicas'', ''5'')]]"

lemma deep_copy_independent_witness:
  "fst (release_deep_copy sample_heap (Ref 1)) ! 2 \<noteq> edited_heap ! 2 \<and>
   view_of (Pointer release_ty) edited_heap (Ref 1) = view_of (Pointer release_ty) sample_heap (Ref 1)"
proof -
  have run: "release_deep_copy sample_heap (Ref 1) =
      (fst (release_deep_copy sample_heap (Ref 1)), snd (release_deep_copy sample_heap (Ref 1)))" by simp
  have "has_type (Pointer release_ty) sample_heap (Ref 1)" by code_simp
  moreover have "fst (release_deep_copy sample_heap (Ref 1)) ! 2 \<noteq> edited_heap ! 2" by code_simp
  moreover have "2 \<in> set (reach (Pointer release_ty) (fst (release_deep_copy sample_heap (Ref 1)))
      (snd (release_deep_copy sample_heap (Ref 1))))" by code_simp
  then have "changed_within (reach (Pointer release_ty) (fst (release_deep_copy sample_heap (Ref 1)))
      (snd (release_deep_copy sample_heap (Ref 1)))) (fst (release_deep_copy sample_heap (Ref 1))) edited_heap"
    unfolding edited_heap_def by (rule changed_within_update)
  ultimately show ?thesis
    using deep_copy_independent [of release_ty release_deep_copy sample_heap "Ref 1", OF _ _ run] by (simp add: api_objects_def)
qed

end
