(* ===== verification/ConfigConversion.thy ===== *)
theory ConfigConversion
  imports DeepCopySafety GoStrings
begin

text \<open>
  The conversions between the versions of the configurations and the internal types
  (zz_generated.conversion.go and conversion.go of src/pkg/deployer/plugins/kubectl/apis/config and of
  src/pkg/deployer/plugins/helm/apis/config), with what they share: most fields are casts, which keep the
  references of the original. KubectlConfig has the same conversions on values.
\<close>

section \<open>The parts of a conversion\<close>

text \<open>The named fields are set in a new value of the target type; \<open>TypeMeta\<close> is never among them.\<close>

fun fields_ty :: "ty \<Rightarrow> (string \<times> ty) list" where
  "fields_ty (Struct ts) = ts"
| "fields_ty t = []"

definition convert_struct :: "ty \<Rightarrow> (string \<times> copier) list \<Rightarrow> copier" where
  "convert_struct t cs h v =
     (case copy_fields cs h (fields_of v) (zeros (fields_ty t)) of (h', fs) \<Rightarrow> (h', Fields fs))"

text \<open>\<open>strings.Split(in.Path, ",")\<close> and \<open>strings.Join(in.Paths, ",")\<close>.\<close>

fun text_of :: "gv \<Rightarrow> string" where
  "text_of (Basic s) = s"
| "text_of v = []"

definition v1alpha1_path_options_to_config :: copier where
  "v1alpha1_path_options_to_config h v =
     (h @ [Elements (map Basic (split_on (CHR '','') (text_of (field (fields_of v) ''Path''))))],
      Fields [(''Paths'', Ref (length h))])"

definition config_to_v1alpha1_path_options :: copier where
  "config_to_v1alpha1_path_options h v =
     (h, Fields [(''Path'', Basic (join_with (CHR '','')
       (case elements h (field (fields_of v) ''Paths'') of None \<Rightarrow> [] | Some xs \<Rightarrow> map text_of xs)))])"

text \<open>Labels and names are copied one by one, into a map and a slice that are not nil.\<close>

definition convert_prune :: "string \<Rightarrow> string \<Rightarrow> copier" where
  "convert_prune list_in list_out h v =
     (let h1 = h @ [Entries (case entries_at h (field (fields_of v) ''Labels'') of None \<Rightarrow> [] | Some kvs \<Rightarrow> kvs)];
          h2 = h1 @ [Elements (case elements h (field (fields_of v) list_in) of None \<Rightarrow> [] | Some xs \<Rightarrow> xs)]
      in (h2, Fields [(''Labels'', Ref (length h)), (list_out, Ref (length h1))]))"

definition v1alpha1_prune_options_to_config :: copier where
  "v1alpha1_prune_options_to_config = convert_prune ''Whitelist'' ''SkipList''"

definition config_to_v1alpha1_prune_options :: copier where
  "config_to_v1alpha1_prune_options = convert_prune ''SkipList'' ''Whitelist''"

section \<open>The first version of the kubectl plugin\<close>

definition v1alpha1_object_reference_to_config :: copier where
  "v1alpha1_object_reference_to_config = convert_struct object_reference_ty
     [(''Namespace'', assign), (''Name'', assign)]"

definition config_to_v1alpha1_object_reference :: copier where
  "config_to_v1alpha1_object_reference = convert_struct v1alpha1_object_reference_ty
     [(''Namespace'', assign), (''Name'', assign)]"

definition v1alpha1_template_options_to_config :: copier where
  "v1alpha1_template_options_to_config = convert_struct template_options_ty
     [(''Values'', assign), (''ConfigMapRefs'', assign), (''SecretRefs'', assign),
      (''ValueType'', assign)]"

definition config_to_v1alpha1_template_options :: copier where
  "config_to_v1alpha1_template_options = convert_struct v1alpha1_template_options_ty
     [(''Values'', assign), (''ConfigMapRefs'', assign), (''SecretRefs'', assign),
      (''ValueType'', assign)]"

definition v1alpha1_ytt_options_to_config :: copier where
  "v1alpha1_ytt_options_to_config = convert_struct ytt_options_ty
     [(''Overlay'', assign), (''Values'', assign), (''ConfigMapRefs'', assign),
      (''SecretRefs'', assign), (''ValueType'', assign)]"

definition config_to_v1alpha1_ytt_options :: copier where
  "config_to_v1alpha1_ytt_options = convert_struct v1alpha1_ytt_options_ty
     [(''Overlay'', assign), (''Values'', assign), (''ConfigMapRefs'', assign),
      (''SecretRefs'', assign), (''ValueType'', assign)]"

definition v1alpha1_kubectl_configuration_to_config :: copier where
  "v1alpha1_kubectl_configuration_to_config = convert_struct kubectl_configuration_ty
     [(''Command'', assign), (''PathOptions'', v1alpha1_path_options_to_config), (''Template'', assign),
      (''YTT'', assign), (''Prune'', copy_pointer v1alpha1_prune_options_to_config),
      (''ExperimentalEnableClusterSize'', assign), (''FollowSymlink'', assign)]"

definition config_to_v1alpha1_kubectl_configuration :: copier where
  "config_to_v1alpha1_kubectl_configuration = convert_struct v1alpha1_kubectl_configuration_ty
     [(''Command'', assign), (''PathOptions'', config_to_v1alpha1_path_options), (''Template'', assign),
      (''YTT'', assign), (''Prune'', copy_pointer config_to_v1alpha1_prune_options),
      (''ExperimentalEnableClusterSize'', assign), (''FollowSymlink'', assign)]"

text \<open>What is registered, with the types.\<close>

definition v1alpha1_conversions :: "(ty \<times> ty \<times> copier) list" where
  "v1alpha1_conversions =
     [(v1alpha1_kubectl_configuration_ty, kubectl_configuration_ty, v1alpha1_kubectl_configuration_to_config),
      (kubectl_configuration_ty, v1alpha1_kubectl_configuration_ty, config_to_v1alpha1_kubectl_configuration),
      (v1alpha1_object_reference_ty, object_reference_ty, v1alpha1_object_reference_to_config),
      (object_reference_ty, v1alpha1_object_reference_ty, config_to_v1alpha1_object_reference),
      (v1alpha1_template_options_ty, template_options_ty, v1alpha1_template_options_to_config),
      (template_options_ty, v1alpha1_template_options_ty, config_to_v1alpha1_template_options),
      (v1alpha1_ytt_options_ty, ytt_options_ty, v1alpha1_ytt_options_to_config),
      (ytt_options_ty, v1alpha1_ytt_options_ty, config_to_v1alpha1_ytt_options),
      (path_options_ty, v1alpha1_path_options_ty, config_to_v1alpha1_path_options),
      (prune_options_ty, v1alpha1_prune_options_ty, config_to_v1alpha1_prune_options),
      (v1alpha1_path_options_ty, path_options_ty, v1alpha1_path_options_to_config),
      (v1alpha1_prune_options_ty, prune_options_ty, v1alpha1_prune_options_to_config)]"

lemmas v1alpha1_conversions_defs =
  v1alpha1_object_reference_to_config_def
  config_to_v1alpha1_object_reference_def
  v1alpha1_template_options_to_config_def
  config_to_v1alpha1_template_options_def
  v1alpha1_ytt_options_to_config_def
  config_to_v1alpha1_ytt_options_def
  v1alpha1_kubectl_configuration_to_config_def
  config_to_v1alpha1_kubectl_configuration_def

section \<open>The second version\<close>

definition v1alpha2_object_reference_to_config :: copier where
  "v1alpha2_object_reference_to_config = convert_struct object_reference_ty
     [(''Namespace'', assign), (''Name'', assign)]"

definition config_to_v1alpha2_object_reference :: copier where
  "config_to_v1alpha2_object_reference = convert_struct v1alpha2_object_reference_ty
     [(''Namespace'', assign), (''Name'', assign)]"

definition v1alpha2_path_options_to_config :: copier where
  "v1alpha2_path_options_to_config = convert_struct path_options_ty
     [(''Paths'', assign)]"

definition config_to_v1alpha2_path_options :: copier where
  "config_to_v1alpha2_path_options = convert_struct v1alpha2_path_options_ty
     [(''Paths'', assign)]"

definition v1alpha2_prune_options_to_config :: copier where
  "v1alpha2_prune_options_to_config = convert_struct prune_options_ty
     [(''Labels'', assign), (''SkipList'', assign)]"

definition config_to_v1alpha2_prune_options :: copier where
  "config_to_v1alpha2_prune_options = convert_struct v1alpha2_prune_options_ty
     [(''Labels'', assign), (''SkipList'', assign)]"

definition v1alpha2_template_options_to_config :: copier where
  "v1alpha2_template_options_to_config = convert_struct template_options_ty
     [(''Values'', assign), (''ConfigMapRefs'', assign), (''SecretRefs'', assign),
      (''ValueType'', assign)]"

definition config_to_v1alpha2_template_options :: copier where
  "config_to_v1alpha2_template_options = convert_struct v1alpha2_template_options_ty
     [(''Values'', assign), (''ConfigMapRefs'', assign), (''SecretRefs'', assign),
      (''ValueType'', assign)]"

definition v1alpha2_ytt_options_to_config :: copier where
  "v1alpha2_ytt_options_to_config = convert_struct ytt_options_ty
     [(''Overlay'', assign), (''Values'', assign), (''ConfigMapRefs'', assign),
      (''SecretRefs'', assign), (''ValueType'', assign)]"

definition config_to_v1alpha2_ytt_options :: copier where
  "config_to_v1alpha2_ytt_options = convert_struct v1alpha2_ytt_options_ty
     [(''Overlay'', assign), (''Values'', assign), (''ConfigMapRefs'', assign),
      (''SecretRefs'', assign), (''ValueType'', assign)]"

definition v1alpha2_kubectl_configuration_to_config :: copier where
  "v1alpha2_kubectl_configuration_to_config = convert_struct kubectl_configuration_ty
     [(''Command'', assign), (''PathOptions'', v1alpha2_path_options_to_config), (''Template'', assign),
      (''YTT'', assign), (''Prune'', assign), (''ExperimentalEnableClusterSize'', assign),
      (''FollowSymlink'', assign)]"

definition config_to_v1alpha2_kubectl_configuration :: copier where
  "config_to_v1alpha2_kubectl_configuration = convert_struct v1alpha2_kubectl_configuration_ty
     [(''Command'', assign), (''PathOptions'', config_to_v1alpha2_path_options), (''Template'', assign),
      (''YTT'', assign), (''Prune'', assign), (''ExperimentalEnableClusterSize'', assign),
      (''FollowSymlink'', assign)]"

text \<open>What is registered, with the types.\<close>

definition v1alpha2_conversions :: "(ty \<times> ty \<times> copier) list" where
  "v1alpha2_conversions =
     [(v1alpha2_kubectl_configuration_ty, kubectl_configuration_ty, v1alpha2_kubectl_configuration_to_config),
      (kubectl_configuration_ty, v1alpha2_kubectl_configuration_ty, config_to_v1alpha2_kubectl_configuration),
      (v1alpha2_object_reference_ty, object_reference_ty, v1alpha2_object_reference_to_config),
      (object_reference_ty, v1alpha2_object_reference_ty, config_to_v1alpha2_object_reference),
      (v1alpha2_path_options_ty, path_options_ty, v1alpha2_path_options_to_config),
      (path_options_ty, v1alpha2_path_options_ty, config_to_v1alpha2_path_options),
      (v1alpha2_prune_options_ty, prune_options_ty, v1alpha2_prune_options_to_config),
      (prune_options_ty, v1alpha2_prune_options_ty, config_to_v1alpha2_prune_options),
      (v1alpha2_template_options_ty, template_options_ty, v1alpha2_template_options_to_config),
      (template_options_ty, v1alpha2_template_options_ty, config_to_v1alpha2_template_options),
      (v1alpha2_ytt_options_ty, ytt_options_ty, v1alpha2_ytt_options_to_config),
      (ytt_options_ty, v1alpha2_ytt_options_ty, config_to_v1alpha2_ytt_options)]"

lemmas v1alpha2_conversions_defs =
  v1alpha2_object_reference_to_config_def
  config_to_v1alpha2_object_reference_def
  v1alpha2_path_options_to_config_def
  config_to_v1alpha2_path_options_def
  v1alpha2_prune_options_to_config_def
  config_to_v1alpha2_prune_options_def
  v1alpha2_template_options_to_config_def
  config_to_v1alpha2_template_options_def
  v1alpha2_ytt_options_to_config_def
  config_to_v1alpha2_ytt_options_def
  v1alpha2_kubectl_configuration_to_config_def
  config_to_v1alpha2_kubectl_configuration_def

section \<open>The helm plugin\<close>

definition v1alpha1_repository_to_config :: copier where
  "v1alpha1_repository_to_config = convert_struct repository_ty
     [(''Name'', assign), (''URL'', assign)]"

definition config_to_v1alpha1_repository :: copier where
  "config_to_v1alpha1_repository = convert_struct v1alpha1_repository_ty
     [(''Name'', assign), (''URL'', assign)]"

definition v1alpha1_helm_configuration_to_config :: copier where
  "v1alpha1_helm_configuration_to_config = convert_struct helm_configuration_ty
     [(''Repository'', assign), (''Chart'', assign), (''Values'', assign), (''PostRenderer'', assign)]"

definition config_to_v1alpha1_helm_configuration :: copier where
  "config_to_v1alpha1_helm_configuration = convert_struct v1alpha1_helm_configuration_ty
     [(''Repository'', assign), (''Chart'', assign), (''Values'', assign), (''PostRenderer'', assign)]"

text \<open>What is registered, with the types.\<close>

definition helm_conversions :: "(ty \<times> ty \<times> copier) list" where
  "helm_conversions =
     [(v1alpha1_helm_configuration_ty, helm_configuration_ty, v1alpha1_helm_configuration_to_config),
      (helm_configuration_ty, v1alpha1_helm_configuration_ty, config_to_v1alpha1_helm_configuration),
      (v1alpha1_repository_ty, repository_ty, v1alpha1_repository_to_config),
      (repository_ty, v1alpha1_repository_ty, config_to_v1alpha1_repository)]"

lemmas helm_conversions_defs =
  v1alpha1_repository_to_config_def
  config_to_v1alpha1_repository_def
  v1alpha1_helm_configuration_to_config_def
  config_to_v1alpha1_helm_configuration_def

section \<open>What a conversion keeps\<close>

definition without_meta :: "view \<Rightarrow> view" where
  "without_meta x = (case x of Parts ps \<Rightarrow> Parts (filter (\<lambda>p. fst p \<noteq> ''TypeMeta'') ps) | _ \<Rightarrow> x)"

text \<open>A conversion by casts allocates nothing, shows what it was given and shares all of it.\<close>

definition cast_conversion :: "ty \<Rightarrow> ty \<Rightarrow> copier \<Rightarrow> bool" where
  "cast_conversion a b c \<longleftrightarrow>
     (\<forall>h v. has_type a h v \<longrightarrow>
        fst (c h v) = h \<and> has_type b h (snd (c h v)) \<and>
        without_meta (view_of b h (snd (c h v))) = without_meta (view_of a h v) \<and>
        reach b h (snd (c h v)) = reach a h v)"

lemma field_Cons: "field ((m, v) # fs) n = (if m = n then v else field fs n)"
  by (simp add: field_def)

lemmas conversion_simps = field_Cons cast_conversion_def without_meta_def convert_struct_def assign_def field_update dom_update
  kubectl_configuration_copy_defs kubectl_v1alpha1_copy_defs kubectl_v1alpha2_copy_defs helm_configuration_copy_defs
  helm_v1alpha1_copy_defs type_meta_ty_def

text \<open>The conversions of the second version and of the helm plugin are casts.\<close>

lemma v1alpha2_casts: "(a, b, c) \<in> set v1alpha2_conversions \<Longrightarrow> cast_conversion a b c"
  unfolding v1alpha2_conversions_def list.set insert_iff prod.inject empty_iff
  by (elim disjE conjE FalseE; hypsubst; simp add: conversion_simps v1alpha2_conversions_defs)

lemma helm_casts: "(a, b, c) \<in> set helm_conversions \<Longrightarrow> cast_conversion a b c"
  unfolding helm_conversions_def list.set insert_iff prod.inject empty_iff
  by (elim disjE conjE FalseE; hypsubst; simp add: conversion_simps helm_conversions_defs)

section \<open>Every conversion\<close>

text \<open>A conversion gives a value of the target type and leaves what was there.\<close>

definition typed_conversion :: "ty \<Rightarrow> ty \<Rightarrow> copier \<Rightarrow> bool" where
  "typed_conversion a b c \<longleftrightarrow>
     (\<forall>h v. has_type a h v \<longrightarrow> extends h (fst (c h v)) \<and> has_type b (fst (c h v)) (snd (c h v)))"

lemma cast_typed: "cast_conversion a b c \<Longrightarrow> typed_conversion a b c"
  by (simp add: cast_conversion_def typed_conversion_def)

lemma typed_assign: "typed_conversion a a assign"
  by (simp add: typed_conversion_def assign_def)

lemma typed_pointer:
  assumes "typed_conversion a b c"
  shows "typed_conversion (Pointer a) (Pointer b) (copy_pointer c)"
  unfolding typed_conversion_def
proof (intro allI impI)
  fix h v
  assume v: "has_type (Pointer a) h v"
  show "extends h (fst (copy_pointer c h v)) \<and> has_type (Pointer b) (fst (copy_pointer c h v)) (snd (copy_pointer c h v))"
  proof (cases "target h v")
    case None
    with v show ?thesis by (auto simp: copy_pointer_def)
  next
    case (Some x)
    with v have "has_type a h x" by auto
    with assms have "extends h (fst (c h x))" "has_type b (fst (c h x)) (snd (c h x))"
      by (simp_all add: typed_conversion_def)
    with Some show ?thesis
      by (auto simp: copy_pointer_def target_new has_type_append split: prod.split intro: extends_trans)
  qed
qed

lemma typed_path_options:
  "typed_conversion v1alpha1_path_options_ty path_options_ty v1alpha1_path_options_to_config"
  "typed_conversion path_options_ty v1alpha1_path_options_ty config_to_v1alpha1_path_options"
  by (simp_all add: typed_conversion_def v1alpha1_path_options_ty_def path_options_ty_def field_Cons
      v1alpha1_path_options_to_config_def config_to_v1alpha1_path_options_def elements_new list_all_iff)

lemma prune_reads:
  "elements (h @ [Entries kvs, Elements xs]) (Ref (Suc (length h))) = Some xs"
  "entries_at (h @ [Entries kvs, Elements xs]) (Ref (length h)) = Some kvs"
  by (simp_all add: elements_def entries_at_def cell_at_def nth_append)

lemma typed_convert_prune:
  assumes "list_out \<noteq> ''Labels''"
  shows "typed_conversion (Struct [(''Labels'', Dict), (list_in, Slice Plain)]) (Struct [(''Labels'', Dict), (list_out, Slice Plain)])
    (convert_prune list_in list_out)"
  unfolding typed_conversion_def
proof (intro allI impI)
  fix h v
  assume "has_type (Struct [(''Labels'', Dict), (list_in, Slice Plain)]) h v"
  then have "list_all is_basic (case elements h (field (fields_of v) list_in) of None \<Rightarrow> [] | Some xs \<Rightarrow> xs)"
    by (auto simp: list_all_iff split: option.splits)
  then show "extends h (fst (convert_prune list_in list_out h v)) \<and>
      has_type (Struct [(''Labels'', Dict), (list_out, Slice Plain)]) (fst (convert_prune list_in list_out h v))
        (snd (convert_prune list_in list_out h v))"
    using assms by (simp add: convert_prune_def Let_def field_Cons prune_reads list_all_iff)
qed

lemma typed_prune_options:
  "typed_conversion v1alpha1_prune_options_ty prune_options_ty v1alpha1_prune_options_to_config"
  "typed_conversion prune_options_ty v1alpha1_prune_options_ty config_to_v1alpha1_prune_options"
  using typed_convert_prune [of "''SkipList''" "''Whitelist''"] typed_convert_prune [of "''Whitelist''" "''SkipList''"]
  by (simp_all add: v1alpha1_prune_options_ty_def prune_options_ty_def v1alpha1_prune_options_to_config_def
      config_to_v1alpha1_prune_options_def)

text \<open>A struct whose fields are converted, the others being zero.\<close>

lemma zeros_names: "fst ` set (zeros bs) = fst ` set bs"
proof (induction bs)
  case (Cons p bs)
  then show ?case by (cases p) simp
qed simp

lemma typed_struct:
  assumes cs: "distinct (map fst cs)" and bs: "distinct (map fst bs)" and names: "fst ` set cs \<subseteq> fst ` set bs"
    and conv: "\<And>n c. (n, c) \<in> set cs \<Longrightarrow> n \<in> fst ` set as \<and> typed_conversion (the (map_of as n)) (the (map_of bs n)) c"
    and as: "distinct (map fst as)"
    and rest: "\<And>h n t. (n, t) \<in> set bs \<Longrightarrow> n \<notin> fst ` set cs \<Longrightarrow> has_type t h (field (zeros bs) n)"
  shows "typed_conversion (Struct as) (Struct bs) (convert_struct (Struct bs) cs)"
  unfolding typed_conversion_def
proof (intro allI impI)
  fix h v
  assume v: "has_type (Struct as) h v"
  obtain h' fs where run: "copy_fields cs h (fields_of v) (zeros bs) = (h', fs)" by force
  have types: "\<And>n t. (n, t) \<in> set as \<Longrightarrow> has_type t h (field (fields_of v) n)"
    using v by (auto simp: have_types_iff)
  have copied: "extends h h' \<and> (\<forall>n\<in>fst ` set cs. has_type (the (map_of bs n)) h' (field fs n)) \<and>
      (\<forall>n. n \<notin> fst ` set cs \<longrightarrow> field fs n = field (zeros bs) n) \<and> fst ` set (zeros bs) \<subseteq> fst ` set fs"
  proof (rule copy_fields_rule [OF cs _ _ run, where Q = "\<lambda>n k y. has_type (the (map_of bs n)) k y"])
    fix n c k k' y
    assume c: "(n, c) \<in> set cs" and ext: "extends h k" and step: "c k (field (fields_of v) n) = (k', y)"
    from conv [OF c] obtain t where t: "(n, t) \<in> set as" by auto
    then have ok: "typed_conversion t (the (map_of bs n)) c"
      using conv [OF c] map_of_is_SomeI [OF as t] by simp
    have "has_type t k (field (fields_of v) n)" using types [OF t] ext by (rule extends_typed [rotated])
    from ok [unfolded typed_conversion_def, rule_format, OF this] step
    show "extends k k' \<and> has_type (the (map_of bs n)) k' y" by simp
  qed (rule extends_typed)
  have ext: "extends h h'" and converted: "\<forall>n\<in>fst ` set cs. has_type (the (map_of bs n)) h' (field fs n)"
    and kept: "\<forall>n. n \<notin> fst ` set cs \<longrightarrow> field fs n = field (zeros bs) n"
    and present: "fst ` set bs \<subseteq> fst ` set fs"
    using copied unfolding zeros_names by (iprover elim: conjE)+
  have typed: "has_type t h' (field fs n)" if t: "(n, t) \<in> set bs" for n t
  proof (cases "n \<in> fst ` set cs")
    case True
    then have "has_type (the (map_of bs n)) h' (field fs n)" using converted by (rule bspec [rotated])
    then show ?thesis using map_of_is_SomeI [OF bs t] by simp
  next
    case False
    then have "field fs n = field (zeros bs) n" using kept by simp
    then show ?thesis using rest [OF t False] by simp
  qed
  have result: "convert_struct (Struct bs) cs h v = (h', Fields fs)"
    using run by (simp add: convert_struct_def)
  show "extends h (fst (convert_struct (Struct bs) cs h v)) \<and>
      has_type (Struct bs) (fst (convert_struct (Struct bs) cs h v)) (snd (convert_struct (Struct bs) cs h v))"
    unfolding result fst_conv snd_conv
  proof
    show "extends h h'" by (rule ext)
    have "n \<in> fst ` set fs" if "(n, t) \<in> set bs" for n t
      using subsetD [OF present imageI [OF that, of fst]] by simp
    then show "has_type (Struct bs) h' (Fields fs)" using typed by (auto simp: have_types_iff)
  qed
qed

lemma same_types:
  "v1alpha1_object_reference_ty = object_reference_ty" "v1alpha1_template_options_ty = template_options_ty"
  "v1alpha1_ytt_options_ty = ytt_options_ty"
  by (simp_all add: kubectl_configuration_copy_defs kubectl_v1alpha1_copy_defs)

lemma v1alpha1_casts:
  "cast_conversion v1alpha1_object_reference_ty object_reference_ty v1alpha1_object_reference_to_config"
  "cast_conversion object_reference_ty v1alpha1_object_reference_ty config_to_v1alpha1_object_reference"
  "cast_conversion v1alpha1_template_options_ty template_options_ty v1alpha1_template_options_to_config"
  "cast_conversion template_options_ty v1alpha1_template_options_ty config_to_v1alpha1_template_options"
  "cast_conversion v1alpha1_ytt_options_ty ytt_options_ty v1alpha1_ytt_options_to_config"
  "cast_conversion ytt_options_ty v1alpha1_ytt_options_ty config_to_v1alpha1_ytt_options"
  by (simp_all add: conversion_simps v1alpha1_conversions_defs)

lemma zero_type_meta: "has_type type_meta_ty h (zero type_meta_ty)"
  by (simp add: type_meta_ty_def field_Cons)

lemma typed_configuration:
  "typed_conversion v1alpha1_kubectl_configuration_ty kubectl_configuration_ty v1alpha1_kubectl_configuration_to_config"
  "typed_conversion kubectl_configuration_ty v1alpha1_kubectl_configuration_ty config_to_v1alpha1_kubectl_configuration"
  unfolding v1alpha1_kubectl_configuration_ty_def kubectl_configuration_ty_def
    v1alpha1_kubectl_configuration_to_config_def config_to_v1alpha1_kubectl_configuration_def same_types
  by (rule typed_struct;
      auto simp: field_Cons zero_type_meta intro!: typed_assign typed_pointer typed_path_options typed_prune_options)+

text \<open>
  Every conversion that is registered with the scheme gives a value of the type it is registered for and
  leaves what it was given.
\<close>

theorem registered_conversions_typed:
  assumes "(a, b, c) \<in> set (v1alpha1_conversions @ v1alpha2_conversions @ helm_conversions)"
    and "has_type a h v" and "c h v = (h', w)"
  shows "has_type b h' w \<and> view_of a h' v = view_of a h v"
proof -
  have "typed_conversion a b c" if "(a, b, c) \<in> set v1alpha1_conversions"
    using that v1alpha1_casts [THEN cast_typed] typed_path_options typed_prune_options typed_configuration
    by (auto simp: v1alpha1_conversions_def)
  then have "typed_conversion a b c" using assms(1) v1alpha2_casts helm_casts by (auto intro: cast_typed)
  then show ?thesis using assms(2,3) unfolding typed_conversion_def by (metis extends_view fst_conv snd_conv)
qed

text \<open>
  There and back: a configuration of the second version, or of the helm plugin, shows afterwards what it
  showed before, but for the type information, and still shares everything with the original.
\<close>

theorem conversion_round_trip:
  assumes "(a, b, c) \<in> set (v1alpha2_conversions @ helm_conversions)"
    and "(b, a, d) \<in> set (v1alpha2_conversions @ helm_conversions)"
    and "has_type a h v"
  shows "d h (snd (c h v)) = (h, snd (d h (snd (c h v)))) \<and>
    without_meta (view_of a h (snd (d h (snd (c h v))))) = without_meta (view_of a h v) \<and>
    reach a h (snd (d h (snd (c h v)))) = reach a h v"
proof -
  have "cast_conversion a b c" "cast_conversion b a d" using assms(1,2) v1alpha2_casts helm_casts by auto
  then show ?thesis using assms(3) unfolding cast_conversion_def by (metis prod.collapse)
qed

text \<open>The paths of the first version survive the way there and back.\<close>

lemma paths_round_trip:
  "config_to_v1alpha1_path_options (fst (v1alpha1_path_options_to_config h v)) (snd (v1alpha1_path_options_to_config h v)) =
     (fst (v1alpha1_path_options_to_config h v), Fields [(''Path'', Basic (text_of (field (fields_of v) ''Path'')))])"
  by (simp add: v1alpha1_path_options_to_config_def config_to_v1alpha1_path_options_def field_Cons elements_new
      comp_def)

end
