(* ===== verification/RestRequest.thy ===== *)
theory RestRequest
  imports GoPath
begin

text \<open>
  How a client puts a request together (\<open>rest.Request\<close> of client-go, vendored at
  src/vendor/k8s.io/client-go/rest/request.go): a chain of setters of which the first that objects leaves
  an error, the checks before sending, and the path. The encoding of options and bodies is an argument; headers
  other than the content type, rate limits, retries and warnings are left out.
\<close>

section \<open>Segments\<close>

definition valid_segment :: "string \<Rightarrow> bool" where
  "valid_segment s \<longleftrightarrow> s \<noteq> ''.'' \<and> s \<noteq> ''..'' \<and> CHR ''/'' \<notin> set s \<and> CHR ''%'' \<notin> set s"

section \<open>Requests\<close>

text \<open>
  \<open>rq_namespace\<close> is \<open>None\<close> when no namespace was set; \<open>rq_timeout\<close> is in nanoseconds.
\<close>

type_synonym query = "(string \<times> string list) list"

record request =
  rq_verb :: string
  rq_content_type :: string
  rq_prefix :: string
  rq_namespace :: "string option"
  rq_resource :: string
  rq_name :: string
  rq_subresource :: string
  rq_params :: query
  rq_timeout :: int
  rq_body :: "string option"
  rq_err :: "go_error option"

text \<open>\<open>NewRequest\<close> and \<open>Verb\<close>, with the prefix of paths and the timeout of the HTTP client.\<close>

definition new_request :: "string \<Rightarrow> int \<Rightarrow> string \<Rightarrow> request" where
  "new_request prefix timeout verb =
     \<lparr>rq_verb = verb, rq_content_type = [], rq_prefix = prefix, rq_namespace = None, rq_resource = [], rq_name = [],
      rq_subresource = [], rq_params = [], rq_timeout = timeout, rq_body = None, rq_err = None\<rparr>"

text \<open>A setter does nothing after an error.\<close>

definition unless_failed :: "(request \<Rightarrow> request) \<Rightarrow> request \<Rightarrow> request" where
  "unless_failed f r = (if rq_err r = None then f r else r)"

definition failing :: "string \<Rightarrow> request \<Rightarrow> request" where
  "failing msg r = r\<lparr>rq_err := Some (Errorf msg)\<rparr>"

definition with_resource :: "string \<Rightarrow> request \<Rightarrow> request" where
  "with_resource res = unless_failed (\<lambda>r.
     if rq_resource r \<noteq> [] then failing ''resource already set'' r
     else if \<not> valid_segment res then failing ''invalid resource'' r
     else r\<lparr>rq_resource := res\<rparr>)"

definition with_subresource :: "string list \<Rightarrow> request \<Rightarrow> request" where
  "with_subresource subs = unless_failed (\<lambda>r.
     if rq_subresource r \<noteq> [] then failing ''subresource already set'' r
     else if \<not> list_all valid_segment subs then failing ''invalid subresource'' r
     else r\<lparr>rq_subresource := join_path subs\<rparr>)"

definition with_name :: "string \<Rightarrow> request \<Rightarrow> request" where
  "with_name name = unless_failed (\<lambda>r.
     if name = [] then failing ''resource name may not be empty'' r
     else if rq_name r \<noteq> [] then failing ''resource name already set'' r
     else if \<not> valid_segment name then failing ''invalid resource name'' r
     else r\<lparr>rq_name := name\<rparr>)"

definition with_namespace :: "string \<Rightarrow> request \<Rightarrow> request" where
  "with_namespace ns = unless_failed (\<lambda>r.
     if rq_namespace r \<noteq> None then failing ''namespace already set'' r
     else if \<not> valid_segment ns then failing ''invalid namespace'' r
     else r\<lparr>rq_namespace := Some ns\<rparr>)"

text \<open>A parameter that is there already gets more values.\<close>

definition with_params :: "go_error + query \<Rightarrow> request \<Rightarrow> request" where
  "with_params encoded = unless_failed (\<lambda>r.
     case encoded of Inl e \<Rightarrow> r\<lparr>rq_err := Some e\<rparr>
     | Inr q \<Rightarrow> r\<lparr>rq_params :=
         fold (\<lambda>(k, vs) ps. AList.update k ((case map_of ps k of Some us \<Rightarrow> us | None \<Rightarrow> []) @ vs) ps) q (rq_params r)\<rparr>)"

definition with_timeout :: "int \<Rightarrow> request \<Rightarrow> request" where
  "with_timeout d = unless_failed (\<lambda>r. r\<lparr>rq_timeout := d\<rparr>)"

definition with_body :: "go_error + string \<Rightarrow> request \<Rightarrow> request" where
  "with_body encoded = unless_failed (\<lambda>r.
     case encoded of Inl e \<Rightarrow> r\<lparr>rq_err := Some e\<rparr> | Inr data \<Rightarrow> r\<lparr>rq_body := Some data\<rparr>)"

section \<open>Sending\<close>

definition preflight_check :: "request \<Rightarrow> go_error option" where
  "preflight_check r =
     (if rq_namespace r \<noteq> Some [] then None
      else if rq_verb r = ''POST'' then Some (Errorf ''an empty namespace may not be set during creation'')
      else if rq_verb r \<in> {''GET'', ''PUT'', ''DELETE''} \<and> rq_name r \<noteq> []
      then Some (Errorf ''an empty namespace may not be set when a resource name is provided'')
      else None)"

definition rejected :: "request \<Rightarrow> go_error option" where
  "rejected r = (case rq_err r of Some e \<Rightarrow> Some e | None \<Rightarrow> preflight_check r)"

text \<open>\<open>Do\<close> with the answer that the server would give; a watch is not checked.\<close>

definition do_request :: "(request \<Rightarrow> go_error + 'a) \<Rightarrow> request \<Rightarrow> go_error + 'a" where
  "do_request server r = (case rejected r of Some e \<Rightarrow> Inl e | None \<Rightarrow> server r)"

definition watch_request :: "(request \<Rightarrow> go_error + 'a) \<Rightarrow> request \<Rightarrow> go_error + 'a" where
  "watch_request server r = (case rq_err r of Some e \<Rightarrow> Inl e | None \<Rightarrow> server r)"

text \<open>The path of \<open>URL\<close>; the sub-path is only set by \<open>Suffix\<close>, which nobody calls.\<close>

definition url_path :: "request \<Rightarrow> string" where
  "url_path r =
     (let p = (case rq_namespace r of
                 Some ns \<Rightarrow> if ns \<noteq> [] then join_path [rq_prefix r, ''namespaces'', ns] else rq_prefix r
               | None \<Rightarrow> rq_prefix r);
          p = (if rq_resource r \<noteq> [] then join_path [p, to_lower (rq_resource r)] else p)
      in if rq_name r \<noteq> [] \<or> rq_subresource r \<noteq> [] then join_path [p, rq_name r, rq_subresource r, []] else p)"

section \<open>The elements of a path\<close>

text \<open>An element that cleaning keeps.\<close>

definition proper :: "string \<Rightarrow> bool" where
  "proper e \<longleftrightarrow> e \<noteq> [] \<and> e \<noteq> ''.'' \<and> e \<noteq> ''..'' \<and> CHR ''/'' \<notin> set e"

lemma proper_segment: "valid_segment s \<Longrightarrow> s \<noteq> [] \<Longrightarrow> proper s"
  by (simp add: valid_segment_def proper_def)

lemma clean_proper: "list_all (\<lambda>e. e = [] \<or> proper e) es \<Longrightarrow>
    fold (clean_element b) es out = rev (filter (\<lambda>e. e \<noteq> []) es) @ out"
  by (induction es arbitrary: out) (auto simp: clean_element_def proper_def)

definition rooted :: "string list \<Rightarrow> string" where
  "rooted es = CHR ''/'' # join_with (CHR ''/'') es"

lemma no_separator:
  assumes "list_all (\<lambda>e. e = [] \<or> proper e) es"
  shows "\<forall>e\<in>set es. CHR ''/'' \<notin> set e"
proof
  fix e
  assume "e \<in> set es"
  with assms have "e = [] \<or> proper e" by (simp add: list_all_iff)
  then show "CHR ''/'' \<notin> set e" unfolding proper_def by (elim disjE) simp_all
qed

lemma split_rooted:
  assumes "list_all (\<lambda>e. e = [] \<or> proper e) es"
  shows "split_on (CHR ''/'') (rooted es) = [] # (if es = [] then [[]] else es)"
  using no_separator [OF assms] by (cases "es = []") (simp_all add: rooted_def split_join)

lemma elements_rooted:
  assumes "list_all (\<lambda>e. e = [] \<or> proper e) es"
  shows "path_elements (rooted es) = filter (\<lambda>e. e \<noteq> []) es"
  unfolding path_elements_def split_rooted [OF assms]
  using clean_proper [OF assms] by (simp add: clean_element_def)

lemma filter_proper: "list_all proper es \<Longrightarrow> filter (\<lambda>e. e \<noteq> []) es = es"
  unfolding filter_id_conv list_all_iff proper_def by blast

lemma proper_list: "list_all proper es \<Longrightarrow> list_all (\<lambda>e. e = [] \<or> proper e) es"
  by (simp add: list_all_iff)

lemma rooted_inject:
  assumes "list_all proper es" and "list_all proper fs" and "rooted es = rooted fs"
  shows "es = fs"
proof -
  have "es = path_elements (rooted es)"
    unfolding elements_rooted [OF proper_list [OF assms(1)]] by (rule filter_proper [OF assms(1), symmetric])
  also have "\<dots> = fs"
    unfolding assms(3) elements_rooted [OF proper_list [OF assms(2)]] by (rule filter_proper [OF assms(2)])
  finally show ?thesis .
qed

lemma join_path_rooted:
  assumes "list_all proper es" and "list_all (\<lambda>e. e = [] \<or> proper e) fs"
  shows "join_path (rooted es # fs) = rooted (es @ filter (\<lambda>e. e \<noteq> []) fs)"
proof -
  note free = no_separator [OF assms(2)]
  note es = split_rooted [OF proper_list [OF assms(1)]]
  have split: "split_on (CHR ''/'') (join_with (CHR ''/'') (rooted es # fs)) = split_on (CHR ''/'') (rooted es) @ fs"
  proof (cases fs)
    case (Cons f gs)
    then have "join_with (CHR ''/'') (rooted es # fs) = rooted es @ CHR ''/'' # join_with (CHR ''/'') fs" by simp
    then show ?thesis using free Cons by (simp add: split_on_append_sep split_join)
  qed simp
  have "is_abs_path (join_with (CHR ''/'') (rooted es # fs))"
    by (cases fs) (simp_all add: is_abs_path_def rooted_def)
  moreover note filter_proper [OF assms(1)]
  moreover have "list_all (\<lambda>e. e = [] \<or> proper e) ((if es = [] then [[]] else es) @ fs)"
    using proper_list [OF assms(1)] assms(2) by simp
  moreover have "rooted es \<noteq> []" by (simp add: rooted_def)
  ultimately have "path_elements (join_with (CHR ''/'') (rooted es # fs)) = es @ filter (\<lambda>e. e \<noteq> []) fs"
    by (simp add: path_elements_def split es clean_element_def clean_proper split: if_splits)
  with \<open>is_abs_path (join_with (CHR ''/'') (rooted es # fs))\<close> \<open>rooted es \<noteq> []\<close> show ?thesis
    by (simp add: join_path_def clean_path_def path_of_def rooted_def [of "es @ _"])
qed

section \<open>What the setters leave\<close>

lemmas setter_defs =
  with_resource_def with_subresource_def with_name_def with_namespace_def with_params_def with_timeout_def
  with_body_def unless_failed_def failing_def

lemma with_resource_ok [simp]: "rq_err (with_resource x r) = None \<longleftrightarrow> rq_err r = None \<and> rq_resource r = [] \<and> valid_segment x"
  and with_subresource_ok [simp]: "rq_err (with_subresource xs r) = None \<longleftrightarrow>
    rq_err r = None \<and> rq_subresource r = [] \<and> list_all valid_segment xs"
  and with_name_ok [simp]: "rq_err (with_name x r) = None \<longleftrightarrow> rq_err r = None \<and> x \<noteq> [] \<and> rq_name r = [] \<and> valid_segment x"
  and with_namespace_ok [simp]: "rq_err (with_namespace x r) = None \<longleftrightarrow>
    rq_err r = None \<and> rq_namespace r = None \<and> valid_segment x"
  and with_params_ok [simp]: "rq_err (with_params e r) = None \<longleftrightarrow> rq_err r = None \<and> \<not> isl e"
  and with_timeout_ok [simp]: "rq_err (with_timeout d r) = None \<longleftrightarrow> rq_err r = None"
  and with_body_ok [simp]: "rq_err (with_body b r) = None \<longleftrightarrow> rq_err r = None \<and> \<not> isl b"
  by (auto simp: setter_defs split: sum.splits)

text \<open>The parts of a request that its path is made of.\<close>

definition place :: "request \<Rightarrow> string \<times> string option \<times> string \<times> string \<times> string" where
  "place r = (rq_prefix r, rq_namespace r, rq_resource r, rq_name r, rq_subresource r)"

lemma place_simps:
  "place (new_request p t v) = (p, None, [], [], [])"
  "place (with_params e r) = place r" "place (with_timeout d r) = place r" "place (with_body b r) = place r"
  "rq_err (with_resource x r) = None \<Longrightarrow> place r = (p, ns, [], n, s) \<Longrightarrow> place (with_resource x r) = (p, ns, x, n, s)"
  "rq_err (with_name x r) = None \<Longrightarrow> place r = (p, ns, res, [], s) \<Longrightarrow> place (with_name x r) = (p, ns, res, x, s)"
  "rq_err (with_namespace x r) = None \<Longrightarrow> place r = (p, None, res, n, s) \<Longrightarrow>
     place (with_namespace x r) = (p, Some x, res, n, s)"
  "rq_err (with_subresource xs r) = None \<Longrightarrow> place r = (p, ns, res, n, []) \<Longrightarrow>
     place (with_subresource xs r) = (p, ns, res, n, join_path xs)"
  unfolding with_resource_ok with_name_ok with_namespace_ok with_subresource_ok
  by (simp_all add: place_def new_request_def setter_defs split: sum.splits)

definition url_elements :: "string list \<Rightarrow> string \<Rightarrow> string \<Rightarrow> string \<Rightarrow> string \<Rightarrow> string list" where
  "url_elements base ns res name sub =
     base @ (if ns = [] then [] else [''namespaces'', ns]) @ to_lower res # filter (\<lambda>e. e \<noteq> []) [name, sub]"

lemma url_path_place:
  assumes place: "place r = (rooted base, Some ns, res, name, sub)"
    and base: "list_all proper base" and ns: "ns = [] \<or> proper ns" and res: "proper (to_lower res)"
    and name: "name = [] \<or> proper name" and sub: "sub = [] \<or> proper sub"
  shows "url_path r = rooted (url_elements base ns res name sub)"
proof -
  let ?p = "base @ (if ns = [] then [] else [''namespaces'', ns])"
  have namespaces: "proper ''namespaces''" by (simp add: proper_def)
  have p: "list_all proper ?p" using base ns namespaces by auto
  have "(if ns \<noteq> [] then join_path [rooted base, ''namespaces'', ns] else rooted base) = rooted ?p"
    using join_path_rooted [OF base, of "[''namespaces'', ns]"] ns namespaces by auto
  moreover have "res \<noteq> []" using res by (auto simp: proper_def to_lower_def)
  moreover have "join_path [rooted ?p, to_lower res] = rooted (?p @ [to_lower res])"
    using join_path_rooted [OF p, of "[to_lower res]"] res by (auto simp: proper_def)
  moreover have "join_path [rooted (?p @ [to_lower res]), name, sub, []] = rooted (url_elements base ns res name sub)"
    using join_path_rooted [of "?p @ [to_lower res]" "[name, sub, []]"] p res name sub by (simp add: url_elements_def)
  ultimately show ?thesis
    using place by (auto simp: place_def url_path_def Let_def url_elements_def)
qed

text \<open>Different objects of a kind, and the status and the object itself, have different paths.\<close>

lemma url_elements_inject:
  assumes "url_elements base ns res name sub = url_elements base ns' res name' sub'"
    and "name \<noteq> []" and "name' \<noteq> []" and "to_lower res \<noteq> ''namespaces''"
  shows "ns = ns' \<and> name = name' \<and> sub = sub'"
  using assms by (auto simp: url_elements_def split: if_splits)

end
