(* ===== verification/FleetClient.thy ===== *)
theory FleetClient
  imports RestRequest ReleaseApi CalendarApi
begin

text \<open>
  The generated typed clients for releases, calendars and events (\<open>release.go\<close>, \<open>releasecalendar.go\<close>
  and \<open>releaseevent.go\<close> under src/pkg/generated/clientset/versioned/typed/fleet): every method is a
  chain of setters that ends in a request to the server. The server is an argument, and so is the
  encoding of options and objects, which belongs to the scheme.
\<close>

text \<open>Of the options of a list the client looks at the timeout, in seconds, and sets the watch flag.\<close>

record list_options =
  lo_timeout_seconds :: "int option"
  lo_watch :: bool
  lo_other :: query

text \<open>The client of an API version: the prefix of its paths, the timeout of HTTP, the encodings.\<close>

record 'o rest_client =
  rc_prefix :: string
  rc_timeout :: int
  rc_params :: "'o \<Rightarrow> go_error + query"
  rc_list_params :: "list_options \<Rightarrow> go_error + query"
  rc_options_body :: "'o \<Rightarrow> go_error + string"

definition verb_request :: "'o rest_client \<Rightarrow> string \<Rightarrow> request" where
  "verb_request c verb = new_request (rc_prefix c) (rc_timeout c) verb"

definition patch_request :: "'o rest_client \<Rightarrow> string \<Rightarrow> request" where
  "patch_request c pt = (verb_request c ''PATCH'')\<lparr>rq_content_type := pt\<rparr>"

text \<open>\<open>time.Duration( *opts.TimeoutSeconds) * time.Second\<close> in 64 bits.\<close>

definition list_timeout :: "list_options \<Rightarrow> int" where
  "list_timeout opts =
     (case lo_timeout_seconds opts of None \<Rightarrow> 0 | Some t \<Rightarrow> signed_take_bit 63 (t * 1000000000))"

type_synonym 'a server = "request \<Rightarrow> go_error + 'a"

section \<open>Releases\<close>

definition releases_get ::
  "'a server \<Rightarrow> 'o rest_client \<Rightarrow> string \<Rightarrow> string \<Rightarrow> 'o \<Rightarrow> go_error + 'a" where
  "releases_get server c ns name opts =
     do_request server
      (with_params (rc_params c opts) (with_name name (with_resource ''releases'' (with_namespace ns
       (verb_request c ''GET'')))))"

definition releases_list ::
  "'a server \<Rightarrow> 'o rest_client \<Rightarrow> string \<Rightarrow> list_options \<Rightarrow> go_error + 'a" where
  "releases_list server c ns opts =
     do_request server
      (with_timeout (list_timeout opts) (with_params (rc_list_params c opts) (with_resource ''releases''
       (with_namespace ns (verb_request c ''GET'')))))"

definition releases_watch ::
  "'a server \<Rightarrow> 'o rest_client \<Rightarrow> string \<Rightarrow> list_options \<Rightarrow> go_error + 'a" where
  "releases_watch server c ns opts =
     watch_request server
      (with_timeout (list_timeout opts)
       (with_params (rc_list_params c (opts\<lparr>lo_watch := True\<rparr>)) (with_resource ''releases''
       (with_namespace ns (verb_request c ''GET'')))))"

definition releases_create ::
  "'a server \<Rightarrow> 'o rest_client \<Rightarrow> string \<Rightarrow> (release \<Rightarrow> go_error + string) \<Rightarrow> release \<Rightarrow> 'o \<Rightarrow> go_error + 'a" where
  "releases_create server c ns encode r opts =
     do_request server
      (with_body (encode r) (with_params (rc_params c opts) (with_resource ''releases'' (with_namespace ns
       (verb_request c ''POST'')))))"

definition releases_update ::
  "'a server \<Rightarrow> 'o rest_client \<Rightarrow> string \<Rightarrow> (release \<Rightarrow> go_error + string) \<Rightarrow> release \<Rightarrow> 'o \<Rightarrow> go_error + 'a" where
  "releases_update server c ns encode r opts =
     do_request server
      (with_body (encode r) (with_params (rc_params c opts) (with_name (rl_name r)
       (with_resource ''releases'' (with_namespace ns (verb_request c ''PUT''))))))"

definition releases_update_status ::
  "'a server \<Rightarrow> 'o rest_client \<Rightarrow> string \<Rightarrow> (release \<Rightarrow> go_error + string) \<Rightarrow> release \<Rightarrow> 'o \<Rightarrow> go_error + 'a" where
  "releases_update_status server c ns encode r opts =
     do_request server
      (with_body (encode r) (with_params (rc_params c opts) (with_subresource [''status'']
       (with_name (rl_name r) (with_resource ''releases'' (with_namespace ns
       (verb_request c ''PUT'')))))))"

definition releases_delete ::
  "'a server \<Rightarrow> 'o rest_client \<Rightarrow> string \<Rightarrow> string \<Rightarrow> 'o \<Rightarrow> go_error + 'a" where
  "releases_delete server c ns name opts =
     do_request server
      (with_body (rc_options_body c opts) (with_name name (with_resource ''releases'' (with_namespace ns
       (verb_request c ''DELETE'')))))"

definition releases_delete_collection ::
  "'a server \<Rightarrow> 'o rest_client \<Rightarrow> string \<Rightarrow> 'o \<Rightarrow> list_options \<Rightarrow> go_error + 'a" where
  "releases_delete_collection server c ns opts list_opts =
     do_request server
      (with_body (rc_options_body c opts) (with_timeout (list_timeout list_opts)
       (with_params (rc_list_params c list_opts) (with_resource ''releases'' (with_namespace ns
       (verb_request c ''DELETE''))))))"

definition releases_patch ::
  "'a server \<Rightarrow> 'o rest_client \<Rightarrow> string \<Rightarrow> string \<Rightarrow> string \<Rightarrow> string \<Rightarrow> 'o \<Rightarrow> string list \<Rightarrow> go_error + 'a" where
  "releases_patch server c ns name pt data opts subs =
     do_request server
      (with_body (Inr data) (with_params (rc_params c opts) (with_subresource subs (with_name name
       (with_resource ''releases'' (with_namespace ns (patch_request c pt)))))))"

section \<open>Calendars\<close>

definition calendars_get ::
  "'a server \<Rightarrow> 'o rest_client \<Rightarrow> string \<Rightarrow> string \<Rightarrow> 'o \<Rightarrow> go_error + 'a" where
  "calendars_get server c ns name opts =
     do_request server
      (with_params (rc_params c opts) (with_name name (with_resource ''releasecalendars''
       (with_namespace ns (verb_request c ''GET'')))))"

definition calendars_list ::
  "'a server \<Rightarrow> 'o rest_client \<Rightarrow> string \<Rightarrow> list_options \<Rightarrow> go_error + 'a" where
  "calendars_list server c ns opts =
     do_request server
      (with_timeout (list_timeout opts) (with_params (rc_list_params c opts)
       (with_resource ''releasecalendars'' (with_namespace ns (verb_request c ''GET'')))))"

definition calendars_watch ::
  "'a server \<Rightarrow> 'o rest_client \<Rightarrow> string \<Rightarrow> list_options \<Rightarrow> go_error + 'a" where
  "calendars_watch server c ns opts =
     watch_request server
      (with_timeout (list_timeout opts)
       (with_params (rc_list_params c (opts\<lparr>lo_watch := True\<rparr>))
       (with_resource ''releasecalendars'' (with_namespace ns (verb_request c ''GET'')))))"

definition calendars_create ::
  "'a server \<Rightarrow> 'o rest_client \<Rightarrow> string \<Rightarrow> (calendar \<Rightarrow> go_error + string) \<Rightarrow> calendar \<Rightarrow> 'o \<Rightarrow> go_error + 'a" where
  "calendars_create server c ns encode cal opts =
     do_request server
      (with_body (encode cal) (with_params (rc_params c opts) (with_resource ''releasecalendars''
       (with_namespace ns (verb_request c ''POST'')))))"

definition calendars_update ::
  "'a server \<Rightarrow> 'o rest_client \<Rightarrow> string \<Rightarrow> (calendar \<Rightarrow> go_error + string) \<Rightarrow> calendar \<Rightarrow> 'o \<Rightarrow> go_error + 'a" where
  "calendars_update server c ns encode cal opts =
     do_request server
      (with_body (encode cal) (with_params (rc_params c opts) (with_name (om_name (cal_meta cal))
       (with_resource ''releasecalendars'' (with_namespace ns (verb_request c ''PUT''))))))"

definition calendars_delete ::
  "'a server \<Rightarrow> 'o rest_client \<Rightarrow> string \<Rightarrow> string \<Rightarrow> 'o \<Rightarrow> go_error + 'a" where
  "calendars_delete server c ns name opts =
     do_request server
      (with_body (rc_options_body c opts) (with_name name (with_resource ''releasecalendars''
       (with_namespace ns (verb_request c ''DELETE'')))))"

definition calendars_delete_collection ::
  "'a server \<Rightarrow> 'o rest_client \<Rightarrow> string \<Rightarrow> 'o \<Rightarrow> list_options \<Rightarrow> go_error + 'a" where
  "calendars_delete_collection server c ns opts list_opts =
     do_request server
      (with_body (rc_options_body c opts) (with_timeout (list_timeout list_opts)
       (with_params (rc_list_params c list_opts) (with_resource ''releasecalendars'' (with_namespace ns
       (verb_request c ''DELETE''))))))"

definition calendars_patch ::
  "'a server \<Rightarrow> 'o rest_client \<Rightarrow> string \<Rightarrow> string \<Rightarrow> string \<Rightarrow> string \<Rightarrow> 'o \<Rightarrow> string list \<Rightarrow> go_error + 'a" where
  "calendars_patch server c ns name pt data opts subs =
     do_request server
      (with_body (Inr data) (with_params (rc_params c opts) (with_subresource subs (with_name name
       (with_resource ''releasecalendars'' (with_namespace ns (patch_request c pt)))))))"

section \<open>Events\<close>

definition events_get ::
  "'a server \<Rightarrow> 'o rest_client \<Rightarrow> string \<Rightarrow> string \<Rightarrow> 'o \<Rightarrow> go_error + 'a" where
  "events_get server c ns name opts =
     do_request server
      (with_params (rc_params c opts) (with_name name (with_resource ''releaseevents'' (with_namespace ns
       (verb_request c ''GET'')))))"

definition events_list ::
  "'a server \<Rightarrow> 'o rest_client \<Rightarrow> string \<Rightarrow> list_options \<Rightarrow> go_error + 'a" where
  "events_list server c ns opts =
     do_request server
      (with_timeout (list_timeout opts) (with_params (rc_list_params c opts)
       (with_resource ''releaseevents'' (with_namespace ns (verb_request c ''GET'')))))"

definition events_watch ::
  "'a server \<Rightarrow> 'o rest_client \<Rightarrow> string \<Rightarrow> list_options \<Rightarrow> go_error + 'a" where
  "events_watch server c ns opts =
     watch_request server
      (with_timeout (list_timeout opts)
       (with_params (rc_list_params c (opts\<lparr>lo_watch := True\<rparr>))
       (with_resource ''releaseevents'' (with_namespace ns (verb_request c ''GET'')))))"

definition events_create ::
  "'a server \<Rightarrow> 'o rest_client \<Rightarrow> string \<Rightarrow> (event \<Rightarrow> go_error + string) \<Rightarrow> event \<Rightarrow> 'o \<Rightarrow> go_error + 'a" where
  "events_create server c ns encode ev opts =
     do_request server
      (with_body (encode ev) (with_params (rc_params c opts) (with_resource ''releaseevents''
       (with_namespace ns (verb_request c ''POST'')))))"

definition events_update ::
  "'a server \<Rightarrow> 'o rest_client \<Rightarrow> string \<Rightarrow> (event \<Rightarrow> go_error + string) \<Rightarrow> event \<Rightarrow> 'o \<Rightarrow> go_error + 'a" where
  "events_update server c ns encode ev opts =
     do_request server
      (with_body (encode ev) (with_params (rc_params c opts) (with_name (om_name (ev_meta ev))
       (with_resource ''releaseevents'' (with_namespace ns (verb_request c ''PUT''))))))"

definition events_update_status ::
  "'a server \<Rightarrow> 'o rest_client \<Rightarrow> string \<Rightarrow> (event \<Rightarrow> go_error + string) \<Rightarrow> event \<Rightarrow> 'o \<Rightarrow> go_error + 'a" where
  "events_update_status server c ns encode ev opts =
     do_request server
      (with_body (encode ev) (with_params (rc_params c opts) (with_subresource [''status'']
       (with_name (om_name (ev_meta ev)) (with_resource ''releaseevents'' (with_namespace ns
       (verb_request c ''PUT'')))))))"

definition events_delete ::
  "'a server \<Rightarrow> 'o rest_client \<Rightarrow> string \<Rightarrow> string \<Rightarrow> 'o \<Rightarrow> go_error + 'a" where
  "events_delete server c ns name opts =
     do_request server
      (with_body (rc_options_body c opts) (with_name name (with_resource ''releaseevents''
       (with_namespace ns (verb_request c ''DELETE'')))))"

definition events_delete_collection ::
  "'a server \<Rightarrow> 'o rest_client \<Rightarrow> string \<Rightarrow> 'o \<Rightarrow> list_options \<Rightarrow> go_error + 'a" where
  "events_delete_collection server c ns opts list_opts =
     do_request server
      (with_body (rc_options_body c opts) (with_timeout (list_timeout list_opts)
       (with_params (rc_list_params c list_opts) (with_resource ''releaseevents'' (with_namespace ns
       (verb_request c ''DELETE''))))))"

definition events_patch ::
  "'a server \<Rightarrow> 'o rest_client \<Rightarrow> string \<Rightarrow> string \<Rightarrow> string \<Rightarrow> string \<Rightarrow> 'o \<Rightarrow> string list \<Rightarrow> go_error + 'a" where
  "events_patch server c ns name pt data opts subs =
     do_request server
      (with_body (Inr data) (with_params (rc_params c opts) (with_subresource subs (with_name name
       (with_resource ''releaseevents'' (with_namespace ns (patch_request c pt)))))))"

section \<open>Where the requests go\<close>

text \<open>A request that is sent names an object of a kind, by segments of a path.\<close>

definition addressed :: "string \<Rightarrow> string \<Rightarrow> string \<Rightarrow> string \<Rightarrow> string \<Rightarrow> request \<Rightarrow> bool" where
  "addressed prefix res ns name sub q \<longleftrightarrow>
     place q = (prefix, Some ns, res, name, sub) \<and> valid_segment ns \<and> name \<noteq> [] \<and> valid_segment name"

lemma do_request_sent: "do_request Inr q0 = Inr q \<Longrightarrow> q = q0 \<and> rq_err q0 = None"
  by (simp add: do_request_def rejected_def split: option.splits)

lemma new_request_fields [simp]:
  "rq_err (new_request p t v) = None" "rq_namespace (new_request p t v) = None" "rq_resource (new_request p t v) = []"
  "rq_name (new_request p t v) = []" "rq_subresource (new_request p t v) = []"
  by (simp_all add: new_request_def)

lemma place_fields: "place q = (p, ns, res, n, s) \<Longrightarrow>
    rq_namespace q = ns \<and> rq_resource q = res \<and> rq_name q = n \<and> rq_subresource q = s"
  by (simp add: place_def)

lemma join_status: "join_path [''status''] = ''status''"
  by code_simp

text \<open>The chain of a request for an object, before its options and body.\<close>

lemma object_chain:
  assumes "rq_err (with_name name (with_resource res (with_namespace ns q0))) = None" and "place q0 = (p, None, [], [], [])"
  shows "addressed p res ns name [] (with_name name (with_resource res (with_namespace ns q0)))"
proof -
  have ok: "rq_err (with_resource res (with_namespace ns q0)) = None" "rq_err (with_namespace ns q0) = None"
    "name \<noteq> []" "valid_segment name" "valid_segment ns"
    using assms(1) by simp_all
  have "place (with_resource res (with_namespace ns q0)) = (p, Some ns, res, [], [])"
    by (rule place_simps(5) [OF ok(1) place_simps(7) [OF ok(2) assms(2)]])
  with ok place_simps(6) [OF assms(1)] show ?thesis by (simp add: addressed_def)
qed

lemma subresource_chain:
  assumes "rq_err (with_subresource subs q) = None" and "addressed p res ns name [] q"
  shows "addressed p res ns name (join_path subs) (with_subresource subs q)"
  using assms place_simps(8) [OF assms(1)] by (auto simp: addressed_def)

lemma addressed_kept:
  "addressed p res ns name sub q \<Longrightarrow> addressed p res ns name sub (with_params e q)"
  "addressed p res ns name sub q \<Longrightarrow> addressed p res ns name sub (with_body b q)"
  by (simp_all add: addressed_def place_simps)

lemma place_start: "place (verb_request c v) = (rc_prefix c, None, [], [], [])"
  "place (patch_request c pt) = (rc_prefix c, None, [], [], [])"
  by (simp_all add: verb_request_def patch_request_def new_request_def place_def)

lemmas named_defs =
  releases_get_def releases_update_def releases_update_status_def releases_delete_def releases_patch_def
  calendars_get_def calendars_update_def calendars_delete_def calendars_patch_def
  events_get_def events_update_def events_update_status_def events_delete_def events_patch_def

lemma without_name:
  "rq_err (with_params e q) = None \<Longrightarrow> rq_err q = None" "rq_err (with_body b q) = None \<Longrightarrow> rq_err q = None"
  "rq_err (with_subresource s q) = None \<Longrightarrow> rq_err q = None"
  by simp_all

lemma release_requests:
  "releases_get Inr c ns name opts = Inr q \<Longrightarrow> addressed (rc_prefix c) ''releases'' ns name [] q"
  "releases_update Inr c ns encode r opts = Inr q \<Longrightarrow> addressed (rc_prefix c) ''releases'' ns (rl_name r) [] q"
  "releases_update_status Inr c ns encode r opts = Inr q \<Longrightarrow>
     addressed (rc_prefix c) ''releases'' ns (rl_name r) ''status'' q"
  "releases_delete Inr c ns name opts = Inr q \<Longrightarrow> addressed (rc_prefix c) ''releases'' ns name [] q"
  "releases_patch Inr c ns name pt data opts subs = Inr q \<Longrightarrow>
     addressed (rc_prefix c) ''releases'' ns name (join_path subs) q"
  unfolding named_defs
  by (drule do_request_sent, elim conjE, hypsubst, intro addressed_kept,
      (subst join_status [symmetric], rule subresource_chain | rule subresource_chain)?;
      (rule object_chain [OF _ place_start(1)] | rule object_chain [OF _ place_start(2)])?;
      blast dest: without_name)+

lemma event_requests:
  "events_update Inr c ns encode ev opts = Inr q \<Longrightarrow> addressed (rc_prefix c) ''releaseevents'' ns (om_name (ev_meta ev)) [] q"
  "events_update_status Inr c ns encode ev opts = Inr q \<Longrightarrow>
     addressed (rc_prefix c) ''releaseevents'' ns (om_name (ev_meta ev)) ''status'' q"
  unfolding named_defs
  by (drule do_request_sent, elim conjE, hypsubst, intro addressed_kept,
      (subst join_status [symmetric], rule subresource_chain | rule subresource_chain)?;
      (rule object_chain [OF _ place_start(1)])?; blast dest: without_name)+

lemma addressed_path:
  assumes "addressed (rooted base) res ns name sub q" and "list_all proper base" and "proper (to_lower res)"
    and "sub = [] \<or> proper sub"
  shows "url_path q = rooted (url_elements base ns res name sub)"
  by (rule url_path_place) (use assms in \<open>auto simp: addressed_def intro: proper_segment\<close>)

lemma proper_elements:
  assumes "list_all proper base" and "ns = [] \<or> proper ns" and "proper (to_lower res)" and "proper name"
    and "sub = [] \<or> proper sub"
  shows "list_all proper (url_elements base ns res name sub)"
  using assms by (auto simp: url_elements_def proper_def)

text \<open>Requests for objects of a kind that have the same path are for the same part of the same object.\<close>

lemma path_identifies:
  assumes base: "list_all proper base" and res: "proper (to_lower res)" "to_lower res \<noteq> ''namespaces''"
    and q: "addressed (rooted base) res ns name sub q" "sub = [] \<or> proper sub"
    and q': "addressed (rooted base) res ns' name' sub' q'" "sub' = [] \<or> proper sub'"
    and path: "url_path q = url_path q'"
  shows "ns = ns' \<and> name = name' \<and> sub = sub'"
proof -
  have names: "ns = [] \<or> proper ns" "proper name" "ns' = [] \<or> proper ns'" "proper name'"
    using q(1) q'(1) by (auto simp: addressed_def intro: proper_segment)
  have "url_elements base ns res name sub = url_elements base ns' res name' sub'"
    by (rule rooted_inject) (use names path addressed_path [OF q(1) base res(1) q(2)] addressed_path [OF q'(1) base res(1) q'(2)]
      in \<open>simp_all add: proper_elements base res q(2) q'(2)\<close>)
  then show ?thesis by (rule url_elements_inject) (use names res(2) in \<open>auto simp: proper_def\<close>)
qed

text \<open>
  The controller's update of the status of a release and the worker's patch of it go to one path
  exactly when they are for the same release, and an update of the release itself goes to neither.
\<close>

theorem release_writes_addressed:
  assumes prefix: "rc_prefix c = rooted base" "list_all proper base"
    and update: "releases_update Inr c ns encode r opts = Inr q"
    and status: "releases_update_status Inr c ns' encode r' opts' = Inr q'"
    and patch: "releases_patch Inr c ns'' name pt data opts'' [''status''] = Inr q''"
  shows "url_path q \<noteq> url_path q' \<and> url_path q \<noteq> url_path q'' \<and>
    (url_path q' = url_path q'' \<longleftrightarrow> ns' = ns'' \<and> rl_name r' = name)"
proof -
  have res: "proper (to_lower ''releases'')" "to_lower ''releases'' \<noteq> ''namespaces''" "proper ''status''"
    by code_simp+
  note at = release_requests(2) [OF update, unfolded prefix(1)] release_requests(3) [OF status, unfolded prefix(1)]
    release_requests(5) [OF patch, unfolded prefix(1) join_status]
  note id = path_identifies [OF prefix(2) res(1,2)]
  have "url_path q \<noteq> url_path q'" using id [OF at(1) _ at(2)] res(3) by (auto simp: proper_def)
  moreover have "url_path q \<noteq> url_path q''" using id [OF at(1) _ at(3)] res(3) by (auto simp: proper_def)
  moreover have "url_path q' = url_path q'' \<longleftrightarrow> ns' = ns'' \<and> rl_name r' = name"
    using id [OF at(2) _ at(3)] res(3) addressed_path [OF at(2) prefix(2) res(1)] addressed_path [OF at(3) prefix(2) res(1)]
    by auto
  ultimately show ?thesis by blast
qed

text \<open>The timeout of a list wraps around for more than 292 years.\<close>

lemma list_timeout_exact:
  assumes "lo_timeout_seconds opts = Some t" and "\<bar>t\<bar> \<le> 9223372036"
  shows "list_timeout opts = t * 1000000000"
  using assms by (simp add: list_timeout_def signed_take_bit_int_eq_self)

lemma list_timeout_wraps:
  "list_timeout \<lparr>lo_timeout_seconds = Some 9223372037, lo_watch = False, lo_other = []\<rparr> = - 9223372036709551616"
  by (simp add: list_timeout_def signed_take_bit_int_eq_self)

end
