(* ===== verification/InformerFactory.thy ===== *)
theory InformerFactory
  imports FleetClient KubeMeta
begin

text \<open>
  The generated factory of shared informers (src/pkg/generated/informers/externalversions): one informer
  for every type that somebody has asked for, \<open>Start\<close> that runs those that do not run yet, and \<open>Shutdown\<close>,
  after which nothing is started any more. The methods hold a lock, so a run is a sequence of
  them and of goroutines that end; it is the state machine at the end. The caches are libraries.
\<close>

section \<open>The factory\<close>

text \<open>
  The types, by their names; an informer with what its reflector lists and watches: the namespace, the
  index and the function that edits the options of every list.
\<close>

type_synonym tweak = "list_options \<Rightarrow> list_options"

record shared_informer =
  si_type :: string
  si_namespace :: string
  si_resync :: int
  si_indexers :: "string list"
  si_tweak :: "tweak option"

record informer_factory =
  if_namespace :: string
  if_tweak :: "tweak option"
  if_default_resync :: int
  if_custom_resync :: "int gomap"
  if_informers :: "(string \<times> shared_informer) list"
  if_started :: "(string \<times> bool) list"
  if_running :: nat
  if_shutting_down :: bool

definition with_custom_resync_config :: "int gomap \<Rightarrow> informer_factory \<Rightarrow> informer_factory" where
  "with_custom_resync_config cfg f =
     f\<lparr>if_custom_resync := fold (\<lambda>(t, d). AList.update t d) cfg (if_custom_resync f)\<rparr>"

definition with_tweak_list_options :: "tweak option \<Rightarrow> informer_factory \<Rightarrow> informer_factory" where
  "with_tweak_list_options tw f = f\<lparr>if_tweak := tw\<rparr>"

definition with_factory_namespace :: "string \<Rightarrow> informer_factory \<Rightarrow> informer_factory" where
  "with_factory_namespace ns f = f\<lparr>if_namespace := ns\<rparr>"

definition new_factory_with_options ::
  "int \<Rightarrow> (informer_factory \<Rightarrow> informer_factory) list \<Rightarrow> informer_factory" where
  "new_factory_with_options resync opts =
     fold (\<lambda>opt. opt) opts
       \<lparr>if_namespace = [], if_tweak = None, if_default_resync = resync, if_custom_resync = [], if_informers = [],
        if_started = [], if_running = 0, if_shutting_down = False\<rparr>"

definition new_informer_factory :: "int \<Rightarrow> informer_factory" where
  "new_informer_factory resync = new_factory_with_options resync []"

definition new_filtered_factory :: "int \<Rightarrow> string \<Rightarrow> tweak option \<Rightarrow> informer_factory" where
  "new_filtered_factory resync ns tw =
     new_factory_with_options resync [with_factory_namespace ns, with_tweak_list_options tw]"

text \<open>\<open>InformerFor\<close>: the informer that is there, or a new one with the period of its type.\<close>

definition informer_for ::
  "string \<Rightarrow> (int \<Rightarrow> shared_informer) \<Rightarrow> informer_factory \<Rightarrow> shared_informer \<times> informer_factory" where
  "informer_for t new_informer f =
     (case map_of (if_informers f) t of
        Some i \<Rightarrow> (i, f)
      | None \<Rightarrow>
          let period = (case map_of (if_custom_resync f) t of Some d \<Rightarrow> d | None \<Rightarrow> if_default_resync f);
              i = new_informer period
          in (i, f\<lparr>if_informers := AList.update t i (if_informers f)\<rparr>))"

definition is_started :: "informer_factory \<Rightarrow> string \<Rightarrow> bool" where
  "is_started f t \<longleftrightarrow> map_of (if_started f) t = Some True"

text \<open>
  \<open>Start\<close>: the range over the informers, and the informers whose \<open>Run\<close> it has spawned, in the order in
  which the map is visited.
\<close>

definition start_one ::
  "string \<times> shared_informer \<Rightarrow> informer_factory \<times> shared_informer list \<Rightarrow> informer_factory \<times> shared_informer list" where
  "start_one e s =
     (case (e, s) of ((t, i), (f, launched)) \<Rightarrow>
        if is_started f t then (f, launched)
        else (f\<lparr>if_running := Suc (if_running f), if_started := AList.update t True (if_started f)\<rparr>, launched @ [i]))"

definition start_factory :: "informer_factory \<Rightarrow> informer_factory \<times> shared_informer list" where
  "start_factory f = (if if_shutting_down f then (f, []) else fold start_one (if_informers f) (f, []))"

text \<open>\<open>Shutdown\<close> marks the factory and then waits until no goroutine runs.\<close>

definition shutdown_factory :: "informer_factory \<Rightarrow> informer_factory" where
  "shutdown_factory f = f\<lparr>if_shutting_down := True\<rparr>"

definition shutdown_returns :: "informer_factory \<Rightarrow> bool" where
  "shutdown_returns f \<longleftrightarrow> if_running f = 0"

text \<open>\<open>wg.Done\<close> of a goroutine whose \<open>Run\<close> has returned.\<close>

definition run_ended :: "informer_factory \<Rightarrow> informer_factory" where
  "run_ended f = f\<lparr>if_running := if_running f - 1\<rparr>"

text \<open>\<open>WaitForCacheSync\<close>: the answers of the caches for the informers that were started.\<close>

definition wait_for_cache_sync :: "(shared_informer \<Rightarrow> bool) \<Rightarrow> informer_factory \<Rightarrow> (string \<times> bool) list" where
  "wait_for_cache_sync synced f =
     map (\<lambda>(t, i). (t, synced i)) (filter (\<lambda>(t, i). is_started f t) (if_informers f))"

section \<open>The informers of the three kinds\<close>

text \<open>\<open>Fleet()\<close> and the interfaces of the group and its versions hand namespace and edits on.\<close>

record informer_access =
  ia_namespace :: string
  ia_tweak :: "tweak option"

definition fleet_access :: "informer_factory \<Rightarrow> informer_access" where
  "fleet_access f = \<lparr>ia_namespace = if_namespace f, ia_tweak = if_tweak f\<rparr>"

definition new_filtered_release_informer :: "string \<Rightarrow> int \<Rightarrow> string list \<Rightarrow> tweak option \<Rightarrow> shared_informer" where
  "new_filtered_release_informer ns period indexers tw =
     \<lparr>si_type = ''Release'', si_namespace = ns, si_resync = period, si_indexers = indexers, si_tweak = tw\<rparr>"

definition new_filtered_calendar_informer :: "string \<Rightarrow> int \<Rightarrow> string list \<Rightarrow> tweak option \<Rightarrow> shared_informer" where
  "new_filtered_calendar_informer ns period indexers tw =
     \<lparr>si_type = ''ReleaseCalendar'', si_namespace = ns, si_resync = period, si_indexers = indexers, si_tweak = tw\<rparr>"

definition new_filtered_event_informer :: "string \<Rightarrow> int \<Rightarrow> string list \<Rightarrow> tweak option \<Rightarrow> shared_informer" where
  "new_filtered_event_informer ns period indexers tw =
     \<lparr>si_type = ''ReleaseEvent'', si_namespace = ns, si_resync = period, si_indexers = indexers, si_tweak = tw\<rparr>"

text \<open>\<open>defaultInformer\<close> and \<open>Informer\<close>.\<close>

definition default_release_informer :: "informer_access \<Rightarrow> int \<Rightarrow> shared_informer" where
  "default_release_informer a period = new_filtered_release_informer (ia_namespace a) period [''namespace''] (ia_tweak a)"

definition default_calendar_informer :: "informer_access \<Rightarrow> int \<Rightarrow> shared_informer" where
  "default_calendar_informer a period = new_filtered_calendar_informer (ia_namespace a) period [''namespace''] (ia_tweak a)"

definition default_event_informer :: "informer_access \<Rightarrow> int \<Rightarrow> shared_informer" where
  "default_event_informer a period = new_filtered_event_informer (ia_namespace a) period [''namespace''] (ia_tweak a)"

definition release_informer :: "informer_factory \<Rightarrow> shared_informer \<times> informer_factory" where
  "release_informer f = informer_for ''Release'' (default_release_informer (fleet_access f)) f"

definition calendar_informer :: "informer_factory \<Rightarrow> shared_informer \<times> informer_factory" where
  "calendar_informer f = informer_for ''ReleaseCalendar'' (default_calendar_informer (fleet_access f)) f"

definition event_informer :: "informer_factory \<Rightarrow> shared_informer \<times> informer_factory" where
  "event_informer f = informer_for ''ReleaseEvent'' (default_event_informer (fleet_access f)) f"

text \<open>What the reflector of an informer sends: \<open>ListFunc\<close> and \<open>WatchFunc\<close>.\<close>

definition tweaked :: "shared_informer \<Rightarrow> tweak" where
  "tweaked i opts = (case si_tweak i of None \<Rightarrow> opts | Some f \<Rightarrow> f opts)"

definition release_list_func :: "'a server \<Rightarrow> 'o rest_client \<Rightarrow> shared_informer \<Rightarrow> list_options \<Rightarrow> go_error + 'a" where
  "release_list_func server c i opts = releases_list server c (si_namespace i) (tweaked i opts)"

definition release_watch_func :: "'a server \<Rightarrow> 'o rest_client \<Rightarrow> shared_informer \<Rightarrow> list_options \<Rightarrow> go_error + 'a" where
  "release_watch_func server c i opts = releases_watch server c (si_namespace i) (tweaked i opts)"

definition calendar_list_func :: "'a server \<Rightarrow> 'o rest_client \<Rightarrow> shared_informer \<Rightarrow> list_options \<Rightarrow> go_error + 'a" where
  "calendar_list_func server c i opts = calendars_list server c (si_namespace i) (tweaked i opts)"

definition calendar_watch_func :: "'a server \<Rightarrow> 'o rest_client \<Rightarrow> shared_informer \<Rightarrow> list_options \<Rightarrow> go_error + 'a" where
  "calendar_watch_func server c i opts = calendars_watch server c (si_namespace i) (tweaked i opts)"

definition event_list_func :: "'a server \<Rightarrow> 'o rest_client \<Rightarrow> shared_informer \<Rightarrow> list_options \<Rightarrow> go_error + 'a" where
  "event_list_func server c i opts = events_list server c (si_namespace i) (tweaked i opts)"

definition event_watch_func :: "'a server \<Rightarrow> 'o rest_client \<Rightarrow> shared_informer \<Rightarrow> list_options \<Rightarrow> go_error + 'a" where
  "event_watch_func server c i opts = events_watch server c (si_namespace i) (tweaked i opts)"

text \<open>\<open>ForResource\<close>: an informer for a group, a version and a resource.\<close>

definition for_resource ::
  "string \<Rightarrow> string \<Rightarrow> string \<Rightarrow> informer_factory \<Rightarrow> (go_error + shared_informer) \<times> informer_factory" where
  "for_resource grp version resource f =
     (if (grp, version, resource) = (''fleet.crd.tess.io'', ''v1alpha1'', ''releases'')
      then map_prod Inr id (release_informer f)
      else if (grp, version, resource) = (''fleet.crd.tess.io'', ''v1alpha2'', ''releasecalendars'')
      then map_prod Inr id (calendar_informer f)
      else if (grp, version, resource) = (''fleet.crd.tess.io'', ''v1alpha2'', ''releaseevents'')
      then map_prod Inr id (event_informer f)
      else (Inl (Errorf ''no informer found''), f))"

section \<open>The factory as a state machine\<close>

text \<open>A state is the factory with the informers that \<open>Start\<close> has run so far.\<close>

inductive factory_step ::
  "informer_factory \<times> shared_informer list \<Rightarrow> informer_factory \<times> shared_informer list \<Rightarrow> bool"
where
  ask: "(\<And>p. si_type (new_informer p) = t) \<Longrightarrow> factory_step (f, ls) (snd (informer_for t new_informer f), ls)"
| start: "start_factory f = (f', launched) \<Longrightarrow> factory_step (f, ls) (f', ls @ launched)"
| ended: "0 < if_running f \<Longrightarrow> factory_step (f, ls) (run_ended f, ls)"
| shutdown: "factory_step (f, ls) (shutdown_factory f, ls)"

inductive_cases factory_stepE: "factory_step s s'"

definition factory_ok :: "informer_factory \<times> shared_informer list \<Rightarrow> bool" where
  "factory_ok s \<longleftrightarrow>
     (case s of (f, ls) \<Rightarrow>
        distinct (map fst (if_informers f)) \<and>
        (\<forall>(t, i)\<in>set (if_informers f). si_type i = t) \<and>
        distinct (map si_type ls) \<and>
        set ls = snd ` {e \<in> set (if_informers f). is_started f (fst e)} \<and>
        (\<forall>t. is_started f t \<longrightarrow> t \<in> fst ` set (if_informers f)) \<and>
        if_running f \<le> length ls)"

lemma start_one_new: "\<not> is_started f t \<Longrightarrow> start_one (t, i) (f, ls) =
    (f\<lparr>if_running := Suc (if_running f), if_started := AList.update t True (if_started f)\<rparr>, ls @ [i])"
  and start_one_old: "is_started f t \<Longrightarrow> start_one (t, i) (f, ls) = (f, ls)"
  by (simp_all add: start_one_def)

lemma start_fold:
  assumes "distinct (map fst es)" and "fold start_one es (f, ls) = (f', ls')"
  shows "ls' = ls @ map snd (filter (\<lambda>e. \<not> is_started f (fst e)) es) \<and>
    (\<forall>t. is_started f' t \<longleftrightarrow> is_started f t \<or> t \<in> fst ` set es) \<and> if_informers f' = if_informers f \<and>
    if_shutting_down f' = if_shutting_down f \<and>
    if_running f' = if_running f + length (filter (\<lambda>e. \<not> is_started f (fst e)) es)"
  using assms
proof (induction es arbitrary: f ls)
  case (Cons e es)
  obtain t i where e: "e = (t, i)" by force
  show ?case
  proof (cases "is_started f t")
    case True
    with Cons.IH [of f ls] Cons.prems e show ?thesis by (auto simp: start_one_old)
  next
    case False
    let ?g = "f\<lparr>if_running := Suc (if_running f), if_started := AList.update t True (if_started f)\<rparr>"
    have started: "is_started ?g u \<longleftrightarrow> is_started f u \<or> u = t" for u by (auto simp: is_started_def update_conv')
    have "filter (\<lambda>e. \<not> is_started ?g (fst e)) es = filter (\<lambda>e. \<not> is_started f (fst e)) es"
      using Cons.prems(1) by (auto simp: started e intro!: filter_cong)
    moreover have "fold start_one es (?g, ls @ [i]) = (f', ls')" using Cons.prems(2) False by (simp add: e start_one_new)
    ultimately show ?thesis using Cons.IH [of ?g "ls @ [i]"] Cons.prems(1) False by (simp add: e started)
  qed
qed simp

lemma start_launches:
  assumes "factory_ok (f, ls)" and "start_factory f = (f', launched)" and "\<not> if_shutting_down f"
  shows "launched = map snd (filter (\<lambda>e. \<not> is_started f (fst e)) (if_informers f))"
    and "is_started f' t \<longleftrightarrow> is_started f t \<or> t \<in> fst ` set (if_informers f)"
    and "if_informers f' = if_informers f"
    and "if_running f' = if_running f + length launched"
  using assms start_fold [of "if_informers f" f "[]" f' launched]
  by (auto simp: factory_ok_def start_factory_def)

lemma factory_ok_start:
  assumes ok: "factory_ok (f, ls)" and run: "start_factory f = (f', launched)"
  shows "factory_ok (f', ls @ launched)"
proof (cases "if_shutting_down f")
  case True
  with assms show ?thesis by (simp add: start_factory_def)
next
  case False
  note start = start_launches [OF ok run False]
  let ?new = "filter (\<lambda>e. \<not> is_started f (fst e)) (if_informers f)"
  have typed: "\<And>t i. (t, i) \<in> set (if_informers f) \<Longrightarrow> si_type i = t" and keys: "distinct (map fst (if_informers f))"
    and set_ls: "set ls = snd ` {e \<in> set (if_informers f). is_started f (fst e)}"
    using ok by (auto simp: factory_ok_def)
  have "map si_type launched = map fst ?new" using typed by (auto simp: start(1))
  then have "distinct (map si_type launched)" using keys by (simp add: distinct_map_filter)
  moreover have "si_type ` set ls \<inter> si_type ` set launched = {}"
    unfolding set_ls start(1) using typed by fastforce
  moreover have "distinct (map si_type ls)" using ok by (simp add: factory_ok_def)
  ultimately have "distinct (map si_type (ls @ launched))"
    unfolding map_append distinct_append set_map by blast
  moreover have "set (ls @ launched) = snd ` {e \<in> set (if_informers f'). is_started f' (fst e)}"
    by (auto simp: set_ls start image_iff)
  ultimately show ?thesis using ok start by (auto simp: factory_ok_def)
qed

lemma update_new_key: "k \<notin> fst ` set xs \<Longrightarrow> AList.update k v xs = xs @ [(k, v)]"
  by (induction xs) auto

lemma factory_ok_ask:
  assumes ok: "factory_ok (f, ls)" and typed: "\<And>p. si_type (new_informer p) = t"
  shows "factory_ok (snd (informer_for t new_informer f), ls)"
proof (cases "map_of (if_informers f) t")
  case None
  then have fresh: "t \<notin> fst ` set (if_informers f)" by (simp add: map_of_eq_None_iff)
  define i where "i = new_informer (case map_of (if_custom_resync f) t of Some d \<Rightarrow> d | None \<Rightarrow> if_default_resync f)"
  define f' where "f' = f\<lparr>if_informers := if_informers f @ [(t, i)]\<rparr>"
  have update: "AList.update t i (if_informers f) = if_informers f @ [(t, i)]"
    using fresh by (rule update_new_key)
  have "snd (informer_for t new_informer f) = f'" using None update
    by (simp add: informer_for_def Let_def f'_def i_def [symmetric])
  moreover have "si_type i = t" by (simp add: i_def typed)
  moreover have "\<not> is_started f t" using ok fresh by (auto simp: factory_ok_def)
  ultimately show ?thesis using ok fresh by (auto simp: factory_ok_def f'_def is_started_def)
qed (use ok in \<open>simp add: informer_for_def\<close>)

lemma factory_ok_step: "factory_step s s' \<Longrightarrow> factory_ok s \<Longrightarrow> factory_ok s'"
proof (induction rule: factory_step.induct)
  case (ask new_informer t f ls)
  then show ?case by (intro factory_ok_ask)
next
  case (start f f' launched ls)
  then show ?case by (intro factory_ok_start)
next
  case (ended f ls)
  then show ?case by (auto simp: factory_ok_def run_ended_def is_started_def)
next
  case (shutdown f ls)
  then show ?case by (auto simp: factory_ok_def shutdown_factory_def is_started_def)
qed

lemma new_factory_ok: "factory_ok (new_informer_factory resync, [])" "factory_ok (new_filtered_factory resync ns tw, [])"
  by (simp_all add: factory_ok_def is_started_def new_informer_factory_def new_filtered_factory_def
      new_factory_with_options_def with_factory_namespace_def with_tweak_list_options_def)

lemma factory_ok_reachable: "factory_step\<^sup>*\<^sup>* s s' \<Longrightarrow> factory_ok s \<Longrightarrow> factory_ok s'"
  by (induction rule: rtranclp_induct) (auto intro: factory_ok_step)

lemma shut_down_kept:
  assumes "factory_step s s'" and "if_shutting_down (fst s)"
  shows "if_shutting_down (fst s') \<and> snd s' = snd s"
  using assms
  by (cases rule: factory_step.cases)
    (auto simp: informer_for_def Let_def start_factory_def run_ended_def shutdown_factory_def split: option.splits)

text \<open>
  Whatever the order in which informers are asked for and \<open>Start\<close> and \<open>Shutdown\<close> are called: no type has
  its informer run twice, \<open>Start\<close> leaves every informer running that was asked for before it, and after
  \<open>Shutdown\<close> nothing is started any more.
\<close>

theorem factory_runs_once:
  assumes "factory_step\<^sup>*\<^sup>* (new_informer_factory resync, []) (f, ls)" and "start_factory f = (f', launched)"
  shows "distinct (map si_type (ls @ launched)) \<and>
    (\<not> if_shutting_down f \<longrightarrow> set (ls @ launched) = snd ` set (if_informers f)) \<and>
    (if_shutting_down f \<longrightarrow> (\<forall>s. factory_step\<^sup>*\<^sup>* (f, ls) s \<longrightarrow> snd s = ls))"
proof -
  have ok: "factory_ok (f, ls)" by (rule factory_ok_reachable [OF assms(1) new_factory_ok(1)])
  note ok' = factory_ok_start [OF ok assms(2)]
  have "set (ls @ launched) = snd ` set (if_informers f)" if "\<not> if_shutting_down f"
  proof -
    have "set (ls @ launched) = snd ` {e \<in> set (if_informers f'). is_started f' (fst e)}"
      using ok' unfolding factory_ok_def prod.case by blast
    also have "{e \<in> set (if_informers f'). is_started f' (fst e)} = set (if_informers f)"
      using start_launches(2,3) [OF ok assms(2) that] by auto
    finally show ?thesis .
  qed
  moreover have "snd s = ls" if "factory_step\<^sup>*\<^sup>* (f, ls) s" "if_shutting_down f" for s
  proof -
    have "if_shutting_down (fst s) \<and> snd s = ls" using that
      by (induction rule: rtranclp_induct) (auto dest: shut_down_kept)
    then show ?thesis ..
  qed
  ultimately show ?thesis using ok' by (simp add: factory_ok_def)
qed

text \<open>
  The main functions ask for their informers, through the constructors of the controllers, and start the
  factory once: all of them run, each with the default period, in all namespaces.
\<close>

lemma releaser_informers_run:
  "map si_type (snd (start_factory (snd (release_informer (new_informer_factory 30))))) = [''Release'']"
  by code_simp

lemma calendar_informers_run:
  "map si_type (snd (start_factory (snd (event_informer (snd (calendar_informer (new_informer_factory 30))))))) =
     [''ReleaseCalendar'', ''ReleaseEvent'']"
  by code_simp

text \<open>An informer that is asked for again is the one that is there, with the namespace it was made with.\<close>

lemma informer_shared:
  assumes "informer_for t new_informer f = (i, f')"
  shows "informer_for t other f' = (i, f')"
  using assms by (auto simp: informer_for_def Let_def update_conv' split: option.splits)

section \<open>Listers\<close>

text \<open>
  The listers (src/pkg/generated/listers) read the cache of an informer, which is a map from keys to
  objects; a selector is empty or a predicate on labels.
\<close>

definition selected :: "(string gomap \<Rightarrow> bool) option \<Rightarrow> object_meta \<Rightarrow> bool" where
  "selected sel m \<longleftrightarrow> (case sel of None \<Rightarrow> True | Some p \<Rightarrow> p (om_labels m))"

definition cache_list :: "('a \<Rightarrow> object_meta) \<Rightarrow> (string gomap \<Rightarrow> bool) option \<Rightarrow> (string \<times> 'a) list \<Rightarrow> 'a list" where
  "cache_list meta sel indexer = filter (\<lambda>x. selected sel (meta x)) (map snd indexer)"

definition cache_list_namespace ::
  "('a \<Rightarrow> object_meta) \<Rightarrow> string \<Rightarrow> (string gomap \<Rightarrow> bool) option \<Rightarrow> (string \<times> 'a) list \<Rightarrow> 'a list" where
  "cache_list_namespace meta ns sel indexer =
     (if ns = [] then cache_list meta sel indexer
      else filter (\<lambda>x. selected sel (meta x)) (filter (\<lambda>x. om_namespace (meta x) = ns) (map snd indexer)))"

definition cache_get :: "string \<Rightarrow> string \<Rightarrow> (string \<times> 'a) list \<Rightarrow> go_error + 'a" where
  "cache_get ns name indexer = (case map_of indexer (ns @ ''/'' @ name) of None \<Rightarrow> Inl NotFound | Some x \<Rightarrow> Inr x)"

definition release_lister_list where
  "release_lister_list = cache_list rl_meta"

definition release_namespace_list where
  "release_namespace_list = cache_list_namespace rl_meta"

definition release_namespace_get :: "string \<Rightarrow> string \<Rightarrow> (string \<times> release) list \<Rightarrow> go_error + release" where
  "release_namespace_get = cache_get"

definition calendar_lister_list where
  "calendar_lister_list = cache_list cal_meta"

definition calendar_namespace_list where
  "calendar_namespace_list = cache_list_namespace cal_meta"

definition calendar_namespace_get :: "string \<Rightarrow> string \<Rightarrow> (string \<times> calendar) list \<Rightarrow> go_error + calendar" where
  "calendar_namespace_get = cache_get"

definition event_lister_list where
  "event_lister_list = cache_list ev_meta"

definition event_namespace_list where
  "event_namespace_list = cache_list_namespace ev_meta"

definition event_namespace_get :: "string \<Rightarrow> string \<Rightarrow> (string \<times> event) list \<Rightarrow> go_error + event" where
  "event_namespace_get = cache_get"

text \<open>What an informer keeps: every object under its key, with names that have no separator.\<close>

definition well_keyed :: "('a \<Rightarrow> object_meta) \<Rightarrow> (string \<times> 'a) list \<Rightarrow> bool" where
  "well_keyed meta indexer \<longleftrightarrow>
     distinct (map fst indexer) \<and>
     (\<forall>(k, x)\<in>set indexer. k = meta_namespace_key (meta x) \<and> om_namespace (meta x) \<noteq> [] \<and>
        CHR ''/'' \<notin> set (om_namespace (meta x)) \<and> CHR ''/'' \<notin> set (om_name (meta x)))"

lemma slash_inject: "CHR ''/'' \<notin> set a \<Longrightarrow> CHR ''/'' \<notin> set c \<Longrightarrow> a @ CHR ''/'' # b = c @ CHR ''/'' # d \<Longrightarrow> a = c \<and> b = d"
  by (metis index_of_append append_eq_append_conv list.inject option.inject)

text \<open>Reading an object by its names and listing its namespace agree.\<close>

lemma cache_get_iff:
  assumes keyed: "well_keyed meta indexer" and ns: "CHR ''/'' \<notin> set ns" "ns \<noteq> []"
  shows "cache_get ns name indexer = Inr x \<longleftrightarrow>
    x \<in> set (cache_list_namespace meta ns None indexer) \<and> om_name (meta x) = name"
proof
  assume "cache_get ns name indexer = Inr x"
  then have "(ns @ ''/'' @ name, x) \<in> set indexer"
    by (auto simp: cache_get_def dest: map_of_SomeD split: option.splits)
  moreover from this keyed have "om_namespace (meta x) = ns \<and> om_name (meta x) = name"
    using slash_inject [OF ns(1), of "om_namespace (meta x)" name "om_name (meta x)"]
    by (auto simp: well_keyed_def meta_namespace_key_def)
  ultimately show "x \<in> set (cache_list_namespace meta ns None indexer) \<and> om_name (meta x) = name"
    using ns(2) by (force simp: cache_list_namespace_def selected_def)
next
  assume "x \<in> set (cache_list_namespace meta ns None indexer) \<and> om_name (meta x) = name"
  then obtain k where "(k, x) \<in> set indexer" "om_namespace (meta x) = ns" "om_name (meta x) = name"
    using ns(2) by (auto simp: cache_list_namespace_def)
  moreover from this keyed have "k = ns @ ''/'' @ name" by (auto simp: well_keyed_def meta_namespace_key_def)
  ultimately show "cache_get ns name indexer = Inr x"
    using keyed by (auto simp: cache_get_def well_keyed_def)
qed

end
