(* ===== verification/WorkerMain.thy ===== *)
theory WorkerMain
  imports WebhookOutcome ReleaserMain ClusterProxy InformerFactory
begin

text \<open>
  What the main functions put together: the callback of the worker that tells a web hook of its own
  about a deployed commit (src/pkg/deployer/main.go), the configuration of the release controller
  from its flags (src/cmd/releaser/main.go, \<open>NewController\<close>), and the clients of the Tekton clusters of
  the calendar controller (src/cmd/calendar/main.go).
\<close>

section \<open>The callback of the worker\<close>

definition worker_callback :: "(string \<Rightarrow> go_error + deploy_event) \<Rightarrow> string \<Rightarrow> string \<Rightarrow> webhook_client \<Rightarrow> webhook_client" where
  "worker_callback decode url key s =
     (if url = [] then s
      else case decode key of Inl _ \<Rightarrow> s
           | Inr ev \<Rightarrow> start_call (call_headers (de_commit ev) (de_tag ev) (de_version ev)) s)"

text \<open>The calls of the client that the callbacks of a run make.\<close>

fun callback_keys :: "deploy_call list \<Rightarrow> string list" where
  "callback_keys [] = []"
| "callback_keys (CallBack key # cs) = key # callback_keys cs"
| "callback_keys (c # cs) = callback_keys cs"

definition after_run ::
  "(string \<Rightarrow> go_error + deploy_event) \<Rightarrow> string \<Rightarrow> deploy_call list \<Rightarrow> webhook_client \<Rightarrow> webhook_client" where
  "after_run decode url calls s = fold (worker_callback decode url) (callback_keys calls) s"

lemma callback_keys_set: "k \<in> set (callback_keys cs) \<longleftrightarrow> CallBack k \<in> set cs"
  by (induction cs rule: callback_keys.induct) auto

definition callback_of :: "string \<Rightarrow> deploy_call \<Rightarrow> bool" where
  "callback_of key c \<longleftrightarrow> (\<forall>k. c = CallBack k \<longrightarrow> k = key)"

lemma handler_calls_back: "emits (callback_of key) (deploy_handler D opts current key)"
  unfolding deploy_handler_def deploy_release_def deploy_commit_def check_commit_def detect_diff_def deploy_call_defs
  by (intro emits_bind emits_stage emits_wrap emits_if emits_of_res emits_ret emits_perform emits_observe emits_notify)
    (simp_all add: callback_of_def)

text \<open>A run for a key that is not of the current commit, or that cannot be decoded, calls nobody.\<close>

lemma stale_run_silent:
  assumes "\<And>ev. dv_decode D key = Inr ev \<Longrightarrow> de_commit ev \<noteq> current"
  shows "snd (deploy_handler D opts current key []) = []"
  using assms
  by (cases "dv_decode D key") (auto simp: deploy_handler_def eff_bind_def eff_wrap_def eff_of_res_def eff_ret_def)

text \<open>
  The web hook of the worker is told about the commit that is current and no other one: every call that
  the client starts after a run has the headers of the event of that run.
\<close>

theorem callback_names_current:
  assumes "k \<in> set (callback_keys (snd (deploy_handler D opts current key [])))"
  shows "\<exists>ev. dv_decode D key = Inr ev \<and> de_commit ev = current \<and>
    (url \<noteq> [] \<longrightarrow> worker_callback (dv_decode D) url k s = start_call (call_headers current (de_tag ev) (de_version ev)) s)"
proof -
  have call: "CallBack k \<in> set (snd (deploy_handler D opts current key []))" using assms by (simp add: callback_keys_set)
  then have "k = key"
    using emitsD [OF handler_calls_back [of key D opts current], of "[]" "fst (deploy_handler D opts current key [])"
        "snd (deploy_handler D opts current key [])"]
    by (auto simp: callback_of_def)
  moreover obtain ev where "dv_decode D key = Inr ev" "de_commit ev = current"
    using call stale_run_silent [of D key current opts] by fastforce
  ultimately show ?thesis by (simp add: worker_callback_def)
qed

section \<open>The release controller\<close>

record releaser_flags =
  fl_server_address :: string
  fl_cluster :: string
  fl_namespace :: string
  fl_application_instance :: string
  fl_remote :: bool
  fl_git_sync_image :: string
  fl_image_pull_policy :: string
  fl_git_token_file :: string
  fl_gpg_key_file :: string
  fl_env_vars :: "string list"
  fl_image_maps :: "string list"
  fl_worker_cpu :: string
  fl_worker_memory :: string
  fl_log_namespace :: string
  fl_metrics_namespace :: string

text \<open>
  Files, their decoding, the environment, the parser of quantities and the host of the kubeconfig are
  arguments; \<open>klog.Fatal\<close> is an error, and \<open>MustParse\<close> panics.
\<close>

record releaser_env =
  ra_getenv :: "string \<Rightarrow> string"
  ra_read :: "string \<Rightarrow> go_error + string"
  ra_decode_tokens :: "string \<Rightarrow> go_error + string gomap"
  ra_quantity :: "string \<Rightarrow> int option"
  ra_host :: string

definition must_parse :: "releaser_env \<Rightarrow> string \<Rightarrow> int res" where
  "must_parse A s = (case ra_quantity A s of Some q \<Rightarrow> Ok q | None \<Rightarrow> Panic)"

definition read_gpg_key :: "releaser_env \<Rightarrow> string \<Rightarrow> string res" where
  "read_gpg_key A file =
     (if file = [] then Ok [] else case ra_read A file of Inl _ \<Rightarrow> Err (Errorf ''failed to read'') | Inr k \<Rightarrow> Ok k)"

definition controller_config :: "releaser_env \<Rightarrow> releaser_flags \<Rightarrow> rel_config res" where
  "controller_config A fl =
     (let ns = effective_namespace (ra_getenv A) (fl_namespace fl) in
      case parse_token_file (ra_read A) (ra_decode_tokens A) (fl_git_token_file fl) of Inl e \<Rightarrow> Err e
      | Inr tokens \<Rightarrow> (case read_gpg_key A (fl_gpg_key_file fl) of Err e \<Rightarrow> Err e | Panic \<Rightarrow> Panic
      | Ok gpg_key \<Rightarrow> (case must_parse A (fl_worker_cpu fl) of Err e \<Rightarrow> Err e | Panic \<Rightarrow> Panic
      | Ok cpu \<Rightarrow> (case must_parse A (fl_worker_memory fl) of Err e \<Rightarrow> Err e | Panic \<Rightarrow> Panic
      | Ok memory \<Rightarrow> Ok
          \<lparr>cf_cluster = fl_cluster fl, cf_namespace = ns, cf_application_instance = fl_application_instance fl,
           cf_server_address = (if fl_server_address fl = [] then ra_host A else fl_server_address fl),
           cf_remote = fl_remote fl, cf_gpg_key = gpg_key, cf_tokens = tokens,
           cf_env_map = env_map_of (fl_cluster fl) ns (fl_env_vars fl), cf_git_sync_image = fl_git_sync_image fl,
           cf_image_map = image_map_of (fl_image_maps fl), cf_image_pull_policy = fl_image_pull_policy fl,
           cf_worker_cpu = cpu, cf_worker_memory = memory, cf_log_namespace = fl_log_namespace fl,
           cf_metrics_namespace = fl_metrics_namespace fl\<rparr>))))"

text \<open>The factory for releases, and the namespace in which workers are watched.\<close>

definition local_namespace :: "releaser_env \<Rightarrow> releaser_flags \<Rightarrow> string" where
  "local_namespace A fl = (if fl_remote fl then effective_namespace (ra_getenv A) (fl_namespace fl) else [])"

lemma image_map_ok: "gm_ok (image_map_of items)"
proof -
  have "gm_ok m \<Longrightarrow> gm_ok (fold add_assignment xs m)" for xs m
    by (induction xs arbitrary: m) (auto simp: add_assignment_def split: option.splits)
  then show ?thesis by (simp add: image_map_of_def assignments_def gm_ok_def)
qed

text \<open>
  The configuration is of the form that the properties of the workers ask for, and a remote controller
  watches the namespace in which it creates the workers.
\<close>

lemma controller_config_ok:
  assumes "controller_config A fl = Ok cf"
  shows "gm_ok (cf_env_map cf) \<and> gm_ok (cf_image_map cf) \<and>
    (cf_remote cf \<longrightarrow> local_namespace A fl = cf_namespace cf) \<and> (\<not> cf_remote cf \<longrightarrow> local_namespace A fl = [])"
  using assms
  by (auto simp: controller_config_def Let_def env_map_ok image_map_ok local_namespace_def split: sum.splits res.splits)

section \<open>The clusters of the calendar controller\<close>

text \<open>\<open>ListContexts\<close>: the names of a map, in the order in which it is visited.\<close>

definition list_contexts :: "'v gomap \<Rightarrow> string list" where
  "list_contexts contexts = map fst contexts"

text \<open>The loop over the contexts; \<open>host\<close> is the server of a context, and an address belongs to a client.\<close>

fun tekton_clients ::
  "(string \<Rightarrow> string) \<Rightarrow> (string \<Rightarrow> string) \<Rightarrow> string list \<Rightarrow> proxy \<Rightarrow> string gomap \<Rightarrow> string gomap \<times> proxy" where
  "tekton_clients host_of host [] p clients = (clients, p)"
| "tekton_clients host_of host (context # cs) p clients =
     (case config_host host_of (host context) p of
        (address, p') \<Rightarrow> tekton_clients host_of host cs p' (gm_set context address clients))"

text \<open>
  With two Tekton clusters that speak plain HTTP, every pipeline run of either is created on, and read
  from, the one that was configured last.
\<close>

theorem tekton_clusters_collide:
  assumes "a \<noteq> b" and "has_prefix (host a) ''http://''" and "has_prefix (host b) ''http://''" and "host a \<noteq> host b"
    and "tekton_clients host_of host [a, b] new_proxy [] = (clients, p)"
  shows "map_of clients a = map_of clients b \<and> map_of clients a = Some (''https://'' @ proxy_address 1) \<and>
    serve_http p (proxy_address 1) = Some (host_of (host b))"
  using assms
  by (auto simp: config_host_def add_if_not_exist_def new_proxy_def serve_http_def Let_def)

end
