(* ===== verification/QueueFiles.thy ===== *)
theory QueueFiles
  imports Prelude GoStrings
begin

text \<open>
  The file that keeps the key a worker is busy with (src/pkg/wal/wal.go) and the names of queues
  (src/pkg/queue/name.go). Every operation on the file can fail in any way; failures other than those of
  \<open>Load\<close> are only logged.
\<close>

section \<open>Names\<close>

definition queue_name :: "string \<Rightarrow> string \<Rightarrow> string \<Rightarrow> string" where
  "queue_name ns name purpose =
     replace_char (CHR ''-'') ''_'' (ns @ ''_'' @ name @ ''_'' @ purpose)"

definition queue_log_path :: "string \<Rightarrow> string" where
  "queue_log_path queue = ''/workspace'' @ ''/releaser-'' @ queue @ ''-queue.log''"

lemma replace_char_map: "replace_char c [d] s = map (\<lambda>x. if x = c then d else x) s"
  by (induction s) (auto simp: replace_char_def)

text \<open>A queue name is fit for the names of metrics, but it does not determine the release.\<close>

lemma queue_name_plain: "CHR ''-'' \<notin> set (queue_name ns name purpose)"
  by (auto simp: queue_name_def replace_char_map)

theorem queue_names_collide:
  "queue_name ''a-b'' ''c'' p = queue_name ''a'' ''b-c'' p \<and> queue_log_path (queue_name ''a-b'' ''c'' p) =
     queue_log_path (queue_name ''a'' ''b-c'' p)"
  by (simp add: queue_name_def replace_char_map)

lemma queue_log_path_inject: "queue_log_path q = queue_log_path q' \<longleftrightarrow> q = q'"
  by (simp add: queue_log_path_def)

section \<open>The file\<close>

datatype wal_call =
    WriteFile string string "go_error + unit"
  | ReadFile string "go_error + string"
  | RemoveFile string "go_error + unit"
  | StatFile string "go_error + unit"

type_synonym 'a wal_eff = "(wal_call, 'a) eff"

record wal_env =
  wl_write :: "wal_call list \<Rightarrow> string \<Rightarrow> string \<Rightarrow> go_error + unit"
  wl_read :: "wal_call list \<Rightarrow> string \<Rightarrow> go_error + string"
  wl_remove :: "wal_call list \<Rightarrow> string \<Rightarrow> go_error + unit"
  wl_stat :: "wal_call list \<Rightarrow> string \<Rightarrow> go_error + unit"

definition write_file :: "wal_env \<Rightarrow> string \<Rightarrow> string \<Rightarrow> unit wal_eff" where
  "write_file W p s = perform (\<lambda>h. wl_write W h p s) (WriteFile p s)"

definition read_file :: "wal_env \<Rightarrow> string \<Rightarrow> string wal_eff" where
  "read_file W p = perform (\<lambda>h. wl_read W h p) (ReadFile p)"

definition remove_file :: "wal_env \<Rightarrow> string \<Rightarrow> unit wal_eff" where
  "remove_file W p = perform (\<lambda>h. wl_remove W h p) (RemoveFile p)"

definition stat_file :: "wal_env \<Rightarrow> string \<Rightarrow> unit wal_eff" where
  "stat_file W p = perform (\<lambda>h. wl_stat W h p) (StatFile p)"

lemmas file_calls = write_file_def read_file_def remove_file_def stat_file_def

definition wal_save :: "wal_env \<Rightarrow> string \<Rightarrow> string \<Rightarrow> unit wal_eff" where
  "wal_save W queue entry =
     eff_bind (eff_try (write_file W (queue_log_path queue) entry)) (\<lambda>_. eff_ret ())"

text \<open>What was read is empty when reading failed.\<close>

definition wal_remove :: "wal_env \<Rightarrow> string \<Rightarrow> string \<Rightarrow> unit wal_eff" where
  "wal_remove W queue target =
     eff_bind (eff_try (read_file W (queue_log_path queue))) (\<lambda>r.
       if (case r of Inl _ \<Rightarrow> [] | Inr s \<Rightarrow> s) = target
       then eff_bind (eff_try (remove_file W (queue_log_path queue))) (\<lambda>_. eff_ret ())
       else eff_ret ())"

definition wal_load :: "wal_env \<Rightarrow> string \<Rightarrow> string wal_eff" where
  "wal_load W queue =
     eff_bind (eff_try (stat_file W (queue_log_path queue))) (\<lambda>r.
       if r = Inl NotFound then eff_ret [] else read_file W (queue_log_path queue))"

text \<open>
  The file system that answers by what was written: the content of a file, which can
  always be written.
\<close>

fun file_step :: "string \<Rightarrow> wal_call \<Rightarrow> string option \<Rightarrow> string option" where
  "file_step p (WriteFile q s (Inr x)) f = (if q = p then Some s else f)"
| "file_step p (RemoveFile q (Inr x)) f = (if q = p then None else f)"
| "file_step p c f = f"

definition content :: "wal_call list \<Rightarrow> string \<Rightarrow> string option" where
  "content h p = fold (file_step p) h None"

definition disk :: wal_env where
  "disk =
     \<lparr>wl_write = (\<lambda>h p s. Inr ()),
      wl_read = (\<lambda>h p. case content h p of None \<Rightarrow> Inl NotFound | Some s \<Rightarrow> Inr s),
      wl_remove = (\<lambda>h p. if content h p = None then Inl NotFound else Inr ()),
      wl_stat = (\<lambda>h p. if content h p = None then Inl NotFound else Inr ())\<rparr>"

lemma content_append [simp]: "content (h @ cs) p = fold (file_step p) cs (content h p)"
  by (simp add: content_def)

lemmas wal_simps = wal_save_def wal_remove_def wal_load_def file_calls disk_def eff_bind_def eff_try_def eff_ret_def
  perform_def queue_log_path_inject

text \<open>A restarted worker finds the key that was saved last, and only a removal of just this key drops it.\<close>

theorem saved_key_recovered:
  "fst (wal_load disk queue (snd (wal_save disk queue key h))) = Ok key"
  "fst (wal_load disk queue (snd (wal_remove disk queue other (snd (wal_save disk queue key h))))) =
     Ok (if other = key then [] else key)"
  by (simp_all add: wal_simps)

text \<open>Other queues are left alone.\<close>

lemma other_queue_kept:
  assumes "queue \<noteq> queue'"
  shows "content (snd (wal_save disk queue key h)) (queue_log_path queue') = content h (queue_log_path queue')"
    and "content (snd (wal_remove disk queue key h)) (queue_log_path queue') = content h (queue_log_path queue')"
  using assms by (auto simp: wal_simps split: option.splits)

end
