(* ===== verification/QueueMetrics.thy ===== *)
theory QueueMetrics
  imports Prelude GoStrings
begin

text \<open>
  The metrics of work queues (src/pkg/metrics/workqueue/prometheus): a provider that makes and registers
  seven metrics for every named queue, and seven under names that are no longer used. The registry is a
  library; it refuses a metric of which the name and the labels are there already, or the name with other
  labels, and a refusal is only logged. Help texts are left out.
\<close>

datatype metric_kind = Gauge | Counter | Histogram | Summary

text \<open>A metric with the value of its label \<open>name\<close> and its buckets, as multiples of a hundred-millionth.\<close>

record metric =
  mt_kind :: metric_kind
  mt_subsystem :: string
  mt_name :: string
  mt_label :: "string option"
  mt_buckets :: "nat list"

definition full_name :: "metric \<Rightarrow> string" where
  "full_name m = mt_subsystem m @ ''_'' @ mt_name m"

definition refused :: "metric list \<Rightarrow> metric \<Rightarrow> bool" where
  "refused reg m \<longleftrightarrow>
     (\<exists>x\<in>set reg. full_name x = full_name m \<and>
        (mt_label x = mt_label m \<or> (mt_label x = None) \<noteq> (mt_label m = None)))"

text \<open>The metric is handed out whether or not it was registered.\<close>

definition register_metric :: "metric \<Rightarrow> metric list \<Rightarrow> metric \<times> metric list" where
  "register_metric m reg = (m, if refused reg m then reg else reg @ [m])"

definition exponential_buckets :: "nat \<Rightarrow> nat \<Rightarrow> nat \<Rightarrow> nat list" where
  "exponential_buckets start factor count = map (\<lambda>i. start * factor ^ i) [0..<count]"

definition workqueue_subsystem :: string where "workqueue_subsystem = ''workqueue''"

definition depth_metric :: "string \<Rightarrow> metric list \<Rightarrow> metric \<times> metric list" where
  "depth_metric queue =
     register_metric \<lparr>mt_kind = Gauge, mt_subsystem = workqueue_subsystem, mt_name = ''depth'',
       mt_label = Some queue, mt_buckets = []\<rparr>"

definition adds_metric :: "string \<Rightarrow> metric list \<Rightarrow> metric \<times> metric list" where
  "adds_metric queue =
     register_metric \<lparr>mt_kind = Counter, mt_subsystem = workqueue_subsystem, mt_name = ''adds_total'',
       mt_label = Some queue, mt_buckets = []\<rparr>"

definition latency_metric :: "string \<Rightarrow> metric list \<Rightarrow> metric \<times> metric list" where
  "latency_metric queue =
     register_metric \<lparr>mt_kind = Histogram, mt_subsystem = workqueue_subsystem, mt_name = ''queue_duration_seconds'',
       mt_label = Some queue, mt_buckets = exponential_buckets 1 10 10\<rparr>"

definition work_duration_metric :: "string \<Rightarrow> metric list \<Rightarrow> metric \<times> metric list" where
  "work_duration_metric queue =
     register_metric \<lparr>mt_kind = Histogram, mt_subsystem = workqueue_subsystem, mt_name = ''work_duration_seconds'',
       mt_label = Some queue, mt_buckets = exponential_buckets 1 10 10\<rparr>"

definition unfinished_work_seconds_metric :: "string \<Rightarrow> metric list \<Rightarrow> metric \<times> metric list" where
  "unfinished_work_seconds_metric queue =
     register_metric \<lparr>mt_kind = Gauge, mt_subsystem = workqueue_subsystem, mt_name = ''unfinished_work_seconds'',
       mt_label = Some queue, mt_buckets = []\<rparr>"

definition longest_running_processor_seconds_metric :: "string \<Rightarrow> metric list \<Rightarrow> metric \<times> metric list" where
  "longest_running_processor_seconds_metric queue =
     register_metric \<lparr>mt_kind = Gauge, mt_subsystem = workqueue_subsystem, mt_name = ''longest_running_processor_seconds'',
       mt_label = Some queue, mt_buckets = []\<rparr>"

definition retries_metric :: "string \<Rightarrow> metric list \<Rightarrow> metric \<times> metric list" where
  "retries_metric queue =
     register_metric \<lparr>mt_kind = Counter, mt_subsystem = workqueue_subsystem, mt_name = ''retries_total'',
       mt_label = Some queue, mt_buckets = []\<rparr>"

definition deprecated_depth_metric :: "string \<Rightarrow> metric list \<Rightarrow> metric \<times> metric list" where
  "deprecated_depth_metric queue =
     register_metric \<lparr>mt_kind = Gauge, mt_subsystem = queue, mt_name = ''depth'',
       mt_label = None, mt_buckets = []\<rparr>"

definition deprecated_adds_metric :: "string \<Rightarrow> metric list \<Rightarrow> metric \<times> metric list" where
  "deprecated_adds_metric queue =
     register_metric \<lparr>mt_kind = Counter, mt_subsystem = queue, mt_name = ''adds'',
       mt_label = None, mt_buckets = []\<rparr>"

definition deprecated_latency_metric :: "string \<Rightarrow> metric list \<Rightarrow> metric \<times> metric list" where
  "deprecated_latency_metric queue =
     register_metric \<lparr>mt_kind = Summary, mt_subsystem = queue, mt_name = ''queue_latency'',
       mt_label = None, mt_buckets = []\<rparr>"

definition deprecated_work_duration_metric :: "string \<Rightarrow> metric list \<Rightarrow> metric \<times> metric list" where
  "deprecated_work_duration_metric queue =
     register_metric \<lparr>mt_kind = Summary, mt_subsystem = queue, mt_name = ''work_duration'',
       mt_label = None, mt_buckets = []\<rparr>"

definition deprecated_unfinished_work_seconds_metric :: "string \<Rightarrow> metric list \<Rightarrow> metric \<times> metric list" where
  "deprecated_unfinished_work_seconds_metric queue =
     register_metric \<lparr>mt_kind = Gauge, mt_subsystem = queue, mt_name = ''unfinished_work_seconds'',
       mt_label = None, mt_buckets = []\<rparr>"

definition deprecated_longest_running_processor_microseconds_metric :: "string \<Rightarrow> metric list \<Rightarrow> metric \<times> metric list" where
  "deprecated_longest_running_processor_microseconds_metric queue =
     register_metric \<lparr>mt_kind = Gauge, mt_subsystem = queue, mt_name = ''longest_running_processor_microseconds'',
       mt_label = None, mt_buckets = []\<rparr>"

definition deprecated_retries_metric :: "string \<Rightarrow> metric list \<Rightarrow> metric \<times> metric list" where
  "deprecated_retries_metric queue =
     register_metric \<lparr>mt_kind = Counter, mt_subsystem = queue, mt_name = ''retries'',
       mt_label = None, mt_buckets = []\<rparr>"

section \<open>The metrics of a queue\<close>

text \<open>What the queues of client-go ask the provider for.\<close>

definition queue_metrics :: "(string \<Rightarrow> metric list \<Rightarrow> metric \<times> metric list) list" where
  "queue_metrics =
     [depth_metric, adds_metric, latency_metric, work_duration_metric, unfinished_work_seconds_metric, longest_running_processor_seconds_metric, retries_metric]"

definition register_queue :: "string \<Rightarrow> metric list \<Rightarrow> metric list" where
  "register_queue queue reg =
     (if queue = [] then reg else fold (\<lambda>new reg. snd (new queue reg)) queue_metrics reg)"

lemmas metric_defs = queue_metrics_def register_metric_def workqueue_subsystem_def full_name_def
  depth_metric_def
  adds_metric_def
  latency_metric_def
  work_duration_metric_def
  unfinished_work_seconds_metric_def
  longest_running_processor_seconds_metric_def
  retries_metric_def

text \<open>The names of queues of which the metrics are complete.\<close>

definition reported_queue :: "metric list \<Rightarrow> string \<Rightarrow> bool" where
  "reported_queue reg queue \<longleftrightarrow> length (filter (\<lambda>m. mt_label m = Some queue) reg) = 7"

definition labelled :: "metric list \<Rightarrow> string set \<Rightarrow> bool" where
  "labelled reg qs \<longleftrightarrow> (\<forall>m\<in>set reg. mt_subsystem m = workqueue_subsystem \<and> (\<exists>q\<in>qs. mt_label m = Some q))"

text \<open>The seven metrics, as far as they get into an empty registry.\<close>

definition metrics_of :: "string \<Rightarrow> metric list" where
  "metrics_of queue = map (\<lambda>new. fst (new queue [])) queue_metrics"

lemma new_metric: "new \<in> set queue_metrics \<Longrightarrow> new queue reg = register_metric (fst (new queue [])) reg"
  by (auto simp: metric_defs)

lemma register_queue_fold:
  "queue \<noteq> [] \<Longrightarrow> register_queue queue reg = fold (\<lambda>m reg. snd (register_metric m reg)) (metrics_of queue) reg"
proof -
  have "fold (\<lambda>new reg. snd (new queue reg)) news reg =
      fold (\<lambda>m reg. snd (register_metric m reg)) (map (\<lambda>new. fst (new queue [])) news) reg"
    if "set news \<subseteq> set queue_metrics" for news
    using that by (induction news arbitrary: reg) (simp_all add: new_metric [symmetric])
  then show "queue \<noteq> [] \<Longrightarrow> ?thesis" by (simp add: register_queue_def metrics_of_def)
qed

lemma metrics_of_queue:
  "length (metrics_of queue) = 7" "distinct (map mt_name (metrics_of queue))"
  "\<forall>m\<in>set (metrics_of queue). mt_subsystem m = workqueue_subsystem \<and> mt_label m = Some queue"
  by (simp_all add: metrics_of_def metric_defs)

lemma register_all:
  assumes "\<forall>x\<in>set reg. mt_label x \<noteq> None \<and> mt_subsystem x = workqueue_subsystem \<and>
      (mt_label x = Some queue \<longrightarrow> mt_name x \<notin> mt_name ` set ms)"
    and "distinct (map mt_name ms)"
    and "\<forall>m\<in>set ms. mt_subsystem m = workqueue_subsystem \<and> mt_label m = Some queue"
  shows "fold (\<lambda>m reg. snd (register_metric m reg)) ms reg = reg @ ms"
  using assms
proof (induction ms arbitrary: reg)
  case (Cons m ms)
  have "\<not> refused reg m"
  proof
    assume "refused reg m"
    then obtain x where x: "x \<in> set reg" "full_name x = full_name m"
      "mt_label x = mt_label m \<or> (mt_label x = None) \<noteq> (mt_label m = None)"
      unfolding refused_def by blast
    with Cons.prems have "mt_name x = mt_name m" "mt_label x = Some queue" by (auto simp: full_name_def)
    with x(1) Cons.prems(1) show False by simp
  qed
  then have "snd (register_metric m reg) = reg @ [m]" by (simp add: register_metric_def)
  moreover have "\<forall>x\<in>set (reg @ [m]). mt_label x \<noteq> None \<and> mt_subsystem x = workqueue_subsystem \<and>
      (mt_label x = Some queue \<longrightarrow> mt_name x \<notin> mt_name ` set ms)"
    using Cons.prems by auto
  ultimately show ?case using Cons.IH [of "reg @ [m]"] Cons.prems(2,3) by simp
qed simp

lemma register_queue_fresh:
  assumes "labelled reg qs" and "queue \<notin> qs" and "queue \<noteq> []"
  shows "register_queue queue reg = reg @ metrics_of queue"
  unfolding register_queue_fold [OF assms(3)]
  by (rule register_all [of _ queue]) (use assms(1,2) metrics_of_queue in \<open>auto simp: labelled_def\<close>)

lemma reported_queues:
  assumes "labelled reg qs" and "distinct queues" and "[] \<notin> set queues" and "qs \<inter> set queues = {}"
    and "\<forall>q\<in>qs. reported_queue reg q"
  shows "\<forall>q\<in>qs \<union> set queues. reported_queue (fold register_queue queues reg) q"
  using assms
proof (induction queues arbitrary: reg qs)
  case (Cons q queues)
  define ms where "ms = metrics_of q"
  have q: "q \<notin> qs" "q \<noteq> []" using Cons.prems(3,4) by auto
  have ms: "register_queue q reg = reg @ ms" "length ms = 7"
      "\<forall>m\<in>set ms. mt_subsystem m = workqueue_subsystem \<and> mt_label m = Some q"
    unfolding ms_def using register_queue_fresh [OF Cons.prems(1) q] metrics_of_queue [of q] by blast+
  have old: "filter (\<lambda>m. mt_label m = Some q) reg = []"
    using Cons.prems(1) q by (auto simp: labelled_def filter_empty_conv)
  have new: "filter (\<lambda>m. mt_label m = Some p) ms = (if p = q then ms else [])" for p
    using ms(3) by (auto simp: filter_id_conv filter_empty_conv)
  have "labelled (reg @ ms) (insert q qs)" using Cons.prems(1) ms(3) by (fastforce simp: labelled_def)
  moreover have "\<forall>p\<in>insert q qs. reported_queue (reg @ ms) p"
    using Cons.prems(5) old ms(2) q by (auto simp: reported_queue_def new)
  ultimately show ?case using Cons.IH [of "reg @ ms" "insert q qs"] Cons.prems ms(1) by auto
qed simp

text \<open>Queues of different names get all their metrics, in whatever order they are made.\<close>

theorem queue_metrics_complete:
  assumes "distinct queues" and "[] \<notin> set queues"
  shows "\<forall>q\<in>set queues. reported_queue (fold register_queue queues []) q"
  using reported_queues [of "[]" "{}" queues] assms by (simp add: labelled_def)

text \<open>A second queue of the same name gets none, which is only logged.\<close>

lemma same_name_unreported:
  assumes "labelled reg qs" and "q \<notin> qs" and "q \<noteq> []"
  shows "register_queue q (register_queue q reg) = register_queue q reg"
proof -
  have "fold (\<lambda>m reg. snd (register_metric m reg)) ms (reg @ metrics_of q) = reg @ metrics_of q"
    if "set ms \<subseteq> set (metrics_of q)" for ms
    using that by (induction ms) (auto simp: register_metric_def refused_def)
  then show ?thesis
    using register_queue_fresh [OF assms] register_queue_fold [OF assms(3), of "reg @ metrics_of q"] by simp
qed

end
