(* ===== verification/Spec2Isabelle.thy ===== *)
theory Spec2Isabelle
  imports ReleaseOutcome CalendarLock CalendarOutcome ValuesOutcome DeployerSafety KubectlOutcome AdmissionOutcome GitSyncSafety
    WebhookOutcome HelmPlugin ClusterProxy KubectlTemplate GitLog Informers ReleaserMain ReleaseSystem DeepCopySafety
    ConfigConversion WorkerMain QueueFiles QueueMetrics
begin

text \<open>
  A verification library for eBay's releaser (Go): two Kubernetes controllers, the worker that one of
  them runs for every release, and the tools that the worker consists of.

  \<^bold>\<open>The program.\<close> A user stores a \<^emph>\<open>Release\<close> object that names a git repository and a deployer. The
  release controller (src/pkg/controller/release) keeps one worker deployment per release, with a
  git-sync container and a deployer container, a secret with the credentials, and a history of
  controller revisions; it computes the phase of the release from its conditions. In the worker,
  git-sync pulls a commit and calls the web hook of the deployer (src/pkg/deployer), which hands the
  commit to a plugin (src/pkg/deployer/plugins), patches the commit and two conditions into the
  status of the release, and so lets the controller call the release succeeded. The calendar controller
  (src/pkg/controller/calendar) runs the pipelines of \<^emph>\<open>ReleaseEvent\<close> objects on Tekton clusters at
  times that a \<^emph>\<open>ReleaseCalendar\<close> prescribes, with one running event per event name (a lease) and
  one leading event per group.

  \<^bold>\<open>How code becomes definitions.\<close> A struct is a record, an enumeration of strings a datatype whose
  last constructor holds every other string, a Go map an association list, of which only \<open>map_of\<close> and
  the order of a range loop are used (Prelude: \<open>gomap\<close>). A function that can fail returns \<open>'a res\<close>:
  a value, an error or a panic (nil dereference, write to a nil map, index out of range). A function
  that talks to something outside the program is an \<open>eff\<close>: it gets the log of what has been said so
  far and returns a result and the longer log. An entry of a log is a constructor of the component's
  call type (\<open>rel_call\<close>, \<open>cal_call\<close>, \<open>deploy_call\<close>, \<open>plugin_call\<close>, ...) with arguments and answer; the
  answers come from an environment record of functions of the log, about which nothing is assumed,
  so that every theorem holds for every order of failures, conflicts and concurrent writes by others.
  Handlers are compositions of the stages that the source has, an early return is \<open>Done\<close>
  (\<open>eff_stage\<close>).

  \<^bold>\<open>Theories.\<close>

  \<^item> Foundations: Prelude (results, maps, effects, the trace logic \<open>holds\<close>, \<open>emits\<close>, \<open>ensures\<close>,
    \<open>calm\<close>, \<open>safe\<close>, \<open>at_most_one\<close>), TraceMonitor (order properties: a locale that steps a monitor
    through an effect), GoStrings, GoNumbers, GoTime, GoDuration (the parts of Go's library that are
    called), KubeMeta, KubeObjects, Unstructured (API machinery).

  \<^item> Release controller: ReleaseApi (types.go), ReleasePhase (\<open>releasePhase\<close> and the conditions),
    ReleaseWorker (\<open>newSecret\<close>, \<open>newDeployment\<close>), ReleaseCalls, ReleaseCleanup (\<open>deleteResourcesFor\<close>;
    the locale \<open>resource_cleanup\<close> is the contract of a kind of resource, interpreted for deployments
    and secrets), ReleaseSync (\<open>syncHandler\<close>, the work queue, the event handlers). ReleaseProgress,
    ReleaseSafety and ReleaseOutcome hold what one run does and does not do.

  \<^item> Calendar controller: CalendarApi, CalendarCalls, CalendarTime and CalendarUtil (util.go),
    CalendarLease (event.go, group.go), CalendarPipelineRun (pipelinerun.go), CalendarSync
    (event_controller.go). CalendarSafety and CalendarOutcome hold the properties of a run,
    CalendarLeaseSafety the state machine of events that compete for a lease with its invariant,
    CalendarLock the lock that this machine refines.

  \<^item> Worker: Deployer (the controller of the worker), DeployerSafety (its order of reports, and what
    its patches make the release controller compute), Kubectl and KubectlPlugin (the kubectl
    plugin), KubectlConfig (its configuration file in two versions), Checkers (src/pkg/checker),
    KubectlOutcome, HelmPlugin (src/pkg/deployer/plugins/helm).

  \<^item> Rendering of specs: Template (src/pkg/template: the walk over files and links, putting specs
    together, ytt), TemplateOutcome (a reference function on trees of files, and the boundary of
    links), KubectlTemplate (how the plugin sets it up); GoPath is Go's path/filepath.

  \<^item> git-sync: GitSync (src/cmd/git-sync, from the start through the polling loop), GitSyncSafety (the
    state machine of processes that can be killed at any point, over the link and the work trees),
    GitLog (src/pkg/git and src/pkg/writer: git with a log that is censored), Webhook and
    WebhookOutcome (src/pkg/webhook: the client with its retrying goroutines as an interleaving step
    relation, and the server side).

  \<^item> Admission: Admission and AdmissionOutcome (src/cmd/admission and src/pkg/admission; a locale for
    hooks, one for chains of them, interpreted on the hooks of the server).

  \<^item> Template values: Strvals (src/pkg/util/strvals), Values (src/pkg/util/values), with
    StrvalsRoundTrip and ValuesOutcome.

  \<^item> Composition: ReleaseSystem (one release with everything that works on it: the user, the release
    controller, git-sync, the web hook and the worker, as a step relation whose steps are the calls of the
    handlers above).

  \<^item> API objects and clients: GoHeap (Go values with references, the parts of generated deep copies, the
    locale \<open>deep_copier\<close> that is their contract), DeepCopy and DeepCopySafety (every \<open>DeepCopyInto\<close>, and that
    a copy shares nothing with its original), ConfigConversion (the conversions of configurations, with what
    they share), RestRequest and FleetClient (the request builder of client-go and the typed clients),
    InformerFactory (the factory of shared informers as a state machine, listers).

  \<^item> Glue: Informers (the callbacks that both controllers register), ReleaserMain and WorkerMain (flags of
    the release controller, the token file, the callback of the worker, the clients of the Tekton
    clusters), ClusterProxy (src/pkg/k8sutils), QueueFiles (src/pkg/wal, src/pkg/queue), QueueMetrics
    (src/pkg/metrics/workqueue).

  \<^bold>\<open>What is shown.\<close> For the composition: whatever is killed, delayed, repeated or lost, a release whose phase
  is Succeeded names a commit that the plugin ran and then tested without an error, and that git-sync
  reported while the link named its complete work tree. The model of the composition has one pod at a
  time (the deployment has the strategy Recreate) with one goroutine of the worker, and an API server that
  refuses a status computed from a release that is no longer the stored one; it does not promise that the
  cluster still holds that commit: \<open>reverted_commit_not_rerun\<close> is a run in which a later commit has overwritten it.
  Objects are values in all theories but GoHeap and its clients, and \<open>deep_copy_independent\<close> shows for every API
  object and configuration that this is what a deep copy gives. For the release controller: the worker objects are a fixed point of their
  construction and do not depend on the order of a map, the phase is a fixed point of its
  computation and is sound and sticky, one run of the handler writes the release at most once and
  only its status or finalizers, it deletes only what carries the labels of the release, gives the
  finalizer up only after the clean-up, and does not panic on well formed objects. For the calendar
  controller: offsets land on allowed days and are computed in finitely many steps, a pipeline run is
  created only under a name that is stored already, an event is completed only when its pipelines
  are, and the event leases implement a lock. For the worker: the reports are in order, the
  parameters survive the command line, the kubectl plugin deletes only stale objects and reports
  success only when every object passed its check; specs are put together from the right files in the
  right order, and followed links stay within the workspace. For git-sync: the link that is served
  names a complete work tree even when processes are killed, the commit that is reported is the
  one that is served, the newest report is pursued in every interleaving, and no single write to
  the log has the password, unless the password is of a kind that could be confused with its marker. For admission: what is admitted is settled and can be run by the controllers.
  For the values: the set lines round trip and literal values win. What
  modelling showed to be wrong in the code is stated as theorems too, for instance \<open>merge_env_shares_array\<close>, \<open>backslash_in_value_lost\<close>, \<open>lease_names_collide\<close>,
  \<open>stale_report_overtakes\<close>, \<open>helm_dry_run_deploys\<close>, \<open>proxy_clusters_collide\<close> and
  \<open>censored_output_fails\<close>.

  \<^bold>\<open>Bounds.\<close> The recursion of \<open>getTimeWithOffset\<close> and of the two searches for a fitting day is
  \<open>partial_function (option)\<close>: no bound is built in, \<open>offset_returns\<close> shows that the value is not
  \<open>None\<close> when some weekday is admitted (at most \<open>6 + 7 * length skip\<close> days are looked at), and
  \<open>offset_without_weekdays_never_returns\<close> that it is \<open>None\<close> otherwise. Durations are checked against
  64 bits as in the source. The parser of set lines recurses on the rest of the line; the length up
  to which a list can be allocated is the parameter \<open>limit\<close>. The loop of git-sync runs for the
  number of rounds that it is given, and the properties hold for every number. The walk over files
  has a bound for the depth of directories and one for links within links; a walk that exceeds one of them is
  \<open>None\<close>, \<open>template_combines_files\<close> shows that the height of the tree suffices, and links may form
  cycles, so that no bound suffices for all trees.

  \<^bold>\<open>Parameters.\<close> Answers of API servers, informer caches, clocks, random suffixes, command line tools
  and files; the template engine; decoding of YAML, JSON and RFC 3339; SHA-256; the zone database (a
  location is a function from instants to offsets); the value of a decimal fraction of a duration;
  the JSON encoding of a queue key; parsing of URLs; applying a JSON patch; the pieces in which a
  command writes its output. Strings are bytes; case mapping and trimming are those of ASCII.

  \<^bold>\<open>Not modelled.\<close> Log output other than that of git. The metrics of reflectors
  (src/pkg/metrics/reflector), which no provider hands out, and signals (src/pkg/signals): registrations
  with libraries. Flag declarations, construction of clients and the start of the processes (src/cmd).
  The rate limiting queue, the caches of the informers and the transport of requests, which are
  libraries: the model has what is put into the queue and what is done with an item, what a cache is
  asked for, and the requests. Of the generated code the client sets, the schemes and the fakes for tests.
\<close>

end
